(* ===== verification/Coggo_Prelude.thy ===== *)
theory Coggo_Prelude
  imports Main "HOL-Library.Char_ord" "HOL-Library.List_Lexorder"
begin

text \<open>
  Shared vocabulary of the development.

  \<^item> Go errors as values: an error is a text, or a prefix wrapped around another error
    (\<open>fmt.Errorf("...: %w", err)\<close>); a fallible function returns \<open>error + 'a\<close>.
  \<^item> A Go map with string keys is a key-sorted association list without duplicate
    keys (\<open>gomap_ok\<close>), so that two maps are equal exactly when they hold the same
    bindings, whatever order they were filled in.
  \<^item> The functions of Go's \<^verbatim>\<open>strings\<close> package that the sources call, on byte
    strings (a HOL \<open>char\<close> is a byte; text is UTF-8).
\<close>

named_theorems gomap_simps \<open>lookups, updates and keys of Go maps\<close>
named_theorems frame_simps \<open>what an operation leaves alone\<close>

section \<open>Errors\<close>

datatype error =
    Errorf string
  | Wrap string error

type_synonym 'a result = "error + 'a"

primrec error_text :: "error \<Rightarrow> string" where
  "error_text (Errorf s) = s"
| "error_text (Wrap p e) = p @ '': '' @ error_text e"

primrec and_then :: "'e + 'a \<Rightarrow> ('a \<Rightarrow> 'e + 'b) \<Rightarrow> 'e + 'b" where
  "and_then (Inl e) f = Inl e"
| "and_then (Inr x) f = f x"

lemma and_then_Inr_iff: "and_then r f = Inr y \<longleftrightarrow> (\<exists>x. r = Inr x \<and> f x = Inr y)"
  by (cases r) auto

primrec map_result :: "('a \<Rightarrow> 'b) \<Rightarrow> 'e + 'a \<Rightarrow> 'e + 'b" where
  "map_result f (Inl e) = Inl e"
| "map_result f (Inr x) = Inr (f x)"

fun mapM :: "('a \<Rightarrow> 'e + 'b) \<Rightarrow> 'a list \<Rightarrow> 'e + 'b list" where
  "mapM f [] = Inr []"
| "mapM f (x # xs) = and_then (f x) (\<lambda>y. and_then (mapM f xs) (\<lambda>ys. Inr (y # ys)))"

fun foldM :: "('a \<Rightarrow> 's \<Rightarrow> 'e + 's) \<Rightarrow> 'a list \<Rightarrow> 's \<Rightarrow> 'e + 's" where
  "foldM f [] s = Inr s"
| "foldM f (x # xs) s = and_then (f x s) (foldM f xs)"

lemma mapM_all_Inr: "(\<And>x. x \<in> set xs \<Longrightarrow> f x = Inr (g x)) \<Longrightarrow> mapM f xs = Inr (map g xs)"
  by (induction xs) auto

lemma mapM_cong [fundef_cong]:
  assumes "xs = ys" and same: "\<And>x. x \<in> set ys \<Longrightarrow> f x = g x"
  shows "mapM f xs = mapM g ys"
  unfolding assms(1) using same by (induction ys) simp_all

section \<open>Go maps with string keys\<close>

type_synonym 'v gomap = "(string \<times> 'v) list"

definition gomap_ok :: "'v gomap \<Rightarrow> bool" where
  "gomap_ok m \<longleftrightarrow> sorted_wrt (<) (map fst m)"

abbreviation mget :: "'v gomap \<Rightarrow> string \<Rightarrow> 'v option" where
  "mget \<equiv> map_of"

abbreviation mkeys :: "'v gomap \<Rightarrow> string list" where
  "mkeys m \<equiv> map fst m"

fun mput :: "string \<Rightarrow> 'v \<Rightarrow> 'v gomap \<Rightarrow> 'v gomap" where
  "mput k v [] = [(k, v)]"
| "mput k v ((k', v') # m) =
     (if k < k' then (k, v) # (k', v') # m
      else if k = k' then (k, v) # m
      else (k', v') # mput k v m)"

fun mdel :: "string \<Rightarrow> 'v gomap \<Rightarrow> 'v gomap" where
  "mdel k [] = []"
| "mdel k ((k', v') # m) = (if k = k' then mdel k m else (k', v') # mdel k m)"

definition mputs :: "'v gomap \<Rightarrow> 'v gomap \<Rightarrow> 'v gomap" where
  "mputs kvs m = foldl (\<lambda>m (k, v). mput k v m) m kvs"

lemma gomap_ok_Nil [simp]: "gomap_ok []"
  by (simp add: gomap_ok_def)

lemma gomap_ok_Cons: "gomap_ok ((k, v) # m) \<longleftrightarrow> (\<forall>k' \<in> set (mkeys m). k < k') \<and> gomap_ok m"
  by (simp add: gomap_ok_def)

lemma set_keys_mput [gomap_simps]: "set (mkeys (mput k v m)) = insert k (set (mkeys m))"
  by (induction k v m rule: mput.induct) auto

lemma set_keys_mdel [gomap_simps]: "set (mkeys (mdel k m)) = set (mkeys m) - {k}"
  by (induction k m rule: mdel.induct) auto

lemma gomap_ok_mput [simp]: "gomap_ok m \<Longrightarrow> gomap_ok (mput k v m)"
  by (induction k v m rule: mput.induct) (auto simp: gomap_ok_Cons gomap_simps simp del: set_map)

lemma gomap_ok_mdel [simp]: "gomap_ok m \<Longrightarrow> gomap_ok (mdel k m)"
  by (induction k m rule: mdel.induct) (auto simp: gomap_ok_Cons gomap_simps simp del: set_map)

lemma mget_mput [gomap_simps]: "gomap_ok m \<Longrightarrow> mget (mput k v m) = (mget m)(k \<mapsto> v)"
proof (induction k v m rule: mput.induct)
  case (2 k v k' v' m)
  then show ?case by (auto simp: gomap_ok_Cons fun_eq_iff)
qed auto

lemma mget_mdel [gomap_simps]: "mget (mdel k m) = (mget m)(k := None)"
  by (induction k m rule: mdel.induct) (auto simp: fun_eq_iff)

lemma gomap_ok_distinct: "gomap_ok m \<Longrightarrow> distinct (mkeys m)"
  by (simp add: gomap_ok_def strict_sorted_iff)

lemma gomap_rebuild: "distinct (mkeys m) \<Longrightarrow> m = map (\<lambda>k. (k, the (mget m k))) (mkeys m)"
proof -
  assume d: "distinct (mkeys m)"
  have "map (\<lambda>p. (fst p, the (mget m (fst p)))) m = m"
    by (rule map_idI) (use d in auto)
  then show ?thesis by (simp add: comp_def)
qed

lemma gomap_ext:
  assumes "gomap_ok m" and "gomap_ok n" and "mget m = mget n"
  shows "m = n"
proof -
  have keys: "set (mkeys m) = set (mkeys n)"
    using assms(3) by (metis dom_map_of_conv_image_fst set_map)
  have "mkeys m = mkeys n"
    using assms(1,2) keys by (simp add: gomap_ok_def strict_sorted_equal)
  then show ?thesis
    using gomap_rebuild [of m] gomap_rebuild [of n] assms by (simp add: gomap_ok_distinct)
qed

lemma mput_mput_same [gomap_simps]: "gomap_ok m \<Longrightarrow> mput k v (mput k w m) = mput k v m"
  by (intro gomap_ext) (simp_all add: gomap_simps)

lemma mput_swap: "gomap_ok m \<Longrightarrow> k \<noteq> k' \<Longrightarrow> mput k v (mput k' v' m) = mput k' v' (mput k v m)"
  by (intro gomap_ext) (simp_all add: gomap_simps fun_upd_twist)

lemma mputs_Nil [simp]: "mputs [] m = m"
  by (simp add: mputs_def)

lemma mputs_Cons [simp]: "mputs ((k, v) # kvs) m = mputs kvs (mput k v m)"
  by (simp add: mputs_def)

lemma gomap_ok_mputs [simp]: "gomap_ok m \<Longrightarrow> gomap_ok (mputs kvs m)"
  by (induction kvs arbitrary: m) auto

lemma mget_mputs [gomap_simps]:
  "gomap_ok m \<Longrightarrow> gomap_ok kvs \<Longrightarrow> mget (mputs kvs m) = mget m ++ mget kvs"
proof (induction kvs arbitrary: m)
  case (Cons kv kvs)
  obtain k v where kv: "kv = (k, v)" by force
  with Cons.prems have "k \<notin> dom (mget kvs)"
    by (auto simp: gomap_ok_Cons dom_map_of_conv_image_fst)
  then have "(mget m)(k \<mapsto> v) ++ mget kvs = mget m ++ (mget kvs)(k \<mapsto> v)"
    by (auto simp: map_add_def fun_eq_iff split: option.splits)
  with Cons kv show ?case
    by (auto simp: gomap_ok_Cons gomap_simps map_add_def fun_eq_iff split: option.splits)
qed simp

lemma mputs_self: "gomap_ok m \<Longrightarrow> mputs m [] = m"
  by (intro gomap_ext) (simp_all add: gomap_simps)

section \<open>Byte strings\<close>

definition byte_of :: "char \<Rightarrow> nat" where
  "byte_of c = of_char c"

definition digit_char :: "nat \<Rightarrow> char" where
  "digit_char n = char_of (48 + n)"

definition is_digit :: "char \<Rightarrow> bool" where
  "is_digit c \<longleftrightarrow> 48 \<le> byte_of c \<and> byte_of c \<le> 57"

definition digit_val :: "char \<Rightarrow> nat" where
  "digit_val c = byte_of c - 48"

lemma byte_of_digit_char [simp]: "n < 10 \<Longrightarrow> byte_of (digit_char n) = 48 + n"
  by (simp add: byte_of_def digit_char_def)

lemma is_digit_digit_char [simp]: "n < 10 \<Longrightarrow> is_digit (digit_char n)"
  by (simp add: is_digit_def)

lemma digit_val_digit_char [simp]: "n < 10 \<Longrightarrow> digit_val (digit_char n) = n"
  by (simp add: digit_val_def)

text \<open>\<open>strings.ToLower\<close> and \<open>strings.TrimSpace\<close> on the ASCII letters and blanks.\<close>

definition lower_char :: "char \<Rightarrow> char" where
  "lower_char c = (if 65 \<le> byte_of c \<and> byte_of c \<le> 90 then char_of (byte_of c + 32) else c)"

definition to_lower :: "string \<Rightarrow> string" where
  "to_lower s = map lower_char s"

definition is_space :: "char \<Rightarrow> bool" where
  "is_space c \<longleftrightarrow> byte_of c = 32 \<or> (9 \<le> byte_of c \<and> byte_of c \<le> 13)"

definition trim_space :: "string \<Rightarrow> string" where
  "trim_space s = rev (dropWhile is_space (rev (dropWhile is_space s)))"

definition has_prefix :: "string \<Rightarrow> string \<Rightarrow> bool" where
  "has_prefix s p \<longleftrightarrow> take (length p) s = p"

definition trim_prefix :: "string \<Rightarrow> string \<Rightarrow> string" where
  "trim_prefix s p = (if has_prefix s p then drop (length p) s else s)"

lemma lower_char_idem [simp]: "lower_char (lower_char c) = lower_char c"
  by (auto simp: lower_char_def byte_of_def)

lemma to_lower_idem [simp]: "to_lower (to_lower s) = to_lower s"
  by (simp add: to_lower_def)

text \<open>\<open>strconv.Itoa\<close> on naturals and \<open>strconv.Quote\<close> (the verb \<open>%q\<close>) on printable text.\<close>

fun show_nat :: "nat \<Rightarrow> string" where
  "show_nat n = (if n < 10 then [digit_char n] else show_nat (n div 10) @ [digit_char (n mod 10)])"

declare show_nat.simps [simp del]

definition show_int :: "int \<Rightarrow> string" where
  "show_int i = (if i < 0 then ''-'' @ show_nat (nat (- i)) else show_nat (nat i))"

definition hex_digit :: "nat \<Rightarrow> char" where
  "hex_digit n = (if n < 10 then digit_char n else char_of (87 + n))"

definition quote_char :: "char \<Rightarrow> string" where
  "quote_char c =
     (let b = byte_of c in
      if b = 34 \<or> b = 92 then [CHR 0x5C, c]
      else if b = 7 then [CHR 0x5C, CHR ''a'']
      else if b = 8 then [CHR 0x5C, CHR ''b'']
      else if b = 12 then [CHR 0x5C, CHR ''f'']
      else if b = 10 then [CHR 0x5C, CHR ''n'']
      else if b = 13 then [CHR 0x5C, CHR ''r'']
      else if b = 9 then [CHR 0x5C, CHR ''t'']
      else if b = 11 then [CHR 0x5C, CHR ''v'']
      else if b < 32 \<or> b = 127 then [CHR 0x5C, CHR ''x'', hex_digit (b div 16), hex_digit (b mod 16)]
      else [c])"

definition quote_go :: "string \<Rightarrow> string" where
  "quote_go s = [CHR 0x22] @ concat (map quote_char s) @ [CHR 0x22]"

section \<open>Codecs\<close>

text \<open>
  The interface every encoder and decoder of the program shares: what is written can be
  read back. Its instances are the timestamp text, the JSON forms of the records and the
  base58 text of a key.
\<close>

locale codec =
  fixes enc :: "'a \<Rightarrow> 'b"
    and dec :: "'b \<Rightarrow> 'e + 'a"
    and valid :: "'a \<Rightarrow> bool"
  assumes dec_enc: "valid x \<Longrightarrow> dec (enc x) = Inr x"
begin

lemma enc_inj: "valid x \<Longrightarrow> valid y \<Longrightarrow> enc x = enc y \<Longrightarrow> x = y"
  by (metis dec_enc sum.inject(2))

lemma dec_enc_list: "\<forall>x \<in> set xs. valid x \<Longrightarrow> mapM dec (map enc xs) = Inr xs"
  by (induction xs) (auto simp: dec_enc)

end

section \<open>Keyed tables\<close>

text \<open>
  The contract of a store of records keyed by a part of the record, with insert-or-replace:
  the tables of the database, the type registry, the token map. The laws give what a lookup
  finds after any sequence of writes: the last record written under the key.
\<close>

locale table =
  fixes ok :: "'s \<Rightarrow> bool"
    and get :: "'s \<Rightarrow> 'k \<Rightarrow> 'r option"
    and put :: "'r \<Rightarrow> 's \<Rightarrow> 's"
    and key :: "'r \<Rightarrow> 'k"
  assumes ok_put: "ok s \<Longrightarrow> ok (put r s)"
    and get_put: "ok s \<Longrightarrow> get (put r s) k = (if k = key r then Some r else get s k)"
begin

lemma ok_puts: "ok s \<Longrightarrow> ok (foldl (\<lambda>s r. put r s) s rs)"
  by (induction rs arbitrary: s) (auto simp: ok_put)

lemma get_puts:
  "ok s \<Longrightarrow> get (foldl (\<lambda>s r. put r s) s rs) k
     = (case find (\<lambda>r. key r = k) (rev rs) of Some r \<Rightarrow> Some r | None \<Rightarrow> get s k)"
proof (induction rs rule: rev_induct)
  case (snoc r rs)
  then show ?case by (auto simp: get_put ok_puts)
qed simp

lemma get_puts_absent:
  "ok s \<Longrightarrow> k \<notin> key ` set rs \<Longrightarrow> get (foldl (\<lambda>s r. put r s) s rs) k = get s k"
  by (induction rs rule: rev_induct) (auto simp: get_put ok_puts)

lemma get_put_put: "ok s \<Longrightarrow> key r = key r' \<Longrightarrow> get (put r (put r' s)) = get (put r s)"
  by (auto simp: fun_eq_iff get_put ok_put)

end

end
