(* ===== verification/Go_Time.thy ===== *)
theory Go_Time
  imports Coggo_Prelude
begin

text \<open>
  \<open>time.Time\<close> and its RFC 3339 text. A time is the number of nanoseconds since
  0001-01-01T00:00:00Z, the zero time of Go (\<open>IsZero\<close>); all times of the program are in
  UTC. \<open>format_time\<close> is \<open>formatTime\<close> of internal/store/sqlite.go, the text written to
  the database: the fraction of a second is written without trailing zeros, and not at
  all when it is zero. \<open>parse_rfc3339\<close> is \<open>time.Parse\<close> with the RFC 3339 layouts;
  its flag selects the strict form that decoding a JSON string into a \<open>time.Time\<close> uses.
\<close>

type_synonym time = int

definition nanos :: int where
  "nanos = 1000000000"

section \<open>The calendar\<close>

definition leap_year :: "int \<Rightarrow> bool" where
  "leap_year y \<longleftrightarrow> y mod 4 = 0 \<and> (y mod 100 \<noteq> 0 \<or> y mod 400 = 0)"

definition days_before_year :: "int \<Rightarrow> int" where
  "days_before_year y = 365 * (y - 1) + (y - 1) div 4 - (y - 1) div 100 + (y - 1) div 400"

definition days_before_month :: "bool \<Rightarrow> int \<Rightarrow> int" where
  "days_before_month leap m =
     (let l = (if leap then 1 else 0) in
      if m \<le> 1 then 0 else if m = 2 then 31 else if m = 3 then 59 + l else if m = 4 then 90 + l
      else if m = 5 then 120 + l else if m = 6 then 151 + l else if m = 7 then 181 + l
      else if m = 8 then 212 + l else if m = 9 then 243 + l else if m = 10 then 273 + l
      else if m = 11 then 304 + l else if m = 12 then 334 + l else 365 + l)"

definition days_in_month :: "bool \<Rightarrow> int \<Rightarrow> int" where
  "days_in_month leap m = days_before_month leap (m + 1) - days_before_month leap m"

definition year_day :: "int \<Rightarrow> int \<times> int" where
  "year_day d =
     (let n400 = d div 146097; r = d mod 146097;
          n100 = min 3 (r div 36524); r2 = r - 36524 * n100;
          n4 = r2 div 1461; r3 = r2 mod 1461;
          n1 = min 3 (r3 div 365)
      in (400 * n400 + 100 * n100 + 4 * n4 + n1 + 1, r3 - 365 * n1))"

definition month_day :: "bool \<Rightarrow> int \<Rightarrow> int \<times> int" where
  "month_day leap yd =
     (let l = (if leap then 1 else 0);
          m = (if yd < 31 then 1 else if yd < 59 + l then 2 else if yd < 90 + l then 3
               else if yd < 120 + l then 4 else if yd < 151 + l then 5 else if yd < 181 + l then 6
               else if yd < 212 + l then 7 else if yd < 243 + l then 8 else if yd < 273 + l then 9
               else if yd < 304 + l then 10 else if yd < 334 + l then 11 else 12)
      in (m, yd - days_before_month leap m + 1))"

definition days_of_civil :: "int \<Rightarrow> int \<Rightarrow> int \<Rightarrow> int" where
  "days_of_civil y m d = days_before_year y + days_before_month (leap_year y) m + d - 1"

lemma mod_small_rest: "0 \<le> t \<Longrightarrow> t < n \<Longrightarrow> (n * x + t) mod n = (t :: int)"
  by simp

lemma year_day_correct:
  assumes "year_day d = (y, yd)"
  shows "days_before_year y + yd = d" and "0 \<le> yd" and "yd < (if leap_year y then 366 else 365)"
proof -
  define a r where "a = d div 146097" and "r = d mod 146097"
  define c where "c = min 3 (r div 36524)"
  define r2 where "r2 = r - 36524 * c"
  define q r3 where "q = r2 div 1461" and "r3 = r2 mod 1461"
  define e where "e = min 3 (r3 div 365)"
  have y: "y = 400 * a + 100 * c + 4 * q + e + 1" and yd: "yd = r3 - 365 * e"
    using assms by (auto simp: year_day_def Let_def a_def r_def c_def r2_def q_def r3_def e_def)
  have d: "d = 146097 * a + r" and r: "0 \<le> r" "r < 146097"
    by (simp_all add: a_def r_def)
  define k where "k = r div 36524"
  have rk: "r = 36524 * k + r mod 36524" "0 \<le> r mod 36524" "r mod 36524 < 36524"
    by (simp_all add: k_def)
  have k: "0 \<le> k" "k \<le> 4" using r rk by linarith+
  have ck: "c = min 3 k" by (simp add: c_def k_def)
  have c: "0 \<le> c" "c \<le> 3" using k ck by linarith+
  have r2: "0 \<le> r2" "r2 \<le> 36524" and c3: "r2 = 36524 \<Longrightarrow> c = 3"
  proof -
    have "c = k \<and> k \<le> 3 \<or> c = 3 \<and> k = 4" using k ck by linarith
    then show "0 \<le> r2" "r2 \<le> 36524" "r2 = 36524 \<Longrightarrow> c = 3"
      using r rk r2_def by linarith+
  qed
  have r2q: "r2 = 1461 * q + r3" and r3: "0 \<le> r3" "r3 < 1461"
    by (simp_all add: q_def r3_def)
  have q: "0 \<le> q" "q \<le> 24" using r2 r2q r3 by linarith+
  define f where "f = r3 div 365"
  have rf: "r3 = 365 * f + r3 mod 365" "0 \<le> r3 mod 365" "r3 mod 365 < 365"
    by (simp_all add: f_def)
  have f: "0 \<le> f" "f \<le> 4" using r3 rf by linarith+
  have ef: "e = min 3 f" by (simp add: e_def f_def)
  have e: "0 \<le> e" "e \<le> 3" using f ef by linarith+
  have yd_bounds: "0 \<le> yd" "yd \<le> 365" and e3: "yd = 365 \<Longrightarrow> e = 3"
  proof -
    have "e = f \<and> f \<le> 3 \<or> e = 3 \<and> f = 4" using f ef by linarith
    then show "0 \<le> yd" "yd \<le> 365" "yd = 365 \<Longrightarrow> e = 3"
      using r3 rf yd by linarith+
  qed
  have div4: "(y - 1) div 4 = 100 * a + 25 * c + q"
  proof -
    have "y - 1 = 4 * (100 * a + 25 * c + q) + e" using y by simp
    with e show ?thesis by simp
  qed
  have div100: "(y - 1) div 100 = 4 * a + c"
  proof -
    have "y - 1 = 100 * (4 * a + c) + (4 * q + e)" using y by simp
    moreover have "0 \<le> 4 * q + e" "4 * q + e < 100" using q e by linarith+
    ultimately show ?thesis by simp
  qed
  have div400: "(y - 1) div 400 = a"
  proof -
    have "y - 1 = 400 * a + (100 * c + 4 * q + e)" using y by simp
    moreover have "0 \<le> 100 * c + 4 * q + e" "100 * c + 4 * q + e < 400" using c q e by linarith+
    ultimately show ?thesis by simp
  qed
  show "days_before_year y + yd = d"
    unfolding days_before_year_def div4 div100 div400 using y yd d r2_def r2q by simp
  show "0 \<le> yd" by (rule yd_bounds(1))
  show "yd < (if leap_year y then 366 else 365)"
  proof (cases "yd = 365")
    case True
    then have e3': "e = 3" by (rule e3)
    with True yd r3 have r3': "r3 = 1460" by simp
    have "y = 4 * (100 * a + 25 * c + q + 1)" using y e3' by simp
    then have m4: "y mod 4 = 0" by simp
    have "y mod 100 \<noteq> 0 \<or> y mod 400 = 0"
    proof (cases "q = 24")
      case True
      with r3' r2q have "c = 3" by (intro c3) simp
      with True e3' y have "y = 400 * (a + 1)" by simp
      then show ?thesis by simp
    next
      case False
      with q have q23: "q \<le> 23" by simp
      have "y = 100 * (4 * a + c) + (4 * q + 4)" using y e3' by simp
      moreover have "0 < 4 * q + 4" "4 * q + 4 < 100" using q q23 by linarith+
      ultimately have "y mod 100 = 4 * q + 4"
        using mod_small_rest [of "4 * q + 4" 100 "4 * a + c"] by (simp only: less_imp_le)
      with q show ?thesis by simp
    qed
    with m4 have "leap_year y" by (simp add: leap_year_def)
    with yd_bounds show ?thesis by simp
  next
    case False
    with yd_bounds show ?thesis by simp
  qed
qed

lemma month_day_correct:
  assumes "month_day leap yd = (m, d)" and "0 \<le> yd" and "yd < (if leap then 366 else 365)"
  shows "days_before_month leap m + d - 1 = yd" and "1 \<le> m" and "m \<le> 12"
    and "1 \<le> d" and "d \<le> days_in_month leap m" and "d \<le> 31"
  using assms
  by (cases leap; simp add: month_day_def days_in_month_def days_before_month_def split: if_splits)+

section \<open>Fixed-width decimal fields\<close>

fun fixed_digits :: "nat \<Rightarrow> nat \<Rightarrow> string" where
  "fixed_digits 0 n = []"
| "fixed_digits (Suc w) n = fixed_digits w (n div 10) @ [digit_char (n mod 10)]"

definition digits_value :: "string \<Rightarrow> nat" where
  "digits_value ds = foldl (\<lambda>a c. 10 * a + digit_val c) 0 ds"

definition read_digits :: "nat \<Rightarrow> string \<Rightarrow> (nat \<times> string) option" where
  "read_digits w s =
     (if length (take w s) = w \<and> list_all is_digit (take w s)
      then Some (digits_value (take w s), drop w s) else None)"

lemma length_fixed_digits [simp]: "length (fixed_digits w n) = w"
  by (induction w arbitrary: n) auto

lemma fixed_digits_all [simp]: "list_all is_digit (fixed_digits w n)"
  by (induction w arbitrary: n) auto

lemma digits_value_snoc [simp]: "digits_value (ds @ [c]) = 10 * digits_value ds + digit_val c"
  by (simp add: digits_value_def)

lemma digits_value_Nil [simp]: "digits_value [] = 0"
  by (simp add: digits_value_def)

lemma digits_value_fixed: "n < 10 ^ w \<Longrightarrow> digits_value (fixed_digits w n) = n"
proof (induction w arbitrary: n)
  case (Suc w)
  then have "n div 10 < 10 ^ w" by (simp add: less_mult_imp_div_less)
  with Suc.IH show ?case by simp
qed simp

lemma read_digits_fixed [simp]:
  "n < 10 ^ w \<Longrightarrow> read_digits w (fixed_digits w n @ s) = Some (n, s)"
  by (simp add: read_digits_def digits_value_fixed)

section \<open>Writing a timestamp\<close>

definition year_text :: "int \<Rightarrow> string" where
  "year_text y =
     (if 0 \<le> y \<and> y < 10000 then fixed_digits 4 (nat y)
      else if 10000 \<le> y then show_nat (nat y)
      else ''-'' @ (if - y < 10000 then fixed_digits 4 (nat (- y)) else show_nat (nat (- y))))"

definition strip_zeros :: "string \<Rightarrow> string" where
  "strip_zeros ds = rev (dropWhile (\<lambda>c. c = CHR ''0'') (rev ds))"

definition frac_text :: "nat \<Rightarrow> string" where
  "frac_text ns = (if ns = 0 then [] else CHR ''.'' # strip_zeros (fixed_digits 9 ns))"

text \<open>\<open>date_text\<close> is the part up to the second, of a number of seconds.\<close>

definition date_text :: "int \<Rightarrow> string" where
  "date_text secs =
     (let (y, yd) = year_day (secs div 86400);
          (m, d) = month_day (leap_year y) yd;
          sod = secs mod 86400
      in year_text y @ ''-'' @ fixed_digits 2 (nat m) @ ''-'' @ fixed_digits 2 (nat d)
         @ ''T'' @ fixed_digits 2 (nat (sod div 3600))
         @ '':'' @ fixed_digits 2 (nat (sod mod 3600 div 60))
         @ '':'' @ fixed_digits 2 (nat (sod mod 60)))"

definition format_time :: "time \<Rightarrow> string" where
  "format_time t = date_text (t div nanos) @ frac_text (nat (t mod nanos)) @ ''Z''"

section \<open>Reading a timestamp\<close>

definition read_char :: "char \<Rightarrow> string \<Rightarrow> string option" where
  "read_char c s = (case s of [] \<Rightarrow> None | x # r \<Rightarrow> if x = c then Some r else None)"

definition read_hour :: "bool \<Rightarrow> string \<Rightarrow> (nat \<times> string) option" where
  "read_hour strict s =
     (case read_digits 2 s of Some r \<Rightarrow> Some r | None \<Rightarrow> if strict then None else read_digits 1 s)"

definition frac_value :: "string \<Rightarrow> nat" where
  "frac_value ds = digits_value (take 9 ds) * 10 ^ (9 - length (take 9 ds))"

definition read_frac :: "bool \<Rightarrow> string \<Rightarrow> nat \<times> string" where
  "read_frac strict s =
     (case s of
        c # d # r \<Rightarrow>
          if (c = CHR ''.'' \<or> (\<not> strict \<and> c = CHR '','')) \<and> is_digit d
          then (frac_value (takeWhile is_digit (d # r)), dropWhile is_digit (d # r))
          else (0, s)
      | _ \<Rightarrow> (0, s))"

definition read_zone :: "bool \<Rightarrow> string \<Rightarrow> int option" where
  "read_zone strict s =
     (case s of
        [c] \<Rightarrow> if c = CHR ''Z'' then Some 0 else None
      | [sg, h1, h2, co, m1, m2] \<Rightarrow>
          if (sg = CHR ''+'' \<or> sg = CHR ''-'') \<and> co = CHR '':'' \<and> list_all is_digit [h1, h2, m1, m2]
          then (let h = digits_value [h1, h2]; m = digits_value [m1, m2];
                    ofs = int (h * 3600 + m * 60)
                in if (if strict then h < 24 \<and> m < 60 else h \<le> 24 \<and> m \<le> 60)
                   then Some (if sg = CHR ''-'' then - ofs else ofs) else None)
          else None
      | _ \<Rightarrow> None)"

definition read_clock :: "bool \<Rightarrow> string \<Rightarrow> (int \<times> string) option" where
  "read_clock strict s =
     Option.bind (read_hour strict s) (\<lambda>(h, s).
     Option.bind (read_char CHR '':'' s) (\<lambda>s.
     Option.bind (read_digits 2 s) (\<lambda>(mi, s).
     Option.bind (read_char CHR '':'' s) (\<lambda>s.
     Option.bind (read_digits 2 s) (\<lambda>(sec, s).
       if h < 24 \<and> mi < 60 \<and> sec < 60 then Some (int (h * 3600 + mi * 60 + sec), s) else None)))))"

definition read_date :: "string \<Rightarrow> (int \<times> string) option" where
  "read_date s =
     Option.bind (read_digits 4 s) (\<lambda>(y, s).
     Option.bind (read_char CHR ''-'' s) (\<lambda>s.
     Option.bind (read_digits 2 s) (\<lambda>(mo, s).
     Option.bind (read_char CHR ''-'' s) (\<lambda>s.
     Option.bind (read_digits 2 s) (\<lambda>(d, s).
       if 1 \<le> mo \<and> mo \<le> 12 \<and> 1 \<le> d \<and> int d \<le> days_in_month (leap_year (int y)) (int mo)
       then Some (days_of_civil (int y) (int mo) (int d), s) else None)))))"

definition parse_rfc3339 :: "bool \<Rightarrow> string \<Rightarrow> time option" where
  "parse_rfc3339 strict s =
     Option.bind (read_date s) (\<lambda>(days, s).
     Option.bind (read_char CHR ''T'' s) (\<lambda>s.
     Option.bind (read_clock strict s) (\<lambda>(sod, s).
     (let (ns, s) = read_frac strict s in
     Option.bind (read_zone strict s) (\<lambda>ofs.
       Some ((days * 86400 + sod - ofs) * nanos + int ns))))))"

text \<open>\<open>parseTime\<close> of the store: the empty text is the zero time.\<close>

definition parse_time :: "string \<Rightarrow> time result" where
  "parse_time s =
     (if s = [] then Inr 0
      else case parse_rfc3339 False s of
        Some t \<Rightarrow> Inr t
      | None \<Rightarrow> Inl (Errorf ''unrecognised time format''))"

section \<open>What is written can be read\<close>

text \<open>The times with a four-digit year: from year 0 to the end of year 9999.\<close>

definition time_ok :: "time \<Rightarrow> bool" where
  "time_ok t \<longleftrightarrow> - (366 * 86400 * nanos) \<le> t \<and> t < 3652059 * 86400 * nanos"

lemma read_char_Cons [simp]: "read_char c (c # s) = Some s"
  by (simp add: read_char_def)

lemma div_step:
  fixes y n :: int
  assumes "0 < n"
  shows "y div n = (y - 1) div n + (if y mod n = 0 then 1 else 0)"
proof -
  define q r where "q = y div n" and "r = y mod n"
  have y: "y = n * q + r" and r: "0 \<le> r" "r < n"
    using assms by (simp_all add: q_def r_def)
  show ?thesis
  proof (cases "r = 0")
    case True
    then have "y - 1 = n * (q - 1) + (n - 1)" using y by (simp add: algebra_simps)
    moreover have "(n * (q - 1) + (n - 1)) div n = q - 1" using assms by (subst div_mult_self4) simp_all
    ultimately have "(y - 1) div n = q - 1" by (simp only:)
    with True show ?thesis by (simp flip: q_def r_def)
  next
    case False
    then have "y - 1 = n * q + (r - 1)" and d: "0 \<le> r - 1" "r - 1 < n" using y r by linarith+
    moreover have "(n * q + (r - 1)) div n = q"
      using assms d by (subst div_mult_self4) (simp_all add: div_pos_pos_trivial)
    ultimately have "(y - 1) div n = q" by (simp only:)
    with False show ?thesis by (simp flip: q_def r_def)
  qed
qed

lemma year_step_sum:
  fixes y :: int
  assumes "A = a + i" and "B = b + j" and "C = c + k"
    and "D = 365 * (y - 1) + a - b + c" and "D' = 365 * y + A - B + C"
  shows "D' = D + (365 + i - j + k)"
  using assms by simp

lemma leap_sum:
  assumes "p400 \<longrightarrow> p100" and "p100 \<longrightarrow> p4"
  shows "(if p4 \<and> (\<not> p100 \<or> p400) then 366 else 365 :: int)
         = 365 + (if p4 then 1 else 0) - (if p100 then 1 else 0) + (if p400 then 1 else 0)"
  using assms by (cases p4; cases p100; cases p400) simp_all

lemma days_before_year_Suc:
  "days_before_year (y + 1) = days_before_year y + (if leap_year y then 366 else 365)"
proof -
  have dvd: "(100 :: int) dvd 400" "(4 :: int) dvd 100" by simp_all
  have m: "y mod 400 = 0 \<Longrightarrow> y mod 100 = 0" and m': "y mod 100 = 0 \<Longrightarrow> y mod 4 = 0"
    unfolding mod_eq_0_iff_dvd by (rule dvd_trans [OF dvd(1)], assumption)
      (rule dvd_trans [OF dvd(2)], assumption)
  have ifs: "(if leap_year y then 366 else 365 :: int) = 365 + (if y mod 4 = 0 then 1 else 0)
      - (if y mod 100 = 0 then 1 else 0) + (if y mod 400 = 0 then 1 else 0)"
    unfolding leap_year_def by (rule leap_sum) (use m m' in blast)+
  show ?thesis
    unfolding ifs
  proof (rule year_step_sum)
    show "y div 4 = (y - 1) div 4 + (if y mod 4 = 0 then 1 else 0)"
      and "y div 100 = (y - 1) div 100 + (if y mod 100 = 0 then 1 else 0)"
      and "y div 400 = (y - 1) div 400 + (if y mod 400 = 0 then 1 else 0)"
      by (rule div_step, simp)+
    show "days_before_year y = 365 * (y - 1) + (y - 1) div 4 - (y - 1) div 100 + (y - 1) div 400"
      by (rule days_before_year_def)
    show "days_before_year (y + 1) = 365 * y + y div 4 - y div 100 + y div 400"
      by (simp only: days_before_year_def add_diff_cancel_right')
  qed
qed

lemma days_before_year_mono: "y \<le> y' \<Longrightarrow> days_before_year y \<le> days_before_year y'"
proof (induction y' rule: int_ge_induct)
  case (step z)
  then show ?case by (simp add: days_before_year_Suc split: if_splits)
qed simp

lemma year_in_range:
  assumes "year_day d = (y, yd)" and "- 366 \<le> d" and "d < 3652059"
  shows "0 \<le> y" and "y < 10000"
proof -
  note yd = year_day_correct [OF assms(1)]
  show "0 \<le> y"
  proof (rule ccontr)
    assume "\<not> 0 \<le> y"
    then have "days_before_year (y + 1) \<le> days_before_year 0"
      by (intro days_before_year_mono) simp
    then show False
      using yd assms(2) by (simp add: days_before_year_Suc) (simp add: days_before_year_def)
  qed
  show "y < 10000"
  proof (rule ccontr)
    assume "\<not> y < 10000"
    then have "days_before_year 10000 \<le> days_before_year y" by (intro days_before_year_mono) simp
    then show False using yd(1,2) assms(3) by (simp add: days_before_year_def)
  qed
qed

lemma takeWhile_replicate:
  "takeWhile (\<lambda>c. c = x) xs = replicate (length (takeWhile (\<lambda>c. c = x) xs)) x"
  by (induction xs) auto

lemma strip_zeros_split:
  "s = strip_zeros s @ replicate (length s - length (strip_zeros s)) CHR ''0''"
proof -
  let ?z = "\<lambda>c. c = CHR ''0''"
  note tw = takeWhile_replicate [of "CHR ''0''" "rev s"]
  have "rev s = takeWhile ?z (rev s) @ dropWhile ?z (rev s)" by simp
  then have s: "s = strip_zeros s @ rev (takeWhile ?z (rev s))"
    by (metis rev_append rev_rev_ident strip_zeros_def)
  then have "length (takeWhile ?z (rev s)) = length s - length (strip_zeros s)"
    by (metis add_diff_cancel_left' length_append length_rev)
  with s tw show ?thesis by (metis rev_replicate)
qed

lemma digits_value_zeros:
  "digits_value (ds @ replicate k CHR ''0'') = digits_value ds * 10 ^ k"
proof (induction k)
  case (Suc k)
  have "ds @ replicate (Suc k) CHR ''0'' = (ds @ replicate k CHR ''0'') @ [CHR ''0'']"
    by (simp add: replicate_append_same)
  then have "digits_value (ds @ replicate (Suc k) CHR ''0'')
             = 10 * digits_value (ds @ replicate k CHR ''0'') + digit_val CHR ''0''"
    by (simp only: digits_value_snoc)
  with Suc show ?case by (simp add: digit_val_def byte_of_def)
qed simp

lemma strip_zeros_digits:
  assumes "0 < ns" and "ns < 10 ^ 9" and "ds = strip_zeros (fixed_digits 9 ns)"
  shows "ds \<noteq> []" and "list_all is_digit ds" and "frac_value ds = ns"
proof -
  let ?k = "9 - length ds"
  have split: "fixed_digits 9 ns = ds @ replicate ?k CHR ''0''"
    using strip_zeros_split [of "fixed_digits 9 ns"] assms(3) by simp
  then have val: "digits_value ds * 10 ^ ?k = ns"
    by (metis digits_value_zeros digits_value_fixed assms(2))
  then show "ds \<noteq> []" using assms(1) by auto
  show "list_all is_digit ds"
    using fixed_digits_all [of 9 ns] unfolding split by simp
  have "length ds \<le> 9"
    using arg_cong [OF split, of length] by simp
  then show "frac_value ds = ns" using val by (simp add: frac_value_def)
qed

lemma takeWhile_digits: "list_all is_digit ds \<Longrightarrow>
  takeWhile is_digit (ds @ ''Z'') = ds \<and> dropWhile is_digit (ds @ ''Z'') = ''Z''"
  by (induction ds) (auto simp: is_digit_def byte_of_def)

lemma read_frac_text:
  assumes "ns < 10 ^ 9"
  shows "read_frac strict (frac_text ns @ ''Z'') = (ns, ''Z'')"
proof (cases "ns = 0")
  case True
  then show ?thesis by (simp add: frac_text_def read_frac_def)
next
  case False
  define ds where "ds = strip_zeros (fixed_digits 9 ns)"
  have ds: "ds \<noteq> []" "list_all is_digit ds" "frac_value ds = ns"
    using strip_zeros_digits [OF _ assms ds_def] False by simp_all
  obtain d ds' where Cons: "ds = d # ds'" using ds(1) by (cases ds) auto
  with ds(2) have "is_digit d" by simp
  moreover have "frac_text ns @ ''Z'' = CHR ''.'' # d # (ds' @ ''Z'')"
    using False Cons by (simp add: frac_text_def flip: ds_def)
  ultimately show ?thesis
    using takeWhile_digits [OF ds(2)] ds(3) Cons by (simp add: read_frac_def)
qed

lemma read_zone_Z [simp]: "read_zone strict ''Z'' = Some 0"
  by (simp add: read_zone_def)

lemma read_clock_text:
  assumes "0 \<le> sod" and "sod < 86400"
  shows "read_clock strict (fixed_digits 2 (nat (sod div 3600))
           @ '':'' @ fixed_digits 2 (nat (sod mod 3600 div 60))
           @ '':'' @ fixed_digits 2 (nat (sod mod 60)) @ s) = Some (sod, s)"
proof -
  define h m c where "h = sod div 3600" and "m = sod mod 3600 div 60" and "c = sod mod 60"
  have h: "0 \<le> h" "h < 24" and m: "0 \<le> m" "m < 60" and c: "0 \<le> c" "c < 60"
    using assms by (simp_all add: h_def m_def c_def)
  have sod: "sod = h * 3600 + m * 60 + c"
  proof -
    have "c = sod mod 3600 mod 60" by (simp add: c_def mod_mod_cancel)
    then show ?thesis
      using div_mult_mod_eq [of sod 3600] div_mult_mod_eq [of "sod mod 3600" 60]
      by (simp add: h_def m_def)
  qed
  have "nat h < 10 ^ 2" "nat m < 10 ^ 2" "nat c < 10 ^ 2" "nat h < 24" "nat m < 60" "nat c < 60"
    using h m c by simp_all
  then show ?thesis
    unfolding h_def [symmetric] m_def [symmetric] c_def [symmetric]
    using h m c by (simp add: read_clock_def read_hour_def sod del: fixed_digits.simps)
qed

lemma read_date_text:
  assumes "year_day days = (y, yd)" and "month_day (leap_year y) yd = (m, d)"
    and "- 366 \<le> days" and "days < 3652059"
  shows "read_date (year_text y @ ''-'' @ fixed_digits 2 (nat m) @ ''-'' @ fixed_digits 2 (nat d) @ s)
         = Some (days, s)"
proof -
  note yd = year_day_correct [OF assms(1)] and y = year_in_range [OF assms(1,3,4)]
  note md = month_day_correct [OF assms(2) yd(2,3)]
  have bounds: "nat y < 10 ^ 4" "nat m < 10 ^ 2" "nat d < 10 ^ 2"
    using y md by simp_all
  have "days_of_civil y m d = days"
    using yd(1) md(1) by (simp add: days_of_civil_def)
  moreover have "1 \<le> nat m" "nat m \<le> 12" "1 \<le> nat d" using md by simp_all
  ultimately show ?thesis
    using bounds y md by (simp add: read_date_def year_text_def del: fixed_digits.simps)
qed

theorem parse_format_time:
  assumes "time_ok t"
  shows "parse_rfc3339 strict (format_time t) = Some t"
proof -
  define secs ns where "secs = t div nanos" and "ns = t mod nanos"
  have ns: "0 \<le> ns" "nat ns < 10 ^ 9" and t: "t = secs * nanos + ns"
    by (simp_all add: ns_def secs_def nanos_def)
  define days sod where "days = secs div 86400" and "sod = secs mod 86400"
  have sod: "0 \<le> sod" "sod < 86400" and secs: "secs = days * 86400 + sod"
    by (simp_all add: days_def sod_def)
  have days: "- 366 \<le> days" "days < 3652059"
    using assms unfolding time_ok_def days_def secs_def nanos_def by linarith+
  obtain y yd where yd: "year_day days = (y, yd)" by force
  obtain m d where md: "month_day (leap_year y) yd = (m, d)" by force
  define clk where "clk = fixed_digits 2 (nat (sod div 3600))
      @ '':'' @ fixed_digits 2 (nat (sod mod 3600 div 60))
      @ '':'' @ fixed_digits 2 (nat (sod mod 60)) @ frac_text (nat ns) @ ''Z''"
  have clk: "read_clock strict clk = Some (sod, frac_text (nat ns) @ ''Z'')"
    unfolding clk_def by (rule read_clock_text [OF sod])
  have "secs mod 60 = sod mod 60" unfolding sod_def by (simp add: mod_mod_cancel)
  then have fmt: "format_time t = year_text y @ ''-'' @ fixed_digits 2 (nat m) @ ''-''
      @ fixed_digits 2 (nat d) @ CHR ''T'' # clk"
    using yd md
    by (simp add: clk_def format_time_def date_text_def flip: secs_def ns_def days_def sod_def)
  have "parse_rfc3339 strict (format_time t) = Some ((days * 86400 + sod) * nanos + int (nat ns))"
    unfolding fmt parse_rfc3339_def read_date_text [OF yd md days]
    using ns by (simp add: clk read_frac_text)
  then show ?thesis using ns t secs by simp
qed

end
