(* ===== verification/Json.thy ===== *)
theory Json
  imports Complex_Main Go_Time
begin

text \<open>
  The part of Go's \<^verbatim>\<open>encoding/json\<close> that the program uses, on syntax trees.

  A \<open>json\<close> value is both a parsed document and, when it is canonical (\<open>json_ok\<close>: every
  object is a Go map), a Go value of type \<open>any\<close>. Decoding into \<open>any\<close> is
  \<open>normalize\<close>: keys are sorted and the last of several equal keys wins; encoding a Go
  map writes its keys sorted, so it is the identity on canonical values. A number is the
  rational value of its \<open>float64\<close>.

  Decoding into a struct goes through the object's members in order; a member sets the field
  whose tag equals its key up to case, unknown members are skipped, \<open>null\<close> leaves a plain
  field alone, and a member of the wrong kind is an error (\<open>decode_struct\<close>).
\<close>

datatype json =
    JNull
  | JBool bool
  | JNum rat
  | JStr string
  | JArr "json list"
  | JObj "(string \<times> json) list"

section \<open>Values of type any\<close>

fun normalize :: "json \<Rightarrow> json"
  and normalize_list :: "json list \<Rightarrow> json list"
  and normalize_members :: "(string \<times> json) list \<Rightarrow> (string \<times> json) list" where
  "normalize (JArr js) = JArr (normalize_list js)"
| "normalize (JObj kvs) = JObj (mputs (normalize_members kvs) [])"
| "normalize JNull = JNull"
| "normalize (JBool b) = JBool b"
| "normalize (JNum n) = JNum n"
| "normalize (JStr s) = JStr s"
| "normalize_list [] = []"
| "normalize_list (j # js) = normalize j # normalize_list js"
| "normalize_members [] = []"
| "normalize_members ((k, v) # kvs) = (k, normalize v) # normalize_members kvs"

fun json_ok :: "json \<Rightarrow> bool"
  and json_list_ok :: "json list \<Rightarrow> bool"
  and members_ok :: "(string \<times> json) list \<Rightarrow> bool" where
  "json_ok (JArr js) = json_list_ok js"
| "json_ok (JObj kvs) = (gomap_ok kvs \<and> members_ok kvs)"
| "json_ok JNull = True"
| "json_ok (JBool b) = True"
| "json_ok (JNum n) = True"
| "json_ok (JStr s) = True"
| "json_list_ok [] = True"
| "json_list_ok (j # js) = (json_ok j \<and> json_list_ok js)"
| "members_ok [] = True"
| "members_ok ((k, v) # kvs) = (json_ok v \<and> members_ok kvs)"

type_synonym obj = "json gomap"

definition obj_ok :: "obj \<Rightarrow> bool" where
  "obj_ok m \<longleftrightarrow> gomap_ok m \<and> members_ok m"

lemma members_ok_iff: "members_ok kvs \<longleftrightarrow> (\<forall>(k, v) \<in> set kvs. json_ok v)"
  by (induction kvs) auto

lemma json_list_ok_iff: "json_list_ok js \<longleftrightarrow> (\<forall>j \<in> set js. json_ok j)"
  by (induction js) auto

lemma normalize_list_map: "normalize_list js = map normalize js"
  by (induction js) auto

lemma normalize_members_map: "normalize_members kvs = map (\<lambda>(k, v). (k, normalize v)) kvs"
  by (induction kvs) auto

lemma obj_ok_Nil [simp]: "obj_ok []"
  by (simp add: obj_ok_def)

lemma members_ok_mput: "members_ok m \<Longrightarrow> json_ok v \<Longrightarrow> members_ok (mput k v m)"
  by (induction k v m rule: mput.induct) auto

lemma members_ok_mputs: "members_ok m \<Longrightarrow> members_ok kvs \<Longrightarrow> members_ok (mputs kvs m)"
  by (induction kvs arbitrary: m) (auto simp: members_ok_mput)

lemma obj_ok_mput [simp]: "obj_ok m \<Longrightarrow> json_ok v \<Longrightarrow> obj_ok (mput k v m)"
  by (simp add: obj_ok_def members_ok_mput)

lemma obj_ok_mputs: "obj_ok m \<Longrightarrow> members_ok kvs \<Longrightarrow> obj_ok (mputs kvs m)"
  by (simp add: obj_ok_def members_ok_mputs)

lemma normalize_ok: "json_ok (normalize j)"
  and "json_list_ok (normalize_list js)"
  and normalize_members_ok: "members_ok (normalize_members kvs)"
  by (induction j and js and kvs rule: normalize_normalize_list_normalize_members.induct)
    (auto simp: members_ok_mputs)

lemma normalize_id: "json_ok j \<Longrightarrow> normalize j = j"
  and "json_list_ok js \<Longrightarrow> normalize_list js = js"
  and normalize_members_id: "members_ok kvs \<Longrightarrow> normalize_members kvs = kvs"
  by (induction j and js and kvs rule: normalize_normalize_list_normalize_members.induct)
    (auto simp: mputs_self)

section \<open>Documents\<close>

text \<open>
  A \<open>json.RawMessage\<close> or a byte column: nothing at all, text that is not JSON (with the
  decoder's complaint), or a document.
\<close>

datatype raw = Empty | Malformed string | Doc json

definition raw_doc :: "raw \<Rightarrow> json result" where
  "raw_doc r = (case r of
      Empty \<Rightarrow> Inl (Errorf ''unexpected end of JSON input'')
    | Malformed msg \<Rightarrow> Inl (Errorf msg)
    | Doc j \<Rightarrow> Inr j)"

section \<open>Decoding into Go structs\<close>

text \<open>Keys are compared up to case; the two non-ASCII letters that fold to ASCII are included.\<close>

fun fold_name :: "string \<Rightarrow> string" where
  "fold_name (c # d # s) =
     (if byte_of c = 197 \<and> byte_of d = 191 then CHR ''s'' # fold_name s
      else (case s of
          e # s' \<Rightarrow> if byte_of c = 226 \<and> byte_of d = 132 \<and> byte_of e = 170
                     then CHR ''k'' # fold_name s' else lower_char c # fold_name (d # s)
        | [] \<Rightarrow> lower_char c # fold_name (d # s)))"
| "fold_name s = map lower_char s"

fun json_kind :: "json \<Rightarrow> string" where
  "json_kind JNull = ''null''"
| "json_kind (JBool b) = ''bool''"
| "json_kind (JNum n) = ''number''"
| "json_kind (JStr s) = ''string''"
| "json_kind (JArr js) = ''array''"
| "json_kind (JObj kvs) = ''object''"

definition type_error :: "json \<Rightarrow> string \<Rightarrow> 'a result" where
  "type_error j dst = Inl (Errorf (''json: cannot unmarshal '' @ json_kind j @ '' into Go '' @ dst))"

definition decode_struct ::
    "string \<Rightarrow> (string \<Rightarrow> json \<Rightarrow> 's \<Rightarrow> 's result) \<Rightarrow> json \<Rightarrow> 's \<Rightarrow> 's result" where
  "decode_struct ty assign j s = (case j of
      JNull \<Rightarrow> Inr s
    | JObj kvs \<Rightarrow> foldM (\<lambda>(k, v). assign (fold_name k) v) kvs s
    | _ \<Rightarrow> type_error j (''value of type '' @ ty))"

definition unmarshal ::
    "string \<Rightarrow> (string \<Rightarrow> json \<Rightarrow> 's \<Rightarrow> 's result) \<Rightarrow> 's \<Rightarrow> raw \<Rightarrow> 's result" where
  "unmarshal ty assign s r = and_then (raw_doc r) (\<lambda>j. decode_struct ty assign j s)"

definition set_string :: "string \<Rightarrow> json \<Rightarrow> (string \<Rightarrow> 's \<Rightarrow> 's) \<Rightarrow> 's \<Rightarrow> 's result" where
  "set_string fld j upd s = (case j of
      JNull \<Rightarrow> Inr s
    | JStr x \<Rightarrow> Inr (upd x s)
    | _ \<Rightarrow> type_error j (''struct field '' @ fld @ '' of type string''))"

definition set_bool :: "string \<Rightarrow> json \<Rightarrow> (bool \<Rightarrow> 's \<Rightarrow> 's) \<Rightarrow> 's \<Rightarrow> 's result" where
  "set_bool fld j upd s = (case j of
      JNull \<Rightarrow> Inr s
    | JBool b \<Rightarrow> Inr (upd b s)
    | _ \<Rightarrow> type_error j (''struct field '' @ fld @ '' of type bool''))"

definition int64_ok :: "int \<Rightarrow> bool" where
  "int64_ok i \<longleftrightarrow> - (2 ^ 63) \<le> i \<and> i < 2 ^ 63"

text \<open>Arithmetic on Go's 64-bit \<open>int\<close> wraps around.\<close>

definition wrap64 :: "int \<Rightarrow> int" where
  "wrap64 i = (i + 2 ^ 63) mod 2 ^ 64 - 2 ^ 63"

lemma wrap64_id: "int64_ok i \<Longrightarrow> wrap64 i = i"
  by (simp add: wrap64_def int64_ok_def)

definition set_int :: "string \<Rightarrow> json \<Rightarrow> (int \<Rightarrow> 's \<Rightarrow> 's) \<Rightarrow> 's \<Rightarrow> 's result" where
  "set_int fld j upd s = (case j of
      JNull \<Rightarrow> Inr s
    | JNum r \<Rightarrow> if of_int \<lfloor>r\<rfloor> = r \<and> int64_ok \<lfloor>r\<rfloor> then Inr (upd \<lfloor>r\<rfloor> s)
                 else type_error j (''struct field '' @ fld @ '' of type int'')
    | _ \<Rightarrow> type_error j (''struct field '' @ fld @ '' of type int''))"

definition set_time :: "string \<Rightarrow> json \<Rightarrow> (time \<Rightarrow> 's \<Rightarrow> 's) \<Rightarrow> 's \<Rightarrow> 's result" where
  "set_time fld j upd s = (case j of
      JNull \<Rightarrow> Inr s
    | JStr x \<Rightarrow> (case parse_rfc3339 True x of
          Some t \<Rightarrow> Inr (upd t s)
        | None \<Rightarrow> Inl (Errorf (''parsing time '' @ quote_go x)))
    | _ \<Rightarrow> Inl (Errorf ''Time.UnmarshalJSON: input is not a JSON string''))"

text \<open>Pointer fields: \<open>null\<close> sets nil.\<close>

definition set_opt_string :: "string \<Rightarrow> json \<Rightarrow> (string option \<Rightarrow> 's \<Rightarrow> 's) \<Rightarrow> 's \<Rightarrow> 's result" where
  "set_opt_string fld j upd s =
     (if j = JNull then Inr (upd None s) else set_string fld j (\<lambda>x. upd (Some x)) s)"

definition set_opt_time :: "string \<Rightarrow> json \<Rightarrow> (time option \<Rightarrow> 's \<Rightarrow> 's) \<Rightarrow> 's \<Rightarrow> 's result" where
  "set_opt_time fld j upd s =
     (if j = JNull then Inr (upd None s) else set_time fld j (\<lambda>x. upd (Some x)) s)"

text \<open>Fields of type \<open>map[string]any\<close>: \<open>null\<close> sets nil, an object adds to the map in place.\<close>

definition set_map ::
    "string \<Rightarrow> json \<Rightarrow> ((obj option \<Rightarrow> obj option) \<Rightarrow> 's \<Rightarrow> 's) \<Rightarrow> 's \<Rightarrow> 's result" where
  "set_map fld j upd s = (case j of
      JNull \<Rightarrow> Inr (upd (\<lambda>_. None) s)
    | JObj kvs \<Rightarrow> Inr (upd (\<lambda>old. Some (mputs (normalize_members kvs) (case old of None \<Rightarrow> [] | Some m \<Rightarrow> m))) s)
    | _ \<Rightarrow> type_error j (''struct field '' @ fld @ '' of type map[string]interface {}''))"

definition set_raw :: "json \<Rightarrow> (raw \<Rightarrow> 's \<Rightarrow> 's) \<Rightarrow> 's \<Rightarrow> 's result" where
  "set_raw j upd s = Inr (upd (Doc j) s)"

section \<open>Encoding\<close>

definition enc_time :: "time \<Rightarrow> json" where
  "enc_time t = JStr (format_time t)"

definition enc_map :: "obj option \<Rightarrow> json" where
  "enc_map m = (case m of None \<Rightarrow> JNull | Some kvs \<Rightarrow> JObj kvs)"

definition enc_int :: "int \<Rightarrow> json" where
  "enc_int i = JNum (of_int i)"

text \<open>Members left out by \<open>omitempty\<close>.\<close>

definition member_opt :: "string \<Rightarrow> json option \<Rightarrow> (string \<times> json) list" where
  "member_opt k v = (case v of None \<Rightarrow> [] | Some j \<Rightarrow> [(k, j)])"

lemma set_time_enc [simp]: "time_ok t \<Longrightarrow> set_time fld (enc_time t) upd s = Inr (upd t s)"
  by (simp add: set_time_def enc_time_def parse_format_time)

lemma set_opt_time_enc [simp]:
  "time_ok t \<Longrightarrow> set_opt_time fld (enc_time t) upd s = Inr (upd (Some t) s)"
  by (simp add: set_opt_time_def) (simp add: enc_time_def)

lemma set_string_JStr [simp]: "set_string fld (JStr x) upd s = Inr (upd x s)"
  by (simp add: set_string_def)

lemma set_opt_string_JStr [simp]: "set_opt_string fld (JStr x) upd s = Inr (upd (Some x) s)"
  by (simp add: set_opt_string_def)

lemma set_bool_JBool [simp]: "set_bool fld (JBool b) upd s = Inr (upd b s)"
  by (simp add: set_bool_def)

lemma set_int_enc [simp]: "int64_ok i \<Longrightarrow> set_int fld (enc_int i) upd s = Inr (upd i s)"
  by (simp add: set_int_def enc_int_def)

lemma set_map_enc:
  "obj_ok kvs \<Longrightarrow> set_map fld (JObj kvs) upd s
     = Inr (upd (\<lambda>old. Some (mputs kvs (case old of None \<Rightarrow> [] | Some m \<Rightarrow> m))) s)"
  by (simp add: set_map_def obj_ok_def normalize_members_id)

interpretation time_text: codec format_time parse_time time_ok
proof
  fix t assume "time_ok t"
  then have p: "parse_rfc3339 False (format_time t) = Some t" by (rule parse_format_time)
  then have "format_time t \<noteq> []"
    by (auto simp: parse_rfc3339_def read_date_def read_digits_def)
  with p show "parse_time (format_time t) = Inr t" by (simp add: parse_time_def)
qed

end
