(* ===== verification/Coggo_Types.thy ===== *)
theory Coggo_Types
  imports Json
begin

text \<open>
  The data model of internal/types/types.go: events, entities, relations, type
  definitions, peers, tokens, queries and federation messages, each with its JSON form as
  the struct tags give it, and the proof that decoding inverts encoding.

  A Go slice, map or pointer that may be nil is an \<open>option\<close>. A field of type
  \<open>any\<close> that is nil holds \<open>JNull\<close>. Byte slices are byte strings.
\<close>

section \<open>Events\<close>

definition EventEntityCreated :: string where [simp]: "EventEntityCreated = ''EntityCreated''"
definition EventEntityUpdated :: string where [simp]: "EventEntityUpdated = ''EntityUpdated''"
definition EventEntityArchived :: string where [simp]: "EventEntityArchived = ''EntityArchived''"
definition EventRelationCreated :: string where [simp]: "EventRelationCreated = ''RelationCreated''"
definition EventRelationDissolved :: string where [simp]: "EventRelationDissolved = ''RelationDissolved''"
definition EventEntityTypeDefined :: string where [simp]: "EventEntityTypeDefined = ''EntityTypeDefined''"
definition EventRelationshipTypeDefined :: string where
  [simp]: "EventRelationshipTypeDefined = ''RelationshipTypeDefined''"

record event =
  ev_id :: string
  ev_peer :: string
  ev_type :: string
  ev_payload :: raw
  ev_time :: time
  ev_author :: string
  ev_client :: string
  ev_signature :: string

section \<open>Entities\<close>

record entity =
  e_id :: string
  e_type :: string
  e_peer :: string
  e_created_at :: time
  e_created_by :: string
  e_client :: string
  e_updated_at :: time
  e_archived_at :: "time option"
  e_data :: "obj option"
  e_embedding :: "string option"

definition zero_entity :: entity where
  "zero_entity = \<lparr>e_id = [], e_type = [], e_peer = [], e_created_at = 0, e_created_by = [],
     e_client = [], e_updated_at = 0, e_archived_at = None, e_data = None, e_embedding = None\<rparr>"

definition entity_json :: "entity \<Rightarrow> json" where
  "entity_json e = JObj
     ([(''id'', JStr (e_id e)), (''type'', JStr (e_type e)), (''peer_did'', JStr (e_peer e)),
       (''created_at'', enc_time (e_created_at e)), (''created_by_did'', JStr (e_created_by e)),
       (''created_by_client'', JStr (e_client e)), (''updated_at'', enc_time (e_updated_at e))]
      @ member_opt ''archived_at'' (map_option enc_time (e_archived_at e))
      @ [(''data'', enc_map (e_data e))]
      @ member_opt ''embedding_id'' (map_option JStr (e_embedding e)))"

definition assign_entity :: "string \<Rightarrow> json \<Rightarrow> entity \<Rightarrow> entity result" where
  "assign_entity k v e =
     (if k = ''id'' then set_string ''Entity.id'' v (\<lambda>x. e_id_update (\<lambda>_. x)) e
      else if k = ''type'' then set_string ''Entity.type'' v (\<lambda>x. e_type_update (\<lambda>_. x)) e
      else if k = ''peer_did'' then set_string ''Entity.peer_did'' v (\<lambda>x. e_peer_update (\<lambda>_. x)) e
      else if k = ''created_at'' then set_time ''Entity.created_at'' v (\<lambda>x. e_created_at_update (\<lambda>_. x)) e
      else if k = ''created_by_did'' then set_string ''Entity.created_by_did'' v (\<lambda>x. e_created_by_update (\<lambda>_. x)) e
      else if k = ''created_by_client'' then set_string ''Entity.created_by_client'' v (\<lambda>x. e_client_update (\<lambda>_. x)) e
      else if k = ''updated_at'' then set_time ''Entity.updated_at'' v (\<lambda>x. e_updated_at_update (\<lambda>_. x)) e
      else if k = ''archived_at'' then set_opt_time ''Entity.archived_at'' v (\<lambda>x. e_archived_at_update (\<lambda>_. x)) e
      else if k = ''data'' then set_map ''Entity.data'' v e_data_update e
      else if k = ''embedding_id'' then set_opt_string ''Entity.embedding_id'' v (\<lambda>x. e_embedding_update (\<lambda>_. x)) e
      else Inr e)"

definition decode_entity :: "raw \<Rightarrow> entity result" where
  "decode_entity r = unmarshal ''types.Entity'' assign_entity zero_entity r"

definition entity_ok :: "entity \<Rightarrow> bool" where
  "entity_ok e \<longleftrightarrow> time_ok (e_created_at e) \<and> time_ok (e_updated_at e)
     \<and> (case e_archived_at e of None \<Rightarrow> True | Some t \<Rightarrow> time_ok t)
     \<and> (case e_data e of None \<Rightarrow> True | Some m \<Rightarrow> obj_ok m)"

section \<open>Relations\<close>

record relation =
  r_id :: string
  r_from :: string
  r_to :: string
  r_type :: string
  r_peer :: string
  r_created_at :: time
  r_created_by :: string
  r_client :: string
  r_data :: "obj option"

definition relation_json :: "relation \<Rightarrow> json" where
  "relation_json r = JObj
     [(''id'', JStr (r_id r)), (''from'', JStr (r_from r)), (''to'', JStr (r_to r)),
      (''type'', JStr (r_type r)), (''peer_did'', JStr (r_peer r)),
      (''created_at'', enc_time (r_created_at r)), (''created_by_did'', JStr (r_created_by r)),
      (''created_by_client'', JStr (r_client r)), (''data'', enc_map (r_data r))]"

section \<open>Type definitions\<close>

record field_def =
  fd_name :: string
  fd_type :: string
  fd_elem :: string
  fd_required :: bool
  fd_default :: json
  fd_validation :: string
  fd_desc :: string

definition zero_field :: field_def where
  "zero_field = \<lparr>fd_name = [], fd_type = [], fd_elem = [], fd_required = False,
     fd_default = JNull, fd_validation = [], fd_desc = []\<rparr>"

definition nonempty_str :: "string \<Rightarrow> json option" where
  "nonempty_str s = (if s = [] then None else Some (JStr s))"

definition field_json :: "field_def \<Rightarrow> json" where
  "field_json f = JObj
     ([(''name'', JStr (fd_name f)), (''type'', JStr (fd_type f))]
      @ member_opt ''element_type'' (nonempty_str (fd_elem f))
      @ [(''required'', JBool (fd_required f))]
      @ member_opt ''default'' (if fd_default f = JNull then None else Some (fd_default f))
      @ member_opt ''validation'' (nonempty_str (fd_validation f))
      @ member_opt ''description'' (nonempty_str (fd_desc f)))"

definition assign_field :: "string \<Rightarrow> json \<Rightarrow> field_def \<Rightarrow> field_def result" where
  "assign_field k v f =
     (if k = ''name'' then set_string ''FieldDef.name'' v (\<lambda>x. fd_name_update (\<lambda>_. x)) f
      else if k = ''type'' then set_string ''FieldDef.type'' v (\<lambda>x. fd_type_update (\<lambda>_. x)) f
      else if k = ''element_type'' then set_string ''FieldDef.element_type'' v (\<lambda>x. fd_elem_update (\<lambda>_. x)) f
      else if k = ''required'' then set_bool ''FieldDef.required'' v (\<lambda>x. fd_required_update (\<lambda>_. x)) f
      else if k = ''default'' then Inr (f\<lparr>fd_default := normalize v\<rparr>)
      else if k = ''validation'' then set_string ''FieldDef.validation'' v (\<lambda>x. fd_validation_update (\<lambda>_. x)) f
      else if k = ''description'' then set_string ''FieldDef.description'' v (\<lambda>x. fd_desc_update (\<lambda>_. x)) f
      else Inr f)"

definition decode_field :: "json \<Rightarrow> field_def result" where
  "decode_field j = decode_struct ''types.FieldDef'' assign_field j zero_field"

text \<open>A slice of field definitions: \<open>null\<close> is the nil slice.\<close>

definition fields_json :: "field_def list option \<Rightarrow> json" where
  "fields_json fs = (case fs of None \<Rightarrow> JNull | Some fs \<Rightarrow> JArr (map field_json fs))"

definition set_fields ::
    "string \<Rightarrow> json \<Rightarrow> (field_def list option \<Rightarrow> 's \<Rightarrow> 's) \<Rightarrow> 's \<Rightarrow> 's result" where
  "set_fields fld j upd s = (case j of
      JNull \<Rightarrow> Inr (upd None s)
    | JArr js \<Rightarrow> and_then (mapM decode_field js) (\<lambda>fs. Inr (upd (Some fs) s))
    | _ \<Rightarrow> type_error j (''struct field '' @ fld @ '' of type []types.FieldDef''))"

record entity_type_def =
  et_name :: string
  et_peer :: string
  et_fields :: "field_def list option"
  et_desc :: string

record rel_type_def =
  rt_name :: string
  rt_peer :: string
  rt_fields :: "field_def list option"
  rt_desc :: string
  rt_directional :: bool

definition zero_entity_type :: entity_type_def where
  "zero_entity_type = \<lparr>et_name = [], et_peer = [], et_fields = None, et_desc = []\<rparr>"

definition zero_rel_type :: rel_type_def where
  "zero_rel_type = \<lparr>rt_name = [], rt_peer = [], rt_fields = None, rt_desc = [], rt_directional = False\<rparr>"

definition entity_type_json :: "entity_type_def \<Rightarrow> json" where
  "entity_type_json d = JObj
     ([(''name'', JStr (et_name d)), (''peer_did'', JStr (et_peer d)),
       (''fields'', fields_json (et_fields d))]
      @ member_opt ''description'' (nonempty_str (et_desc d)))"

definition rel_type_json :: "rel_type_def \<Rightarrow> json" where
  "rel_type_json d = JObj
     ([(''name'', JStr (rt_name d)), (''peer_did'', JStr (rt_peer d))]
      @ member_opt ''fields'' (case rt_fields d of
          None \<Rightarrow> None | Some [] \<Rightarrow> None | Some fs \<Rightarrow> Some (fields_json (Some fs)))
      @ member_opt ''description'' (nonempty_str (rt_desc d))
      @ [(''directional'', JBool (rt_directional d))])"

definition assign_entity_type :: "string \<Rightarrow> json \<Rightarrow> entity_type_def \<Rightarrow> entity_type_def result" where
  "assign_entity_type k v d =
     (if k = ''name'' then set_string ''EntityTypeDefinition.name'' v (\<lambda>x. et_name_update (\<lambda>_. x)) d
      else if k = ''peer_did'' then set_string ''EntityTypeDefinition.peer_did'' v (\<lambda>x. et_peer_update (\<lambda>_. x)) d
      else if k = ''fields'' then set_fields ''EntityTypeDefinition.fields'' v (\<lambda>x. et_fields_update (\<lambda>_. x)) d
      else if k = ''description'' then set_string ''EntityTypeDefinition.description'' v (\<lambda>x. et_desc_update (\<lambda>_. x)) d
      else Inr d)"

definition assign_rel_type :: "string \<Rightarrow> json \<Rightarrow> rel_type_def \<Rightarrow> rel_type_def result" where
  "assign_rel_type k v d =
     (if k = ''name'' then set_string ''RelationshipTypeDefinition.name'' v (\<lambda>x. rt_name_update (\<lambda>_. x)) d
      else if k = ''peer_did'' then set_string ''RelationshipTypeDefinition.peer_did'' v (\<lambda>x. rt_peer_update (\<lambda>_. x)) d
      else if k = ''fields'' then set_fields ''RelationshipTypeDefinition.fields'' v (\<lambda>x. rt_fields_update (\<lambda>_. x)) d
      else if k = ''description'' then set_string ''RelationshipTypeDefinition.description'' v (\<lambda>x. rt_desc_update (\<lambda>_. x)) d
      else if k = ''directional'' then set_bool ''RelationshipTypeDefinition.directional'' v (\<lambda>x. rt_directional_update (\<lambda>_. x)) d
      else Inr d)"

definition decode_entity_type :: "raw \<Rightarrow> entity_type_def result" where
  "decode_entity_type r = unmarshal ''types.EntityTypeDefinition'' assign_entity_type zero_entity_type r"

definition decode_rel_type :: "raw \<Rightarrow> rel_type_def result" where
  "decode_rel_type r = unmarshal ''types.RelationshipTypeDefinition'' assign_rel_type zero_rel_type r"

section \<open>Peers and tokens\<close>

record peer_settings =
  ps_threshold :: string
  ps_frequency :: string
  ps_briefing_time :: string
  ps_capture :: string

record peer =
  p_did :: string
  p_name :: string
  p_desc :: string
  p_private :: string
  p_public :: string
  p_created_at :: time
  p_settings :: peer_settings

record token =
  t_id :: string
  t_hash :: string
  t_peers :: "string list"
  t_label :: string
  t_created_at :: time
  t_last_used :: time

section \<open>Queries and federation messages\<close>

record entity_query =
  q_type :: string
  q_filters :: "obj option"
  q_limit :: int
  q_archived :: bool

definition zero_query :: entity_query where
  "zero_query = \<lparr>q_type = [], q_filters = None, q_limit = 0, q_archived = False\<rparr>"

definition query_json :: "entity_query \<Rightarrow> json" where
  "query_json q = JObj
     ([(''type'', JStr (q_type q))]
      @ member_opt ''filters'' (case q_filters q of None \<Rightarrow> None | Some [] \<Rightarrow> None | Some m \<Rightarrow> Some (JObj m))
      @ member_opt ''limit'' (if q_limit q = 0 then None else Some (enc_int (q_limit q)))
      @ member_opt ''include_archived'' (if q_archived q then Some (JBool True) else None))"

definition assign_query :: "string \<Rightarrow> json \<Rightarrow> entity_query \<Rightarrow> entity_query result" where
  "assign_query k v q =
     (if k = ''type'' then set_string ''EntityQuery.type'' v (\<lambda>x. q_type_update (\<lambda>_. x)) q
      else if k = ''filters'' then set_map ''EntityQuery.filters'' v q_filters_update q
      else if k = ''limit'' then set_int ''EntityQuery.limit'' v (\<lambda>x. q_limit_update (\<lambda>_. x)) q
      else if k = ''include_archived'' then set_bool ''EntityQuery.include_archived'' v (\<lambda>x. q_archived_update (\<lambda>_. x)) q
      else Inr q)"

definition decode_query :: "raw \<Rightarrow> entity_query result" where
  "decode_query r = unmarshal ''types.EntityQuery'' assign_query zero_query r"

record hit =
  h_entity :: entity
  h_score :: rat

definition FedMsgQuery :: string where [simp]: "FedMsgQuery = ''Query''"
definition FedMsgWrite :: string where [simp]: "FedMsgWrite = ''Write''"
definition FedMsgResponse :: string where [simp]: "FedMsgResponse = ''Response''"
definition FedMsgError :: string where [simp]: "FedMsgError = ''Error''"
definition FedMsgPing :: string where [simp]: "FedMsgPing = ''Ping''"

record fed_message =
  m_version :: string
  m_source :: string
  m_target :: string
  m_type :: string
  m_payload :: raw
  m_auth :: string
  m_id :: string
  m_time :: time

definition zero_message :: fed_message where
  "zero_message = \<lparr>m_version = [], m_source = [], m_target = [], m_type = [], m_payload = Empty,
     m_auth = [], m_id = [], m_time = 0\<rparr>"

section \<open>Decoding inverts encoding\<close>

definition plain_key :: "string \<Rightarrow> bool" where
  "plain_key k \<longleftrightarrow> list_all (\<lambda>c. byte_of c < 128 \<and> \<not> (65 \<le> byte_of c \<and> byte_of c \<le> 90)) k"

lemma fold_name_Cons: "byte_of c < 128 \<Longrightarrow> fold_name (c # s) = lower_char c # fold_name s"
proof (cases s)
  case (Cons d r)
  assume "byte_of c < 128"
  with Cons show ?thesis by (subst Cons) (subst fold_name.simps(1), simp split: list.split)
qed simp

lemma fold_name_plain: "plain_key k \<Longrightarrow> fold_name k = k"
  by (induction k) (auto simp: plain_key_def fold_name_Cons lower_char_def simp del: fold_name.simps(1))

declare fold_name.simps [simp del]

lemma fold_keys [simp]:
  "fold_name ''id'' = ''id''" "fold_name ''type'' = ''type''" "fold_name ''peer_did'' = ''peer_did''"
  "fold_name ''created_at'' = ''created_at''" "fold_name ''created_by_did'' = ''created_by_did''"
  "fold_name ''created_by_client'' = ''created_by_client''" "fold_name ''updated_at'' = ''updated_at''"
  "fold_name ''archived_at'' = ''archived_at''" "fold_name ''data'' = ''data''"
  "fold_name ''embedding_id'' = ''embedding_id''" "fold_name ''name'' = ''name''"
  "fold_name ''element_type'' = ''element_type''" "fold_name ''required'' = ''required''"
  "fold_name ''default'' = ''default''" "fold_name ''validation'' = ''validation''"
  "fold_name ''description'' = ''description''" "fold_name ''fields'' = ''fields''"
  "fold_name ''directional'' = ''directional''" "fold_name ''filters'' = ''filters''"
  "fold_name ''limit'' = ''limit''" "fold_name ''include_archived'' = ''include_archived''"
  "fold_name ''op'' = ''op''" "fold_name ''args'' = ''args''"
  "fold_name ''author_did'' = ''author_did''" "fold_name ''client_id'' = ''client_id''"
  by (rule fold_name_plain, simp add: plain_key_def byte_of_def)+

lemma foldM_append: "foldM f (xs @ ys) s = and_then (foldM f xs s) (foldM f ys)"
  by (induction xs arbitrary: s) (auto split: sum.split, metis and_then.simps sum.exhaust)

lemmas struct_simps = decode_struct_def unmarshal_def raw_doc_def foldM_append

lemma assign_entity_keys:
  "assign_entity ''id'' v e = set_string ''Entity.id'' v (\<lambda>x. e_id_update (\<lambda>_. x)) e"
  "assign_entity ''type'' v e = set_string ''Entity.type'' v (\<lambda>x. e_type_update (\<lambda>_. x)) e"
  "assign_entity ''peer_did'' v e = set_string ''Entity.peer_did'' v (\<lambda>x. e_peer_update (\<lambda>_. x)) e"
  "assign_entity ''created_at'' v e = set_time ''Entity.created_at'' v (\<lambda>x. e_created_at_update (\<lambda>_. x)) e"
  "assign_entity ''created_by_did'' v e = set_string ''Entity.created_by_did'' v (\<lambda>x. e_created_by_update (\<lambda>_. x)) e"
  "assign_entity ''created_by_client'' v e = set_string ''Entity.created_by_client'' v (\<lambda>x. e_client_update (\<lambda>_. x)) e"
  "assign_entity ''updated_at'' v e = set_time ''Entity.updated_at'' v (\<lambda>x. e_updated_at_update (\<lambda>_. x)) e"
  "assign_entity ''archived_at'' v e = set_opt_time ''Entity.archived_at'' v (\<lambda>x. e_archived_at_update (\<lambda>_. x)) e"
  "assign_entity ''data'' v e = set_map ''Entity.data'' v e_data_update e"
  "assign_entity ''embedding_id'' v e = set_opt_string ''Entity.embedding_id'' v (\<lambda>x. e_embedding_update (\<lambda>_. x)) e"
  by (simp_all add: assign_entity_def)

lemma set_map_JNull [simp]: "set_map fld JNull upd s = Inr (upd (\<lambda>_. None) s)"
  by (simp add: set_map_def)

lemma decode_entity_json:
  assumes "entity_ok e"
  shows "decode_entity (Doc (entity_json e)) = Inr e"
proof (cases e)
  case (fields i ty pd ca cb cl ua ar da em)
  have ok: "case ar of None \<Rightarrow> True | Some t \<Rightarrow> time_ok t"
    and da_ok: "case da of None \<Rightarrow> True | Some m \<Rightarrow> obj_ok m"
    and times: "time_ok ca" "time_ok ua"
    using assms unfolding fields entity_ok_def by simp_all
  have arch: "foldM (\<lambda>(k, v). assign_entity (fold_name k) v) (member_opt ''archived_at'' (map_option enc_time ar)) e0
      = Inr (e0\<lparr>e_archived_at := ar\<rparr>)" if "e_archived_at e0 = None" for e0
    using ok that by (cases ar; cases e0) (simp_all add: member_opt_def assign_entity_keys)
  have data: "set_map fld (enc_map da) e_data_update e0 = Inr (e0\<lparr>e_data := da\<rparr>)"
    if "e_data e0 = None" for fld e0
    using da_ok that
    by (cases da; cases e0) (simp_all add: enc_map_def set_map_enc mputs_self obj_ok_def)
  have emb: "foldM (\<lambda>(k, v). assign_entity (fold_name k) v) (member_opt ''embedding_id'' (map_option JStr em)) e0
      = Inr (e0\<lparr>e_embedding := em\<rparr>)" if "e_embedding e0 = None" for e0
    using that by (cases em; cases e0) (simp_all add: member_opt_def assign_entity_keys)
  show ?thesis
    using times
    by (simp add: fields decode_entity_def struct_simps entity_json_def assign_entity_keys
        zero_entity_def arch data emb)
qed

interpretation entity_codec: codec "\<lambda>e. Doc (entity_json e)" decode_entity entity_ok
  by unfold_locales (rule decode_entity_json)

definition field_ok :: "field_def \<Rightarrow> bool" where
  "field_ok f \<longleftrightarrow> json_ok (fd_default f)"

lemma assign_field_keys:
  "assign_field ''name'' v f = set_string ''FieldDef.name'' v (\<lambda>x. fd_name_update (\<lambda>_. x)) f"
  "assign_field ''type'' v f = set_string ''FieldDef.type'' v (\<lambda>x. fd_type_update (\<lambda>_. x)) f"
  "assign_field ''element_type'' v f = set_string ''FieldDef.element_type'' v (\<lambda>x. fd_elem_update (\<lambda>_. x)) f"
  "assign_field ''required'' v f = set_bool ''FieldDef.required'' v (\<lambda>x. fd_required_update (\<lambda>_. x)) f"
  "assign_field ''default'' v f = Inr (f\<lparr>fd_default := normalize v\<rparr>)"
  "assign_field ''validation'' v f = set_string ''FieldDef.validation'' v (\<lambda>x. fd_validation_update (\<lambda>_. x)) f"
  "assign_field ''description'' v f = set_string ''FieldDef.description'' v (\<lambda>x. fd_desc_update (\<lambda>_. x)) f"
  by (simp_all add: assign_field_def)

text \<open>A definition also survives the detour through \<open>map[string]any\<close> that storing it takes.\<close>

lemma decode_field_json: "field_ok f \<Longrightarrow> decode_field (field_json f) = Inr f"
  and decode_field_any: "field_ok f \<Longrightarrow> decode_field (normalize (field_json f)) = Inr f"
  by (cases f; auto simp: decode_field_def struct_simps field_json_def assign_field_keys
      zero_field_def nonempty_str_def field_ok_def normalize_id member_opt_def)+

interpretation field_codec: codec field_json decode_field field_ok
  by unfold_locales (rule decode_field_json)

interpretation field_any_codec: codec "\<lambda>f. normalize (field_json f)" decode_field field_ok
  by unfold_locales (rule decode_field_any)

definition fields_ok :: "field_def list option \<Rightarrow> bool" where
  "fields_ok fs \<longleftrightarrow> (case fs of None \<Rightarrow> True | Some fs \<Rightarrow> \<forall>f \<in> set fs. field_ok f)"

lemma set_fields_json: "fields_ok fs \<Longrightarrow> set_fields fld (fields_json fs) upd s = Inr (upd fs s)"
  using field_codec.dec_enc_list
  by (cases fs) (auto simp: set_fields_def fields_json_def fields_ok_def)

lemma set_fields_any: "fields_ok fs \<Longrightarrow> set_fields fld (normalize (fields_json fs)) upd s = Inr (upd fs s)"
  using field_any_codec.dec_enc_list
  by (cases fs) (auto simp: set_fields_def fields_json_def fields_ok_def normalize_list_map comp_def)

definition entity_type_ok :: "entity_type_def \<Rightarrow> bool" where
  "entity_type_ok d \<longleftrightarrow> fields_ok (et_fields d)"

definition rel_type_ok :: "rel_type_def \<Rightarrow> bool" where
  "rel_type_ok d \<longleftrightarrow> fields_ok (rt_fields d) \<and> rt_fields d \<noteq> Some []"

lemma assign_entity_type_keys:
  "assign_entity_type ''name'' v d = set_string ''EntityTypeDefinition.name'' v (\<lambda>x. et_name_update (\<lambda>_. x)) d"
  "assign_entity_type ''peer_did'' v d = set_string ''EntityTypeDefinition.peer_did'' v (\<lambda>x. et_peer_update (\<lambda>_. x)) d"
  "assign_entity_type ''fields'' v d = set_fields ''EntityTypeDefinition.fields'' v (\<lambda>x. et_fields_update (\<lambda>_. x)) d"
  "assign_entity_type ''description'' v d = set_string ''EntityTypeDefinition.description'' v (\<lambda>x. et_desc_update (\<lambda>_. x)) d"
  by (simp_all add: assign_entity_type_def)

lemma assign_rel_type_keys:
  "assign_rel_type ''name'' v d = set_string ''RelationshipTypeDefinition.name'' v (\<lambda>x. rt_name_update (\<lambda>_. x)) d"
  "assign_rel_type ''peer_did'' v d = set_string ''RelationshipTypeDefinition.peer_did'' v (\<lambda>x. rt_peer_update (\<lambda>_. x)) d"
  "assign_rel_type ''fields'' v d = set_fields ''RelationshipTypeDefinition.fields'' v (\<lambda>x. rt_fields_update (\<lambda>_. x)) d"
  "assign_rel_type ''description'' v d = set_string ''RelationshipTypeDefinition.description'' v (\<lambda>x. rt_desc_update (\<lambda>_. x)) d"
  "assign_rel_type ''directional'' v d = set_bool ''RelationshipTypeDefinition.directional'' v (\<lambda>x. rt_directional_update (\<lambda>_. x)) d"
  by (simp_all add: assign_rel_type_def)

lemma decode_entity_type_any:
  "entity_type_ok d \<Longrightarrow> decode_entity_type (Doc (normalize (entity_type_json d))) = Inr d"
  by (cases d) (auto simp: decode_entity_type_def struct_simps entity_type_json_def
      assign_entity_type_keys zero_entity_type_def nonempty_str_def entity_type_ok_def
      member_opt_def set_fields_any)

lemma decode_rel_type_any:
  "rel_type_ok d \<Longrightarrow> decode_rel_type (Doc (normalize (rel_type_json d))) = Inr d"
proof (cases d)
  case (fields n p fs ds di)
  assume ok: "rel_type_ok d"
  show ?thesis
  proof (cases fs)
    case None
    with fields show ?thesis
      by (auto simp: decode_rel_type_def struct_simps rel_type_json_def assign_rel_type_keys
          zero_rel_type_def nonempty_str_def member_opt_def)
  next
    case (Some gs)
    with ok fields obtain g gs' where gs: "gs = g # gs'" and fok: "fields_ok (Some gs)"
      by (cases gs) (auto simp: rel_type_ok_def)
    show ?thesis
      using fields Some
      by (auto simp: decode_rel_type_def struct_simps rel_type_json_def assign_rel_type_keys
          zero_rel_type_def nonempty_str_def member_opt_def gs set_fields_any [OF fok [unfolded gs]])
  qed
qed

interpretation entity_type_codec:
  codec "\<lambda>d. Doc (normalize (entity_type_json d))" decode_entity_type entity_type_ok
  by unfold_locales (rule decode_entity_type_any)

interpretation rel_type_codec:
  codec "\<lambda>d. Doc (normalize (rel_type_json d))" decode_rel_type rel_type_ok
  by unfold_locales (rule decode_rel_type_any)

section \<open>Wire formats\<close>

text \<open>A stored timestamp is read back exactly, to the nanosecond, for every instant of the years 0 to
  9999.\<close>

theorem timestamp_roundtrip: "time_ok t \<Longrightarrow> parse_time (format_time t) = Inr t"
  by (rule time_text.dec_enc)


text \<open>A type definition that is stored as the data of an entity, by way of a generic map, is restored
  from it unchanged; for a relationship type, up to an empty list of fields, which is left out.\<close>

theorem type_definition_roundtrip:
  assumes "entity_type_ok d" and "rel_type_ok r"
  shows "decode_entity_type (Doc (normalize (entity_type_json d))) = Inr d
    \<and> decode_rel_type (Doc (normalize (rel_type_json r))) = Inr r"
  using entity_type_codec.dec_enc [OF assms(1)] rel_type_codec.dec_enc [OF assms(2)] by blast

lemma timestamp_roundtrip_witness: "parse_time (format_time (5 * nanos + 7)) = Inr (5 * nanos + 7)"
  by (rule timestamp_roundtrip) (simp add: time_ok_def nanos_def)


lemma type_definition_roundtrip_witness:
  "decode_entity_type (Doc (normalize (entity_type_json (zero_entity_type\<lparr>et_name := ''T'', et_fields := Some [zero_field]\<rparr>))))
     = Inr (zero_entity_type\<lparr>et_name := ''T'', et_fields := Some [zero_field]\<rparr>)"
proof -
  have "entity_type_ok (zero_entity_type\<lparr>et_name := ''T'', et_fields := Some [zero_field]\<rparr>)" "rel_type_ok zero_rel_type"
    by (simp_all add: entity_type_ok_def zero_entity_type_def fields_ok_def field_ok_def zero_field_def rel_type_ok_def zero_rel_type_def)
  from type_definition_roundtrip [OF this] show ?thesis by blast
qed

end
