(* ===== verification/Store.thy ===== *)
theory Store
  imports Coggo_Types
begin

text \<open>
  The persistence layer, internal/store/sqlite.go: the tables of the SQLite database as lists
  of rows in insertion order, and each operation of \<open>types.Store\<close> as a function of the
  database. Timestamps are stored as text and compared as text, as the SQL does.

  What SQLite and its vector extension compute, and the sources do not, are the fields of
  \<open>sqlite\<close>: whether a JSON path of a row's data equals a value, whether the data contains
  a text, and the nearest neighbours of a vector. Each statement can fail in the driver:
  the argument \<open>io\<close> of an operation is that failure, \<open>None\<close> when the statement runs.
  A statement that fails leaves the database as it was.
\<close>

section \<open>Tables\<close>

record event_row =
  vr_id :: string
  vr_peer :: string
  vr_type :: string
  vr_payload :: raw
  vr_time :: string
  vr_author :: string
  vr_client :: string
  vr_signature :: string

record entity_record =
  er_id :: string
  er_type :: string
  er_peer :: string
  er_created_at :: string
  er_created_by :: string
  er_client :: string
  er_updated_at :: string
  er_archived_at :: "string option"
  er_data :: raw
  er_embedding :: "string option"

record relation_record =
  rr_id :: string
  rr_from :: string
  rr_to :: string
  rr_type :: string
  rr_peer :: string
  rr_created_at :: string
  rr_created_by :: string
  rr_client :: string
  rr_data :: raw

record embedding_row =
  br_entity :: string
  br_peer :: string
  br_model :: string
  br_created_at :: string

record db =
  d_events :: "event_row list"
  d_entities :: "entity_record list"
  d_relations :: "relation_record list"
  d_meta :: "embedding_row list"
  d_vectors :: "(string \<times> rat list) list"
  d_dim :: int

record sqlite =
  sq_json_eq :: "raw \<Rightarrow> string \<Rightarrow> json \<Rightarrow> bool"
  sq_like :: "raw \<Rightarrow> string \<Rightarrow> bool"
  sq_knn :: "(string \<times> rat list) list \<Rightarrow> rat list \<Rightarrow> int \<Rightarrow> (string \<times> rat) list"

text \<open>\<open>New\<close> followed by \<open>Init\<close> on a fresh file.\<close>

definition new_store :: "string \<Rightarrow> int \<Rightarrow> db result" where
  "new_store path n =
     (if path = [] then Inl (Errorf ''store: db path required'')
      else if n \<le> 0 then Inl (Errorf (''store: vector dimension must be positive, got '' @ show_int n))
      else Inr \<lparr>d_events = [], d_entities = [], d_relations = [], d_meta = [], d_vectors = [], d_dim = n\<rparr>)"

text \<open>Rows of one table, keyed by a text primary key: INSERT OR REPLACE and lookup.\<close>

definition replace_row :: "('r \<Rightarrow> string) \<Rightarrow> 'r \<Rightarrow> 'r list \<Rightarrow> 'r list" where
  "replace_row key r rows = filter (\<lambda>x. key x \<noteq> key r) rows @ [r]"

definition row_of :: "('r \<Rightarrow> string) \<Rightarrow> 'r list \<Rightarrow> string \<Rightarrow> 'r option" where
  "row_of key rows k = find (\<lambda>r. key r = k) rows"

text \<open>ORDER BY a timestamp column, then by id.\<close>

datatype row_key = RowKey string string

instantiation row_key :: linorder
begin

definition less_eq_row_key :: "row_key \<Rightarrow> row_key \<Rightarrow> bool" where
  "less_eq_row_key a b =
     (case a of RowKey t i \<Rightarrow> case b of RowKey t' i' \<Rightarrow> t < t' \<or> t = t' \<and> i \<le> i')"

definition less_row_key :: "row_key \<Rightarrow> row_key \<Rightarrow> bool" where
  "less_row_key a b =
     (case a of RowKey t i \<Rightarrow> case b of RowKey t' i' \<Rightarrow> t < t' \<or> t = t' \<and> i < i')"

instance
  by standard (auto simp: less_eq_row_key_def less_row_key_def split: row_key.splits)

end

definition exec :: "error option \<Rightarrow> db result \<Rightarrow> db result" where
  "exec io r = (case io of Some e \<Rightarrow> Inl e | None \<Rightarrow> r)"

section \<open>Events\<close>

definition insert_event :: "event_row \<Rightarrow> db \<Rightarrow> db result" where
  "insert_event r db =
     (if vr_id r \<in> vr_id ` set (d_events db) then Inl (Errorf ''UNIQUE constraint failed: events.id'')
      else Inr (db\<lparr>d_events := d_events db @ [r]\<rparr>))"

definition append_event :: "error option \<Rightarrow> time \<Rightarrow> string \<Rightarrow> event option \<Rightarrow> db \<Rightarrow> db result" where
  "append_event io now ulid ev db = (case ev of
      None \<Rightarrow> Inl (Errorf ''store: AppendEvent: nil event'')
    | Some ev \<Rightarrow>
        if ev_peer ev = [] then Inl (Errorf ''store: AppendEvent: missing peer_did'')
        else if ev_type ev = [] then Inl (Errorf ''store: AppendEvent: missing type'')
        else
          (let i = (if ev_id ev = [] then ulid else ev_id ev);
               t = (if ev_time ev = 0 then now else ev_time ev);
               payload = (case ev_payload ev of Empty \<Rightarrow> Doc JNull | p \<Rightarrow> p);
               row = \<lparr>vr_id = i, vr_peer = ev_peer ev, vr_type = ev_type ev, vr_payload = payload,
                  vr_time = format_time t, vr_author = ev_author ev, vr_client = ev_client ev,
                  vr_signature = ev_signature ev\<rparr>
           in case exec io (insert_event row db) of
                Inl e \<Rightarrow> Inl (Wrap (''store: insert event '' @ i) e)
              | Inr db' \<Rightarrow> Inr db'))"

text \<open>
  The triggers \<open>events_no_update\<close> and \<open>events_no_delete\<close>: an UPDATE or DELETE
  statement aborts when it would touch a row.
\<close>

definition sql_update_events :: "(event_row \<Rightarrow> bool) \<Rightarrow> (event_row \<Rightarrow> event_row) \<Rightarrow> db \<Rightarrow> db result" where
  "sql_update_events p f db =
     (if \<exists>r \<in> set (d_events db). p r then Inl (Errorf ''events table is append-only'') else Inr db)"

definition sql_delete_events :: "(event_row \<Rightarrow> bool) \<Rightarrow> db \<Rightarrow> db result" where
  "sql_delete_events p db =
     (if \<exists>r \<in> set (d_events db). p r then Inl (Errorf ''events table is append-only'') else Inr db)"

definition scan_event :: "event_row \<Rightarrow> event result" where
  "scan_event r = (case parse_time (vr_time r) of
      Inl e \<Rightarrow> Inl (Wrap (''store: parse event timestamp '' @ quote_go (vr_time r)) e)
    | Inr t \<Rightarrow> Inr \<lparr>ev_id = vr_id r, ev_peer = vr_peer r, ev_type = vr_type r,
        ev_payload = vr_payload r, ev_time = t, ev_author = vr_author r, ev_client = vr_client r,
        ev_signature = vr_signature r\<rparr>)"

definition event_key :: "event_row \<Rightarrow> row_key" where
  "event_key r = RowKey (vr_time r) (vr_id r)"

definition select_events :: "string \<Rightarrow> time \<Rightarrow> time \<Rightarrow> db \<Rightarrow> event_row list" where
  "select_events did since until db =
     sort_key event_key (filter (\<lambda>r. vr_peer r = did
         \<and> (since \<noteq> 0 \<longrightarrow> format_time since \<le> vr_time r)
         \<and> (until \<noteq> 0 \<longrightarrow> vr_time r \<le> format_time until)) (d_events db))"

definition list_events :: "error option \<Rightarrow> string \<Rightarrow> time \<Rightarrow> time \<Rightarrow> db \<Rightarrow> event list result" where
  "list_events io did since until db = (case io of
      Some e \<Rightarrow> Inl (Wrap (''store: query events for '' @ did) e)
    | None \<Rightarrow> mapM scan_event (select_events did since until db))"

section \<open>Entities\<close>

definition data_raw :: "obj option \<Rightarrow> raw" where
  "data_raw m = Doc (JObj (case m of None \<Rightarrow> [] | Some kvs \<Rightarrow> kvs))"

definition entity_row :: "entity \<Rightarrow> entity_record" where
  "entity_row e = \<lparr>er_id = e_id e, er_type = e_type e, er_peer = e_peer e,
     er_created_at = format_time (e_created_at e), er_created_by = e_created_by e,
     er_client = e_client e, er_updated_at = format_time (e_updated_at e),
     er_archived_at = map_option format_time (e_archived_at e),
     er_data = data_raw (e_data e), er_embedding = e_embedding e\<rparr>"

text \<open>
  \<open>UpsertEntity\<close> fills in missing times of the entity it is given, which the caller
  sees: the completed entity is part of the result.
\<close>

definition upsert_entity :: "error option \<Rightarrow> time \<Rightarrow> entity option \<Rightarrow> db \<Rightarrow> (entity \<times> db) result" where
  "upsert_entity io now e db = (case e of
      None \<Rightarrow> Inl (Errorf ''store: UpsertEntity: nil entity'')
    | Some e \<Rightarrow>
        if e_id e = [] then Inl (Errorf ''store: UpsertEntity: missing id'')
        else if e_peer e = [] then Inl (Errorf ''store: UpsertEntity: missing peer_did'')
        else
          (let e1 = (if e_created_at e = 0 then e\<lparr>e_created_at := now\<rparr> else e);
               e2 = (if e_updated_at e1 = 0 then e1\<lparr>e_updated_at := now\<rparr> else e1)
           in case exec io (Inr (db\<lparr>d_entities := replace_row er_id (entity_row e2) (d_entities db)\<rparr>)) of
                Inl err \<Rightarrow> Inl (Wrap (''store: upsert entity '' @ e_id e) err)
              | Inr db' \<Rightarrow> Inr (e2, db')))"

definition archive_entity ::
    "error option \<Rightarrow> time \<Rightarrow> string \<Rightarrow> string \<Rightarrow> time \<Rightarrow> db \<Rightarrow> db result" where
  "archive_entity io now did i ts db =
     (if did = [] \<or> i = [] then Inl (Errorf ''store: ArchiveEntity: peer_did and id required'')
      else
        (let ts' = (if ts = 0 then now else ts);
             hit = (\<lambda>r. er_peer r = did \<and> er_id r = i);
             upd = (\<lambda>r. if hit r
                then r\<lparr>er_archived_at := Some (format_time ts'), er_updated_at := format_time ts'\<rparr> else r)
         in case exec io (Inr (db\<lparr>d_entities := map upd (d_entities db)\<rparr>)) of
              Inl e \<Rightarrow> Inl (Wrap (''store: archive entity '' @ i) e)
            | Inr db' \<Rightarrow>
                if list_ex hit (d_entities db) then Inr db'
                else Inl (Errorf (''store: archive entity '' @ i @ '': not found for peer '' @ did))))"

definition scan_time :: "string \<Rightarrow> string \<Rightarrow> time result" where
  "scan_time col s = (case parse_time s of
      Inl e \<Rightarrow> Inl (Wrap (''parse '' @ col @ '' '' @ quote_go s) e) | Inr t \<Rightarrow> Inr t)"

text \<open>Decoding a data column into a fresh \<open>map[string]any\<close>.\<close>

definition decode_map :: "raw \<Rightarrow> obj option result" where
  "decode_map r = and_then (raw_doc r) (\<lambda>j. case j of
      JNull \<Rightarrow> Inr None
    | JObj kvs \<Rightarrow> Inr (Some (mputs (normalize_members kvs) []))
    | _ \<Rightarrow> type_error j ''value of type map[string]interface {}'')"

definition scan_data :: "raw \<Rightarrow> obj option result" where
  "scan_data r = (if r = Empty then Inr (Some []) else
     (case decode_map r of Inl e \<Rightarrow> Inl (Wrap ''unmarshal entity data'' e) | Inr m \<Rightarrow> Inr m))"

definition scan_entity :: "entity_record \<Rightarrow> entity result" where
  "scan_entity r =
     and_then (scan_time ''created_at'' (er_created_at r)) (\<lambda>ca.
     and_then (scan_time ''updated_at'' (er_updated_at r)) (\<lambda>ua.
     and_then (case er_archived_at r of
        None \<Rightarrow> Inr None | Some s \<Rightarrow> map_result Some (scan_time ''archived_at'' s)) (\<lambda>ar.
     and_then (scan_data (er_data r)) (\<lambda>m.
       Inr \<lparr>e_id = er_id r, e_type = er_type r, e_peer = er_peer r, e_created_at = ca,
         e_created_by = er_created_by r, e_client = er_client r, e_updated_at = ua,
         e_archived_at = ar, e_data = m, e_embedding = er_embedding r\<rparr>))))"

definition get_entity :: "error option \<Rightarrow> string \<Rightarrow> string \<Rightarrow> db \<Rightarrow> entity option result" where
  "get_entity io did i db = (case io of
      Some e \<Rightarrow> Inl (Wrap (''store: get entity '' @ i) e)
    | None \<Rightarrow> (case find (\<lambda>r. er_peer r = did \<and> er_id r = i) (d_entities db) of
          None \<Rightarrow> Inr None
        | Some r \<Rightarrow> (case scan_entity r of
              Inl e \<Rightarrow> Inl (Wrap (''store: get entity '' @ i) e)
            | Inr x \<Rightarrow> Inr (Some x))))"

definition default_limit :: "int \<Rightarrow> int \<Rightarrow> int" where
  "default_limit d n = (if n \<le> 0 then d else n)"

definition entity_key :: "entity_record \<Rightarrow> row_key" where
  "entity_key r = RowKey (er_created_at r) (er_id r)"

definition match_entity :: "sqlite \<Rightarrow> string \<Rightarrow> entity_query \<Rightarrow> entity_record \<Rightarrow> bool" where
  "match_entity sq did q r \<longleftrightarrow> er_peer r = did
     \<and> (q_type q \<noteq> [] \<longrightarrow> er_type r = q_type q)
     \<and> (\<not> q_archived q \<longrightarrow> er_archived_at r = None)
     \<and> list_all (\<lambda>(k, v). sq_json_eq sq (er_data r) k v) (case q_filters q of None \<Rightarrow> [] | Some m \<Rightarrow> m)"

definition select_entities :: "sqlite \<Rightarrow> string \<Rightarrow> entity_query \<Rightarrow> db \<Rightarrow> entity_record list" where
  "select_entities sq did q db =
     take (nat (default_limit 50 (q_limit q)))
       (rev (sort_key entity_key (filter (match_entity sq did q) (d_entities db))))"

definition query_entities ::
    "sqlite \<Rightarrow> error option \<Rightarrow> string \<Rightarrow> entity_query \<Rightarrow> db \<Rightarrow> entity list result" where
  "query_entities sq io did q db = (case io of
      Some e \<Rightarrow> Inl (Wrap ''store: query entities'' e)
    | None \<Rightarrow> (case mapM scan_entity (select_entities sq did q db) of
          Inl e \<Rightarrow> Inl (Wrap ''store: scan entity row'' e) | Inr es \<Rightarrow> Inr es))"

section \<open>Relations\<close>

definition relation_row :: "relation \<Rightarrow> relation_record" where
  "relation_row r = \<lparr>rr_id = r_id r, rr_from = r_from r, rr_to = r_to r, rr_type = r_type r,
     rr_peer = r_peer r, rr_created_at = format_time (r_created_at r),
     rr_created_by = r_created_by r, rr_client = r_client r, rr_data = data_raw (r_data r)\<rparr>"

definition upsert_relation ::
    "error option \<Rightarrow> time \<Rightarrow> relation option \<Rightarrow> db \<Rightarrow> (relation \<times> db) result" where
  "upsert_relation io now r db = (case r of
      None \<Rightarrow> Inl (Errorf ''store: UpsertRelation: nil relation'')
    | Some r \<Rightarrow>
        if r_id r = [] then Inl (Errorf ''store: UpsertRelation: missing id'')
        else if r_peer r = [] \<or> r_from r = [] \<or> r_to r = [] \<or> r_type r = []
        then Inl (Errorf ''store: UpsertRelation: peer_did, from, to, type required'')
        else
          (let r' = (if r_created_at r = 0 then r\<lparr>r_created_at := now\<rparr> else r)
           in case exec io (Inr (db\<lparr>d_relations := replace_row rr_id (relation_row r') (d_relations db)\<rparr>)) of
                Inl e \<Rightarrow> Inl (Wrap (''store: upsert relation '' @ r_id r) e)
              | Inr db' \<Rightarrow> Inr (r', db')))"

definition dissolve_relation :: "error option \<Rightarrow> string \<Rightarrow> string \<Rightarrow> db \<Rightarrow> db result" where
  "dissolve_relation io did i db =
     (if did = [] \<or> i = [] then Inl (Errorf ''store: DissolveRelation: peer_did and id required'')
      else
        (let hit = (\<lambda>r. rr_peer r = did \<and> rr_id r = i)
         in case exec io (Inr (db\<lparr>d_relations := filter (\<lambda>r. \<not> hit r) (d_relations db)\<rparr>)) of
              Inl e \<Rightarrow> Inl (Wrap (''store: dissolve relation '' @ i) e)
            | Inr db' \<Rightarrow>
                if list_ex hit (d_relations db) then Inr db'
                else Inl (Errorf (''store: dissolve relation '' @ i @ '': not found for peer '' @ did))))"

definition scan_relation :: "relation_record \<Rightarrow> relation result" where
  "scan_relation r = (case parse_time (rr_created_at r) of
      Inl e \<Rightarrow> Inl (Wrap ''store: parse relation timestamp'' e)
    | Inr t \<Rightarrow> (case decode_map (rr_data r) of
          Inl e \<Rightarrow> Inl (Wrap (''store: unmarshal relation '' @ rr_id r @ '' data'') e)
        | Inr m \<Rightarrow> Inr \<lparr>r_id = rr_id r, r_from = rr_from r, r_to = rr_to r, r_type = rr_type r,
            r_peer = rr_peer r, r_created_at = t, r_created_by = rr_created_by r,
            r_client = rr_client r, r_data = m\<rparr>))"

definition relation_key :: "relation_record \<Rightarrow> row_key" where
  "relation_key r = RowKey (rr_created_at r) (rr_id r)"

definition match_relation :: "string \<Rightarrow> string \<Rightarrow> string \<Rightarrow> string \<Rightarrow> relation_record \<Rightarrow> bool" where
  "match_relation did from to ty r \<longleftrightarrow> rr_peer r = did \<and> (from \<noteq> [] \<longrightarrow> rr_from r = from)
     \<and> (to \<noteq> [] \<longrightarrow> rr_to r = to) \<and> (ty \<noteq> [] \<longrightarrow> rr_type r = ty)"

definition query_relations ::
    "error option \<Rightarrow> string \<Rightarrow> string \<Rightarrow> string \<Rightarrow> string \<Rightarrow> int \<Rightarrow> db \<Rightarrow> relation list result" where
  "query_relations io did from to ty limit db = (case io of
      Some e \<Rightarrow> Inl (Wrap ''store: query relations'' e)
    | None \<Rightarrow> mapM scan_relation
        (take (nat (default_limit 50 limit))
          (rev (sort_key relation_key (filter (match_relation did from to ty) (d_relations db))))))"

section \<open>Embeddings and search\<close>

text \<open>
  \<open>UpsertEmbedding\<close> runs in one transaction: the failure of any of its statements
  (\<open>io\<close> carries the stage's message and the driver's error) rolls everything back.
\<close>

definition upsert_embedding ::
    "(string \<times> error) option \<Rightarrow> time \<Rightarrow> string \<Rightarrow> string \<Rightarrow> rat list \<Rightarrow> string \<Rightarrow> db \<Rightarrow> db result" where
  "upsert_embedding io now did eid vec model db =
     (if did = [] \<or> eid = [] then Inl (Errorf ''store: UpsertEmbedding: peer_did and entity_id required'')
      else if int (length vec) \<noteq> d_dim db
      then Inl (Errorf (''store: UpsertEmbedding: vector dim '' @ show_nat (length vec)
             @ '' does not match store dim '' @ show_int (d_dim db)))
      else (case io of
          Some (stage, e) \<Rightarrow> Inl (Wrap stage e)
        | None \<Rightarrow> Inr (db\<lparr>
            d_vectors := filter (\<lambda>(k, _). k \<noteq> eid) (d_vectors db) @ [(eid, vec)],
            d_meta := filter (\<lambda>r. br_entity r \<noteq> eid) (d_meta db)
              @ [\<lparr>br_entity = eid, br_peer = did, br_model = model, br_created_at = format_time now\<rparr>]\<rparr>)))"

text \<open>
  The loop of \<open>SemanticSearch\<close> over the nearest neighbours: each candidate is fetched
  for the caller's peer, filtered, and collected until the limit is reached. A score is
  one minus the distance.
\<close>

fun semantic_loop ::
    "error option \<Rightarrow> string \<Rightarrow> string \<Rightarrow> nat \<Rightarrow> db \<Rightarrow> (string \<times> rat) list \<Rightarrow> hit list \<Rightarrow> hit list result" where
  "semantic_loop io did ty limit db [] out = Inr out"
| "semantic_loop io did ty limit db ((i, gap) # cands) out = (case get_entity io did i db of
      Inl e \<Rightarrow> Inl (Wrap (''store: hydrate semantic hit '' @ i) e)
    | Inr None \<Rightarrow> semantic_loop io did ty limit db cands out
    | Inr (Some ent) \<Rightarrow>
        if e_peer ent \<noteq> did then semantic_loop io did ty limit db cands out
        else if ty \<noteq> [] \<and> e_type ent \<noteq> ty then semantic_loop io did ty limit db cands out
        else if e_archived_at ent \<noteq> None then semantic_loop io did ty limit db cands out
        else (let out' = out @ [\<lparr>h_entity = ent, h_score = 1 - gap\<rparr>]
              in if limit \<le> length out' then Inr out'
                 else semantic_loop io did ty limit db cands out'))"

definition semantic_search ::
    "sqlite \<Rightarrow> error option \<Rightarrow> error option \<Rightarrow> string \<Rightarrow> rat list \<Rightarrow> string \<Rightarrow> int \<Rightarrow> db \<Rightarrow> hit list result" where
  "semantic_search sq io io_get did vec ty limit db =
     (if vec = [] then Inr []
      else if int (length vec) \<noteq> d_dim db
      then Inl (Errorf (''store: SemanticSearch: vector dim '' @ show_nat (length vec)
             @ '' does not match store dim '' @ show_int (d_dim db)))
      else (let lim = default_limit 10 limit; k = (if wrap64 (lim * 4) < 16 then 16 else wrap64 (lim * 4))
            in case io of
                 Some e \<Rightarrow> Inl (Wrap ''store: vec0 knn query'' e)
               | None \<Rightarrow> semantic_loop io_get did ty (nat lim) db (sq_knn sq (d_vectors db) vec k) []))"

definition updated_key :: "entity_record \<Rightarrow> row_key" where
  "updated_key r = RowKey (er_updated_at r) (er_id r)"

definition match_substring :: "sqlite \<Rightarrow> string \<Rightarrow> string \<Rightarrow> string \<Rightarrow> entity_record \<Rightarrow> bool" where
  "match_substring sq did query ty r \<longleftrightarrow> er_peer r = did \<and> er_archived_at r = None
     \<and> sq_like sq (er_data r) query \<and> (ty \<noteq> [] \<longrightarrow> er_type r = ty)"

definition substring_search ::
    "sqlite \<Rightarrow> error option \<Rightarrow> string \<Rightarrow> string \<Rightarrow> string \<Rightarrow> int \<Rightarrow> db \<Rightarrow> hit list result" where
  "substring_search sq io did query ty limit db =
     (if query = [] then Inr []
      else (case io of
          Some e \<Rightarrow> Inl (Wrap ''store: substring search'' e)
        | None \<Rightarrow>
            (case mapM scan_entity
                (take (nat (default_limit 10 limit))
                  (rev (sort_key updated_key (filter (match_substring sq did query ty) (d_entities db))))) of
               Inl e \<Rightarrow> Inl (Wrap ''store: scan substring hit'' e)
             | Inr es \<Rightarrow> Inr (map (\<lambda>e. \<lparr>h_entity = e, h_score = 1\<rparr>) es))))"

section \<open>Time travel\<close>

text \<open>\<open>decodeEntityPayload\<close>: the snapshot in an event, completed from the event.\<close>

definition decode_entity_payload :: "event \<Rightarrow> entity result" where
  "decode_entity_payload ev =
     (if ev_payload ev = Empty then Inl (Errorf ''empty payload'')
      else and_then (decode_entity (ev_payload ev)) (\<lambda>e.
        if e_id e = [] then Inl (Errorf ''payload missing id'')
        else
          (let e1 = (if e_created_at e = 0 then e\<lparr>e_created_at := ev_time ev\<rparr> else e);
               e2 = (if e_updated_at e1 = 0 then e1\<lparr>e_updated_at := ev_time ev\<rparr> else e1);
               e3 = (if e_peer e2 = [] then e2\<lparr>e_peer := ev_peer ev\<rparr> else e2)
           in Inr e3)))"

record archive_payload =
  ap_id :: string
  ap_archived_at :: time

definition assign_archive :: "string \<Rightarrow> json \<Rightarrow> archive_payload \<Rightarrow> archive_payload result" where
  "assign_archive k v p =
     (if k = ''id'' then set_string ''.id'' v (\<lambda>x. ap_id_update (\<lambda>_. x)) p
      else if k = ''archived_at'' then set_time ''.archived_at'' v (\<lambda>x. ap_archived_at_update (\<lambda>_. x)) p
      else Inr p)"

definition decode_archive :: "raw \<Rightarrow> archive_payload result" where
  "decode_archive r = unmarshal ''struct'' assign_archive \<lparr>ap_id = [], ap_archived_at = 0\<rparr> r"

text \<open>The update branch: data, type and time are replaced, creation metadata is kept.\<close>

definition merge_update :: "event \<Rightarrow> entity \<Rightarrow> entity \<Rightarrow> entity" where
  "merge_update ev ent cur =
     (let c1 = (if e_data ent \<noteq> None then cur\<lparr>e_data := e_data ent\<rparr> else cur);
          c2 = (if e_type ent \<noteq> [] then c1\<lparr>e_type := e_type ent\<rparr> else c1)
      in if ev_time ev \<noteq> 0 then c2\<lparr>e_updated_at := ev_time ev\<rparr>
         else if e_updated_at ent \<noteq> 0 then c2\<lparr>e_updated_at := e_updated_at ent\<rparr> else c2)"

definition replay_step :: "event \<Rightarrow> entity gomap \<Rightarrow> entity gomap" where
  "replay_step ev st =
     (if ev_type ev = EventEntityCreated then
        (case decode_entity_payload ev of Inl _ \<Rightarrow> st | Inr ent \<Rightarrow> mput (e_id ent) ent st)
      else if ev_type ev = EventEntityUpdated then
        (case decode_entity_payload ev of
           Inl _ \<Rightarrow> st
         | Inr ent \<Rightarrow> (case mget st (e_id ent) of
               None \<Rightarrow> mput (e_id ent) ent st
             | Some cur \<Rightarrow> mput (e_id ent) (merge_update ev ent cur) st))
      else if ev_type ev = EventEntityArchived then
        (case decode_archive (ev_payload ev) of
           Inl _ \<Rightarrow> st
         | Inr p \<Rightarrow> (case mget st (ap_id p) of
               None \<Rightarrow> st
             | Some cur \<Rightarrow>
                 (let ts = (if ap_archived_at p = 0 then ev_time ev else ap_archived_at p)
                  in mput (ap_id p) (cur\<lparr>e_archived_at := Some ts\<rparr>) st)))
      else st)"

definition replay :: "event list \<Rightarrow> entity gomap" where
  "replay evs = foldl (\<lambda>st ev. replay_step ev st) [] evs"

text \<open>
  \<open>matchesFilters\<close> compares the JSON texts of two values; on canonical values that is
  equality.
\<close>

definition matches_filters :: "obj option \<Rightarrow> obj option \<Rightarrow> bool" where
  "matches_filters m filters =
     list_all (\<lambda>(k, want). (case m of None \<Rightarrow> None | Some kvs \<Rightarrow> mget kvs k) = Some want)
       (case filters of None \<Rightarrow> [] | Some f \<Rightarrow> f)"

definition travel_keep :: "string \<Rightarrow> entity_query \<Rightarrow> entity \<Rightarrow> bool" where
  "travel_keep did q e \<longleftrightarrow> e_peer e = did
     \<and> (q_archived q \<or> e_archived_at e = None)
     \<and> (q_type q = [] \<or> e_type e = q_type q)
     \<and> matches_filters (e_data e) (q_filters q)"

definition time_travel_entities ::
    "error option \<Rightarrow> string \<Rightarrow> entity_query \<Rightarrow> time \<Rightarrow> db \<Rightarrow> entity list result" where
  "time_travel_entities io did q as_of db = (case list_events io did 0 as_of db of
      Inl e \<Rightarrow> Inl (Wrap ''store: time travel: load events'' e)
    | Inr evs \<Rightarrow>
        (let fill = (\<lambda>e. if e_peer e = [] then e\<lparr>e_peer := did\<rparr> else e);
             kept = filter (travel_keep did q) (map (fill \<circ> snd) (replay evs));
             sorted_out = rev (sort_key e_created_at (sort_key e_id kept))
         in Inr (take (nat (default_limit 50 (q_limit q))) sorted_out)))"

end
