(* ===== verification/Schema.thy ===== *)
theory Schema
  imports Coggo_Types
begin

text \<open>
  internal/schema: the in-memory registry of type definitions (\<open>Resolver\<close>), keyed by peer
  and then by name, the definitions a fresh peer starts with, and the validation of the
  fields of a new entity.
\<close>

section \<open>The resolver\<close>

record resolver =
  rs_entity_types :: "entity_type_def gomap gomap"
  rs_rel_types :: "rel_type_def gomap gomap"

definition NewResolver :: resolver where
  "NewResolver = \<lparr>rs_entity_types = [], rs_rel_types = []\<rparr>"

text \<open>The map of a peer; reading a missing one is reading a nil map.\<close>

definition peer_map :: "string \<Rightarrow> 'v gomap gomap \<Rightarrow> 'v gomap" where
  "peer_map did m = (case mget m did of None \<Rightarrow> [] | Some p \<Rightarrow> p)"

definition RegisterEntityType :: "string \<Rightarrow> entity_type_def \<Rightarrow> resolver \<Rightarrow> resolver" where
  "RegisterEntityType did d r = r\<lparr>rs_entity_types :=
     mput did (mput (et_name d) d (peer_map did (rs_entity_types r))) (rs_entity_types r)\<rparr>"

definition RegisterRelationType :: "string \<Rightarrow> rel_type_def \<Rightarrow> resolver \<Rightarrow> resolver" where
  "RegisterRelationType did d r = r\<lparr>rs_rel_types :=
     mput did (mput (rt_name d) d (peer_map did (rs_rel_types r))) (rs_rel_types r)\<rparr>"

definition EntityType :: "string \<Rightarrow> string \<Rightarrow> resolver \<Rightarrow> entity_type_def result" where
  "EntityType did name r = (case mget (peer_map did (rs_entity_types r)) name of
      Some d \<Rightarrow> Inr d
    | None \<Rightarrow> Inl (Errorf (''schema: entity type '' @ quote_go name @ '' not defined for peer '' @ did)))"

definition RelationType :: "string \<Rightarrow> string \<Rightarrow> resolver \<Rightarrow> rel_type_def result" where
  "RelationType did name r = (case mget (peer_map did (rs_rel_types r)) name of
      Some d \<Rightarrow> Inr d
    | None \<Rightarrow> Inl (Errorf (''schema: relationship type '' @ quote_go name @ '' not defined for peer '' @ did)))"

definition EntityTypes :: "string \<Rightarrow> resolver \<Rightarrow> entity_type_def list" where
  "EntityTypes did r = sort_key et_name (map snd (peer_map did (rs_entity_types r)))"

definition RelationTypes :: "string \<Rightarrow> resolver \<Rightarrow> rel_type_def list" where
  "RelationTypes did r = sort_key rt_name (map snd (peer_map did (rs_rel_types r)))"

section \<open>Seed types\<close>

definition seed_field :: "string \<Rightarrow> string \<Rightarrow> bool \<Rightarrow> json \<Rightarrow> string \<Rightarrow> field_def" where
  "seed_field n ty req dflt desc = \<lparr>fd_name = n, fd_type = ty, fd_elem = [], fd_required = req,
     fd_default = dflt, fd_validation = [], fd_desc = desc\<rparr>"

definition text_list :: "string \<Rightarrow> string \<Rightarrow> field_def" where
  "text_list n desc = (seed_field n ''list_of'' False JNull desc)\<lparr>fd_elem := ''string''\<rparr>"

definition SeedEntityTypes :: "string \<Rightarrow> entity_type_def list" where
  "SeedEntityTypes did =
    [\<lparr>et_name = ''Project'', et_peer = did, et_fields = Some
        [seed_field ''title'' ''string'' True JNull [],
         seed_field ''status'' ''string'' False (JStr ''active'') ''active | paused | completed | abandoned'',
         seed_field ''description'' ''string'' False JNull [],
         seed_field ''completion_estimate'' ''number'' False JNull ''0-100 estimate of completion'',
         text_list ''tags'' [],
         seed_field ''external_url'' ''string'' False JNull ''GitHub URL, project page, etc.''],
      et_desc = ''Work or efforts with goals and trajectories''\<rparr>,
     \<lparr>et_name = ''Domain'', et_peer = did, et_fields = Some
        [seed_field ''title'' ''string'' True JNull [],
         seed_field ''description'' ''string'' False JNull [],
         text_list ''tags'' []],
      et_desc = ''Life areas (health, finance, social, music, etc.)''\<rparr>,
     \<lparr>et_name = ''Decision'', et_peer = did, et_fields = Some
        [seed_field ''title'' ''string'' True JNull ''One-line summary of the decision'',
         seed_field ''rationale'' ''string'' True JNull ''Why this was decided'',
         text_list ''alternatives'' ''Alternatives considered and rejected'',
         seed_field ''context'' ''string'' False JNull ''Background that led to this decision'',
         seed_field ''confidence'' ''string'' False JNull ''low | medium | high''],
      et_desc = ''Discrete reasoned choices with rationale, alternatives, supersedes''\<rparr>,
     \<lparr>et_name = ''Goal'', et_peer = did, et_fields = Some
        [seed_field ''title'' ''string'' True JNull [],
         seed_field ''description'' ''string'' False JNull [],
         seed_field ''target_date'' ''timestamp'' False JNull [],
         seed_field ''status'' ''string'' False (JStr ''open'') ''open | achieved | abandoned | paused'',
         seed_field ''success_criteria'' ''string'' False JNull ''What it looks like when achieved''],
      et_desc = ''Desired states with time horizons''\<rparr>,
     \<lparr>et_name = ''Observation'', et_peer = did, et_fields = Some
        [seed_field ''text'' ''string'' True JNull [],
         text_list ''tags'' [],
         seed_field ''source'' ''string'' False JNull ''Where this observation came from''],
      et_desc = ''Context, learnings, signals that don'' @ [CHR 0x27] @ ''t fit elsewhere''\<rparr>,
     \<lparr>et_name = ''Setting'', et_peer = did, et_fields = Some
        [seed_field ''key'' ''string'' True JNull [],
         seed_field ''value'' ''string'' True JNull [],
         seed_field ''scope'' ''string'' False JNull ''global | peer-specific''],
      et_desc = ''Coggo behavioral settings stored as data''\<rparr>]"

definition SeedRelationshipTypes :: "string \<Rightarrow> rel_type_def list" where
  "SeedRelationshipTypes did =
    [\<lparr>rt_name = ''depends_on'', rt_peer = did, rt_fields = Some
        [seed_field ''kind'' ''string'' False JNull ''blocking | soft | informational''],
      rt_desc = ''Directional dependency'', rt_directional = True\<rparr>,
     \<lparr>rt_name = ''supersedes'', rt_peer = did, rt_fields = Some [seed_field ''reason'' ''string'' False JNull []],
      rt_desc = ''Replacement (decisions, goals)'', rt_directional = True\<rparr>,
     \<lparr>rt_name = ''affects'', rt_peer = did, rt_fields = Some
        [seed_field ''nature'' ''string'' False JNull ''positive | negative | mixed | neutral''],
      rt_desc = ''Entity A affects entity B'' @ [CHR 0x27] @ ''s state or trajectory'', rt_directional = True\<rparr>]"

section \<open>Validation\<close>

record issue =
  vi_field :: string
  vi_severity :: string
  vi_message :: string

definition checkType :: "json \<Rightarrow> field_def \<Rightarrow> bool" where
  "checkType v d =
     (if v = JNull then True
      else if fd_type d = ''string'' \<or> fd_type d = ''reference'' then (case v of JStr _ \<Rightarrow> True | _ \<Rightarrow> False)
      else if fd_type d = ''number'' then (case v of JNum _ \<Rightarrow> True | _ \<Rightarrow> False)
      else if fd_type d = ''boolean'' then (case v of JBool _ \<Rightarrow> True | _ \<Rightarrow> False)
      else if fd_type d = ''timestamp'' then
        (case v of JStr x \<Rightarrow> parse_rfc3339 False x \<noteq> None | _ \<Rightarrow> False)
      else if fd_type d = ''list_of'' then (case v of JArr _ \<Rightarrow> True | _ \<Rightarrow> False)
      else True)"

definition missing_issue :: "string \<Rightarrow> issue" where
  "missing_issue n = \<lparr>vi_field = n, vi_severity = ''error'', vi_message = ''required field missing''\<rparr>"

definition type_issue :: "field_def \<Rightarrow> issue" where
  "type_issue f = \<lparr>vi_field = fd_name f, vi_severity = ''warning'', vi_message = ''expected '' @ fd_type f\<rparr>"

definition unknown_issue :: "string \<Rightarrow> issue" where
  "unknown_issue n = \<lparr>vi_field = n, vi_severity = ''warning'',
     vi_message = ''unknown field; accepted but not in type definition''\<rparr>"

text \<open>One definition of the loop over the declared fields: it may fill in a default.\<close>

definition check_field :: "field_def \<Rightarrow> obj \<times> issue list \<Rightarrow> obj \<times> issue list" where
  "check_field f = (\<lambda>(m, issues). case mget m (fd_name f) of
      None \<Rightarrow>
        if fd_default f \<noteq> JNull then (mput (fd_name f) (fd_default f) m, issues)
        else if fd_required f then (m, issues @ [missing_issue (fd_name f)])
        else (m, issues)
    | Some v \<Rightarrow> if checkType v f then (m, issues) else (m, issues @ [type_issue f]))"

definition check_fields :: "field_def list \<Rightarrow> obj \<Rightarrow> obj \<times> issue list" where
  "check_fields fs m = foldl (\<lambda>s f. check_field f s) (m, []) fs"

definition unknown_issues :: "field_def list \<Rightarrow> obj \<Rightarrow> issue list" where
  "unknown_issues fs m = map unknown_issue (filter (\<lambda>n. n \<notin> fd_name ` set fs) (mkeys m))"

text \<open>
  The caller sees the defaults only when it passed a map: a nil map is replaced by a local one.
  Unknown fields are reported in the order of their names, one of the orders in which Go may
  walk a map.
\<close>

definition ValidateEntity :: "entity_type_def option \<Rightarrow> obj option \<Rightarrow> obj option \<times> issue list" where
  "ValidateEntity d flds = (case d of
      None \<Rightarrow> (flds, [\<lparr>vi_field = [], vi_severity = ''error'', vi_message = ''no type definition supplied''\<rparr>])
    | Some d \<Rightarrow>
        (let fs = (case et_fields d of None \<Rightarrow> [] | Some fs \<Rightarrow> fs);
             (m, issues) = check_fields fs (case flds of None \<Rightarrow> [] | Some m \<Rightarrow> m)
         in (case flds of None \<Rightarrow> None | Some _ \<Rightarrow> Some m, issues @ unknown_issues fs m)))"

definition HasErrors :: "issue list \<Rightarrow> bool" where
  "HasErrors issues = list_ex (\<lambda>i. vi_severity i = ''error'') issues"

text \<open>The verb \<open>%+v\<close> on a list of issues.\<close>

definition issue_text :: "issue \<Rightarrow> string" where
  "issue_text i = ''{Field:'' @ vi_field i @ '' Severity:'' @ vi_severity i @ '' Message:'' @ vi_message i @ ''}''"

fun join :: "string \<Rightarrow> string list \<Rightarrow> string" where
  "join sep [] = []"
| "join sep [x] = x"
| "join sep (x # y # ys) = x @ sep @ join sep (y # ys)"

definition issues_text :: "issue list \<Rightarrow> string" where
  "issues_text is = ''['' @ join '' '' (map issue_text is) @ '']''"

section \<open>The resolver is a table per peer\<close>

definition resolver_ok :: "resolver \<Rightarrow> bool" where
  "resolver_ok r \<longleftrightarrow> gomap_ok (rs_entity_types r) \<and> gomap_ok (rs_rel_types r)
     \<and> list_all (\<lambda>(_, m). gomap_ok m \<and> list_all (\<lambda>(n, d). et_name d = n) m) (rs_entity_types r)
     \<and> list_all (\<lambda>(_, m). gomap_ok m \<and> list_all (\<lambda>(n, d). rt_name d = n) m) (rs_rel_types r)"

lemma set_mput: "gomap_ok m \<Longrightarrow> set (mput k v m) = insert (k, v) {p \<in> set m. fst p \<noteq> k}"
proof (induction k v m rule: mput.induct)
  case (2 k v k' v' m)
  then show ?case by (auto simp: gomap_ok_Cons)
qed simp

lemma peer_map_mput [simp]:
  "gomap_ok m \<Longrightarrow> peer_map did (mput did' p m) = (if did = did' then p else peer_map did m)"
  by (simp add: peer_map_def gomap_simps)

lemma peer_map_set: "peer_map did m = [] \<or> (did, peer_map did m) \<in> set m"
  by (auto simp: peer_map_def dest: map_of_SomeD split: option.split)

lemma peer_map_ok:
  assumes "resolver_ok r"
  shows "gomap_ok (peer_map did (rs_entity_types r))" "gomap_ok (peer_map did (rs_rel_types r))"
  using assms peer_map_set [of did "rs_entity_types r"] peer_map_set [of did "rs_rel_types r"]
  by (auto simp: resolver_ok_def list_all_iff)

lemma peer_map_names:
  assumes "resolver_ok r"
  shows "(n, d) \<in> set (peer_map did (rs_entity_types r)) \<Longrightarrow> et_name d = n"
    "(n, d') \<in> set (peer_map did (rs_rel_types r)) \<Longrightarrow> rt_name d' = n"
  using assms peer_map_set [of did "rs_entity_types r"] peer_map_set [of did "rs_rel_types r"]
  by (force simp: resolver_ok_def list_all_iff)+

lemma resolver_ok_new [simp]: "resolver_ok NewResolver"
  by (simp add: resolver_ok_def NewResolver_def)

lemma resolver_ok_register [simp]:
  assumes "resolver_ok r"
  shows "resolver_ok (RegisterEntityType did d r)" and "resolver_ok (RegisterRelationType did d' r)"
  using assms peer_map_ok [OF assms, of did] peer_map_names [OF assms, of _ _ did]
  by (auto simp: resolver_ok_def RegisterEntityType_def RegisterRelationType_def list_all_iff set_mput)

lemma EntityType_register:
  "resolver_ok r \<Longrightarrow> EntityType did n (RegisterEntityType did' d r)
     = (if did = did' \<and> n = et_name d then Inr d else EntityType did n r)"
  using peer_map_ok(1) [of r did']
  by (auto simp: EntityType_def RegisterEntityType_def resolver_ok_def gomap_simps)

lemma RelationType_register:
  "resolver_ok r \<Longrightarrow> RelationType did n (RegisterRelationType did' d r)
     = (if did = did' \<and> n = rt_name d then Inr d else RelationType did n r)"
  using peer_map_ok(2) [of r did']
  by (auto simp: RelationType_def RegisterRelationType_def resolver_ok_def gomap_simps)

lemma register_other_kind [frame_simps]:
  "EntityType did n (RegisterRelationType did' d r) = EntityType did n r"
  "RelationType did n (RegisterEntityType did' d' r) = RelationType did n r"
  by (simp_all add: EntityType_def RelationType_def RegisterEntityType_def RegisterRelationType_def)

text \<open>A listing holds exactly the definitions that lookup finds, by name.\<close>

lemma EntityTypes_set:
  assumes "resolver_ok r"
  shows "d \<in> set (EntityTypes did r) \<longleftrightarrow> EntityType did (et_name d) r = Inr d"
proof -
  note ok = peer_map_ok [OF assms, of did]
  have look: "mget (peer_map did (rs_entity_types r)) n = Some d \<longleftrightarrow> (n, d) \<in> set (peer_map did (rs_entity_types r))" for n
    using gomap_ok_distinct [OF ok(1)] by (simp add: map_of_eq_Some_iff)
  have "d \<in> set (EntityTypes did r) \<longleftrightarrow> (et_name d, d) \<in> set (peer_map did (rs_entity_types r))"
  proof
    assume "d \<in> set (EntityTypes did r)"
    then obtain n where "(n, d) \<in> set (peer_map did (rs_entity_types r))" by (auto simp: EntityTypes_def)
    then show "(et_name d, d) \<in> set (peer_map did (rs_entity_types r))"
      using peer_map_names(1) [OF assms] by blast
  next
    assume "(et_name d, d) \<in> set (peer_map did (rs_entity_types r))"
    then show "d \<in> set (EntityTypes did r)" by (force simp: EntityTypes_def)
  qed
  also have "\<dots> \<longleftrightarrow> EntityType did (et_name d) r = Inr d"
    unfolding look [symmetric] by (simp add: EntityType_def split: option.split)
  finally show ?thesis .
qed

lemma EntityTypes_sorted: "sorted (map et_name (EntityTypes did r))"
  by (simp add: EntityTypes_def)

text \<open>The two halves of the resolver as keyed tables.\<close>

definition lookup_entity_type :: "resolver \<Rightarrow> string \<times> string \<Rightarrow> (string \<times> entity_type_def) option" where
  "lookup_entity_type r k = (case EntityType (fst k) (snd k) r of Inl _ \<Rightarrow> None | Inr d \<Rightarrow> Some (fst k, d))"

definition lookup_rel_type :: "resolver \<Rightarrow> string \<times> string \<Rightarrow> (string \<times> rel_type_def) option" where
  "lookup_rel_type r k = (case RelationType (fst k) (snd k) r of Inl _ \<Rightarrow> None | Inr d \<Rightarrow> Some (fst k, d))"

interpretation entity_types: table resolver_ok lookup_entity_type
  "\<lambda>(did, d). RegisterEntityType did d" "\<lambda>(did, d). (did, et_name d)"
  by unfold_locales (auto simp: lookup_entity_type_def EntityType_register split: if_splits)

interpretation rel_types: table resolver_ok lookup_rel_type
  "\<lambda>(did, d). RegisterRelationType did d" "\<lambda>(did, d). (did, rt_name d)"
  by unfold_locales (auto simp: lookup_rel_type_def RelationType_register split: if_splits)

section \<open>Validation is complete and fills in the defaults\<close>

definition default_of :: "field_def list \<Rightarrow> string \<Rightarrow> json option" where
  "default_of fs k = (case find (\<lambda>f. fd_name f = k) fs of
      None \<Rightarrow> None | Some f \<Rightarrow> if fd_default f = JNull then None else Some (fd_default f))"

definition lacks :: "obj \<Rightarrow> field_def \<Rightarrow> bool" where
  "lacks m f \<longleftrightarrow> fd_required f \<and> fd_default f = JNull \<and> mget m (fd_name f) = None"

lemma HasErrors_append [simp]: "HasErrors (xs @ ys) \<longleftrightarrow> HasErrors xs \<or> HasErrors ys"
  by (simp add: HasErrors_def)

lemma HasErrors_issues [simp]:
  "HasErrors [missing_issue n]" "\<not> HasErrors [type_issue f]" "\<not> HasErrors (unknown_issues fs m)" "\<not> HasErrors []"
  by (auto simp: HasErrors_def missing_issue_def type_issue_def unknown_issues_def unknown_issue_def list_ex_iff)

lemma check_field_cases:
  assumes "gomap_ok m" and "check_field f (m, iss) = (m', iss')"
  shows "gomap_ok m'"
    and "mget m' = (if mget m (fd_name f) = None \<and> fd_default f \<noteq> JNull then (mget m)(fd_name f \<mapsto> fd_default f) else mget m)"
    and "HasErrors iss' \<longleftrightarrow> HasErrors iss \<or> lacks m f"
  using assms
  by (auto simp: check_field_def gomap_simps lacks_def split: option.splits if_splits)

lemma check_fields_correct:
  assumes "distinct (map fd_name fs)" and "gomap_ok m"
    and "foldl (\<lambda>s f. check_field f s) (m, iss) fs = (m', iss')"
  shows "mget m' k = (case mget m k of Some v \<Rightarrow> Some v | None \<Rightarrow> default_of fs k)
    \<and> (HasErrors iss' \<longleftrightarrow> HasErrors iss \<or> (\<exists>f \<in> set fs. lacks m f))"
  using assms
proof (induction fs arbitrary: m iss)
  case Nil
  then show ?case by (auto simp: default_of_def split: option.split)
next
  case (Cons f fs)
  obtain m1 is1 where step: "check_field f (m, iss) = (m1, is1)" by force
  note one = check_field_cases [OF Cons.prems(2) step]
  have rest: "foldl (\<lambda>s f. check_field f s) (m1, is1) fs = (m', iss')" using Cons.prems(3) step by simp
  have IH: "mget m' k = (case mget m1 k of Some v \<Rightarrow> Some v | None \<Rightarrow> default_of fs k)
      \<and> (HasErrors iss' \<longleftrightarrow> HasErrors is1 \<or> (\<exists>f \<in> set fs. lacks m1 f))"
    using Cons.IH [OF _ one(1) rest] Cons.prems(1) by simp
  have other: "fd_name g \<noteq> fd_name f" if "g \<in> set fs" for g
    using that Cons.prems(1) by (metis distinct.simps(2) image_eqI list.simps(9) set_map)
  then have same: "lacks m1 g = lacks m g" if "g \<in> set fs" for g
    using that one(2) by (auto simp: lacks_def)
  have absent: "default_of fs (fd_name f) = None"
    using other by (auto simp: default_of_def find_None_iff split: option.split dest!: find_Some_iff [THEN iffD1])
  have "mget m' k = (case mget m k of Some v \<Rightarrow> Some v | None \<Rightarrow> default_of (f # fs) k)"
  proof (cases "k = fd_name f")
    case True
    then show ?thesis using IH one(2) absent by (auto simp: default_of_def split: option.splits if_splits)
  next
    case False
    then have "default_of (f # fs) k = default_of fs k" by (simp add: default_of_def)
    with False show ?thesis using IH one(2) by (auto split: option.splits)
  qed
  then show ?case using IH one(3) same by auto
qed


text \<open>The defaults are lost when no fields are given at all: for a nil map validation fills them into a map
  of its own, and the caller keeps nil, although the comment says that defaults are applied in place.\<close>

theorem defaults_lost_for_nil:
  "fst (ValidateEntity (Some d) None) = None"
  by (simp add: ValidateEntity_def Let_def split: prod.split)


text \<open>The registry of types is isolated per peer and holds the last definition registered under each
  name: after any sequence of registrations a lookup gives the last one made for this peer and name,
  and otherwise what was there before; the listing of a peer is sorted by name and holds exactly the
  definitions that lookup finds.\<close>

theorem registry_of_types_correct:
  assumes "resolver_ok r" and "r' = foldl (\<lambda>r (did, d). RegisterEntityType did d r) r regs"
  shows "lookup_entity_type r' (did, n) = (case find (\<lambda>(p, d). (p, et_name d) = (did, n)) (rev regs) of
        Some x \<Rightarrow> Some x | None \<Rightarrow> lookup_entity_type r (did, n))
    \<and> (d \<in> set (EntityTypes did r') \<longleftrightarrow> EntityType did (et_name d) r' = Inr d)
    \<and> sorted (map et_name (EntityTypes did r'))"
proof -
  have fold: "r' = foldl (\<lambda>s x. (case x of (did, d) \<Rightarrow> RegisterEntityType did d) s) r regs"
    unfolding assms(2) by (rule foldl_cong) (auto split: prod.split)
  have eq: "(\<lambda>x. (case x of (did, d) \<Rightarrow> (did, et_name d)) = (did, n)) = (\<lambda>(p, d). (p, et_name d) = (did, n))"
    by (auto split: prod.split)
  have "lookup_entity_type r' (did, n) = (case find (\<lambda>(p, d). (p, et_name d) = (did, n)) (rev regs) of
      Some x \<Rightarrow> Some x | None \<Rightarrow> lookup_entity_type r (did, n))"
    unfolding fold entity_types.get_puts [OF assms(1)] eq ..
  moreover have "resolver_ok r'" unfolding fold by (rule entity_types.ok_puts [OF assms(1)])
  ultimately show ?thesis using EntityTypes_set EntityTypes_sorted by blast
qed

lemma registry_of_types_correct_witness:
  "lookup_entity_type (foldl (\<lambda>r (did, d). RegisterEntityType did d r) NewResolver
       [(''p'', zero_entity_type\<lparr>et_name := ''T''\<rparr>), (''p'', zero_entity_type\<lparr>et_name := ''T'', et_desc := ''new''\<rparr>)]) (''p'', ''T'')
     = Some (''p'', zero_entity_type\<lparr>et_name := ''T'', et_desc := ''new''\<rparr>)"
  using registry_of_types_correct [OF resolver_ok_new refl, where did = "''p''" and n = "''T''"
      and regs = "[(''p'', zero_entity_type\<lparr>et_name := ''T''\<rparr>), (''p'', zero_entity_type\<lparr>et_name := ''T'', et_desc := ''new''\<rparr>)]"]
  by simp

end
