(* ===== verification/Handler.thy ===== *)
theory Handler
  imports Store Schema
begin

text \<open>
  internal/federation/handler.go: a \<open>StoreHandler\<close> answers federation messages with
  operations of the store. Every operation is a function of the environment of the call, the
  handler's peer, the message, the arguments and the host (the shared database and type
  registry); it gives the reply, or the panic of a nil dereference, and the new host.

  \<open>env\<close> holds what one call obtains from outside: the clock, the fresh identifiers and
  message id, and the failures of the statements it runs (the read, the append, the write).
\<close>

record env =
  v_now :: time
  v_id1 :: string
  v_id2 :: string
  v_msg_id :: string
  v_reply_time :: time
  v_io_read :: "error option"
  v_io_append :: "error option"
  v_io_write :: "error option"

record host =
  hs_db :: db
  hs_schema :: "resolver option"

type_synonym reply = "fed_message \<times> error option"

datatype outcome =
    Returned reply
  | Panics string

section \<open>Replies\<close>

definition fallback :: "string list \<Rightarrow> string" where
  "fallback vs = (case find (\<lambda>v. v \<noteq> []) vs of Some v \<Rightarrow> v | None \<Rightarrow> [])"

definition message :: "env \<Rightarrow> string \<Rightarrow> fed_message \<Rightarrow> string \<Rightarrow> json \<Rightarrow> fed_message" where
  "message v did msg ty j = \<lparr>m_version = m_version msg, m_source = did, m_target = m_source msg,
     m_type = ty, m_payload = Doc j, m_auth = [], m_id = v_msg_id v, m_time = v_reply_time v\<rparr>"

definition error_json :: "error \<Rightarrow> json" where
  "error_json e = JObj [(''error'', JStr (error_text e))]"

definition respond :: "env \<Rightarrow> string \<Rightarrow> fed_message \<Rightarrow> json \<Rightarrow> outcome" where
  "respond v did msg j = Returned (message v did msg FedMsgResponse j, None)"

definition errorResp :: "env \<Rightarrow> string \<Rightarrow> fed_message \<Rightarrow> error \<Rightarrow> outcome" where
  "errorResp v did msg e = Returned (message v did msg FedMsgError (error_json e), Some e)"

text \<open>JSON of the results: a nil pointer or slice is \<open>null\<close>.\<close>

definition entity_opt_json :: "entity option \<Rightarrow> json" where
  "entity_opt_json e = (case e of None \<Rightarrow> JNull | Some e \<Rightarrow> entity_json e)"

definition slice_json :: "('a \<Rightarrow> json) \<Rightarrow> 'a list \<Rightarrow> json" where
  "slice_json f xs = (if xs = [] then JNull else JArr (map f xs))"

definition hit_json :: "hit \<Rightarrow> json" where
  "hit_json h = JObj [(''entity'', entity_json (h_entity h)), (''score'', JNum (h_score h))]"

section \<open>Request shapes\<close>

record envelope =
  en_op :: string
  en_args :: raw

definition assign_envelope :: "string \<Rightarrow> json \<Rightarrow> envelope \<Rightarrow> envelope result" where
  "assign_envelope k v s =
     (if k = ''op'' then set_string ''envelope.op'' v (\<lambda>x. en_op_update (\<lambda>_. x)) s
      else if k = ''args'' then set_raw v (\<lambda>x. en_args_update (\<lambda>_. x)) s
      else Inr s)"

definition decode_envelope :: "raw \<Rightarrow> envelope result" where
  "decode_envelope r = unmarshal ''federation.envelope'' assign_envelope \<lparr>en_op = [], en_args = Empty\<rparr> r"

record write_args =
  wa_id :: string
  wa_type :: string
  wa_fields :: "obj option"
  wa_author :: string
  wa_client :: string

definition no_write_args :: write_args where
  "no_write_args = \<lparr>wa_id = [], wa_type = [], wa_fields = None, wa_author = [], wa_client = []\<rparr>"

definition assign_author :: "string \<Rightarrow> json \<Rightarrow> write_args \<Rightarrow> write_args result" where
  "assign_author k v a =
     (if k = ''author_did'' then set_string ''author_did'' v (\<lambda>x. wa_author_update (\<lambda>_. x)) a
      else if k = ''client_id'' then set_string ''client_id'' v (\<lambda>x. wa_client_update (\<lambda>_. x)) a
      else Inr a)"

text \<open>The Go struct per operation: which of the fields its tags name.\<close>

definition decode_entityGetArgs :: "raw \<Rightarrow> write_args result" where
  "decode_entityGetArgs r = unmarshal ''federation.entityGetArgs'' (\<lambda>k v a.
     if k = ''id'' then set_string ''entityGetArgs.id'' v (\<lambda>x. wa_id_update (\<lambda>_. x)) a else Inr a)
     no_write_args r"

definition decode_entityCreateArgs :: "raw \<Rightarrow> write_args result" where
  "decode_entityCreateArgs r = unmarshal ''federation.entityCreateArgs'' (\<lambda>k v a.
     if k = ''type'' then set_string ''entityCreateArgs.type'' v (\<lambda>x. wa_type_update (\<lambda>_. x)) a
     else if k = ''fields'' then set_map ''entityCreateArgs.fields'' v wa_fields_update a
     else assign_author k v a) no_write_args r"

definition decode_entityUpdateArgs :: "raw \<Rightarrow> write_args result" where
  "decode_entityUpdateArgs r = unmarshal ''federation.entityUpdateArgs'' (\<lambda>k v a.
     if k = ''id'' then set_string ''entityUpdateArgs.id'' v (\<lambda>x. wa_id_update (\<lambda>_. x)) a
     else if k = ''fields'' then set_map ''entityUpdateArgs.fields'' v wa_fields_update a
     else assign_author k v a) no_write_args r"

definition decode_entityArchiveArgs :: "raw \<Rightarrow> write_args result" where
  "decode_entityArchiveArgs r = unmarshal ''federation.entityArchiveArgs'' (\<lambda>k v a.
     if k = ''id'' then set_string ''entityArchiveArgs.id'' v (\<lambda>x. wa_id_update (\<lambda>_. x)) a
     else assign_author k v a) no_write_args r"

definition decode_relationDissolveArgs :: "raw \<Rightarrow> write_args result" where
  "decode_relationDissolveArgs r = unmarshal ''federation.relationDissolveArgs'' (\<lambda>k v a.
     if k = ''id'' then set_string ''relationDissolveArgs.id'' v (\<lambda>x. wa_id_update (\<lambda>_. x)) a
     else assign_author k v a) no_write_args r"

record relation_args =
  ra_from :: string
  ra_to :: string
  ra_type :: string
  ra_data :: "obj option"
  ra_author :: string
  ra_client :: string
  ra_limit :: int

definition no_relation_args :: relation_args where
  "no_relation_args = \<lparr>ra_from = [], ra_to = [], ra_type = [], ra_data = None, ra_author = [],
     ra_client = [], ra_limit = 0\<rparr>"

definition assign_ends :: "string \<Rightarrow> json \<Rightarrow> relation_args \<Rightarrow> relation_args result" where
  "assign_ends k v a =
     (if k = ''from'' then set_string ''from'' v (\<lambda>x. ra_from_update (\<lambda>_. x)) a
      else if k = ''to'' then set_string ''to'' v (\<lambda>x. ra_to_update (\<lambda>_. x)) a
      else if k = ''type'' then set_string ''type'' v (\<lambda>x. ra_type_update (\<lambda>_. x)) a
      else Inr a)"

definition decode_relationCreateArgs :: "raw \<Rightarrow> relation_args result" where
  "decode_relationCreateArgs r = unmarshal ''federation.relationCreateArgs'' (\<lambda>k v a.
     if k = ''data'' then set_map ''relationCreateArgs.data'' v ra_data_update a
     else if k = ''author_did'' then set_string ''author_did'' v (\<lambda>x. ra_author_update (\<lambda>_. x)) a
     else if k = ''client_id'' then set_string ''client_id'' v (\<lambda>x. ra_client_update (\<lambda>_. x)) a
     else assign_ends k v a) no_relation_args r"

definition decode_relationQueryArgs :: "raw \<Rightarrow> relation_args result" where
  "decode_relationQueryArgs r = unmarshal ''federation.relationQueryArgs'' (\<lambda>k v a.
     if k = ''limit'' then set_int ''relationQueryArgs.limit'' v (\<lambda>x. ra_limit_update (\<lambda>_. x)) a
     else assign_ends k v a) no_relation_args r"

record type_args =
  ta_name :: string
  ta_desc :: string
  ta_fields :: "field_def list option"
  ta_is_rel :: bool
  ta_directional :: bool
  ta_author :: string
  ta_client :: string

definition no_type_args :: type_args where
  "no_type_args = \<lparr>ta_name = [], ta_desc = [], ta_fields = None, ta_is_rel = False,
     ta_directional = False, ta_author = [], ta_client = []\<rparr>"

definition decode_typeDescribeArgs :: "raw \<Rightarrow> type_args result" where
  "decode_typeDescribeArgs r = unmarshal ''federation.typeDescribeArgs'' (\<lambda>k v a.
     if k = ''name'' then set_string ''typeDescribeArgs.name'' v (\<lambda>x. ta_name_update (\<lambda>_. x)) a
     else if k = ''is_relationship'' then set_bool ''typeDescribeArgs.is_relationship'' v (\<lambda>x. ta_is_rel_update (\<lambda>_. x)) a
     else Inr a) no_type_args r"

definition decode_typeDefineArgs :: "raw \<Rightarrow> type_args result" where
  "decode_typeDefineArgs r = unmarshal ''federation.typeDefineArgs'' (\<lambda>k v a.
     if k = ''name'' then set_string ''typeDefineArgs.name'' v (\<lambda>x. ta_name_update (\<lambda>_. x)) a
     else if k = ''description'' then set_string ''typeDefineArgs.description'' v (\<lambda>x. ta_desc_update (\<lambda>_. x)) a
     else if k = ''fields'' then set_fields ''typeDefineArgs.fields'' v (\<lambda>x. ta_fields_update (\<lambda>_. x)) a
     else if k = ''is_relationship'' then set_bool ''typeDefineArgs.is_relationship'' v (\<lambda>x. ta_is_rel_update (\<lambda>_. x)) a
     else if k = ''directional'' then set_bool ''typeDefineArgs.directional'' v (\<lambda>x. ta_directional_update (\<lambda>_. x)) a
     else if k = ''author_did'' then set_string ''author_did'' v (\<lambda>x. ta_author_update (\<lambda>_. x)) a
     else if k = ''client_id'' then set_string ''client_id'' v (\<lambda>x. ta_client_update (\<lambda>_. x)) a
     else Inr a) no_type_args r"

record semantic_args =
  sa_query :: string
  sa_vector :: "rat list"
  sa_type :: string
  sa_limit :: int

definition set_vector :: "string \<Rightarrow> json \<Rightarrow> (rat list \<Rightarrow> 's \<Rightarrow> 's) \<Rightarrow> 's \<Rightarrow> 's result" where
  "set_vector fld j upd s = (case j of
      JNull \<Rightarrow> Inr (upd [] s)
    | JArr js \<Rightarrow> and_then (mapM (\<lambda>x. case x of
          JNum r \<Rightarrow> Inr r | JNull \<Rightarrow> Inr 0
        | _ \<Rightarrow> type_error x (''struct field '' @ fld @ '' of type float32'')) js) (\<lambda>v. Inr (upd v s))
    | _ \<Rightarrow> type_error j (''struct field '' @ fld @ '' of type []float32''))"

definition decode_semanticArgs :: "raw \<Rightarrow> semantic_args result" where
  "decode_semanticArgs r = unmarshal ''federation.semanticArgs'' (\<lambda>k v a.
     if k = ''query'' then set_string ''semanticArgs.query'' v (\<lambda>x. sa_query_update (\<lambda>_. x)) a
     else if k = ''vector'' then set_vector ''semanticArgs.vector'' v (\<lambda>x. sa_vector_update (\<lambda>_. x)) a
     else if k = ''type_filter'' then set_string ''semanticArgs.type_filter'' v (\<lambda>x. sa_type_update (\<lambda>_. x)) a
     else if k = ''limit'' then set_int ''semanticArgs.limit'' v (\<lambda>x. sa_limit_update (\<lambda>_. x)) a
     else Inr a) \<lparr>sa_query = [], sa_vector = [], sa_type = [], sa_limit = 0\<rparr> r"

record travel_args =
  tt_query :: entity_query
  tt_as_of :: time

definition decode_timeTravelArgs :: "raw \<Rightarrow> travel_args result" where
  "decode_timeTravelArgs r = unmarshal ''federation.timeTravelArgs'' (\<lambda>k v a.
     if k = ''query'' then
       and_then (decode_struct ''types.EntityQuery'' assign_query v (tt_query a)) (\<lambda>q. Inr (a\<lparr>tt_query := q\<rparr>))
     else if k = ''as_of'' then set_time ''timeTravelArgs.as_of'' v (\<lambda>x. tt_as_of_update (\<lambda>_. x)) a
     else Inr a) \<lparr>tt_query = zero_query, tt_as_of = 0\<rparr> r"

section \<open>Entity operations\<close>

type_synonym op = "env \<Rightarrow> string \<Rightarrow> fed_message \<Rightarrow> raw \<Rightarrow> host \<Rightarrow> outcome \<times> host"

definition opEntityGet :: op where
  "opEntityGet v did msg r h = (case decode_entityGetArgs r of
      Inl e \<Rightarrow> (errorResp v did msg (Wrap ''entity.get'' e), h)
    | Inr a \<Rightarrow> (case get_entity (v_io_read v) did (wa_id a) (hs_db h) of
          Inl e \<Rightarrow> (errorResp v did msg (Wrap ''entity.get'' e), h)
        | Inr e \<Rightarrow> (respond v did msg (entity_opt_json e), h)))"

definition opEntityQuery :: "sqlite \<Rightarrow> op" where
  "opEntityQuery sq v did msg r h = (case decode_query r of
      Inl e \<Rightarrow> (errorResp v did msg (Wrap ''entity.query'' e), h)
    | Inr q \<Rightarrow> (case query_entities sq (v_io_read v) did q (hs_db h) of
          Inl e \<Rightarrow> (errorResp v did msg (Wrap ''entity.query'' e), h)
        | Inr es \<Rightarrow> (respond v did msg (slice_json entity_json es), h)))"

text \<open>The check against the registry: the fields with their defaults, or why not.\<close>

definition validate_create :: "string \<Rightarrow> write_args \<Rightarrow> resolver option \<Rightarrow> obj option result" where
  "validate_create did a rs = (case rs of
      None \<Rightarrow> Inr (wa_fields a)
    | Some r \<Rightarrow> (case EntityType did (wa_type a) r of
          Inl e \<Rightarrow> Inl (Wrap ''entity.create'' e)
        | Inr d \<Rightarrow>
            (let (m, issues) = ValidateEntity (Some d) (wa_fields a)
             in if HasErrors issues
                then Inl (Errorf (''entity.create: validation failed: '' @ issues_text issues))
                else Inr m)))"

definition new_entity :: "env \<Rightarrow> string \<Rightarrow> fed_message \<Rightarrow> string \<Rightarrow> string \<Rightarrow> string \<Rightarrow> obj option \<Rightarrow> entity" where
  "new_entity v did msg ty author client m = \<lparr>e_id = v_id1 v, e_type = ty, e_peer = did,
     e_created_at = v_now v, e_created_by = fallback [author, m_source msg, did],
     e_client = fallback [client, ''federation'', []], e_updated_at = v_now v,
     e_archived_at = None, e_data = m, e_embedding = None\<rparr>"

definition new_event :: "env \<Rightarrow> string \<Rightarrow> string \<Rightarrow> string \<Rightarrow> json \<Rightarrow> string \<Rightarrow> string \<Rightarrow> event" where
  "new_event v i did ty payload author client = \<lparr>ev_id = i, ev_peer = did, ev_type = ty,
     ev_payload = Doc payload, ev_time = v_now v, ev_author = author, ev_client = client,
     ev_signature = []\<rparr>"

definition opEntityCreate :: op where
  "opEntityCreate v did msg r h = (case decode_entityCreateArgs r of
      Inl e \<Rightarrow> (errorResp v did msg (Wrap ''entity.create'' e), h)
    | Inr a \<Rightarrow> (case validate_create did a (hs_schema h) of
          Inl e \<Rightarrow> (errorResp v did msg e, h)
        | Inr m \<Rightarrow>
            (let e = new_entity v did msg (wa_type a) (wa_author a) (wa_client a) m;
                 ev = new_event v (v_id2 v) did EventEntityCreated (entity_json e) (e_created_by e) (e_client e)
             in case append_event (v_io_append v) (v_now v) (v_id2 v) (Some ev) (hs_db h) of
                  Inl err \<Rightarrow> (errorResp v did msg (Wrap ''entity.create: append event'' err), h)
                | Inr db1 \<Rightarrow> (case upsert_entity (v_io_write v) (v_now v) (Some e) db1 of
                      Inl err \<Rightarrow> (errorResp v did msg (Wrap ''entity.create: upsert'' err), h\<lparr>hs_db := db1\<rparr>)
                    | Inr (e', db2) \<Rightarrow> (respond v did msg (entity_json e'), h\<lparr>hs_db := db2\<rparr>)))))"

definition nil_dereference :: outcome where
  "nil_dereference = Panics ''runtime error: invalid memory address or nil pointer dereference''"

definition opEntityUpdate :: op where
  "opEntityUpdate v did msg r h = (case decode_entityUpdateArgs r of
      Inl e \<Rightarrow> (errorResp v did msg (Wrap ''entity.update'' e), h)
    | Inr a \<Rightarrow> (case get_entity (v_io_read v) did (wa_id a) (hs_db h) of
          Inl e \<Rightarrow> (errorResp v did msg (Wrap ''entity.update'' e), h)
        | Inr None \<Rightarrow> (nil_dereference, h)
        | Inr (Some cur) \<Rightarrow>
            (let base = (case e_data cur of None \<Rightarrow> [] | Some m \<Rightarrow> m);
                 data = mputs (case wa_fields a of None \<Rightarrow> [] | Some m \<Rightarrow> m) base;
                 cur' = cur\<lparr>e_data := Some data, e_updated_at := v_now v\<rparr>;
                 ev = new_event v (v_id1 v) did EventEntityUpdated (entity_json cur')
                    (fallback [wa_author a, m_source msg, did]) (fallback [wa_client a, ''federation'', []])
             in case append_event (v_io_append v) (v_now v) (v_id1 v) (Some ev) (hs_db h) of
                  Inl err \<Rightarrow> (errorResp v did msg (Wrap ''entity.update: append'' err), h)
                | Inr db1 \<Rightarrow> (case upsert_entity (v_io_write v) (v_now v) (Some cur') db1 of
                      Inl err \<Rightarrow> (errorResp v did msg (Wrap ''entity.update: upsert'' err), h\<lparr>hs_db := db1\<rparr>)
                    | Inr (e', db2) \<Rightarrow> (respond v did msg (entity_json e'), h\<lparr>hs_db := db2\<rparr>)))))"

definition stamp_json :: "string \<Rightarrow> string \<Rightarrow> time \<Rightarrow> json" where
  "stamp_json k i t = JObj (mput ''id'' (JStr i) [(k, enc_time t)])"

definition opEntityArchive :: op where
  "opEntityArchive v did msg r h = (case decode_entityArchiveArgs r of
      Inl e \<Rightarrow> (errorResp v did msg (Wrap ''entity.archive'' e), h)
    | Inr a \<Rightarrow>
        (let ev = new_event v (v_id1 v) did EventEntityArchived (stamp_json ''archived_at'' (wa_id a) (v_now v))
               (fallback [wa_author a, m_source msg, did]) (fallback [wa_client a, ''federation'', []])
         in case append_event (v_io_append v) (v_now v) (v_id1 v) (Some ev) (hs_db h) of
              Inl err \<Rightarrow> (errorResp v did msg (Wrap ''entity.archive: append'' err), h)
            | Inr db1 \<Rightarrow> (case archive_entity (v_io_write v) (v_now v) did (wa_id a) (v_now v) db1 of
                  Inl err \<Rightarrow> (errorResp v did msg (Wrap ''entity.archive'' err), h\<lparr>hs_db := db1\<rparr>)
                | Inr db2 \<Rightarrow> (respond v did msg (stamp_json ''archived_at'' (wa_id a) (v_now v)), h\<lparr>hs_db := db2\<rparr>))))"

section \<open>Relation operations\<close>

definition opRelationCreate :: op where
  "opRelationCreate v did msg r h = (case decode_relationCreateArgs r of
      Inl e \<Rightarrow> (errorResp v did msg (Wrap ''relation.create'' e), h)
    | Inr a \<Rightarrow>
        (case (case hs_schema h of None \<Rightarrow> None
               | Some rs \<Rightarrow> (case RelationType did (ra_type a) rs of Inl e \<Rightarrow> Some e | Inr _ \<Rightarrow> None)) of
           Some e \<Rightarrow> (errorResp v did msg (Wrap ''relation.create'' e), h)
         | None \<Rightarrow>
            (let x = \<lparr>r_id = v_id1 v, r_from = ra_from a, r_to = ra_to a, r_type = ra_type a, r_peer = did,
                   r_created_at = v_now v, r_created_by = fallback [ra_author a, m_source msg, did],
                   r_client = fallback [ra_client a, ''federation'', []], r_data = ra_data a\<rparr>;
                 ev = new_event v (v_id2 v) did EventRelationCreated (relation_json x) (r_created_by x) (r_client x)
             in case append_event (v_io_append v) (v_now v) (v_id2 v) (Some ev) (hs_db h) of
                  Inl err \<Rightarrow> (errorResp v did msg (Wrap ''relation.create: append'' err), h)
                | Inr db1 \<Rightarrow> (case upsert_relation (v_io_write v) (v_now v) (Some x) db1 of
                      Inl err \<Rightarrow> (errorResp v did msg (Wrap ''relation.create'' err), h\<lparr>hs_db := db1\<rparr>)
                    | Inr (x', db2) \<Rightarrow> (respond v did msg (relation_json x'), h\<lparr>hs_db := db2\<rparr>)))))"

definition opRelationQuery :: op where
  "opRelationQuery v did msg r h = (case decode_relationQueryArgs r of
      Inl e \<Rightarrow> (errorResp v did msg (Wrap ''relation.query'' e), h)
    | Inr a \<Rightarrow>
        (case query_relations (v_io_read v) did (ra_from a) (ra_to a) (ra_type a) (ra_limit a) (hs_db h) of
           Inl e \<Rightarrow> (errorResp v did msg (Wrap ''relation.query'' e), h)
         | Inr rs \<Rightarrow> (respond v did msg (slice_json relation_json rs), h)))"

definition opRelationDissolve :: op where
  "opRelationDissolve v did msg r h = (case decode_relationDissolveArgs r of
      Inl e \<Rightarrow> (errorResp v did msg (Wrap ''relation.dissolve'' e), h)
    | Inr a \<Rightarrow>
        (let ev = new_event v (v_id1 v) did EventRelationDissolved (stamp_json ''dissolved_at'' (wa_id a) (v_now v))
               (fallback [wa_author a, m_source msg, did]) (fallback [wa_client a, ''federation'', []])
         in case append_event (v_io_append v) (v_now v) (v_id1 v) (Some ev) (hs_db h) of
              Inl err \<Rightarrow> (errorResp v did msg (Wrap ''relation.dissolve: append'' err), h)
            | Inr db1 \<Rightarrow> (case dissolve_relation (v_io_write v) did (wa_id a) db1 of
                  Inl err \<Rightarrow> (errorResp v did msg (Wrap ''relation.dissolve'' err), h\<lparr>hs_db := db1\<rparr>)
                | Inr db2 \<Rightarrow> (respond v did msg (stamp_json ''dissolved_at'' (wa_id a) (v_now v)), h\<lparr>hs_db := db2\<rparr>))))"

section \<open>Type operations\<close>

definition opTypeList :: op where
  "opTypeList v did msg r h = (respond v did msg (JObj (case hs_schema h of
      None \<Rightarrow> []
    | Some rs \<Rightarrow> [(''entity_types'', JArr (map entity_type_json (EntityTypes did rs))),
        (''relationship_types'', JArr (map rel_type_json (RelationTypes did rs)))])), h)"

definition opTypeDescribe :: op where
  "opTypeDescribe v did msg r h = (case decode_typeDescribeArgs r of
      Inl e \<Rightarrow> (errorResp v did msg (Wrap ''type.describe'' e), h)
    | Inr a \<Rightarrow> (case hs_schema h of
          None \<Rightarrow> (errorResp v did msg (Errorf ''type.describe: no resolver''), h)
        | Some rs \<Rightarrow>
            if ta_is_rel a then
              (case RelationType did (ta_name a) rs of
                 Inl e \<Rightarrow> (errorResp v did msg e, h)
               | Inr d \<Rightarrow> (respond v did msg (rel_type_json d), h))
            else
              (case EntityType did (ta_name a) rs of
                 Inl e \<Rightarrow> (errorResp v did msg e, h)
               | Inr d \<Rightarrow> (respond v did msg (entity_type_json d), h))))"

definition args_rel_type :: "string \<Rightarrow> type_args \<Rightarrow> rel_type_def" where
  "args_rel_type did a = \<lparr>rt_name = ta_name a, rt_peer = did, rt_fields = ta_fields a,
     rt_desc = ta_desc a, rt_directional = ta_directional a\<rparr>"

definition args_entity_type :: "string \<Rightarrow> type_args \<Rightarrow> entity_type_def" where
  "args_entity_type did a = \<lparr>et_name = ta_name a, et_peer = did, et_fields = ta_fields a, et_desc = ta_desc a\<rparr>"

definition register_args :: "string \<Rightarrow> type_args \<Rightarrow> resolver \<Rightarrow> resolver" where
  "register_args did a rs =
     (if ta_is_rel a then RegisterRelationType did (args_rel_type did a) rs
      else RegisterEntityType did (args_entity_type did a) rs)"

text \<open>The definition is registered before its event is appended.\<close>

definition opTypeDefine :: op where
  "opTypeDefine v did msg r h = (case decode_typeDefineArgs r of
      Inl e \<Rightarrow> (errorResp v did msg (Wrap ''type.define'' e), h)
    | Inr a \<Rightarrow>
        (let h1 = h\<lparr>hs_schema := map_option (register_args did a) (hs_schema h)\<rparr>;
             def = (if ta_is_rel a then rel_type_json (args_rel_type did a)
                    else entity_type_json (args_entity_type did a));
             evType = (if ta_is_rel a then EventRelationshipTypeDefined else EventEntityTypeDefined);
             entType = (if ta_is_rel a then ''RelationshipTypeDefinition'' else ''EntityTypeDefinition'');
             defMap = (case decode_map (Doc def) of Inl _ \<Rightarrow> None | Inr m \<Rightarrow> m);
             e = new_entity v did msg entType (ta_author a) (ta_client a) defMap;
             ev = new_event v (v_id2 v) did evType def (e_created_by e) (e_client e)
         in case append_event (v_io_append v) (v_now v) (v_id2 v) (Some ev) (hs_db h) of
              Inl err \<Rightarrow> (errorResp v did msg (Wrap ''type.define: append'' err), h1)
            | Inr db1 \<Rightarrow> (case upsert_entity (v_io_write v) (v_now v) (Some e) db1 of
                  Inl err \<Rightarrow> (errorResp v did msg (Wrap ''type.define: upsert'' err), h1\<lparr>hs_db := db1\<rparr>)
                | Inr (e', db2) \<Rightarrow> (respond v did msg def, h1\<lparr>hs_db := db2\<rparr>))))"

section \<open>Search and time travel\<close>

definition opSemanticSearch :: "sqlite \<Rightarrow> op" where
  "opSemanticSearch sq v did msg r h = (case decode_semanticArgs r of
      Inl e \<Rightarrow> (errorResp v did msg (Wrap ''semantic.search'' e), h)
    | Inr a \<Rightarrow>
        if sa_vector a \<noteq> [] then
          (case semantic_search sq (v_io_read v) (v_io_write v) did (sa_vector a) (sa_type a) (sa_limit a) (hs_db h) of
             Inl e \<Rightarrow> (errorResp v did msg (Wrap ''semantic.search'' e), h)
           | Inr hits \<Rightarrow> (respond v did msg (JArr (map hit_json hits)), h))
        else
          (case substring_search sq (v_io_read v) did (sa_query a) (sa_type a) (sa_limit a) (hs_db h) of
             Inl e \<Rightarrow> (errorResp v did msg (Wrap ''semantic.search'' e), h)
           | Inr hits \<Rightarrow> (respond v did msg (slice_json hit_json hits), h)))"

definition opTimeTravel :: op where
  "opTimeTravel v did msg r h = (case decode_timeTravelArgs r of
      Inl e \<Rightarrow> (errorResp v did msg (Wrap ''time.travel'' e), h)
    | Inr a \<Rightarrow> (case time_travel_entities (v_io_read v) did (tt_query a) (tt_as_of a) (hs_db h) of
          Inl e \<Rightarrow> (errorResp v did msg (Wrap ''time.travel'' e), h)
        | Inr es \<Rightarrow> (respond v did msg (JArr (map entity_json es)), h)))"

section \<open>Dispatch\<close>

definition dispatch_op :: "sqlite \<Rightarrow> string \<Rightarrow> op option" where
  "dispatch_op sq name =
     (if name = ''entity.get'' then Some opEntityGet
      else if name = ''entity.query'' then Some (opEntityQuery sq)
      else if name = ''entity.create'' then Some opEntityCreate
      else if name = ''entity.update'' then Some opEntityUpdate
      else if name = ''entity.archive'' then Some opEntityArchive
      else if name = ''relation.create'' then Some opRelationCreate
      else if name = ''relation.query'' then Some opRelationQuery
      else if name = ''relation.dissolve'' then Some opRelationDissolve
      else if name = ''type.list'' then Some opTypeList
      else if name = ''type.describe'' then Some opTypeDescribe
      else if name = ''type.define'' then Some opTypeDefine
      else if name = ''semantic.search'' then Some (opSemanticSearch sq)
      else if name = ''time.travel'' then Some opTimeTravel
      else None)"

definition show_bool :: "bool \<Rightarrow> string" where
  "show_bool b = (if b then ''true'' else ''false'')"

definition dispatch :: "sqlite \<Rightarrow> env \<Rightarrow> string \<Rightarrow> fed_message \<Rightarrow> bool \<Rightarrow> host \<Rightarrow> outcome \<times> host" where
  "dispatch sq v did msg is_write h = (case decode_envelope (m_payload msg) of
      Inl e \<Rightarrow> (errorResp v did msg (Wrap ''federation: bad payload envelope'' e), h)
    | Inr en \<Rightarrow> (case dispatch_op sq (en_op en) of
          Some f \<Rightarrow> f v did msg (en_args en) h
        | None \<Rightarrow> (errorResp v did msg (Errorf (''federation: unknown op '' @ quote_go (en_op en)
             @ '' (write='' @ show_bool is_write @ '')'')), h)))"

definition HandleQuery :: "sqlite \<Rightarrow> env \<Rightarrow> string \<Rightarrow> fed_message \<Rightarrow> host \<Rightarrow> outcome \<times> host" where
  "HandleQuery sq v did msg h = dispatch sq v did msg False h"

definition HandleWrite :: "sqlite \<Rightarrow> env \<Rightarrow> string \<Rightarrow> fed_message \<Rightarrow> host \<Rightarrow> outcome \<times> host" where
  "HandleWrite sq v did msg h = dispatch sq v did msg True h"

definition HandlePing :: "env \<Rightarrow> string \<Rightarrow> fed_message \<Rightarrow> host \<Rightarrow> outcome \<times> host" where
  "HandlePing v did msg h = (respond v did msg (JObj [(''ok'', JBool True), (''peer_did'', JStr did)]), h)"

end
