(* ===== verification/Time_Order.thy ===== *)
theory Time_Order
  imports Go_Time
begin

text \<open>
  How the text of two timestamps compares, which is how the database orders events: by
  second the text order is the order of time; inside one second it is not, because the
  fraction is written without its trailing zeros and a whole second without any.
\<close>

section \<open>Fixed-width fields compare as numbers\<close>

lemma less_append:
  fixes xs ys :: string
  assumes "length xs = length ys" and "xs < ys"
  shows "xs @ as < ys @ bs"
  using assms
proof (induction xs ys rule: list_induct2)
  case (Cons x xs y ys)
  then show ?case by (cases "x = y") auto
qed simp

lemma digit_char_less: "m < n \<Longrightarrow> n < 10 \<Longrightarrow> digit_char m < digit_char n"
  using byte_of_digit_char [of m] byte_of_digit_char [of n]
  by (simp add: less_char_def byte_of_def)

lemma append_less_same [simp]: "(zs :: string) @ xs < zs @ ys \<longleftrightarrow> xs < ys"
  by (induction zs) auto

lemma fixed_digits_less:
  "m < n \<Longrightarrow> n < 10 ^ w \<Longrightarrow> fixed_digits w m < fixed_digits w n"
proof (induction w arbitrary: m n)
  case (Suc w)
  have n: "n div 10 < 10 ^ w" using Suc.prems by (simp add: less_mult_imp_div_less)
  show ?case
  proof (cases "m div 10 = n div 10")
    case True
    then have "m mod 10 < n mod 10"
      using Suc.prems(1) by (metis div_mult_mod_eq nat_add_left_cancel_less)
    then have "digit_char (m mod 10) < digit_char (n mod 10)"
      by (rule digit_char_less) simp
    with True show ?thesis by simp
  next
    case False
    then have "m div 10 < n div 10"
      using Suc.prems(1) by (simp add: div_le_mono order_less_imp_le le_neq_implies_less)
    then have "fixed_digits w (m div 10) < fixed_digits w (n div 10)"
      using n by (rule Suc.IH)
    then show ?thesis by (simp add: less_append)
  qed
qed simp

lemma field_less:
  assumes "m < n \<or> m = n \<and> as < bs" and "n < 10 ^ w"
  shows "fixed_digits w m @ as < fixed_digits w n @ bs"
  using assms less_append [OF _ fixed_digits_less] by auto

section \<open>The calendar is monotone\<close>

lemma year_day_mono:
  assumes "d < d'" and "year_day d = (y, yd)" and "year_day d' = (y', yd')"
  shows "y < y' \<or> y = y' \<and> yd < yd'"
proof -
  note a = year_day_correct [OF assms(2)] and b = year_day_correct [OF assms(3)]
  have "\<not> y' < y"
  proof
    assume "y' < y"
    then have "days_before_year (y' + 1) \<le> days_before_year y" by (intro days_before_year_mono) simp
    then show False using a b assms(1) by (simp add: days_before_year_Suc)
  qed
  moreover have "yd < yd'" if "y = y'" using a b assms(1) that by simp
  ultimately show ?thesis by auto
qed

lemma month_day_mono:
  assumes "yd < yd'" and "month_day leap yd = (m, d)" and "month_day leap yd' = (m', d')"
  shows "m < m' \<or> m = m' \<and> d < d'"
proof (cases "m = m'")
  case True
  then show ?thesis using assms by (auto simp: month_day_def Let_def)
next
  case False
  have "m \<le> m'" using assms by (cases leap) (auto simp: month_day_def Let_def split: if_splits)
  with False show ?thesis by simp
qed

lemma clock_mono:
  fixes s s' :: int
  assumes "s < s'" and "0 \<le> s" and "s' < 86400"
  shows "s div 3600 < s' div 3600 \<or> s div 3600 = s' div 3600
    \<and> (s mod 3600 div 60 < s' mod 3600 div 60
      \<or> s mod 3600 div 60 = s' mod 3600 div 60 \<and> s mod 60 < s' mod 60)"
proof -
  have h: "s div 3600 \<le> s' div 3600" using assms by (simp add: zdiv_mono1)
  have e: "s mod 60 = s mod 3600 mod 60" "s' mod 60 = s' mod 3600 mod 60"
    by (simp_all add: mod_mod_cancel)
  show ?thesis
  proof (cases "s div 3600 = s' div 3600")
    case True
    then have r: "s mod 3600 < s' mod 3600"
      using assms(1) by (metis add_less_cancel_left mult_div_mod_eq)
    then have m: "s mod 3600 div 60 \<le> s' mod 3600 div 60" by (simp add: zdiv_mono1)
    show ?thesis
    proof (cases "s mod 3600 div 60 = s' mod 3600 div 60")
      case True
      then have "s mod 3600 mod 60 < s' mod 3600 mod 60"
        using r by (metis add_less_cancel_left mult_div_mod_eq)
      with True \<open>s div 3600 = s' div 3600\<close> show ?thesis unfolding e by blast
    next
      case False
      with m \<open>s div 3600 = s' div 3600\<close> show ?thesis by force
    qed
  next
    case False
    with h show ?thesis by force
  qed
qed

lemma clock_text_less:
  assumes "s < s'" and "0 \<le> s" and "s' < 86400"
  shows "fixed_digits 2 (nat (s div 3600)) @ CHR '':'' # fixed_digits 2 (nat (s mod 3600 div 60))
           @ CHR '':'' # fixed_digits 2 (nat (s mod 60)) @ as
         < fixed_digits 2 (nat (s' div 3600)) @ CHR '':'' # fixed_digits 2 (nat (s' mod 3600 div 60))
           @ CHR '':'' # fixed_digits 2 (nat (s' mod 60)) @ bs"
proof -
  define h m c h' m' c' where "h = s div 3600" and "m = s mod 3600 div 60" and "c = s mod 60"
    and "h' = s' div 3600" and "m' = s' mod 3600 div 60" and "c' = s' mod 60"
  have lo: "0 \<le> h" "0 \<le> m" "0 \<le> c" "0 \<le> h'" "0 \<le> m'" "0 \<le> c'"
    using assms by (simp_all add: h_def m_def c_def h'_def m'_def c'_def)
  have "h' < 100" "m' < 100" "c' < 100"
  proof -
    have "h' < 24" using assms by (simp add: h'_def)
    moreover have "m' < 60" by (simp add: m'_def)
    moreover have "c' < 60" by (simp add: c'_def)
    ultimately show "h' < 100" "m' < 100" "c' < 100" by simp_all
  qed
  then have hi: "nat h' < 10 ^ 2" "nat m' < 10 ^ 2" "nat c' < 10 ^ 2" by simp_all
  have "h < h' \<or> h = h' \<and> (m < m' \<or> m = m' \<and> c < c')"
    using clock_mono [OF assms] by (simp only: h_def m_def c_def h'_def m'_def c'_def)
  then have "nat h < nat h' \<or> nat h = nat h' \<and> (nat m < nat m' \<or> nat m = nat m' \<and> nat c < nat c')"
    using lo by auto
  then show ?thesis
    unfolding h_def [symmetric] m_def [symmetric] c_def [symmetric]
      h'_def [symmetric] m'_def [symmetric] c'_def [symmetric]
    by (intro field_less hi) (auto intro!: field_less hi simp del: fixed_digits.simps)
qed

lemma date_text_less:
  assumes "secs < secs'" and "- 366 * 86400 \<le> secs" and "secs' < 3652059 * 86400"
  shows "date_text secs @ as < date_text secs' @ bs"
proof -
  define D D' where "D = secs div 86400" and "D' = secs' div 86400"
  define s s' where "s = secs mod 86400" and "s' = secs' mod 86400"
  have s: "0 \<le> s" "s < 86400" "0 \<le> s'" "s' < 86400" by (simp_all add: s_def s'_def)
  have split: "secs = D * 86400 + s" "secs' = D' * 86400 + s'"
    by (simp_all add: D_def D'_def s_def s'_def)
  have D: "- 366 \<le> D" "D' < 3652059" using assms split s by linarith+
  have DD: "D < D' \<or> D = D' \<and> s < s'" using assms(1) split s by linarith
  obtain y yd y' yd' where y: "year_day D = (y, yd)" "year_day D' = (y', yd')" by (metis surj_pair)
  obtain m d m' d' where m: "month_day (leap_year y) yd = (m, d)" "month_day (leap_year y') yd' = (m', d')"
    by (metis surj_pair)
  have "D' \<ge> - 366" "D < 3652059" using DD D by auto
  then have yr: "0 \<le> y" "y < 10000" "0 \<le> y'" "y' < 10000"
    using year_in_range [OF y(1)] year_in_range [OF y(2)] D by simp_all
  note yd = year_day_correct [OF y(1)] year_day_correct [OF y(2)]
  note md = month_day_correct [OF m(1) yd(2,3)] month_day_correct [OF m(2) yd(5,6)]
  have ord: "y < y' \<or> y = y' \<and> (m < m' \<or> m = m' \<and> (d < d' \<or> d = d' \<and> s < s'))"
  proof (cases "D < D'")
    case True
    then consider "y < y'" | "y = y'" "yd < yd'" using year_day_mono [OF True y] by blast
    then show ?thesis
    proof cases
      case 2
      then show ?thesis using month_day_mono [OF 2(2) m(1)] m(2) by auto
    qed simp
  next
    case False
    then have "D = D'" "s < s'" using DD by auto
    then show ?thesis using y m by auto
  qed
  have hi: "nat y' < 10 ^ 4" "nat m' < 10 ^ 2" "nat d' < 10 ^ 2" using yr md by simp_all
  have mods: "secs mod 60 = s mod 60" "secs' mod 60 = s' mod 60"
    by (simp_all add: s_def s'_def mod_mod_cancel)
  have ord': "nat y < nat y' \<or> nat y = nat y' \<and> (nat m < nat m' \<or> nat m = nat m'
      \<and> (nat d < nat d' \<or> nat d = nat d' \<and> s < s'))"
    using ord yr md by auto
  have lhs: "date_text secs @ as = fixed_digits 4 (nat y) @ CHR ''-'' # fixed_digits 2 (nat m)
      @ CHR ''-'' # fixed_digits 2 (nat d) @ CHR ''T'' # (fixed_digits 2 (nat (s div 3600))
      @ CHR '':'' # fixed_digits 2 (nat (s mod 3600 div 60))
      @ CHR '':'' # fixed_digits 2 (nat (s mod 60)) @ as)"
    using yr by (simp add: date_text_def y m year_text_def mods flip: D_def s_def del: fixed_digits.simps)
  have rhs: "date_text secs' @ bs = fixed_digits 4 (nat y') @ CHR ''-'' # fixed_digits 2 (nat m')
      @ CHR ''-'' # fixed_digits 2 (nat d') @ CHR ''T'' # (fixed_digits 2 (nat (s' div 3600))
      @ CHR '':'' # fixed_digits 2 (nat (s' mod 3600 div 60))
      @ CHR '':'' # fixed_digits 2 (nat (s' mod 60)) @ bs)"
    using yr by (simp add: date_text_def y m year_text_def mods flip: D'_def s'_def del: fixed_digits.simps)
  define A A' where "A = fixed_digits 2 (nat (s div 3600))
      @ CHR '':'' # fixed_digits 2 (nat (s mod 3600 div 60))
      @ CHR '':'' # fixed_digits 2 (nat (s mod 60)) @ as"
    and "A' = fixed_digits 2 (nat (s' div 3600))
      @ CHR '':'' # fixed_digits 2 (nat (s' mod 3600 div 60))
      @ CHR '':'' # fixed_digits 2 (nat (s' mod 60)) @ bs"
  have clk: "A < A'" if "s < s'"
    unfolding A_def A'_def using that s by (intro clock_text_less) simp_all
  define B B' where "B = fixed_digits 2 (nat d) @ CHR ''T'' # A" and "B' = fixed_digits 2 (nat d') @ CHR ''T'' # A'"
  have day: "B < B'" if "nat d < nat d' \<or> nat d = nat d' \<and> s < s'"
    unfolding B_def B'_def using that clk by (intro field_less hi) auto
  define C C' where "C = fixed_digits 2 (nat m) @ CHR ''-'' # B" and "C' = fixed_digits 2 (nat m') @ CHR ''-'' # B'"
  have mon: "C < C'" if "nat m < nat m' \<or> nat m = nat m' \<and> (nat d < nat d' \<or> nat d = nat d' \<and> s < s')"
    unfolding C_def C'_def using that day by (intro field_less hi) auto
  have "fixed_digits 4 (nat y) @ CHR ''-'' # C < fixed_digits 4 (nat y') @ CHR ''-'' # C'"
    using ord' mon by (intro field_less hi) auto
  then show ?thesis
    unfolding lhs rhs A_def A'_def B_def B'_def C_def C'_def by simp
qed

section \<open>Order of timestamps\<close>

text \<open>By second, the order of the texts is the order of time.\<close>

lemma time_ok_secs: "time_ok t \<Longrightarrow> - 366 * 86400 \<le> t div nanos \<and> t div nanos < 3652059 * 86400"
  unfolding time_ok_def nanos_def by linarith

lemma format_time_seconds:
  assumes "time_ok t" and "time_ok t'" and "t div nanos < t' div nanos"
  shows "format_time t < format_time t'"
  using date_text_less [of "t div nanos" "t' div nanos"] assms time_ok_secs [of t] time_ok_secs [of t']
  by (simp add: format_time_def)

lemma div_nanos_mono: "t \<le> t' \<Longrightarrow> t div nanos \<le> t' div nanos"
  by (simp add: nanos_def zdiv_mono1)

lemma format_time_whole_iff:
  assumes "time_ok t" and "time_ok t'" and "t mod nanos = 0" and "t' mod nanos = 0"
  shows "format_time t \<le> format_time t' \<longleftrightarrow> t \<le> t'"
proof -
  have eq: "t = t div nanos * nanos" "t' = t' div nanos * nanos"
    using assms by (simp_all add: dvd_eq_mod_eq_0)
  consider "t div nanos < t' div nanos" | "t div nanos = t' div nanos" | "t' div nanos < t div nanos"
    by force
  then show ?thesis
  proof cases
    case 1
    then have "t \<le> t'" by (meson div_nanos_mono leD linear)
    then show ?thesis using format_time_seconds [OF assms(1,2) 1] by simp
  next
    case 2
    then have "t = t'" using eq by metis
    then show ?thesis by simp
  next
    case 3
    then have "\<not> t \<le> t'" by (meson div_nanos_mono leD)
    then show ?thesis using format_time_seconds [OF assms(2,1) 3] by simp
  qed
qed

text \<open>
  Inside a second it is not: a whole second is written \<open>...05Z\<close> and every later instant of
  that second \<open>...05.nZ\<close>, and the point sorts before the letter.
\<close>

lemma format_time_inverted:
  assumes "t mod nanos = 0" and "0 < n" and "n < nanos"
  shows "format_time (t + n) < format_time t"
proof -
  have q: "(t + n) div nanos = t div nanos" "(t + n) mod nanos = n"
    using assms by (simp_all add: div_add1_eq mod_add_eq [symmetric])
  have "frac_text (nat n) @ ''Z'' < ''Z''"
    using assms(2) by (simp add: frac_text_def less_char_def)
  then show ?thesis using assms(1) by (simp add: format_time_def q frac_text_def [of 0])
qed

end
