(* ===== verification/Store_Facts.thy ===== *)
theory Store_Facts
  imports Store Time_Order
begin

text \<open>
  Facts about the store: rows keyed by id, the round trip of a row, what each write leaves
  alone, and what a read can see. An operation on behalf of a peer depends only on the
  rows of that peer (\<open>peer_view\<close>), and writes keep the rows well formed (\<open>db_ok\<close>).
\<close>

section \<open>Rows by primary key\<close>

lemma find_append: "find P (xs @ ys) = (case find P xs of None \<Rightarrow> find P ys | Some x \<Rightarrow> Some x)"
  by (induction xs) auto

lemma find_filter: "find P (filter Q xs) = find (\<lambda>x. P x \<and> Q x) xs"
  by (induction xs) auto

lemma row_of_replace_row:
  "row_of key (replace_row key r rows) k = (if k = key r then Some r else row_of key rows k)"
proof (cases "k = key r")
  case True
  then have "find (\<lambda>x. key x = k \<and> key x \<noteq> key r) rows = None" by (auto simp: find_None_iff)
  with True show ?thesis by (simp add: row_of_def replace_row_def find_append find_filter)
next
  case False
  then have "(\<lambda>x. key x = k \<and> key x \<noteq> key r) = (\<lambda>x. key x = k)" by auto
  with False show ?thesis
    by (simp add: row_of_def replace_row_def find_append find_filter split: option.split)
qed

lemma distinct_replace_row:
  "distinct (map key rows) \<Longrightarrow> distinct (map key (replace_row key r rows))"
  by (auto simp: replace_row_def distinct_map_filter)

lemma set_replace_row: "set (replace_row key r rows) = insert r {x \<in> set rows. key x \<noteq> key r}"
  by (auto simp: replace_row_def)

lemma find_Some_set: "find P rows = Some r \<Longrightarrow> r \<in> set rows \<and> P r"
  by (induction rows) (auto split: if_splits)

lemma find_distinct:
  assumes d: "distinct (map key rows)" and r: "r \<in> set rows" "P r" and k: "\<And>x. P x \<Longrightarrow> key x = key r"
  shows "find P rows = Some r"
proof -
  obtain x where x: "find P rows = Some x" using r by (metis find_None_iff not_None_eq)
  then have "x \<in> set rows" "P x" using find_Some_set by fast+
  moreover have "inj_on key (set rows)" using d by (simp add: distinct_map)
  ultimately have "x = r" using r(1) k by (meson inj_onD)
  with x show ?thesis by simp
qed

interpretation entity_rows: table "\<lambda>rows. distinct (map er_id rows)" "row_of er_id" "replace_row er_id" er_id
  by unfold_locales (simp_all add: row_of_replace_row distinct_replace_row)

interpretation relation_rows: table "\<lambda>rows. distinct (map rr_id rows)" "row_of rr_id" "replace_row rr_id" rr_id
  by unfold_locales (simp_all add: row_of_replace_row distinct_replace_row)

section \<open>Round trip of a row\<close>

text \<open>What comes back from the data column: a nil map is stored as an empty object.\<close>

definition stored :: "entity \<Rightarrow> entity" where
  "stored e = e\<lparr>e_data := Some (case e_data e of None \<Rightarrow> [] | Some m \<Rightarrow> m)\<rparr>"

lemma scan_time_format [simp]: "time_ok t \<Longrightarrow> scan_time col (format_time t) = Inr t"
  by (simp add: scan_time_def time_text.dec_enc)

lemma decode_map_Doc: "obj_ok m \<Longrightarrow> decode_map (Doc (JObj m)) = Inr (Some m)"
  by (simp add: decode_map_def raw_doc_def obj_ok_def normalize_members_id mputs_self)

lemma scan_data_raw:
  "(case m of None \<Rightarrow> True | Some kvs \<Rightarrow> obj_ok kvs) \<Longrightarrow>
   scan_data (data_raw m) = Inr (Some (case m of None \<Rightarrow> [] | Some kvs \<Rightarrow> kvs))"
  by (cases m) (simp_all add: scan_data_def data_raw_def decode_map_Doc)

lemma scan_entity_row: "entity_ok e \<Longrightarrow> scan_entity (entity_row e) = Inr (stored e)"
  by (cases "e_archived_at e")
    (simp_all add: scan_entity_def entity_row_def entity_ok_def scan_data_raw stored_def)

lemma stored_ok [simp]: "entity_ok e \<Longrightarrow> entity_ok (stored e)"
  by (simp add: entity_ok_def stored_def split: option.splits)

lemma stored_stored [simp]: "stored (stored e) = stored e"
  by (simp add: stored_def)

lemma entity_row_stored [simp]: "entity_row (stored e) = entity_row e"
  by (simp add: entity_row_def stored_def data_raw_def)

lemma stored_simps [simp]:
  "e_id (stored e) = e_id e" "e_type (stored e) = e_type e" "e_peer (stored e) = e_peer e"
  "e_created_at (stored e) = e_created_at e" "e_updated_at (stored e) = e_updated_at e"
  "e_archived_at (stored e) = e_archived_at e" "e_created_by (stored e) = e_created_by e"
  "e_client (stored e) = e_client e" "e_embedding (stored e) = e_embedding e"
  by (simp_all add: stored_def)

text \<open>A row that some well-formed entity was written to.\<close>

definition entity_row_ok :: "entity_record \<Rightarrow> bool" where
  "entity_row_ok r \<longleftrightarrow> (case scan_entity r of Inl _ \<Rightarrow> False | Inr e \<Rightarrow> entity_ok e \<and> stored e = e \<and> entity_row e = r)"

definition entity_of :: "entity_record \<Rightarrow> entity" where
  "entity_of r = (case scan_entity r of Inl _ \<Rightarrow> zero_entity | Inr e \<Rightarrow> e)"

lemma entity_row_ok_row [simp]: "entity_ok e \<Longrightarrow> entity_row_ok (entity_row e)"
  by (simp add: entity_row_ok_def scan_entity_row)

lemma entity_row_okE:
  assumes "entity_row_ok r"
  obtains e where "entity_ok e" "stored e = e" "r = entity_row e" "scan_entity r = Inr e" "entity_of r = e"
  using assms by (auto simp: entity_row_ok_def entity_of_def split: sum.splits)

lemma scan_entity_of: "entity_row_ok r \<Longrightarrow> scan_entity r = Inr (entity_of r)"
  by (auto elim: entity_row_okE)

lemma entity_of_row [simp]: "entity_ok e \<Longrightarrow> entity_of (entity_row e) = stored e"
  by (simp add: entity_of_def scan_entity_row)

lemma entity_of_fields:
  assumes "entity_row_ok r"
  shows "e_id (entity_of r) = er_id r" "e_type (entity_of r) = er_type r"
    "e_peer (entity_of r) = er_peer r" "entity_ok (entity_of r)" "entity_row (entity_of r) = r"
    "stored (entity_of r) = entity_of r"
    "e_archived_at (entity_of r) = None \<longleftrightarrow> er_archived_at r = None"
    "format_time (e_created_at (entity_of r)) = er_created_at r"
    "data_raw (e_data (entity_of r)) = er_data r"
  using assms by (auto elim!: entity_row_okE simp: entity_row_def)

section \<open>A well-formed database\<close>

definition relation_ok :: "relation \<Rightarrow> bool" where
  "relation_ok r \<longleftrightarrow> time_ok (r_created_at r) \<and> (case r_data r of None \<Rightarrow> True | Some m \<Rightarrow> obj_ok m)"

definition relation_row_ok :: "relation_record \<Rightarrow> bool" where
  "relation_row_ok r \<longleftrightarrow> (case scan_relation r of Inl _ \<Rightarrow> False | Inr x \<Rightarrow> relation_ok x \<and> relation_row x = r)"

definition event_row_ok :: "event_row \<Rightarrow> bool" where
  "event_row_ok r \<longleftrightarrow> vr_peer r \<noteq> [] \<and> vr_type r \<noteq> []
     \<and> (case parse_time (vr_time r) of Inl _ \<Rightarrow> False | Inr t \<Rightarrow> time_ok t \<and> format_time t = vr_time r)"

definition db_ok :: "db \<Rightarrow> bool" where
  "db_ok db \<longleftrightarrow> distinct (map vr_id (d_events db)) \<and> distinct (map er_id (d_entities db))
     \<and> distinct (map rr_id (d_relations db))
     \<and> (\<forall>r \<in> set (d_events db). event_row_ok r)
     \<and> (\<forall>r \<in> set (d_entities db). entity_row_ok r \<and> er_peer r \<noteq> [])
     \<and> (\<forall>r \<in> set (d_relations db). relation_row_ok r \<and> rr_peer r \<noteq> [])"

lemma new_store_ok: "new_store path n = Inr db \<Longrightarrow> db_ok db"
  by (auto simp: new_store_def db_ok_def split: if_splits)

lemma scan_relation_row: "relation_ok r \<Longrightarrow> scan_relation (relation_row r)
    = Inr (r\<lparr>r_data := Some (case r_data r of None \<Rightarrow> [] | Some m \<Rightarrow> m)\<rparr>)"
  by (cases "r_data r")
    (simp_all add: scan_relation_def relation_row_def relation_ok_def data_raw_def time_text.dec_enc decode_map_Doc)

lemma relation_row_ok_row [simp]: "relation_ok r \<Longrightarrow> relation_row_ok (relation_row r)"
  unfolding relation_row_ok_def
  by (cases "r_data r") (simp_all add: scan_relation_row, simp_all add: relation_ok_def relation_row_def data_raw_def)

section \<open>Writes\<close>

lemma exec_Inr_iff [simp]: "exec io r = Inr x \<longleftrightarrow> io = None \<and> r = Inr x"
  by (auto simp: exec_def split: option.split)

text \<open>Appending adds one row at the end of the log and touches nothing else.\<close>

definition event_row_of :: "time \<Rightarrow> string \<Rightarrow> event \<Rightarrow> event_row" where
  "event_row_of now ulid ev = \<lparr>vr_id = if ev_id ev = [] then ulid else ev_id ev,
     vr_peer = ev_peer ev, vr_type = ev_type ev,
     vr_payload = case ev_payload ev of Empty \<Rightarrow> Doc JNull | p \<Rightarrow> p,
     vr_time = format_time (if ev_time ev = 0 then now else ev_time ev),
     vr_author = ev_author ev, vr_client = ev_client ev, vr_signature = ev_signature ev\<rparr>"

lemma append_event_Some: "append_event io now ulid (Some v) db =
     (if ev_peer v = [] then Inl (Errorf ''store: AppendEvent: missing peer_did'')
      else if ev_type v = [] then Inl (Errorf ''store: AppendEvent: missing type'')
      else (case exec io (insert_event (event_row_of now ulid v) db) of
                Inl e \<Rightarrow> Inl (Wrap (''store: insert event '' @ vr_id (event_row_of now ulid v)) e)
              | Inr db' \<Rightarrow> Inr db'))"
  by (simp only: append_event_def Let_def event_row_of_def option.simps event_row.simps)

lemma append_event_cases:
  "append_event io now ulid ev db = Inr db' \<longleftrightarrow>
     (\<exists>v. ev = Some v \<and> ev_peer v \<noteq> [] \<and> ev_type v \<noteq> [] \<and> io = None
       \<and> vr_id (event_row_of now ulid v) \<notin> vr_id ` set (d_events db)
       \<and> db' = db\<lparr>d_events := d_events db @ [event_row_of now ulid v]\<rparr>)"
proof (cases ev)
  case None
  then show ?thesis by (simp add: append_event_def)
next
  case (Some v)
  define r where "r = event_row_of now ulid v"
  show ?thesis
    unfolding Some append_event_Some r_def [symmetric]
    by (auto simp: insert_event_def exec_def r_def [symmetric] split: sum.splits option.splits if_splits)
qed

lemma append_event_frame [frame_simps]:
  assumes "append_event io now ulid ev db = Inr db'"
  shows "d_entities db' = d_entities db" "d_relations db' = d_relations db" "d_meta db' = d_meta db"
    "d_vectors db' = d_vectors db" "d_dim db' = d_dim db"
  using assms by (auto simp: append_event_cases)

lemma append_event_ok:
  assumes "append_event io now ulid ev db = Inr db'" and "db_ok db" and "time_ok now"
    and "\<And>v. ev = Some v \<Longrightarrow> time_ok (ev_time v)"
  shows "db_ok db'"
proof -
  obtain v where v: "ev = Some v" "ev_peer v \<noteq> []" "ev_type v \<noteq> []"
    and fresh: "vr_id (event_row_of now ulid v) \<notin> vr_id ` set (d_events db)"
    and db': "db' = db\<lparr>d_events := d_events db @ [event_row_of now ulid v]\<rparr>"
    using assms(1) unfolding append_event_cases by blast
  have "event_row_ok (event_row_of now ulid v)"
    using v assms(3) assms(4) [OF v(1)] by (simp add: event_row_ok_def event_row_of_def time_text.dec_enc)
  then show ?thesis using assms(2) fresh by (simp add: db' db_ok_def)
qed

text \<open>\<open>complete_times e\<close> is the entity after \<open>UpsertEntity\<close> has filled in its times.\<close>

definition complete_times :: "time \<Rightarrow> entity \<Rightarrow> entity" where
  "complete_times now e =
     (let e1 = (if e_created_at e = 0 then e\<lparr>e_created_at := now\<rparr> else e)
      in if e_updated_at e1 = 0 then e1\<lparr>e_updated_at := now\<rparr> else e1)"

lemma complete_times_simps [simp]:
  "e_id (complete_times now e) = e_id e" "e_type (complete_times now e) = e_type e"
  "e_peer (complete_times now e) = e_peer e" "e_data (complete_times now e) = e_data e"
  "e_archived_at (complete_times now e) = e_archived_at e"
  by (simp_all add: complete_times_def Let_def)

lemma complete_times_id [simp]: "e_created_at e \<noteq> 0 \<Longrightarrow> e_updated_at e \<noteq> 0 \<Longrightarrow> complete_times now e = e"
  by (simp add: complete_times_def)

lemma complete_times_ok [simp]: "entity_ok e \<Longrightarrow> time_ok now \<Longrightarrow> entity_ok (complete_times now e)"
  by (simp add: complete_times_def entity_ok_def Let_def)

lemma upsert_entity_cases:
  "upsert_entity io now e db = Inr (e', db') \<longleftrightarrow>
     (\<exists>x. e = Some x \<and> e_id x \<noteq> [] \<and> e_peer x \<noteq> [] \<and> io = None \<and> e' = complete_times now x
       \<and> db' = db\<lparr>d_entities := replace_row er_id (entity_row e') (d_entities db)\<rparr>)"
  by (cases e) (auto simp: upsert_entity_def Let_def complete_times_def exec_def split: sum.splits option.splits)

lemma upsert_entity_frame [frame_simps]:
  assumes "upsert_entity io now e db = Inr (e', db')"
  shows "d_events db' = d_events db" "d_relations db' = d_relations db" "d_meta db' = d_meta db"
    "d_vectors db' = d_vectors db" "d_dim db' = d_dim db"
  using assms by (auto simp: upsert_entity_cases)

lemma er_simps [simp]:
  "er_id (entity_row e) = e_id e" "er_peer (entity_row e) = e_peer e" "er_type (entity_row e) = e_type e"
  by (simp_all add: entity_row_def)

lemma upsert_entity_ok:
  assumes "upsert_entity io now (Some e) db = Inr (e', db')" and "db_ok db" and "time_ok now" and "entity_ok e"
  shows "db_ok db'"
  using assms by (auto simp: upsert_entity_cases db_ok_def distinct_replace_row set_replace_row)

lemma archive_entity_cases:
  "archive_entity io now did i ts db = Inr db' \<longleftrightarrow>
     did \<noteq> [] \<and> i \<noteq> [] \<and> io = None \<and> (\<exists>r \<in> set (d_entities db). er_peer r = did \<and> er_id r = i)
     \<and> db' = db\<lparr>d_entities := map (\<lambda>r. if er_peer r = did \<and> er_id r = i
          then r\<lparr>er_archived_at := Some (format_time (if ts = 0 then now else ts)),
                 er_updated_at := format_time (if ts = 0 then now else ts)\<rparr> else r) (d_entities db)\<rparr>"
  by (auto simp: archive_entity_def Let_def exec_def list_ex_iff split: sum.splits option.splits if_splits)

lemma archive_entity_frame [frame_simps]:
  assumes "archive_entity io now did i ts db = Inr db'"
  shows "d_events db' = d_events db" "d_relations db' = d_relations db" "d_meta db' = d_meta db"
    "d_vectors db' = d_vectors db" "d_dim db' = d_dim db"
  using assms by (auto simp: archive_entity_cases)

lemma archived_row:
  assumes "entity_row_ok r" and "time_ok t"
  shows "entity_row_ok (r\<lparr>er_archived_at := Some (format_time t), er_updated_at := format_time t\<rparr>)"
    and "entity_of (r\<lparr>er_archived_at := Some (format_time t), er_updated_at := format_time t\<rparr>)
           = (entity_of r)\<lparr>e_archived_at := Some t, e_updated_at := t\<rparr>"
proof -
  obtain e where e: "entity_ok e" "stored e = e" "r = entity_row e" "entity_of r = e"
    using assms(1) by (rule entity_row_okE)
  have ok: "entity_ok (e\<lparr>e_archived_at := Some t, e_updated_at := t\<rparr>)"
    using e(1) assms(2) by (simp add: entity_ok_def)
  have row: "r\<lparr>er_archived_at := Some (format_time t), er_updated_at := format_time t\<rparr>
      = entity_row (e\<lparr>e_archived_at := Some t, e_updated_at := t\<rparr>)"
    by (simp add: e(3) entity_row_def)
  show "entity_row_ok (r\<lparr>er_archived_at := Some (format_time t), er_updated_at := format_time t\<rparr>)"
    unfolding row using ok by simp
  have "stored (e\<lparr>e_archived_at := Some t, e_updated_at := t\<rparr>)
      = (stored e)\<lparr>e_archived_at := Some t, e_updated_at := t\<rparr>"
    by (simp add: stored_def)
  then show "entity_of (r\<lparr>er_archived_at := Some (format_time t), er_updated_at := format_time t\<rparr>)
      = (entity_of r)\<lparr>e_archived_at := Some t, e_updated_at := t\<rparr>"
    unfolding row using ok e by simp
qed

lemma archive_entity_ok:
  assumes "archive_entity io now did i ts db = Inr db'" and "db_ok db" and "time_ok now" and "time_ok ts"
  shows "db_ok db'"
proof -
  define t where "t = (if ts = 0 then now else ts)"
  define f :: "entity_record \<Rightarrow> entity_record" where "f = (\<lambda>r. if er_peer r = did \<and> er_id r = i
      then r\<lparr>er_archived_at := Some (format_time t), er_updated_at := format_time t\<rparr> else r)"
  have t: "time_ok t" using assms by (simp add: t_def)
  have f: "er_id (f r) = er_id r" "er_peer (f r) = er_peer r" "entity_row_ok r \<Longrightarrow> entity_row_ok (f r)" for r
    using archived_row(1) [OF _ t] by (simp_all add: f_def)
  have db': "db' = db\<lparr>d_entities := map f (d_entities db)\<rparr>"
    using assms(1) by (simp add: archive_entity_cases f_def t_def)
  show ?thesis using assms(2) f by (auto simp: db' db_ok_def comp_def)
qed

lemma upsert_relation_cases:
  "upsert_relation io now r db = Inr (r', db') \<longleftrightarrow>
     (\<exists>x. r = Some x \<and> r_id x \<noteq> [] \<and> r_peer x \<noteq> [] \<and> r_from x \<noteq> [] \<and> r_to x \<noteq> [] \<and> r_type x \<noteq> []
       \<and> io = None \<and> r' = (if r_created_at x = 0 then x\<lparr>r_created_at := now\<rparr> else x)
       \<and> db' = db\<lparr>d_relations := replace_row rr_id (relation_row r') (d_relations db)\<rparr>)"
  by (cases r) (auto simp: upsert_relation_def Let_def exec_def split: sum.splits option.splits)

lemma rr_simps [simp]:
  "rr_id (relation_row r) = r_id r" "rr_peer (relation_row r) = r_peer r"
  by (simp_all add: relation_row_def)

lemma upsert_relation_frame [frame_simps]:
  assumes "upsert_relation io now r db = Inr (r', db')"
  shows "d_events db' = d_events db" "d_entities db' = d_entities db" "d_meta db' = d_meta db"
    "d_vectors db' = d_vectors db" "d_dim db' = d_dim db"
  using assms by (auto simp: upsert_relation_cases)

lemma upsert_relation_ok:
  assumes "upsert_relation io now (Some r) db = Inr (r', db')" and "db_ok db" and "time_ok now" and "relation_ok r"
  shows "db_ok db'"
  using assms
  by (auto simp: upsert_relation_cases db_ok_def distinct_replace_row set_replace_row relation_ok_def)

lemma dissolve_relation_cases:
  "dissolve_relation io did i db = Inr db' \<longleftrightarrow>
     did \<noteq> [] \<and> i \<noteq> [] \<and> io = None \<and> (\<exists>r \<in> set (d_relations db). rr_peer r = did \<and> rr_id r = i)
     \<and> db' = db\<lparr>d_relations := filter (\<lambda>r. \<not> (rr_peer r = did \<and> rr_id r = i)) (d_relations db)\<rparr>"
  by (auto simp: dissolve_relation_def Let_def exec_def list_ex_iff split: sum.splits option.splits if_splits)

lemma dissolve_relation_frame [frame_simps]:
  assumes "dissolve_relation io did i db = Inr db'"
  shows "d_events db' = d_events db" "d_entities db' = d_entities db" "d_meta db' = d_meta db"
    "d_vectors db' = d_vectors db" "d_dim db' = d_dim db"
  using assms by (auto simp: dissolve_relation_cases)

lemma dissolve_relation_ok:
  assumes "dissolve_relation io did i db = Inr db'" and "db_ok db"
  shows "db_ok db'"
  using assms by (auto simp: dissolve_relation_cases db_ok_def distinct_map_filter)

end
