(* ===== verification/Store_Props.thy ===== *)
theory Store_Props
  imports Store_Facts
begin

text \<open>
  What the store promises its callers: a write is found by the next read, reads see only
  the rows of their peer, and the query operations return the rows asked for, in order,
  up to the limit.
\<close>

section \<open>The part of the database a peer's operations see\<close>

definition peer_view :: "string \<Rightarrow> db \<Rightarrow> event_row list \<times> entity_record list \<times> relation_record list" where
  "peer_view did db = (filter (\<lambda>r. vr_peer r = did) (d_events db),
     filter (\<lambda>r. er_peer r = did) (d_entities db), filter (\<lambda>r. rr_peer r = did) (d_relations db))"

lemma filter_own: "(\<And>x. P x \<Longrightarrow> own x) \<Longrightarrow> filter P xs = filter P (filter own xs)"
  by (induction xs) auto

lemma find_own: "(\<And>x. P x \<Longrightarrow> own x) \<Longrightarrow> find P xs = find P (filter own xs)"
  by (induction xs) auto

lemma select_events_view: "select_events did s u db =
    sort_key event_key (filter (\<lambda>r. vr_peer r = did \<and> (s \<noteq> 0 \<longrightarrow> format_time s \<le> vr_time r)
         \<and> (u \<noteq> 0 \<longrightarrow> vr_time r \<le> format_time u)) (fst (peer_view did db)))"
  unfolding select_events_def peer_view_def fst_conv
  by (subst filter_own [where own = "\<lambda>r. vr_peer r = did"]) simp_all

lemma get_entity_view: "get_entity io did i db = (case io of
      Some e \<Rightarrow> Inl (Wrap (''store: get entity '' @ i) e)
    | None \<Rightarrow> (case find (\<lambda>r. er_peer r = did \<and> er_id r = i) (fst (snd (peer_view did db))) of
          None \<Rightarrow> Inr None
        | Some r \<Rightarrow> (case scan_entity r of
              Inl e \<Rightarrow> Inl (Wrap (''store: get entity '' @ i) e)
            | Inr x \<Rightarrow> Inr (Some x))))"
  unfolding get_entity_def peer_view_def fst_conv snd_conv
  by (subst find_own [where own = "\<lambda>r. er_peer r = did"]) simp_all

lemma select_entities_view: "select_entities sq did q db =
     take (nat (default_limit 50 (q_limit q)))
       (rev (sort_key entity_key (filter (match_entity sq did q) (fst (snd (peer_view did db))))))"
  unfolding select_entities_def peer_view_def fst_conv snd_conv
  by (subst filter_own [where own = "\<lambda>r. er_peer r = did"]) (simp_all add: match_entity_def)

lemma match_substring_view: "filter (match_substring sq did query ty) (d_entities db)
     = filter (match_substring sq did query ty) (fst (snd (peer_view did db)))"
  unfolding peer_view_def fst_conv snd_conv by (rule filter_own) (simp add: match_substring_def)

lemma match_relation_view: "filter (match_relation did from to ty) (d_relations db)
     = filter (match_relation did from to ty) (snd (snd (peer_view did db)))"
  unfolding peer_view_def snd_conv by (rule filter_own) (simp add: match_relation_def)

lemma list_events_view: "peer_view did db = peer_view did db' \<Longrightarrow> list_events io did s u db = list_events io did s u db'"
  by (simp add: list_events_def select_events_view split: option.split)

lemma reads_own_rows:
  assumes "peer_view did db = peer_view did db'"
  shows "list_events io did since until db = list_events io did since until db'
    \<and> get_entity io did i db = get_entity io did i db'
    \<and> query_entities sq io did q db = query_entities sq io did q db'
    \<and> query_relations io did from to ty limit db = query_relations io did from to ty limit db'
    \<and> substring_search sq io did text ty limit db = substring_search sq io did text ty limit db'
    \<and> time_travel_entities io did q as_of db = time_travel_entities io did q as_of db'"
  using assms list_events_view [OF assms]
  by (simp add: get_entity_view query_entities_def select_entities_view query_relations_def
      match_relation_view substring_search_def match_substring_view time_travel_entities_def
      split: option.split)


section \<open>A write is found\<close>

lemma find_replace_row:
  "find (\<lambda>r. own r = did \<and> key r = k) (replace_row key r rows)
     = (if k = key r then (if own r = did then Some r else None) else find (\<lambda>r. own r = did \<and> key r = k) rows)"
proof (cases "k = key r")
  case True
  then have "find (\<lambda>x. (own x = did \<and> key x = k) \<and> key x \<noteq> key r) rows = None" by (auto simp: find_None_iff)
  with True show ?thesis by (simp add: replace_row_def find_append find_filter)
next
  case False
  then have "(\<lambda>x. (own x = did \<and> key x = k) \<and> key x \<noteq> key r) = (\<lambda>x. own x = did \<and> key x = k)" by auto
  with False show ?thesis by (simp add: replace_row_def find_append find_filter split: option.split)
qed

text \<open>After a successful \<open>UpsertEntity\<close>, \<open>GetEntity\<close> under the entity's peer and id returns the
  entity as the call completed it (with a nil data map read back as an empty one); under every
  other id the answer is unchanged; and, the key being the id alone, another peer that had a row
  under this id no longer finds it.\<close>

theorem get_after_upsert:
  assumes "upsert_entity None now (Some e) db = Inr (e', db')" and "entity_ok e" and "time_ok now"
  shows "get_entity None did i db' =
    (if i = e_id e then (if did = e_peer e then Inr (Some (stored e')) else Inr None)
     else get_entity None did i db)"
proof -
  have e': "e' = complete_times now e" "entity_ok e'"
    and db': "d_entities db' = replace_row er_id (entity_row e') (d_entities db)"
    using assms by (auto simp: upsert_entity_cases)
  show ?thesis
    using e' by (auto simp: get_entity_def db' find_replace_row [where own = er_peer] scan_entity_row)
qed

definition sample_entity :: entity where
  "sample_entity = zero_entity\<lparr>e_id := ''e1'', e_type := ''Goal'', e_peer := ''p''\<rparr>"

definition sample_db :: db where
  "sample_db = \<lparr>d_events = [], d_entities = [], d_relations = [], d_meta = [], d_vectors = [], d_dim = 3\<rparr>"

lemma get_after_upsert_witness:
  "get_entity None ''p'' ''e1'' (sample_db\<lparr>d_entities := [entity_row (complete_times 5 sample_entity)]\<rparr>)
     = Inr (Some (stored (complete_times 5 sample_entity)))"
  by (subst get_after_upsert [where now = 5 and e = sample_entity and db = sample_db
        and e' = "complete_times 5 sample_entity"])
    (simp_all add: upsert_entity_cases sample_entity_def sample_db_def zero_entity_def replace_row_def
      entity_ok_def time_ok_def nanos_def)


section \<open>Queries\<close>

lemma sorted_wrt_rev_sort: "sorted_wrt (\<lambda>a b. k b \<le> k a) (rev (sort_key k xs))"
  by (simp add: sorted_wrt_rev flip: sorted_wrt_map)

text \<open>ORDER BY ... DESC LIMIT n: the n greatest, in descending order.\<close>

lemma top_n:
  fixes k :: "'a \<Rightarrow> 'b :: linorder"
  defines "out \<equiv> \<lambda>n xs. take n (rev (sort_key k xs))"
  shows "length (out n xs) = min n (length xs)"
    and "sorted_wrt (\<lambda>a b. k b \<le> k a) (out n xs)"
    and "set (out n xs) \<subseteq> set xs"
    and "x \<in> set xs \<Longrightarrow> x \<notin> set (out n xs) \<Longrightarrow> y \<in> set (out n xs) \<Longrightarrow> k x \<le> k y"
proof -
  show "length (out n xs) = min n (length xs)" by (simp add: out_def min_def)
  show "sorted_wrt (\<lambda>a b. k b \<le> k a) (out n xs)"
    unfolding out_def by (intro sorted_wrt_take sorted_wrt_rev_sort)
  show "set (out n xs) \<subseteq> set xs"
    unfolding out_def using set_take_subset [of n "rev (sort_key k xs)"] by simp
  assume x: "x \<in> set xs" "x \<notin> set (out n xs)" and y: "y \<in> set (out n xs)"
  define l where "l = rev (sort_key k xs)"
  have "x \<in> set l" using x(1) by (simp add: l_def)
  then have "x \<in> set (drop n l)"
    using x(2) by (metis Un_iff append_take_drop_id l_def out_def set_append)
  moreover have "sorted_wrt (\<lambda>a b. k b \<le> k a) (take n l @ drop n l)"
    unfolding append_take_drop_id l_def by (rule sorted_wrt_rev_sort)
  then have "\<forall>a \<in> set (take n l). \<forall>b \<in> set (drop n l). k b \<le> k a"
    unfolding sorted_wrt_append by blast
  moreover have "y \<in> set (take n l)" using y by (simp add: out_def l_def)
  ultimately show "k x \<le> k y" by blast
qed

lemma scan_rows:
  "\<forall>r \<in> set rows. entity_row_ok r \<Longrightarrow> mapM scan_entity rows = Inr (map entity_of rows)"
  by (rule mapM_all_Inr) (simp add: scan_entity_of)

lemma query_entities_facts:
  assumes "db_ok db"
  shows "\<exists>es. query_entities sq None did q db = Inr es
    \<and> length es = min (nat (default_limit 50 (q_limit q))) (length (filter (match_entity sq did q) (d_entities db)))
    \<and> sorted_wrt (\<lambda>a b. entity_key (entity_row b) \<le> entity_key (entity_row a)) es
    \<and> (\<forall>e \<in> set es. e_peer e = did \<and> entity_row e \<in> set (d_entities db) \<and> match_entity sq did q (entity_row e))
    \<and> (\<forall>r \<in> set (d_entities db). match_entity sq did q r \<longrightarrow> r \<notin> entity_row ` set es
         \<longrightarrow> (\<forall>e \<in> set es. entity_key r \<le> entity_key (entity_row e)))"
proof -
  define ms where "ms = filter (match_entity sq did q) (d_entities db)"
  define rows where "rows = select_entities sq did q db"
  have rows: "rows = take (nat (default_limit 50 (q_limit q))) (rev (sort_key entity_key ms))"
    by (simp add: rows_def select_entities_def ms_def)
  note top = top_n [where k = entity_key and xs = ms and n = "nat (default_limit 50 (q_limit q))", folded rows]
  have sub: "set rows \<subseteq> set (d_entities db)" using top(3) by (auto simp: ms_def)
  then have ok: "\<forall>r \<in> set rows. entity_row_ok r" using assms by (auto simp: db_ok_def)
  define es where "es = map entity_of rows"
  have "query_entities sq None did q db = Inr es"
    by (simp add: query_entities_def scan_rows [OF ok] es_def flip: rows_def)
  moreover have row: "entity_row (entity_of r) = r" if "r \<in> set rows" for r
    using ok that by (simp add: entity_of_fields)
  then have img: "entity_row ` set es = set rows" by (force simp: es_def)
  moreover have "sorted_wrt (\<lambda>a b. entity_key (entity_row b) \<le> entity_key (entity_row a)) es"
    unfolding es_def sorted_wrt_map using top(2) by (rule sorted_wrt_mono_rel [rotated]) (simp add: row)
  moreover have "\<forall>e \<in> set es. e_peer e = did \<and> entity_row e \<in> set (d_entities db) \<and> match_entity sq did q (entity_row e)"
  proof
    fix e assume "e \<in> set es"
    then obtain r where r: "r \<in> set rows" "e = entity_of r" by (auto simp: es_def)
    then have "r \<in> set ms" using top(3) by auto
    then show "e_peer e = did \<and> entity_row e \<in> set (d_entities db) \<and> match_entity sq did q (entity_row e)"
      using r ok row by (auto simp: ms_def entity_of_fields match_entity_def)
  qed
  moreover have "entity_key r \<le> entity_key (entity_row e)"
    if "r \<in> set (d_entities db)" "match_entity sq did q r" "r \<notin> entity_row ` set es" "e \<in> set es" for r e
    using top(4) [of r "entity_row e"] that img by (auto simp: ms_def)
  ultimately show ?thesis
    by (intro exI [of _ es]) (simp add: top(1) es_def ms_def)
qed

text \<open>C35: On a well-formed database \<open>QueryEntities\<close> succeeds whenever the statement runs; it returns
  as many of the matching rows as the limit (50 by default) allows, newest first; every entity
  returned is a stored row that matches the query and belongs to the peer; and no matching row
  that was left out is newer than one returned.\<close>

theorem query_entities_correct:
  assumes "db_ok db"
  shows "\<exists>es. query_entities sq None did q db = Inr es
    \<and> length es = min (nat (default_limit 50 (q_limit q))) (length (filter (match_entity sq did q) (d_entities db)))
    \<and> sorted_wrt (\<lambda>a b. entity_key (entity_row b) \<le> entity_key (entity_row a)) es
    \<and> (\<forall>e \<in> set es. e_peer e = did \<and> entity_row e \<in> set (d_entities db) \<and> match_entity sq did q (entity_row e))
    \<and> (\<forall>r \<in> set (d_entities db). match_entity sq did q r \<longrightarrow> r \<notin> entity_row ` set es
         \<longrightarrow> (\<forall>e \<in> set es. entity_key r \<le> entity_key (entity_row e)))"
  by (rule query_entities_facts [OF assms])

definition sample_sqlite :: sqlite where
  "sample_sqlite = \<lparr>sq_json_eq = \<lambda>_ _ _. True, sq_like = \<lambda>_ _. True,
     sq_knn = \<lambda>vs _ _. map (\<lambda>v. (fst v, 1 / 4)) vs\<rparr>"

definition one_entity_db :: db where
  "one_entity_db = sample_db\<lparr>d_entities := [entity_row (complete_times 5 sample_entity)],
     d_vectors := [(''e1'', [1, 0, 0])]\<rparr>"

lemma sample_entity_ok [simp]: "entity_ok (complete_times 5 sample_entity)"
  by (rule complete_times_ok) (simp_all add: sample_entity_def zero_entity_def entity_ok_def time_ok_def nanos_def)

lemma one_entity_db_ok: "db_ok one_entity_db"
  by (simp add: db_ok_def one_entity_db_def sample_db_def) (simp add: sample_entity_def)

lemma query_entities_correct_witness:
  "\<exists>es. query_entities sample_sqlite None ''p'' zero_query one_entity_db = Inr es \<and> length es = 1"
proof -
  have "length (filter (match_entity sample_sqlite ''p'' zero_query) (d_entities one_entity_db)) = 1"
    by (simp add: match_entity_def one_entity_db_def sample_entity_def zero_query_def entity_row_def zero_entity_def)
  then show ?thesis
    using query_entities_correct [OF one_entity_db_ok, of sample_sqlite "''p''" zero_query]
    by (auto simp: default_limit_def zero_query_def)
qed

text \<open>The loop of the semantic search keeps only what the peer may see.\<close>

definition visible_hit :: "string \<Rightarrow> string \<Rightarrow> hit \<Rightarrow> bool" where
  "visible_hit did ty h \<longleftrightarrow> e_peer (h_entity h) = did \<and> (ty \<noteq> [] \<longrightarrow> e_type (h_entity h) = ty)
     \<and> e_archived_at (h_entity h) = None"

lemma semantic_loop_visible:
  "semantic_loop io did ty n db cs out = Inr hs \<Longrightarrow> \<forall>h \<in> set out. visible_hit did ty h
     \<Longrightarrow> length out < n \<Longrightarrow> (\<forall>h \<in> set hs. visible_hit did ty h) \<and> length hs \<le> n"
proof (induction io did ty n db cs out rule: semantic_loop.induct)
  case (2 io did ty n db i gap cs out)
  then show ?case
    by (auto simp: Let_def visible_hit_def split: sum.splits option.splits if_splits)
qed auto

text \<open>C36: Semantic search never shows another peer's data: every hit it returns, whatever the vector
  index answers, is an unarchived entity of the calling peer, of the type asked for, and there are
  at most as many as the limit (10 by default).\<close>

theorem semantic_search_visible:
  assumes "semantic_search sq io io_get did vec ty limit db = Inr hs"
  shows "(\<forall>h \<in> set hs. visible_hit did ty h) \<and> length hs \<le> nat (default_limit 10 limit)"
proof -
  have "0 < nat (default_limit 10 limit)" by (simp add: default_limit_def)
  then show ?thesis
    using assms semantic_loop_visible [of _ did ty "nat (default_limit 10 limit)" db _ "[]" hs]
    by (auto simp: semantic_search_def Let_def split: if_splits option.splits)
qed

lemma semantic_search_visible_witness:
  "\<exists>hs. semantic_search sample_sqlite None None ''p'' [1, 0, 0] ''Goal'' 0 one_entity_db = Inr hs
     \<and> length hs = 1 \<and> (\<forall>h \<in> set hs. visible_hit ''p'' ''Goal'' h)"
proof -
  have "get_entity None ''p'' ''e1'' one_entity_db = Inr (Some (stored (complete_times 5 sample_entity)))"
    by (simp add: get_entity_def one_entity_db_def scan_entity_row) (simp add: sample_entity_def)
  then have run: "semantic_search sample_sqlite None None ''p'' [1, 0, 0] ''Goal'' 0 one_entity_db
      = Inr [\<lparr>h_entity = stored (complete_times 5 sample_entity), h_score = 3 / 4\<rparr>]"
    by (simp add: semantic_search_def default_limit_def Let_def sample_sqlite_def)
      (simp add: one_entity_db_def sample_db_def sample_entity_def zero_entity_def)
  then show ?thesis using semantic_search_visible [OF run] by simp
qed

end
