(* ===== verification/Handler_Facts.thy ===== *)
theory Handler_Facts
  imports Handler Store_Props
begin

text \<open>
  What a request can do to the host. Every operation of the handler has one of seven effects
  on the database (\<open>effect\<close>): none, or one event appended followed by at most one change
  of the projection. The properties of requests are proved once per effect.
\<close>

section \<open>Decoded arguments are canonical\<close>

lemma foldM_inv:
  assumes "\<And>x s s'. P s \<Longrightarrow> f x s = Inr s' \<Longrightarrow> P s'" and "P s" and "foldM f xs s = Inr s'"
  shows "P s'"
  using assms(2,3) by (induction xs arbitrary: s) (auto simp: and_then_Inr_iff intro: assms(1))

lemma unmarshal_inv:
  assumes "unmarshal ty assign s r = Inr s'" and "P s"
    and "\<And>k v s s'. P s \<Longrightarrow> assign k v s = Inr s' \<Longrightarrow> P s'"
  shows "P s'"
proof -
  obtain j where j: "decode_struct ty assign j s = Inr s'"
    using assms(1) by (auto simp: unmarshal_def and_then_Inr_iff)
  show ?thesis
  proof (cases j)
    case (JObj kvs)
    then have "foldM (\<lambda>(k, v). assign (fold_name k) v) kvs s = Inr s'" using j by (simp add: decode_struct_def)
    then show ?thesis
      using foldM_inv [where P = P and f = "\<lambda>(k, v). assign (fold_name k) v", OF _ assms(2)] assms(3)
      by (metis (mono_tags, lifting) case_prod_beta)
  qed (use j assms(2) in \<open>auto simp: decode_struct_def type_error_def\<close>)
qed

definition opt_obj_ok :: "obj option \<Rightarrow> bool" where
  "opt_obj_ok m \<longleftrightarrow> (case m of None \<Rightarrow> True | Some kvs \<Rightarrow> obj_ok kvs)"

lemma opt_obj_ok_simps [simp]: "opt_obj_ok None" "opt_obj_ok (Some m) = obj_ok m"
  by (simp_all add: opt_obj_ok_def)

text \<open>How each setter can end, for the case analyses below.\<close>

lemma set_string_Inr: "set_string fld j upd s = Inr s' \<Longrightarrow> s' = s \<or> (\<exists>x. s' = upd x s)"
  by (auto simp: set_string_def type_error_def split: json.splits)

lemma set_bool_Inr: "set_bool fld j upd s = Inr s' \<Longrightarrow> s' = s \<or> (\<exists>x. s' = upd x s)"
  by (auto simp: set_bool_def type_error_def split: json.splits)

lemma set_int_Inr: "set_int fld j upd s = Inr s' \<Longrightarrow> s' = s \<or> (\<exists>x. s' = upd x s)"
  by (auto simp: set_int_def type_error_def split: json.splits if_splits)

lemma set_map_Inr:
  "set_map fld j upd s = Inr s' \<Longrightarrow> s' = upd (\<lambda>_. None) s
     \<or> (\<exists>kvs. s' = upd (\<lambda>old. Some (mputs (normalize_members kvs) (case old of None \<Rightarrow> [] | Some m \<Rightarrow> m))) s)"
  by (auto simp: set_map_def type_error_def split: json.splits)

lemma obj_ok_decoded: "opt_obj_ok old \<Longrightarrow> obj_ok (mputs (normalize_members kvs) (case old of None \<Rightarrow> [] | Some m \<Rightarrow> m))"
  by (cases old) (simp_all add: obj_ok_mputs normalize_members_ok)

lemmas setters_Inr = set_string_Inr set_bool_Inr set_int_Inr set_map_Inr

lemma assign_author_fields: "assign_author k v a = Inr a' \<Longrightarrow> wa_fields a' = wa_fields a"
  by (auto simp: assign_author_def split: if_splits dest!: set_string_Inr)

lemma decode_create_ok: "decode_entityCreateArgs r = Inr a \<Longrightarrow> opt_obj_ok (wa_fields a)"
  unfolding decode_entityCreateArgs_def
  by (erule unmarshal_inv [where P = "\<lambda>a. opt_obj_ok (wa_fields a)"])
    (auto simp: no_write_args_def obj_ok_decoded assign_author_fields split: if_splits dest!: setters_Inr)

lemma decode_update_ok: "decode_entityUpdateArgs r = Inr a \<Longrightarrow> opt_obj_ok (wa_fields a)"
  unfolding decode_entityUpdateArgs_def
  by (erule unmarshal_inv [where P = "\<lambda>a. opt_obj_ok (wa_fields a)"])
    (auto simp: no_write_args_def obj_ok_decoded assign_author_fields split: if_splits dest!: setters_Inr)

lemma assign_ends_data: "assign_ends k v a = Inr a' \<Longrightarrow> ra_data a' = ra_data a"
  by (auto simp: assign_ends_def split: if_splits dest!: set_string_Inr)

lemma decode_relation_ok: "decode_relationCreateArgs r = Inr a \<Longrightarrow> opt_obj_ok (ra_data a)"
  unfolding decode_relationCreateArgs_def
  by (erule unmarshal_inv [where P = "\<lambda>a. opt_obj_ok (ra_data a)"])
    (auto simp: no_relation_args_def obj_ok_decoded assign_ends_data split: if_splits dest!: setters_Inr)

lemma assign_field_ok: "field_ok f \<Longrightarrow> assign_field k v f = Inr f' \<Longrightarrow> field_ok f'"
  by (auto simp: assign_field_def field_ok_def normalize_ok split: if_splits dest!: setters_Inr)

lemma decode_field_ok:
  assumes "decode_field j = Inr f"
  shows "field_ok f"
proof -
  have z: "field_ok zero_field" by (simp add: field_ok_def zero_field_def)
  from assms have "unmarshal ''types.FieldDef'' assign_field zero_field (Doc j) = Inr f"
    by (simp add: decode_field_def unmarshal_def raw_doc_def)
  then show ?thesis by (rule unmarshal_inv [where P = field_ok, OF _ z]) (rule assign_field_ok)
qed

lemma mapM_Inr_all: "mapM f xs = Inr ys \<Longrightarrow> \<forall>y \<in> set ys. \<exists>x. f x = Inr y"
  by (induction xs arbitrary: ys) (auto simp: and_then_Inr_iff)

lemma set_fields_Inr:
  "set_fields fld j upd s = Inr s' \<Longrightarrow> s' = upd None s \<or> (\<exists>fs. fields_ok (Some fs) \<and> s' = upd (Some fs) s)"
  by (auto simp: set_fields_def type_error_def and_then_Inr_iff fields_ok_def
      split: json.splits dest!: mapM_Inr_all decode_field_ok)

lemma decode_define_ok: "decode_typeDefineArgs r = Inr a \<Longrightarrow> fields_ok (ta_fields a)"
  unfolding decode_typeDefineArgs_def
  by (erule unmarshal_inv [where P = "\<lambda>a. fields_ok (ta_fields a)"])
    (auto simp: no_type_args_def fields_ok_def split: if_splits dest!: setters_Inr set_fields_Inr)

section \<open>Well-formed hosts\<close>

definition schema_ok :: "resolver \<Rightarrow> bool" where
  "schema_ok rs \<longleftrightarrow> resolver_ok rs
     \<and> (\<forall>did n d. EntityType did n rs = Inr d \<longrightarrow> fields_ok (et_fields d))
     \<and> (\<forall>did n d. RelationType did n rs = Inr d \<longrightarrow> fields_ok (rt_fields d))"

definition host_ok :: "host \<Rightarrow> bool" where
  "host_ok h \<longleftrightarrow> db_ok (hs_db h) \<and> (case hs_schema h of None \<Rightarrow> True | Some rs \<Rightarrow> schema_ok rs)"

lemma schema_ok_new: "schema_ok NewResolver"
  by (simp add: schema_ok_def EntityType_def RelationType_def peer_map_def) (simp add: NewResolver_def)

lemma schema_ok_register:
  assumes "schema_ok rs"
  shows "fields_ok (et_fields d) \<Longrightarrow> schema_ok (RegisterEntityType did d rs)"
    and "fields_ok (rt_fields d') \<Longrightarrow> schema_ok (RegisterRelationType did d' rs)"
proof -
  have ok: "resolver_ok rs" using assms by (simp add: schema_ok_def)
  show "fields_ok (et_fields d) \<Longrightarrow> schema_ok (RegisterEntityType did d rs)"
    using assms by (auto simp: schema_ok_def EntityType_register [OF ok] register_other_kind resolver_ok_register
        split: if_splits)
  show "fields_ok (rt_fields d') \<Longrightarrow> schema_ok (RegisterRelationType did d' rs)"
    using assms by (auto simp: schema_ok_def RelationType_register [OF ok] register_other_kind resolver_ok_register
        split: if_splits)
qed

lemma check_field_ok:
  "field_ok f \<Longrightarrow> obj_ok (fst s) \<Longrightarrow> obj_ok (fst (check_field f s))"
  by (cases s) (simp add: check_field_def field_ok_def split: option.split)

lemma check_fields_obj_ok:
  "\<forall>f \<in> set fs. field_ok f \<Longrightarrow> obj_ok m \<Longrightarrow> obj_ok (fst (check_fields fs m))"
proof -
  have "\<forall>f \<in> set fs. field_ok f \<Longrightarrow> obj_ok (fst s) \<Longrightarrow> obj_ok (fst (foldl (\<lambda>s f. check_field f s) s fs))" for s
    by (induction fs arbitrary: s) (simp_all add: check_field_ok)
  then show "\<forall>f \<in> set fs. field_ok f \<Longrightarrow> obj_ok m \<Longrightarrow> obj_ok (fst (check_fields fs m))"
    by (simp add: check_fields_def)
qed

lemma ValidateEntity_obj_ok:
  assumes "fields_ok (et_fields d)" and "opt_obj_ok m"
  shows "opt_obj_ok (fst (ValidateEntity (Some d) m))"
  using assms check_fields_obj_ok [of "case et_fields d of None \<Rightarrow> [] | Some fs \<Rightarrow> fs" "the m"]
  by (cases m) (auto simp: ValidateEntity_def fields_ok_def Let_def split: option.splits prod.splits)

lemma validate_create_ok:
  assumes "validate_create did a rs = Inr m" and "opt_obj_ok (wa_fields a)"
    and "case rs of None \<Rightarrow> True | Some r \<Rightarrow> schema_ok r"
  shows "opt_obj_ok m"
proof (cases rs)
  case None
  then show ?thesis using assms by (simp add: validate_create_def)
next
  case (Some r)
  obtain d where d: "EntityType did (wa_type a) r = Inr d"
    using assms(1) Some by (auto simp: validate_create_def split: sum.splits)
  then have "m = fst (ValidateEntity (Some d) (wa_fields a))"
    using assms(1) Some by (auto simp: validate_create_def split: prod.splits if_splits)
  moreover have "fields_ok (et_fields d)" using d assms(3) Some by (auto simp: schema_ok_def)
  ultimately show ?thesis using ValidateEntity_obj_ok assms(2) by simp
qed

section \<open>The effects of a request\<close>

text \<open>The database after a statement that may fail.\<close>

definition after :: "db result \<Rightarrow> db \<Rightarrow> db" where
  "after r db = (case r of Inl _ \<Rightarrow> db | Inr db' \<Rightarrow> db')"

definition log_as :: "env \<Rightarrow> string \<Rightarrow> string \<Rightarrow> string \<Rightarrow> json \<Rightarrow> db \<Rightarrow> db \<Rightarrow> bool" where
  "log_as v i did ty payload db db' \<longleftrightarrow>
     (\<exists>author client. append_event (v_io_append v) (v_now v) i (Some (new_event v i did ty payload author client)) db = Inr db')"

definition upsert_after :: "env \<Rightarrow> entity \<Rightarrow> db \<Rightarrow> db" where
  "upsert_after v e db = after (map_result snd (upsert_entity (v_io_write v) (v_now v) (Some e) db)) db"

definition fresh_entity :: "env \<Rightarrow> string \<Rightarrow> entity \<Rightarrow> bool" where
  "fresh_entity v did e \<longleftrightarrow> e_id e = v_id1 v \<and> e_peer e = did \<and> e_created_at e = v_now v
     \<and> e_updated_at e = v_now v \<and> e_archived_at e = None \<and> opt_obj_ok (e_data e)"

definition typedef_types :: "string list" where
  "typedef_types = [''EntityTypeDefinition'', ''RelationshipTypeDefinition'']"

inductive effect :: "env \<Rightarrow> string \<Rightarrow> db \<Rightarrow> db \<Rightarrow> bool" for v did db where
  quiet: "effect v did db db"
| create: "log_as v (v_id2 v) did EventEntityCreated (entity_json e) db db1 \<Longrightarrow> fresh_entity v did e
    \<Longrightarrow> effect v did db (upsert_after v e db1)"
| update: "get_entity (v_io_read v) did i db = Inr (Some cur) \<Longrightarrow> obj_ok m
    \<Longrightarrow> e = cur\<lparr>e_data := Some m, e_updated_at := v_now v\<rparr>
    \<Longrightarrow> log_as v (v_id1 v) did EventEntityUpdated (entity_json e) db db1
    \<Longrightarrow> effect v did db (upsert_after v e db1)"
| archive: "log_as v (v_id1 v) did EventEntityArchived (stamp_json ''archived_at'' i (v_now v)) db db1
    \<Longrightarrow> effect v did db (after (archive_entity (v_io_write v) (v_now v) did i (v_now v) db1) db1)"
| relate: "log_as v (v_id2 v) did EventRelationCreated payload db db1 \<Longrightarrow> r_id x = v_id1 v
    \<Longrightarrow> r_peer x = did \<Longrightarrow> r_created_at x = v_now v \<Longrightarrow> opt_obj_ok (r_data x)
    \<Longrightarrow> effect v did db (after (map_result snd (upsert_relation (v_io_write v) (v_now v) (Some x) db1)) db1)"
| dissolve: "log_as v (v_id1 v) did EventRelationDissolved payload db db1
    \<Longrightarrow> effect v did db (after (dissolve_relation (v_io_write v) did i db1) db1)"
| def_type: "ty = EventEntityTypeDefined \<or> ty = EventRelationshipTypeDefined
    \<Longrightarrow> log_as v (v_id2 v) did ty payload db db1 \<Longrightarrow> fresh_entity v did e
    \<Longrightarrow> e_type e \<in> set typedef_types \<Longrightarrow> effect v did db (upsert_after v e db1)"

lemma fresh_new_entity [simp]: "opt_obj_ok m \<Longrightarrow> fresh_entity v did (new_entity v did msg ty a c m)"
  by (simp add: fresh_entity_def new_entity_def)

lemma decode_map_obj_ok: "decode_map r = Inr m \<Longrightarrow> opt_obj_ok m"
  by (auto simp: decode_map_def raw_doc_def and_then_Inr_iff type_error_def obj_ok_mputs normalize_members_ok
      split: raw.splits json.splits)

lemma effect_create:
  assumes "opEntityCreate v did msg r h = (out, h')" and "host_ok h"
  shows "effect v did (hs_db h) (hs_db h') \<and> hs_schema h' = hs_schema h"
proof (cases "decode_entityCreateArgs r")
  case (Inr a)
  show ?thesis
  proof (cases "validate_create did a (hs_schema h)")
    case (Inr m)
    define e where "e = new_entity v did msg (wa_type a) (wa_author a) (wa_client a) m"
    have e: "fresh_entity v did e"
      using validate_create_ok [OF Inr decode_create_ok [OF \<open>decode_entityCreateArgs r = Inr a\<close>]] assms(2)
      by (simp add: e_def host_ok_def)
    show ?thesis
    proof (cases "append_event (v_io_append v) (v_now v) (v_id2 v)
        (Some (new_event v (v_id2 v) did EventEntityCreated (entity_json e) (e_created_by e) (e_client e))) (hs_db h)")
      case (Inl err)
      then show ?thesis
        using assms(1) Inr \<open>decode_entityCreateArgs r = Inr a\<close>
        by (simp add: opEntityCreate_def Let_def e_def [symmetric] quiet flip: EventEntityCreated_def)
    next
      case (Inr db1)
      then have "log_as v (v_id2 v) did EventEntityCreated (entity_json e) (hs_db h) db1"
        unfolding log_as_def by blast
      then have "effect v did (hs_db h) (upsert_after v e db1)" using e by (rule effect.create)
      moreover have "hs_db h' = upsert_after v e db1 \<and> hs_schema h' = hs_schema h"
        using assms(1) Inr \<open>validate_create did a (hs_schema h) = Inr m\<close> \<open>decode_entityCreateArgs r = Inr a\<close>
        by (auto simp: opEntityCreate_def Let_def e_def [symmetric] upsert_after_def after_def
            split: sum.splits simp flip: EventEntityCreated_def)
      ultimately show ?thesis by simp
    qed
  qed (use assms Inr in \<open>simp add: opEntityCreate_def quiet\<close>)
qed (use assms in \<open>simp add: opEntityCreate_def quiet\<close>)

lemma log_asI:
  "append_event (v_io_append v) (v_now v) i (Some (new_event v i did ty payload a c)) db = Inr db1
     \<Longrightarrow> log_as v i did ty payload db db1"
  unfolding log_as_def by blast

lemma effect_update:
  assumes "opEntityUpdate v did msg r h = (out, h')" and "host_ok h"
  shows "effect v did (hs_db h) (hs_db h') \<and> hs_schema h' = hs_schema h"
proof (cases "decode_entityUpdateArgs r")
  case dec: (Inr a)
  show ?thesis
  proof (cases "get_entity (v_io_read v) did (wa_id a) (hs_db h)")
    case got: (Inr cur)
    show ?thesis
    proof (cases cur)
      case (Some c)
      define m where "m = mputs (case wa_fields a of None \<Rightarrow> [] | Some m \<Rightarrow> m) (case e_data c of None \<Rightarrow> [] | Some m \<Rightarrow> m)"
      define e where "e = c\<lparr>e_data := Some m, e_updated_at := v_now v\<rparr>"
      obtain row where row: "row \<in> set (d_entities (hs_db h))" "scan_entity row = Inr c"
        using got Some find_Some_set by (fastforce simp: get_entity_def split: option.splits sum.splits)
      then have "entity_ok c"
        using assms(2) by (auto simp: host_ok_def db_ok_def elim!: entity_row_okE)
      then have m: "obj_ok m"
        using decode_update_ok [OF dec] by (auto simp: m_def entity_ok_def obj_ok_def members_ok_mputs split: option.splits)
      show ?thesis
      proof (cases "append_event (v_io_append v) (v_now v) (v_id1 v)
          (Some (new_event v (v_id1 v) did EventEntityUpdated (entity_json e)
            (fallback [wa_author a, m_source msg, did]) (fallback [wa_client a, ''federation'', []]))) (hs_db h)")
        case (Inl err)
        then show ?thesis
          using assms(1) dec got Some
          by (simp add: opEntityUpdate_def Let_def m_def [symmetric] e_def [symmetric] quiet flip: EventEntityUpdated_def)
      next
        case (Inr db1)
        then have "effect v did (hs_db h) (upsert_after v e db1)"
          using got Some m by (intro effect.update [OF _ _ e_def log_asI]) simp_all
        moreover have "hs_db h' = upsert_after v e db1 \<and> hs_schema h' = hs_schema h"
          using assms(1) Inr got Some dec
          by (auto simp: opEntityUpdate_def Let_def m_def [symmetric] e_def [symmetric] upsert_after_def after_def
              split: sum.splits simp flip: EventEntityUpdated_def)
        ultimately show ?thesis by simp
      qed
    qed (use assms(1) dec got in \<open>simp add: opEntityUpdate_def quiet\<close>)
  qed (use assms(1) dec in \<open>simp add: opEntityUpdate_def quiet\<close>)
qed (use assms in \<open>simp add: opEntityUpdate_def quiet\<close>)

lemma effect_archive:
  assumes "opEntityArchive v did msg r h = (out, h')"
  shows "effect v did (hs_db h) (hs_db h') \<and> hs_schema h' = hs_schema h"
proof (cases "decode_entityArchiveArgs r")
  case dec: (Inr a)
  show ?thesis
  proof (cases "append_event (v_io_append v) (v_now v) (v_id1 v)
      (Some (new_event v (v_id1 v) did EventEntityArchived (stamp_json ''archived_at'' (wa_id a) (v_now v))
        (fallback [wa_author a, m_source msg, did]) (fallback [wa_client a, ''federation'', []]))) (hs_db h)")
    case (Inl err)
    then show ?thesis using assms(1) dec by (simp add: opEntityArchive_def Let_def quiet)
  next
    case (Inr db1)
    note effect.archive [OF log_asI [OF this]]
    moreover have "hs_db h' = after (archive_entity (v_io_write v) (v_now v) did (wa_id a) (v_now v) db1) db1
        \<and> hs_schema h' = hs_schema h"
      using assms(1) Inr dec by (auto simp: opEntityArchive_def Let_def after_def split: sum.splits)
    ultimately show ?thesis by simp
  qed
qed (use assms in \<open>simp add: opEntityArchive_def quiet\<close>)

lemma effect_relate:
  assumes "opRelationCreate v did msg r h = (out, h')"
  shows "effect v did (hs_db h) (hs_db h') \<and> hs_schema h' = hs_schema h"
proof (cases "decode_relationCreateArgs r")
  case dec: (Inr a)
  define x where "x = \<lparr>r_id = v_id1 v, r_from = ra_from a, r_to = ra_to a, r_type = ra_type a, r_peer = did,
     r_created_at = v_now v, r_created_by = fallback [ra_author a, m_source msg, did],
     r_client = fallback [ra_client a, ''federation'', []], r_data = ra_data a\<rparr>"
  define refused where "refused = (case hs_schema h of None \<Rightarrow> None
     | Some rs \<Rightarrow> (case RelationType did (ra_type a) rs of Inl e \<Rightarrow> Some e | Inr _ \<Rightarrow> None))"
  note folds = x_def [symmetric] refused_def [symmetric]
  have x: "r_id x = v_id1 v" "r_peer x = did" "r_created_at x = v_now v" "opt_obj_ok (r_data x)"
    using decode_relation_ok [OF dec] by (simp_all add: x_def)
  show ?thesis
  proof (cases refused)
    case ok: None
    show ?thesis
    proof (cases "append_event (v_io_append v) (v_now v) (v_id2 v)
        (Some (new_event v (v_id2 v) did EventRelationCreated (relation_json x) (r_created_by x) (r_client x))) (hs_db h)")
      case (Inl err)
      then show ?thesis using assms(1) dec ok by (simp add: opRelationCreate_def folds Let_def quiet)
    next
      case (Inr db1)
      note effect.relate [OF log_asI [OF this] x]
      moreover have "hs_db h' = after (map_result snd (upsert_relation (v_io_write v) (v_now v) (Some x) db1)) db1
          \<and> hs_schema h' = hs_schema h"
        using assms(1) Inr dec ok by (auto simp: opRelationCreate_def folds Let_def after_def split: sum.splits)
      ultimately show ?thesis by simp
    qed
  qed (use assms dec in \<open>simp add: opRelationCreate_def folds quiet\<close>)
qed (use assms in \<open>simp add: opRelationCreate_def quiet\<close>)

lemma effect_dissolve:
  assumes "opRelationDissolve v did msg r h = (out, h')"
  shows "effect v did (hs_db h) (hs_db h') \<and> hs_schema h' = hs_schema h"
proof (cases "decode_relationDissolveArgs r")
  case dec: (Inr a)
  show ?thesis
  proof (cases "append_event (v_io_append v) (v_now v) (v_id1 v)
      (Some (new_event v (v_id1 v) did EventRelationDissolved (stamp_json ''dissolved_at'' (wa_id a) (v_now v))
        (fallback [wa_author a, m_source msg, did]) (fallback [wa_client a, ''federation'', []]))) (hs_db h)")
    case (Inl err)
    then show ?thesis using assms(1) dec by (simp add: opRelationDissolve_def Let_def quiet)
  next
    case (Inr db1)
    note effect.dissolve [OF log_asI [OF this]]
    moreover have "hs_db h' = after (dissolve_relation (v_io_write v) did (wa_id a) db1) db1
        \<and> hs_schema h' = hs_schema h"
      using assms(1) Inr dec by (auto simp: opRelationDissolve_def Let_def after_def split: sum.splits)
    ultimately show ?thesis by simp
  qed
qed (use assms in \<open>simp add: opRelationDissolve_def quiet\<close>)

lemma effect_define:
  assumes "opTypeDefine v did msg r h = (out, h')"
  shows "effect v did (hs_db h) (hs_db h')
    \<and> (\<exists>a. fields_ok (ta_fields a) \<and> hs_schema h' \<in> {hs_schema h, map_option (register_args did a) (hs_schema h)})"
proof (cases "decode_typeDefineArgs r")
  case (Inl e)
  then show ?thesis
    using assms by (auto simp: opTypeDefine_def quiet intro!: exI [of _ no_type_args])
      (simp add: no_type_args_def fields_ok_def)
next
  case dec: (Inr a)
  define def where "def = (if ta_is_rel a then rel_type_json (args_rel_type did a)
     else entity_type_json (args_entity_type did a))"
  define evt where "evt = (if ta_is_rel a then EventRelationshipTypeDefined else EventEntityTypeDefined)"
  define ety where "ety = (if ta_is_rel a then ''RelationshipTypeDefinition'' else ''EntityTypeDefinition'')"
  define e where "e = new_entity v did msg ety (ta_author a) (ta_client a)
     (case decode_map (Doc def) of Inl _ \<Rightarrow> None | Inr m \<Rightarrow> m)"
  note folds = def_def [symmetric] evt_def [symmetric] ety_def [symmetric] e_def [symmetric]
  have e: "fresh_entity v did e" "e_type e \<in> set typedef_types"
  proof -
    have "opt_obj_ok (case decode_map (Doc def) of Inl _ \<Rightarrow> None | Inr m \<Rightarrow> m)"
      by (auto split: sum.split dest: decode_map_obj_ok)
    then show "fresh_entity v did e" "e_type e \<in> set typedef_types"
      by (simp_all add: e_def) (auto simp: new_entity_def ety_def typedef_types_def)
  qed
  have evt: "evt = EventEntityTypeDefined \<or> evt = EventRelationshipTypeDefined" by (simp add: evt_def)
  have "effect v did (hs_db h) (hs_db h') \<and> hs_schema h' = map_option (register_args did a) (hs_schema h)"
  proof (cases "append_event (v_io_append v) (v_now v) (v_id2 v)
      (Some (new_event v (v_id2 v) did evt def (e_created_by e) (e_client e))) (hs_db h)")
    case (Inl err)
    then show ?thesis
      using assms dec unfolding opTypeDefine_def Let_def by (simp only: dec sum.simps folds) (auto simp: quiet)
  next
    case (Inr db1)
    note eff = effect.def_type [OF evt log_asI [OF this] e]
    have "hs_db h' = upsert_after v e db1 \<and> hs_schema h' = map_option (register_args did a) (hs_schema h)"
      using assms dec unfolding opTypeDefine_def Let_def
      by (simp only: dec sum.simps folds Inr) (auto simp: upsert_after_def after_def split: sum.splits)
    with eff show ?thesis by simp
  qed
  then show ?thesis using decode_define_ok [OF dec] by blast
qed

end
