(* ===== verification/Handler_Props.thy ===== *)
theory Handler_Props
  imports Handler_Facts
begin

text \<open>
  What requests guarantee: the log only grows, the host stays well formed, one peer's
  requests never touch another peer's data, and a panic has exactly one cause.
\<close>

section \<open>Per effect\<close>

lemma log_asE:
  assumes "log_as v i did ty payload db db1"
  obtains row where "d_events db1 = d_events db @ [row]" "vr_peer row = did" "vr_type row = ty"
    "db1 = db\<lparr>d_events := d_events db @ [row]\<rparr>" "did \<noteq> []" "vr_payload row = Doc payload"
    "vr_time row = format_time (v_now v)" "i \<noteq> [] \<Longrightarrow> vr_id row = i"
    "vr_id row \<notin> vr_id ` set (d_events db)"
proof -
  obtain a c where app: "append_event (v_io_append v) (v_now v) i (Some (new_event v i did ty payload a c)) db = Inr db1"
    using assms by (auto simp: log_as_def)
  define row where "row = event_row_of (v_now v) i (new_event v i did ty payload a c)"
  have "vr_peer row = did" "vr_type row = ty" "vr_payload row = Doc payload"
    "vr_time row = format_time (v_now v)" "vr_id row = i"
    by (simp_all add: row_def event_row_of_def new_event_def)
  with app show thesis
    by (intro that [of row]) (simp_all add: append_event_cases new_event_def row_def)
qed

lemma log_as_ok: "log_as v i did ty payload db db1 \<Longrightarrow> db_ok db \<Longrightarrow> time_ok (v_now v) \<Longrightarrow> db_ok db1"
  by (auto simp: log_as_def new_event_def elim!: append_event_ok)

lemma after_simps [simp]: "after (Inl e) db = db" "after (Inr db') db = db'"
  by (simp_all add: after_def)

lemma upsert_after_cases:
  "upsert_after v e db = db
   \<or> (\<exists>e'. upsert_entity (v_io_write v) (v_now v) (Some e) db = Inr (e', upsert_after v e db))"
  by (cases "upsert_entity (v_io_write v) (v_now v) (Some e) db") (auto simp: upsert_after_def)

lemma upsert_after_events [simp]: "d_events (upsert_after v e db) = d_events db"
  using upsert_after_cases [of v e db] upsert_entity_frame(1) by fastforce

lemma archive_after_events [simp]: "d_events (after (archive_entity io now did i t db) db) = d_events db"
  by (cases "archive_entity io now did i t db") (auto simp: archive_entity_frame)

lemma relate_after_events [simp]:
  "d_events (after (map_result snd (upsert_relation io now x db)) db) = d_events db"
  by (cases "upsert_relation io now x db") (auto simp: upsert_relation_frame)

lemma dissolve_after_events [simp]: "d_events (after (dissolve_relation io did i db) db) = d_events db"
  by (cases "dissolve_relation io did i db") (auto simp: dissolve_relation_frame)

lemma effect_log:
  assumes "effect v did db db'"
  shows "\<exists>new. d_events db' = d_events db @ new \<and> length new \<le> 1 \<and> (\<forall>r \<in> set new. vr_peer r = did)"
  using assms by cases (auto elim!: log_asE)

lemma get_entity_row:
  assumes "get_entity io did i db = Inr (Some e)" and "db_ok db"
  shows "entity_ok e" "stored e = e" "entity_row e \<in> set (d_entities db)" "e_peer e = did" "e_id e = i"
proof -
  obtain r where r: "find (\<lambda>r. er_peer r = did \<and> er_id r = i) (d_entities db) = Some r" "scan_entity r = Inr e"
    using assms(1) by (auto simp: get_entity_def split: option.splits sum.splits)
  then have mem: "r \<in> set (d_entities db)" "er_peer r = did" "er_id r = i" using find_Some_set by fastforce+
  then have "entity_row_ok r" using assms(2) by (simp add: db_ok_def)
  then show "entity_ok e" "stored e = e" "entity_row e \<in> set (d_entities db)" "e_peer e = did" "e_id e = i"
    using r(2) mem by (auto elim!: entity_row_okE)
qed

lemma fresh_entity_ok: "fresh_entity v did e \<Longrightarrow> time_ok (v_now v) \<Longrightarrow> entity_ok e"
  by (simp add: fresh_entity_def entity_ok_def opt_obj_ok_def)

lemma updated_entity_ok:
  "entity_ok c \<Longrightarrow> obj_ok m \<Longrightarrow> time_ok t \<Longrightarrow> entity_ok (c\<lparr>e_data := Some m, e_updated_at := t\<rparr>)"
  by (simp add: entity_ok_def)

lemma upsert_after_ok: "db_ok db \<Longrightarrow> time_ok (v_now v) \<Longrightarrow> entity_ok e \<Longrightarrow> db_ok (upsert_after v e db)"
  using upsert_after_cases [of v e db] upsert_entity_ok by metis

lemma effect_db_ok:
  assumes "effect v did db db'" and "db_ok db" and "time_ok (v_now v)"
  shows "db_ok db'"
  using assms(1)
proof cases
  case (create e db1)
  then show ?thesis using log_as_ok upsert_after_ok fresh_entity_ok assms(2,3) by metis
next
  case (update i cur m e db1)
  then show ?thesis
    using log_as_ok upsert_after_ok updated_entity_ok get_entity_row(1) assms(2,3) by metis
next
  case (archive i db1)
  then have ok: "db_ok db1" using log_as_ok assms(2,3) by blast
  then show ?thesis unfolding archive(1)
    using ok archive_entity_ok [OF _ ok assms(3) assms(3)]
    by (cases "archive_entity (v_io_write v) (v_now v) did i (v_now v) db1") auto
next
  case (relate payload db1 x)
  then have ok: "db_ok db1" using log_as_ok assms(2,3) by blast
  have x: "relation_ok x" using relate assms(3) by (simp add: relation_ok_def opt_obj_ok_def)
  show ?thesis unfolding relate(1)
    using ok upsert_relation_ok [OF _ ok assms(3) x]
    by (cases "upsert_relation (v_io_write v) (v_now v) (Some x) db1") auto
next
  case (dissolve payload db1 i)
  then have ok: "db_ok db1" using log_as_ok assms(2,3) by blast
  then show ?thesis unfolding dissolve(1)
    using ok dissolve_relation_ok [OF _ ok] by (cases "dissolve_relation (v_io_write v) did i db1") auto
next
  case (def_type ty payload db1 e)
  then show ?thesis using log_as_ok upsert_after_ok fresh_entity_ok assms(2,3) by metis
qed (use assms(2) in simp)

section \<open>Isolation\<close>

lemma log_as_view: "log_as v i did ty payload db db1 \<Longrightarrow> did' \<noteq> did \<Longrightarrow> peer_view did' db1 = peer_view did' db"
  by (erule log_asE) (simp add: peer_view_def)

lemma filter_replace_row:
  assumes "own r \<noteq> did" and "\<And>x. x \<in> set rows \<Longrightarrow> key x = key r \<Longrightarrow> own x \<noteq> did"
  shows "filter (\<lambda>x. own x = did) (replace_row key r rows) = filter (\<lambda>x. own x = did) rows"
  using assms by (auto simp: replace_row_def intro!: filter_cong)

lemma upsert_after_view:
  assumes "e_peer e \<noteq> did'" and "\<And>x. x \<in> set (d_entities db) \<Longrightarrow> er_id x = e_id e \<Longrightarrow> er_peer x \<noteq> did'"
  shows "peer_view did' (upsert_after v e db) = peer_view did' db"
  using upsert_after_cases [of v e db] assms filter_replace_row [of er_peer _ did' "d_entities db" er_id]
  by (auto simp: upsert_entity_cases peer_view_def)

lemma archive_view:
  "did' \<noteq> did \<Longrightarrow> peer_view did' (after (archive_entity io now did i t db) db) = peer_view did' db"
proof -
  assume other: "did' \<noteq> did"
  define f where "f = (\<lambda>r :: entity_record. if er_peer r = did \<and> er_id r = i
    then r\<lparr>er_archived_at := Some (format_time (if t = 0 then now else t)),
           er_updated_at := format_time (if t = 0 then now else t)\<rparr> else r)"
  have rows: "filter (\<lambda>r. er_peer r = did') (map f rows) = filter (\<lambda>r. er_peer r = did') rows" for rows
    using other by (induction rows) (auto simp: f_def)
  show ?thesis
  proof (cases "archive_entity io now did i t db")
    case (Inr db')
    then have "db' = db\<lparr>d_entities := map f (d_entities db)\<rparr>" by (simp add: archive_entity_cases f_def)
    with Inr rows show ?thesis by (simp add: peer_view_def)
  qed simp
qed

lemma relate_view:
  assumes "r_peer x \<noteq> did'" and "\<And>y. y \<in> set (d_relations db) \<Longrightarrow> rr_id y = r_id x \<Longrightarrow> rr_peer y \<noteq> did'"
  shows "peer_view did' (after (map_result snd (upsert_relation io now (Some x) db)) db) = peer_view did' db"
  using assms filter_replace_row [of rr_peer _ did' "d_relations db" rr_id]
  by (cases "upsert_relation io now (Some x) db") (auto simp: upsert_relation_cases peer_view_def)

lemma dissolve_view:
  assumes "did' \<noteq> did"
  shows "peer_view did' (after (dissolve_relation io did i db) db) = peer_view did' db"
proof -
  have rows: "filter (\<lambda>r. rr_peer r = did') (filter (\<lambda>r. \<not> (rr_peer r = did \<and> rr_id r = i)) rows)
      = filter (\<lambda>r. rr_peer r = did') rows" for rows
    using assms by (induction rows) auto
  show ?thesis
  proof (cases "dissolve_relation io did i db")
    case (Inr db')
    then have "db' = db\<lparr>d_relations := filter (\<lambda>r. \<not> (rr_peer r = did \<and> rr_id r = i)) (d_relations db)\<rparr>"
      by (simp add: dissolve_relation_cases)
    with Inr rows show ?thesis by (simp add: peer_view_def del: filter_filter)
  qed simp
qed

text \<open>The identifier drawn for a new row is not in use.\<close>

definition fresh_id :: "env \<Rightarrow> db \<Rightarrow> bool" where
  "fresh_id v db \<longleftrightarrow> v_id1 v \<notin> er_id ` set (d_entities db) \<and> v_id1 v \<notin> rr_id ` set (d_relations db)"

lemma log_as_rows: "log_as v i did ty payload db db1 \<Longrightarrow> d_entities db1 = d_entities db \<and> d_relations db1 = d_relations db"
  by (erule log_asE) simp

lemma upsert_fresh_view:
  assumes "log_as v i did ty payload db db1" and "fresh_entity v did e" and "fresh_id v db" and "did' \<noteq> did"
  shows "peer_view did' (upsert_after v e db1) = peer_view did' db"
proof -
  have "er_id x \<noteq> e_id e" if "x \<in> set (d_entities db1)" for x
    using imageI [OF that, of er_id] log_as_rows [OF assms(1)] assms(2,3)
    by (auto simp: fresh_entity_def fresh_id_def)
  then have "peer_view did' (upsert_after v e db1) = peer_view did' db1"
    using assms(2,4) by (intro upsert_after_view) (auto simp: fresh_entity_def)
  then show ?thesis using log_as_view [OF assms(1,4)] by simp
qed

lemma effect_isolated:
  assumes "effect v did db db'" and "db_ok db" and "fresh_id v db" and "did' \<noteq> did"
  shows "peer_view did' db' = peer_view did' db"
  using assms(1)
proof cases
  case (create e db1)
  then show ?thesis using upsert_fresh_view assms(3,4) by metis
next
  case (update i cur m e db1)
  note c = get_entity_row [OF update(2) assms(2)]
  have "er_peer x \<noteq> did'" if "x \<in> set (d_entities db1)" "er_id x = e_id e" for x
  proof -
    have mem: "x \<in> set (d_entities db)" using that log_as_rows [OF update(5)] by simp
    have "inj_on er_id (set (d_entities db))" using assms(2) by (simp add: db_ok_def distinct_map)
    moreover have "er_id x = er_id (entity_row cur)" using that(2) update(4) by simp
    ultimately have "x = entity_row cur" using mem c(3) by (metis inj_onD)
    then show ?thesis using c(4) assms(4) by simp
  qed
  then have "peer_view did' (upsert_after v e db1) = peer_view did' db1"
    using c(4) assms(4) update(4) by (intro upsert_after_view) auto
  then show ?thesis using log_as_view [OF update(5) assms(4)] update(1) by simp
next
  case (archive i db1)
  then show ?thesis using archive_view [OF assms(4)] log_as_view [OF _ assms(4)] by metis
next
  case (relate payload db1 x)
  have "rr_id y \<noteq> r_id x" if "y \<in> set (d_relations db1)" for y
    using imageI [OF that, of rr_id] log_as_rows [OF relate(2)] relate(3) assms(3) by (auto simp: fresh_id_def)
  then have "peer_view did' db' = peer_view did' db1"
    using relate(4) assms(4) unfolding relate(1) by (intro relate_view) auto
  then show ?thesis using log_as_view [OF relate(2) assms(4)] by simp
next
  case (dissolve payload db1 i)
  then show ?thesis using dissolve_view [OF assms(4)] log_as_view [OF _ assms(4)] by metis
next
  case (def_type ty payload db1 e)
  then show ?thesis using upsert_fresh_view assms(3,4) by metis
qed simp

section \<open>Per request\<close>

definition reads :: "op \<Rightarrow> bool" where
  "reads f \<longleftrightarrow> (\<forall>v did msg r h. snd (f v did msg r h) = h)"

lemma reading_ops:
  "reads opEntityGet" "reads (opEntityQuery sq)" "reads opRelationQuery" "reads opTypeList"
  "reads opTypeDescribe" "reads (opSemanticSearch sq)" "reads opTimeTravel"
  by (simp_all add: reads_def opEntityGet_def opEntityQuery_def opRelationQuery_def opTypeList_def
      opTypeDescribe_def opSemanticSearch_def opTimeTravel_def split: sum.split option.split)

lemma dispatch_op_cases:
  assumes "dispatch_op sq name = Some f"
  obtains "reads f" | "f = opEntityCreate" | "f = opEntityUpdate" | "f = opEntityArchive"
    | "f = opRelationCreate" | "f = opRelationDissolve" | "f = opTypeDefine"
  using assms reading_ops by (auto simp: dispatch_op_def split: if_splits)

definition schema_step :: "string \<Rightarrow> resolver option \<Rightarrow> resolver option \<Rightarrow> bool" where
  "schema_step did rs rs' \<longleftrightarrow> rs' = rs
     \<or> (\<exists>a. fields_ok (ta_fields a) \<and> rs' = map_option (register_args did a) rs)"

lemma op_effect:
  assumes "dispatch_op sq name = Some f" and "f v did msg r h = (out, h')" and "host_ok h"
  shows "effect v did (hs_db h) (hs_db h') \<and> schema_step did (hs_schema h) (hs_schema h')"
  using assms(1)
proof (cases rule: dispatch_op_cases)
  case 1
  then have "snd (f v did msg r h) = h" by (simp add: reads_def)
  with assms(2) have "h' = h" by simp
  then show ?thesis by (simp add: quiet schema_step_def)
next
  case 2
  then show ?thesis using effect_create assms(2,3) by (simp add: schema_step_def)
next
  case 3
  then show ?thesis using effect_update assms(2,3) by (simp add: schema_step_def)
next
  case 4
  then show ?thesis using effect_archive assms(2) by (simp add: schema_step_def)
next
  case 5
  then show ?thesis using effect_relate assms(2) by (simp add: schema_step_def)
next
  case 6
  then show ?thesis using effect_dissolve assms(2) by (simp add: schema_step_def)
next
  case 7
  then show ?thesis using effect_define [of v did msg r h out h'] assms(2) by (auto simp: schema_step_def)
qed

lemma dispatch_effect:
  assumes "dispatch sq v did msg w h = (out, h')" and "host_ok h"
  shows "effect v did (hs_db h) (hs_db h') \<and> schema_step did (hs_schema h) (hs_schema h')"
proof (cases "decode_envelope (m_payload msg)")
  case (Inr en)
  show ?thesis
  proof (cases "dispatch_op sq (en_op en)")
    case (Some f)
    then show ?thesis using op_effect [OF Some _ assms(2)] assms(1) Inr by (simp add: dispatch_def)
  qed (use assms(1) Inr in \<open>auto simp: dispatch_def schema_step_def quiet\<close>)
qed (use assms(1) in \<open>auto simp: dispatch_def schema_step_def quiet\<close>)

lemma schema_step_ok:
  assumes "schema_step did rs rs'" and "case rs of None \<Rightarrow> True | Some r \<Rightarrow> schema_ok r"
  shows "case rs' of None \<Rightarrow> True | Some r \<Rightarrow> schema_ok r"
proof (cases "rs' = rs")
  case False
  then obtain a where "fields_ok (ta_fields a)" "rs' = map_option (register_args did a) rs"
    using assms(1) by (auto simp: schema_step_def)
  then show ?thesis
    using assms(2) by (auto simp: register_args_def args_entity_type_def args_rel_type_def schema_ok_register
        split: option.splits)
qed (use assms(2) in simp)

lemma schema_step_other:
  assumes "schema_step did rs rs'" and "case rs of None \<Rightarrow> True | Some r \<Rightarrow> schema_ok r" and "did' \<noteq> did"
  shows "map_option (EntityType did' n) rs' = map_option (EntityType did' n) rs"
    and "map_option (RelationType did' n) rs' = map_option (RelationType did' n) rs"
  using assms
  by (auto simp: schema_step_def register_args_def schema_ok_def EntityType_register RelationType_register
      register_other_kind split: option.splits)

text \<open>C15: The event log is append-only: whatever message a peer's handler is given, whatever fails,
  the events already stored stay as they are and in place; a request adds at most one event, and it
  carries the handler's own DID.\<close>

theorem dispatch_log_append_only:
  assumes "dispatch sq v did msg w h = (out, h')" and "host_ok h"
  shows "\<exists>new. d_events (hs_db h') = d_events (hs_db h) @ new \<and> length new \<le> 1
    \<and> (\<forall>r \<in> set new. vr_peer r = did)"
  using effect_log dispatch_effect [OF assms] by blast

text \<open>Every request keeps the host well formed: identifiers stay distinct, every stored row can
  be read back as the record it was written from, and the type registry stays consistent, so no
  later read can fail on stored data.\<close>

theorem dispatch_keeps_host_ok:
  assumes "dispatch sq v did msg w h = (out, h')" and "host_ok h" and "time_ok (v_now v)"
  shows "host_ok h'"
  using dispatch_effect [OF assms(1,2)] effect_db_ok schema_step_ok assms(2,3)
  unfolding host_ok_def by blast

text \<open>C7: A request handled for one peer never changes another peer: its events, entities and
  relations stay exactly as they were and so do its type definitions, as long as the identifier
  drawn for a new row is not in use.\<close>

theorem dispatch_isolates_peers:
  assumes "dispatch sq v did msg w h = (out, h')" and "host_ok h" and "fresh_id v (hs_db h)" and "did' \<noteq> did"
  shows "peer_view did' (hs_db h') = peer_view did' (hs_db h)
    \<and> map_option (EntityType did' n) (hs_schema h') = map_option (EntityType did' n) (hs_schema h)
    \<and> map_option (RelationType did' n) (hs_schema h') = map_option (RelationType did' n) (hs_schema h)"
  using dispatch_effect [OF assms(1,2)] effect_isolated assms(2-4) schema_step_other
  unfolding host_ok_def by blast

text \<open>A request whose handling panics.\<close>

definition panics :: "outcome \<times> host \<Rightarrow> bool" where
  "panics r \<longleftrightarrow> (case fst r of Panics _ \<Rightarrow> True | Returned _ \<Rightarrow> False)"

lemma panics_simps [simp]: "\<not> panics (respond v did msg j, h)" "\<not> panics (errorResp v did msg e, h)"
  "panics (nil_dereference, h)"
  by (simp_all add: panics_def respond_def errorResp_def nil_dereference_def)

lemma other_ops_return:
  "\<not> panics (opEntityGet v did msg r h)" "\<not> panics (opEntityQuery sq v did msg r h)"
  "\<not> panics (opEntityCreate v did msg r h)" "\<not> panics (opEntityArchive v did msg r h)"
  "\<not> panics (opRelationCreate v did msg r h)" "\<not> panics (opRelationQuery v did msg r h)"
  "\<not> panics (opRelationDissolve v did msg r h)" "\<not> panics (opTypeList v did msg r h)"
  "\<not> panics (opTypeDescribe v did msg r h)" "\<not> panics (opTypeDefine v did msg r h)"
  "\<not> panics (opSemanticSearch sq v did msg r h)" "\<not> panics (opTimeTravel v did msg r h)"
  by (simp_all add: opEntityGet_def opEntityQuery_def opEntityCreate_def opEntityArchive_def opRelationCreate_def
      opRelationQuery_def opRelationDissolve_def opTypeList_def opTypeDescribe_def opTypeDefine_def
      opSemanticSearch_def opTimeTravel_def Let_def split: sum.split option.split prod.split)

lemma update_panics:
  "panics (opEntityUpdate v did msg r h) \<longleftrightarrow>
     (\<exists>a. decode_entityUpdateArgs r = Inr a \<and> get_entity (v_io_read v) did (wa_id a) (hs_db h) = Inr None)"
  by (auto simp: opEntityUpdate_def Let_def split: sum.splits option.splits)

text \<open>C37: Handling a message dereferences nil, which panics, exactly when it is an
  \<open>entity.update\<close> whose arguments decode and whose id the peer has no entity under: the store
  answers a missing entity with neither an entity nor an error, and the handler uses the entity.\<close>

theorem dispatch_panics_iff:
  "panics (dispatch sq v did msg w h) \<longleftrightarrow>
     (\<exists>en a. decode_envelope (m_payload msg) = Inr en \<and> en_op en = ''entity.update''
        \<and> decode_entityUpdateArgs (en_args en) = Inr a
        \<and> get_entity (v_io_read v) did (wa_id a) (hs_db h) = Inr None)"
proof (cases "decode_envelope (m_payload msg)")
  case (Inr en)
  show ?thesis
  proof (cases "en_op en = ''entity.update''")
    case True
    then show ?thesis using Inr by (simp add: dispatch_def dispatch_op_def update_panics)
  next
    case False
    then have "\<not> panics (dispatch sq v did msg w h)"
      using Inr by (auto simp: dispatch_def dispatch_op_def other_ops_return split: option.split)
    with False Inr show ?thesis by simp
  qed
qed (simp add: dispatch_def)

section \<open>What a successful write leaves behind\<close>

lemma upsert_get:
  assumes "upsert_entity io now (Some e) db = Inr (e', db')" and "entity_ok e" and "e_created_at e \<noteq> 0" and "e_updated_at e \<noteq> 0"
  shows "e' = e" and "get_entity None (e_peer e) (e_id e) db' = Inr (Some (stored e))"
proof -
  show "e' = e" using assms by (simp add: upsert_entity_cases)
  with assms(1) have "d_entities db' = replace_row er_id (entity_row e) (d_entities db)"
    by (simp add: upsert_entity_cases)
  then show "get_entity None (e_peer e) (e_id e) db' = Inr (Some (stored e))"
    using assms(2) by (simp add: get_entity_def find_replace_row [where own = er_peer] scan_entity_row)
qed

lemma dispatch_is_op:
  "decode_envelope (m_payload msg) = Inr en \<Longrightarrow> dispatch_op sq (en_op en) = Some f
     \<Longrightarrow> dispatch sq v did msg w h = f v did msg (en_args en) h"
  by (simp add: dispatch_def)

lemma new_entity_fields:
  "e_id (new_entity v did msg ty author client m) = v_id1 v" "e_peer (new_entity v did msg ty author client m) = did"
  "e_type (new_entity v did msg ty author client m) = ty"
  by (simp_all add: new_entity_def)

lemma event_row_fields:
  "vr_type (event_row_of now i (new_event v j did ty payload author client)) = ty"
  "vr_payload (event_row_of now i (new_event v j did ty payload author client)) = Doc payload"
  "vr_author (event_row_of now i (new_event v j did ty payload author client)) = author"
  "vr_client (event_row_of now i (new_event v j did ty payload author client)) = client"
  by (simp_all add: event_row_of_def new_event_def)

lemma create_result:
  assumes run: "opEntityCreate v did msg r h = (Returned (reply, None), h')" and "host_ok h"
    and "decode_entityCreateArgs r = Inr a" and "time_ok (v_now v)" and "v_now v \<noteq> 0"
  obtains m e row where "e = new_entity v did msg (wa_type a) (wa_author a) (wa_client a) m" "entity_ok e"
    "m_payload reply = Doc (entity_json e)" "decode_entity (m_payload reply) = Inr e" "m_type reply = FedMsgResponse"
    "get_entity None did (v_id1 v) (hs_db h') = Inr (Some (stored e))"
    "d_events (hs_db h') = d_events (hs_db h) @ [row]"
    "row = event_row_of (v_now v) (v_id2 v) (new_event v (v_id2 v) did EventEntityCreated (entity_json e) (e_created_by e) (e_client e))"
proof -
  obtain m where m: "validate_create did a (hs_schema h) = Inr m"
    using run assms(3) by (auto simp: opEntityCreate_def errorResp_def split: sum.splits)
  define e where "e = new_entity v did msg (wa_type a) (wa_author a) (wa_client a) m"
  have "fresh_entity v did e"
    using validate_create_ok [OF m decode_create_ok [OF assms(3)]] assms(2) by (simp add: e_def host_ok_def)
  then have e: "entity_ok e" "e_id e = v_id1 v" "e_peer e = did" "e_created_at e = v_now v" "e_updated_at e = v_now v"
    using assms(4) by (auto simp: fresh_entity_def fresh_entity_ok)
  define ev where "ev = new_event v (v_id2 v) did EventEntityCreated (entity_json e) (e_created_by e) (e_client e)"
  obtain db1 db2 e' where app: "append_event (v_io_append v) (v_now v) (v_id2 v) (Some ev) (hs_db h) = Inr db1"
    and up: "upsert_entity (v_io_write v) (v_now v) (Some e) db1 = Inr (e', db2)"
    and out: "h' = h\<lparr>hs_db := db2\<rparr>" "reply = message v did msg FedMsgResponse (entity_json e')"
    using run assms(3) m
    by (auto simp: opEntityCreate_def Let_def e_def [symmetric] ev_def [symmetric] errorResp_def respond_def
        split: sum.splits simp del: EventEntityCreated_def)
  note got = upsert_get [OF up e(1)]
  have e': "e' = e" using got(1) e assms(5) by simp
  have "d_events db2 = d_events (hs_db h) @ [event_row_of (v_now v) (v_id2 v) ev]"
    using upsert_entity_frame(1) [OF up] app by (auto simp: append_event_cases)
  moreover have "decode_entity (m_payload reply) = Inr e"
    using decode_entity_json [OF e(1)] by (simp add: out e' message_def)
  ultimately show thesis
    using that [OF e_def e(1)] got(2) e assms(5) out e' by (auto simp: message_def ev_def)
qed


text \<open>C14: When \<open>entity.update\<close> succeeds, the reply is the entity with every given field replaced and
  every other field kept, its creation data, type and archive state are unchanged, the entity is what
  \<open>GetEntity\<close> finds from then on, and one \<open>EntityUpdated\<close> event with that entity has been appended.\<close>

theorem update_merges_fields:
  assumes "dispatch sq v did msg w h = (Returned (reply, None), h')" and "host_ok h"
    and "decode_envelope (m_payload msg) = Inr en" and "en_op en = ''entity.update''"
    and "decode_entityUpdateArgs (en_args en) = Inr a" and "time_ok (v_now v)" and "v_now v \<noteq> 0"
    and "get_entity None did (wa_id a) (hs_db h) = Inr (Some cur)" and "e_created_at cur \<noteq> 0"
  shows "\<exists>m. decode_entity (m_payload reply) = Inr (cur\<lparr>e_data := Some m, e_updated_at := v_now v\<rparr>)
    \<and> (\<forall>k. mget m k = (case mget (case wa_fields a of None \<Rightarrow> [] | Some f \<Rightarrow> f) k of
            Some x \<Rightarrow> Some x | None \<Rightarrow> mget (the (e_data cur)) k))
    \<and> get_entity None did (wa_id a) (hs_db h') = Inr (Some (cur\<lparr>e_data := Some m, e_updated_at := v_now v\<rparr>))
    \<and> (\<exists>row. d_events (hs_db h') = d_events (hs_db h) @ [row] \<and> vr_type row = EventEntityUpdated
          \<and> vr_payload row = Doc (entity_json (cur\<lparr>e_data := Some m, e_updated_at := v_now v\<rparr>)))"
proof -
  note c = get_entity_row [OF assms(8)]
  have dbok: "db_ok (hs_db h)" using assms(2) by (simp add: host_ok_def)
  obtain base where base: "e_data cur = Some base"
    using c(2) [OF dbok] by (cases cur) (simp add: stored_def, metis)
  have run: "opEntityUpdate v did msg (en_args en) h = (Returned (reply, None), h')"
    using assms(1) dispatch_is_op [OF assms(3)] assms(4) by (simp add: dispatch_op_def)
  have io: "get_entity (v_io_read v) did (wa_id a) (hs_db h) = Inr (Some cur)"
    using run assms(5,8) by (cases "v_io_read v") (auto simp: opEntityUpdate_def errorResp_def get_entity_def)
  define fs where "fs = (case wa_fields a of None \<Rightarrow> [] | Some f \<Rightarrow> f)"
  define m where "m = mputs fs base"
  define e where "e = cur\<lparr>e_data := Some m, e_updated_at := v_now v\<rparr>"
  have ok: "obj_ok base" "obj_ok fs"
    using c(1) [OF dbok] base decode_update_ok [OF assms(5)]
    by (auto simp: entity_ok_def fs_def opt_obj_ok_def split: option.splits)
  then have m: "obj_ok m" "mget m = mget base ++ mget fs"
    by (simp_all add: m_def obj_ok_mputs obj_ok_def mget_mputs members_ok_mputs)
  then have e: "entity_ok e" "stored e = e"
    using c(1) [OF dbok] assms(6) by (simp_all add: e_def updated_entity_ok) (simp add: stored_def)
  obtain db1 db2 e' author client where app: "append_event (v_io_append v) (v_now v) (v_id1 v) (Some (new_event v (v_id1 v) did
        EventEntityUpdated (entity_json e) author client)) (hs_db h) = Inr db1"
    and up: "upsert_entity (v_io_write v) (v_now v) (Some e) db1 = Inr (e', db2)"
    and out: "h' = h\<lparr>hs_db := db2\<rparr>" "reply = message v did msg FedMsgResponse (entity_json e')"
    using run assms(5) io base
    by (auto simp: opEntityUpdate_def Let_def fs_def [symmetric] m_def [symmetric] e_def [symmetric] errorResp_def
        respond_def split: sum.splits simp del: EventEntityUpdated_def)
  have ids: "e_peer e = did" "e_id e = wa_id a" "e_created_at e \<noteq> 0" "e_updated_at e \<noteq> 0"
    using c(4,5) [OF dbok] assms(7,9) by (simp_all add: e_def)
  note got = upsert_get [OF up e(1) ids(3,4)]
  obtain row where row: "d_events db1 = d_events (hs_db h) @ [row]" "vr_type row = EventEntityUpdated"
      "vr_payload row = Doc (entity_json e)"
    using log_asE [OF log_asI [OF app]] by metis
  have "d_events db2 = d_events (hs_db h) @ [row]" using upsert_entity_frame(1) [OF up] row by simp
  moreover have "decode_entity (m_payload reply) = Inr e"
    using decode_entity_json [OF e(1)] by (simp add: out got(1) message_def)
  moreover have "mget m k = (case mget fs k of Some x \<Rightarrow> Some x | None \<Rightarrow> mget (the (e_data cur)) k)" for k
    by (simp add: m(2) map_add_def base split: option.split)
  ultimately show ?thesis
    using got(2) e(2) ids row out unfolding e_def fs_def by (intro exI [of _ m]) auto
qed

section \<open>Concrete requests\<close>

definition sample_env :: env where
  "sample_env = \<lparr>v_now = 5, v_id1 = ''n1'', v_id2 = ''n2'', v_msg_id = ''m1'', v_reply_time = 6,
     v_io_read = None, v_io_append = None, v_io_write = None\<rparr>"

definition sample_host :: host where
  "sample_host = \<lparr>hs_db = one_entity_db, hs_schema = Some NewResolver\<rparr>"

definition op_message :: "string \<Rightarrow> (string \<times> json) list \<Rightarrow> fed_message" where
  "op_message op args = zero_message\<lparr>m_target := ''p'', m_type := FedMsgWrite,
     m_payload := Doc (JObj [(''op'', JStr op), (''args'', JObj args)])\<rparr>"

definition create_args :: "(string \<times> json) list" where
  "create_args = [(''type'', JStr ''Goal''), (''fields'', JObj [(''title'', JStr ''run'')])]"

definition update_args :: "(string \<times> json) list" where
  "update_args = [(''id'', JStr ''e1''), (''fields'', JObj [(''title'', JStr ''run'')])]"

lemma sample_host_ok: "host_ok sample_host" "host_ok (sample_host\<lparr>hs_schema := None\<rparr>)"
  by (simp_all add: host_ok_def sample_host_def one_entity_db_ok schema_ok_new)

lemma sample_env_ok: "time_ok (v_now sample_env)" "v_now sample_env \<noteq> 0"
  by (simp_all add: sample_env_def time_ok_def nanos_def)

lemma sample_fresh: "fresh_id sample_env (hs_db sample_host)"
  by (simp add: fresh_id_def sample_env_def sample_host_def one_entity_db_def sample_db_def sample_entity_def)

lemma decode_op_message:
  "decode_envelope (m_payload (op_message op args)) = Inr \<lparr>en_op = op, en_args = Doc (JObj args)\<rparr>"
  by (simp add: decode_envelope_def op_message_def struct_simps assign_envelope_def set_raw_def)

lemma decode_create_args: "decode_entityCreateArgs (Doc (JObj create_args))
    = Inr (no_write_args\<lparr>wa_type := ''Goal'', wa_fields := Some [(''title'', JStr ''run'')]\<rparr>)"
  by (simp add: decode_entityCreateArgs_def create_args_def struct_simps set_map_def no_write_args_def)

lemma decode_update_args: "decode_entityUpdateArgs (Doc (JObj update_args))
    = Inr (no_write_args\<lparr>wa_id := ''e1'', wa_fields := Some [(''title'', JStr ''run'')]\<rparr>)"
  by (simp add: decode_entityUpdateArgs_def update_args_def struct_simps set_map_def no_write_args_def)

lemma dispatch_log_append_only_witness:
  "length (d_events (hs_db (snd (dispatch sample_sqlite sample_env ''p'' (op_message ''entity.create'' create_args) True
     sample_host)))) \<le> 1"
proof -
  have "d_events (hs_db sample_host) = []" by (simp add: sample_host_def one_entity_db_def sample_db_def)
  then show ?thesis
    using dispatch_log_append_only [OF prod.collapse [symmetric] sample_host_ok(1), of sample_sqlite sample_env "''p''"
        "op_message ''entity.create'' create_args" True]
    by auto
qed

lemma dispatch_keeps_host_ok_witness:
  "host_ok (snd (dispatch sample_sqlite sample_env ''p'' (op_message ''entity.update'' update_args) True sample_host))"
  by (rule dispatch_keeps_host_ok [OF prod.collapse [symmetric] sample_host_ok(1) sample_env_ok(1)])

lemma dispatch_isolates_peers_witness:
  "peer_view ''p'' (hs_db (snd (dispatch sample_sqlite sample_env ''q'' (op_message ''entity.create'' create_args) True
     sample_host))) = peer_view ''p'' (hs_db sample_host)"
proof -
  have "''p'' \<noteq> ''q''" by simp
  from dispatch_isolates_peers [OF prod.collapse [symmetric] sample_host_ok(1) sample_fresh this] show ?thesis by blast
qed


lemma update_merges_fields_witness:
  "\<exists>reply h'. dispatch sample_sqlite sample_env ''p'' (op_message ''entity.update'' update_args) True sample_host
       = (Returned (reply, None), h')
     \<and> (\<exists>m e. get_entity None ''p'' ''e1'' (hs_db h') = Inr (Some (e\<lparr>e_data := Some m\<rparr>)) \<and> mget m ''title'' = Some (JStr ''run''))"
proof -
  define cur where "cur = stored (complete_times 5 sample_entity)"
  have got: "get_entity None ''p'' ''e1'' (hs_db sample_host) = Inr (Some cur)"
    by (simp add: get_entity_def sample_host_def one_entity_db_def scan_entity_row cur_def) (simp add: sample_entity_def)
  have created: "e_created_at cur = 5" "e_peer cur = ''p''" "e_id cur = ''e1''"
    by (simp_all add: cur_def sample_entity_def zero_entity_def complete_times_def)
  obtain reply h' where run: "dispatch sample_sqlite sample_env ''p'' (op_message ''entity.update'' update_args) True sample_host
      = (Returned (reply, None), h')"
    using got created
    by (simp add: dispatch_def decode_op_message dispatch_op_def opEntityUpdate_def decode_update_args no_write_args_def
        sample_host_def Let_def respond_def new_event_def sample_env_def
        append_event_Some one_entity_db_def sample_db_def event_row_of_def insert_event_def exec_def upsert_entity_def)
  from update_merges_fields [OF run sample_host_ok(1) decode_op_message _ _ sample_env_ok, simplified, OF decode_update_args,
      of cur] got created
  obtain m where "\<forall>k. mget m k = (case mget [(''title'', JStr ''run'')] k of Some x \<Rightarrow> Some x | None \<Rightarrow> mget (the (e_data cur)) k)"
    "get_entity None ''p'' ''e1'' (hs_db h') = Inr (Some (cur\<lparr>e_data := Some m, e_updated_at := 5\<rparr>))"
    by (auto simp: no_write_args_def sample_env_def)
  moreover have "cur\<lparr>e_data := Some m, e_updated_at := 5\<rparr> = (cur\<lparr>e_updated_at := 5\<rparr>)\<lparr>e_data := Some m\<rparr>" by simp
  ultimately show ?thesis using run by (metis map_of_Cons_code(2) option.simps(5))
qed

end
