(* ===== verification/Replay.thy ===== *)
theory Replay
  imports Handler_Props
begin

text \<open>
  Time travel. The projection (the entities table) and the log are kept by separate
  statements; time travel rebuilds entities from the log alone. Here: the replay of a peer's
  log gives the peer's projection, after any sequence of requests whose statements run, whose
  identifiers are fresh and whose events are appended in the order in which the log is read.
\<close>

section \<open>Reading the log\<close>

definition peer_log :: "string \<Rightarrow> db \<Rightarrow> event_row list" where
  "peer_log did db = filter (\<lambda>r. vr_peer r = did) (d_events db)"

definition zero_event :: event where
  "zero_event = \<lparr>ev_id = [], ev_peer = [], ev_type = [], ev_payload = Empty, ev_time = 0,
     ev_author = [], ev_client = [], ev_signature = []\<rparr>"

definition event_of :: "event_row \<Rightarrow> event" where
  "event_of r = (case scan_event r of Inl _ \<Rightarrow> zero_event | Inr e \<Rightarrow> e)"

definition log_ordered :: "string \<Rightarrow> db \<Rightarrow> bool" where
  "log_ordered did db \<longleftrightarrow> sorted (map event_key (peer_log did db))"

lemma scan_event_ok: "event_row_ok r \<Longrightarrow> scan_event r = Inr (event_of r)"
  by (auto simp: event_row_ok_def event_of_def scan_event_def split: sum.splits)

lemma list_events_log:
  assumes "db_ok db" and "log_ordered did db"
  shows "list_events None did 0 0 db = Inr (map event_of (peer_log did db))"
proof -
  have "select_events did 0 0 db = peer_log did db"
    using assms(2) by (simp add: select_events_def peer_log_def log_ordered_def sorted_sort_id sort_key_id_if_sorted)
  moreover have "\<forall>r \<in> set (peer_log did db). scan_event r = Inr (event_of r)"
    using assms(1) scan_event_ok by (auto simp: peer_log_def db_ok_def)
  ultimately show ?thesis by (simp add: list_events_def mapM_all_Inr)
qed

lemma replay_snoc: "replay (evs @ [ev]) = replay_step ev (replay evs)"
  by (simp add: replay_def)

lemma replay_step_ok: "gomap_ok st \<Longrightarrow> gomap_ok (replay_step ev st)"
  by (simp add: replay_step_def Let_def split: sum.split option.split)

lemma replay_ok: "gomap_ok (replay evs)"
  by (induction evs rule: rev_induct) (simp add: replay_def, simp add: replay_snoc replay_step_ok)

section \<open>The refinement relation\<close>

text \<open>
  A rebuilt entity and the stored one agree on everything but the time of the last change,
  which archiving sets in the projection only.
\<close>

definition agrees :: "entity \<Rightarrow> entity \<Rightarrow> bool" where
  "agrees e cur \<longleftrightarrow> (stored e)\<lparr>e_updated_at := 0\<rparr> = cur\<lparr>e_updated_at := 0\<rparr>
     \<and> (e_archived_at cur = None \<longrightarrow> e_updated_at e = e_updated_at cur)"

definition find_row :: "string \<Rightarrow> string \<Rightarrow> db \<Rightarrow> entity_record option" where
  "find_row did i db = find (\<lambda>r. er_peer r = did \<and> er_id r = i) (d_entities db)"

definition projected :: "string \<Rightarrow> entity gomap \<Rightarrow> db \<Rightarrow> string \<Rightarrow> bool" where
  "projected did st db i \<longleftrightarrow> (case find_row did i db of
      None \<Rightarrow> mget st i = None
    | Some r \<Rightarrow> (case mget st i of
          None \<Rightarrow> er_type r \<in> set typedef_types
        | Some e \<Rightarrow> agrees e (entity_of r) \<and> e_peer e = did))"

definition dated :: "db \<Rightarrow> bool" where
  "dated db \<longleftrightarrow> (\<forall>r \<in> set (d_entities db). er_id r \<noteq> [] \<and> e_created_at (entity_of r) \<noteq> 0)"

definition log_refined :: "string \<Rightarrow> db \<Rightarrow> bool" where
  "log_refined did db \<longleftrightarrow> db_ok db \<and> dated db \<and> log_ordered did db
     \<and> (\<forall>i. projected did (replay (map event_of (peer_log did db))) db i)"

text \<open>What a call may rely on.\<close>

definition sound_call :: "env \<Rightarrow> string \<Rightarrow> db \<Rightarrow> bool" where
  "sound_call v did db \<longleftrightarrow> time_ok (v_now v) \<and> v_now v \<noteq> 0 \<and> v_id1 v \<noteq> [] \<and> v_id2 v \<noteq> []
     \<and> fresh_id v db \<and> v_io_write v = None
     \<and> (\<forall>r \<in> set (peer_log did db). event_key r \<le> RowKey (format_time (v_now v)) (v_id1 v)
          \<and> event_key r \<le> RowKey (format_time (v_now v)) (v_id2 v))"

lemma find_row_get:
  "db_ok db \<Longrightarrow> get_entity None did i db = Inr (map_option entity_of (find_row did i db))"
proof -
  assume ok: "db_ok db"
  show ?thesis
  proof (cases "find_row did i db")
    case (Some r)
    then have "r \<in> set (d_entities db)" using find_Some_set by (fastforce simp: find_row_def)
    then have "scan_entity r = Inr (entity_of r)" using ok by (simp add: db_ok_def scan_entity_of)
    with Some show ?thesis by (simp add: get_entity_def find_row_def)
  qed (simp add: get_entity_def find_row_def)
qed

lemma event_of_log:
  assumes "log_as v i did ty payload db db1" and "sound_call v did db" and "i \<in> {v_id1 v, v_id2 v}"
    and "log_ordered did db"
  shows "\<exists>row. peer_log did db1 = peer_log did db @ [row] \<and> log_ordered did db1 \<and> did \<noteq> []
    \<and> ev_type (event_of row) = ty \<and> ev_payload (event_of row) = Doc payload
    \<and> ev_time (event_of row) = v_now v \<and> ev_peer (event_of row) = did"
proof -
  have i: "i \<noteq> []" using assms(2,3) by (auto simp: sound_call_def)
  obtain row where row: "d_events db1 = d_events db @ [row]" "vr_peer row = did" "vr_type row = ty"
    "vr_payload row = Doc payload" "vr_time row = format_time (v_now v)" "vr_id row = i" "did \<noteq> []"
    using log_asE [OF assms(1)] i by metis
  have log: "peer_log did db1 = peer_log did db @ [row]" using row by (simp add: peer_log_def)
  have "\<forall>r \<in> set (peer_log did db). event_key r \<le> event_key row"
    using assms(2,3) row by (auto simp: sound_call_def event_key_def)
  then have "log_ordered did db1"
    using assms(4) by (auto simp: log_ordered_def log sorted_append)
  moreover have "scan_event row = Inr \<lparr>ev_id = i, ev_peer = did, ev_type = ty, ev_payload = Doc payload,
      ev_time = v_now v, ev_author = vr_author row, ev_client = vr_client row, ev_signature = vr_signature row\<rparr>"
    using assms(2) row by (simp add: scan_event_def time_text.dec_enc sound_call_def)
  ultimately show ?thesis using log row(7) by (intro exI [of _ row]) (simp add: event_of_def)
qed

section \<open>One effect\<close>

lemma decode_payload_entity:
  assumes "ev_payload ev = Doc (entity_json e)" and "entity_ok e" and "e_id e \<noteq> []" and "e_peer e \<noteq> []"
    and "e_created_at e \<noteq> 0" and "e_updated_at e \<noteq> 0"
  shows "decode_entity_payload ev = Inr e"
  using assms by (simp add: decode_entity_payload_def decode_entity_json)

lemma decode_archive_stamp:
  "time_ok t \<Longrightarrow> decode_archive (Doc (stamp_json ''archived_at'' i t)) = Inr \<lparr>ap_id = i, ap_archived_at = t\<rparr>"
  by (simp add: decode_archive_def stamp_json_def struct_simps assign_archive_def less_char_def)

lemma upsert_after_find:
  assumes "v_io_write v = None" and "e_id e \<noteq> []" and "e_peer e \<noteq> []" and "e_created_at e \<noteq> 0" and "e_updated_at e \<noteq> 0"
  shows "find_row did i (upsert_after v e db) =
    (if i = e_id e then (if e_peer e = did then Some (entity_row e) else None) else find_row did i db)"
    and "set (d_entities (upsert_after v e db)) \<subseteq> insert (entity_row e) (set (d_entities db))"
proof -
  have "upsert_entity (v_io_write v) (v_now v) (Some e) db
      = Inr (e, db\<lparr>d_entities := replace_row er_id (entity_row e) (d_entities db)\<rparr>)"
    using assms by (simp add: upsert_entity_cases)
  then have "d_entities (upsert_after v e db) = replace_row er_id (entity_row e) (d_entities db)"
    by (simp add: upsert_after_def)
  then show "find_row did i (upsert_after v e db) =
      (if i = e_id e then (if e_peer e = did then Some (entity_row e) else None) else find_row did i db)"
    and "set (d_entities (upsert_after v e db)) \<subseteq> insert (entity_row e) (set (d_entities db))"
    by (auto simp: find_row_def find_replace_row [where own = er_peer] set_replace_row)
qed

lemma dated_upsert:
  assumes "dated db" and "v_io_write v = None" and "e_id e \<noteq> []" and "e_peer e \<noteq> []" and "e_created_at e \<noteq> 0"
    and "e_updated_at e \<noteq> 0" and "entity_ok e"
  shows "dated (upsert_after v e db)"
proof -
  have "set (d_entities (upsert_after v e db)) \<subseteq> insert (entity_row e) (set (d_entities db))"
    by (rule upsert_after_find(2) [OF assms(2-6)])
  then show ?thesis using assms(1,3,5,7) unfolding dated_def by auto
qed

lemma log_as_find: "log_as v i did ty payload db db1 \<Longrightarrow> find_row did' k db1 = find_row did' k db"
  by (simp add: find_row_def log_as_rows)

lemma log_as_dated: "log_as v i did ty payload db db1 \<Longrightarrow> dated db1 = dated db"
  by (simp add: dated_def log_as_rows)

lemma agrees_stored [simp]: "agrees e (stored e)"
  by (simp add: agrees_def)

lemma projected_other:
  "gomap_ok st \<Longrightarrow> k \<noteq> i \<Longrightarrow> projected did (mput k e st) db i = projected did st db i"
  by (simp add: projected_def mget_mput split: option.split)

lemma projected_same:
  "gomap_ok st \<Longrightarrow> find_row did k db = Some r
     \<Longrightarrow> projected did (mput k e st) db k \<longleftrightarrow> agrees e (entity_of r) \<and> e_peer e = did"
  by (simp add: projected_def mget_mput)

lemma projected_frame: "find_row did i db' = find_row did i db \<Longrightarrow> projected did st db' i = projected did st db i"
  by (simp add: projected_def)

lemma step_create:
  assumes "ev_type ev = EventEntityCreated" and "ev_payload ev = Doc (entity_json e)" and "entity_ok e"
    and "e_id e \<noteq> []" and "e_peer e = did" and "did \<noteq> []" and "e_created_at e \<noteq> 0" and "e_updated_at e \<noteq> 0"
    and "gomap_ok st" and "\<And>i. find_row did i db' = (if i = e_id e then Some (entity_row e) else find_row did i db)"
    and "projected did st db i"
  shows "projected did (replay_step ev st) db' i"
proof -
  have "replay_step ev st = mput (e_id e) e st"
    using assms(1,2) decode_payload_entity [OF assms(2,3,4)] assms(5-8) by (simp add: replay_step_def)
  moreover have "projected did st db' i" if "i \<noteq> e_id e"
    using assms(10) [of i] assms(11) that projected_frame by metis
  ultimately show ?thesis
    using assms(3,5,9) assms(10) [of "e_id e"] projected_same projected_other by (cases "i = e_id e") auto
qed

lemma merge_update_agrees:
  assumes "agrees c0 cur" and "e = cur\<lparr>e_data := Some m, e_updated_at := t\<rparr>" and "ev_time ev = t" and "t \<noteq> 0"
    and "entity_ok e"
  shows "agrees (merge_update ev e c0) (entity_of (entity_row e)) \<and> e_peer (merge_update ev e c0) = e_peer c0"
proof -
  have "(stored c0)\<lparr>e_updated_at := 0\<rparr> = cur\<lparr>e_updated_at := 0\<rparr>" using assms(1) by (simp add: agrees_def)
  then have "e_id c0 = e_id cur" "e_type c0 = e_type cur" "e_peer c0 = e_peer cur" "e_created_at c0 = e_created_at cur"
    "e_created_by c0 = e_created_by cur" "e_client c0 = e_client cur" "e_archived_at c0 = e_archived_at cur"
    "e_embedding c0 = e_embedding cur"
    by (cases c0; cases cur; simp add: stored_def)+
  then have "merge_update ev e c0 = c0\<lparr>e_data := Some m, e_updated_at := t\<rparr>"
    using assms(2-4) by (cases c0) (auto simp: merge_update_def Let_def)
  moreover have "(stored (c0\<lparr>e_data := Some m, e_updated_at := t\<rparr>))\<lparr>e_updated_at := 0\<rparr>
      = ((stored c0)\<lparr>e_updated_at := 0\<rparr>)\<lparr>e_data := Some m\<rparr>"
    by (simp add: stored_def)
  moreover have "stored e = e" using assms(2) by (simp add: stored_def)
  ultimately show ?thesis
    using assms(1,2,5) by (simp add: agrees_def)
qed

lemma step_update:
  assumes "ev_type ev = EventEntityUpdated" and "ev_payload ev = Doc (entity_json e)" and "entity_ok e"
    and "e = cur\<lparr>e_data := Some m, e_updated_at := t\<rparr>" and "ev_time ev = t" and "t \<noteq> 0"
    and "e_id e \<noteq> []" and "e_peer e = did" and "did \<noteq> []" and "e_created_at e \<noteq> 0"
    and "gomap_ok st" and "\<And>i. find_row did i db' = (if i = e_id e then Some (entity_row e) else find_row did i db)"
    and "find_row did (e_id e) db = Some r" and "entity_of r = cur"
    and all: "\<And>i. projected did st db i"
  shows "projected did (replay_step ev st) db' i"
proof -
  have "e_updated_at e \<noteq> 0" using assms(4,6) by simp
  then have dec: "decode_entity_payload ev = Inr e"
    using decode_payload_entity [OF assms(2,3,7)] assms(8-10) by simp
  have step: "replay_step ev st = mput (e_id e) (case mget st (e_id e) of None \<Rightarrow> e | Some c0 \<Rightarrow> merge_update ev e c0) st"
    using assms(1) dec by (simp add: replay_step_def split: option.split)
  have upd: "projected did (mput (e_id e) x st) db' i" if "agrees x (entity_of (entity_row e)) \<and> e_peer x = did" for x
  proof (cases "i = e_id e")
    case True
    then show ?thesis using that projected_same [OF assms(11)] assms(12) [of i] by simp
  next
    case False
    then have "projected did (mput (e_id e) x st) db' i = projected did st db' i"
      using projected_other [OF assms(11)] by simp
    also have "\<dots> = projected did st db i" using assms(12) [of i] False by (intro projected_frame) simp
    finally show ?thesis using all [of i] by simp
  qed
  show ?thesis
  proof (cases "mget st (e_id e)")
    case None
    then show ?thesis
      using upd [of e] assms(3,8) by (simp add: step)
  next
    case (Some c0)
    then have "agrees c0 cur" "e_peer c0 = did" using all [of "e_id e"] assms(13,14) by (auto simp: projected_def)
    then have "agrees (merge_update ev e c0) (entity_of (entity_row e)) \<and> e_peer (merge_update ev e c0) = did"
      using merge_update_agrees [OF _ assms(4-6) assms(3)] by simp
    then show ?thesis using upd [of "merge_update ev e c0"] Some by (simp add: step)
  qed
qed

lemma step_archive:
  assumes "ev_type ev = EventEntityArchived" and "ev_payload ev = Doc (stamp_json ''archived_at'' k t)" and "time_ok t" and "t \<noteq> 0"
    and "gomap_ok st" and ok: "db_ok db" and "dated db"
    and "did \<noteq> []" and all: "\<And>i. projected did st db i"
  shows "projected did (replay_step ev st) (after (archive_entity None now did k t db) db) i"
proof -
  define upd where "upd = (\<lambda>r :: entity_record. r\<lparr>er_archived_at := Some (format_time t), er_updated_at := format_time t\<rparr>)"
  have step: "replay_step ev st = (case mget st k of None \<Rightarrow> st | Some cur \<Rightarrow> mput k (cur\<lparr>e_archived_at := Some t\<rparr>) st)"
    using assms(1-4) by (simp add: replay_step_def decode_archive_stamp split: option.split)
  show ?thesis
  proof (cases "find_row did k db")
    case None
    then have "\<not> (\<exists>r \<in> set (d_entities db). er_peer r = did \<and> er_id r = k)"
      by (auto simp: find_row_def find_None_iff)
    then have "archive_entity None now did k t db \<noteq> Inr db'" for db' by (simp add: archive_entity_cases)
    then have "after (archive_entity None now did k t db) db = db"
      by (cases "archive_entity None now did k t db") auto
    moreover have "mget st k = None" using all [of k] None by (simp add: projected_def)
    ultimately show ?thesis using all [of i] by (simp add: step)
  next
    case (Some r)
    then have r: "r \<in> set (d_entities db)" "er_peer r = did" "er_id r = k"
      using find_Some_set by (fastforce simp: find_row_def)+
    then have "k \<noteq> []" using assms(7) by (auto simp: dated_def)
    define f where "f = (\<lambda>r :: entity_record. if er_peer r = did \<and> er_id r = k then upd r else r)"
    have "archive_entity None now did k t db = Inr (db\<lparr>d_entities := map f (d_entities db)\<rparr>)"
      using r assms(4,8) \<open>k \<noteq> []\<close> by (auto simp: archive_entity_cases f_def upd_def)
    then have aft: "after (archive_entity None now did k t db) db = db\<lparr>d_entities := map f (d_entities db)\<rparr>" by simp
    have keys: "er_peer (f x) = er_peer x" "er_id (f x) = er_id x" for x by (simp_all add: f_def upd_def)
    have "find (\<lambda>r. er_peer r = did \<and> er_id r = j) (map f rows) = map_option f (find (\<lambda>r. er_peer r = did \<and> er_id r = j) rows)" for j rows
      by (induction rows) (simp_all add: keys)
    then have fr: "find_row did j (after (archive_entity None now did k t db) db) = map_option f (find_row did j db)" for j
      by (simp add: aft find_row_def)
    have same: "f x = x" if "find_row did j db = Some x" "j \<noteq> k" for j x
      using that find_Some_set by (fastforce simp: find_row_def f_def)
    have row: "f r = upd r" using r by (simp add: f_def)
    have ar: "entity_of (upd r) = (entity_of r)\<lparr>e_archived_at := Some t, e_updated_at := t\<rparr>"
      using archived_row(2) [OF _ assms(3)] ok r(1) by (simp add: upd_def db_ok_def)
    have agr: "agrees (e\<lparr>e_archived_at := Some t\<rparr>) (entity_of (upd r))" if "agrees e (entity_of r)" for e
    proof -
      have "(stored (e\<lparr>e_archived_at := Some t\<rparr>))\<lparr>e_updated_at := 0\<rparr>
          = ((stored e)\<lparr>e_updated_at := 0\<rparr>)\<lparr>e_archived_at := Some t\<rparr>" by (simp add: stored_def)
      then show ?thesis using that by (simp add: agrees_def ar)
    qed
    show ?thesis
    proof (cases "i = k")
      case True
      then show ?thesis
        using all [of k] Some row agr assms(5)
        by (auto simp: projected_def fr step mget_mput upd_def split: option.splits)
    next
      case False
      then show ?thesis
        using all [of i] same [OF _ False] assms(5)
        by (auto simp: projected_def fr step mget_mput split: option.splits)
    qed
  qed
qed

lemma step_other_event:
  "ev_type ev \<notin> {EventEntityCreated, EventEntityUpdated, EventEntityArchived} \<Longrightarrow> replay_step ev st = st"
  by (simp add: replay_step_def)

lemma relate_entities [simp]:
  "d_entities (after (map_result snd (upsert_relation io now x db)) db) = d_entities db"
  by (cases "upsert_relation io now x db") (auto simp: upsert_relation_frame)

lemma dissolve_entities [simp]: "d_entities (after (dissolve_relation io did i db) db) = d_entities db"
  by (cases "dissolve_relation io did i db") (auto simp: dissolve_relation_frame)

lemma peer_log_upsert [simp]: "peer_log did (upsert_after v e db) = peer_log did db"
  by (simp add: peer_log_def)

lemma log_refined_extend:
  assumes "peer_log did db' = peer_log did db @ [row]" and "log_ordered did db'" and "db_ok db'" and "dated db'"
    and "\<And>i. projected did (replay_step (event_of row) (replay (map event_of (peer_log did db)))) db' i"
  shows "log_refined did db'"
  using assms by (simp add: log_refined_def replay_snoc)

lemma fresh_upsert_facts:
  assumes "fresh_entity v did e" and "sound_call v did db" and "did \<noteq> []"
  shows "entity_ok e" "e_id e \<noteq> []" "e_peer e \<noteq> []" "e_created_at e \<noteq> 0" "e_updated_at e \<noteq> 0" "e_peer e = did"
    "v_io_write v = None" "find_row did' (e_id e) db = None"
proof -
  show "find_row did' (e_id e) db = None"
  proof -
    have "e_id e \<notin> er_id ` set (d_entities db)"
      using assms by (simp add: fresh_entity_def sound_call_def fresh_id_def)
    then show ?thesis by (force simp: find_row_def find_None_iff)
  qed
qed (use assms fresh_entity_ok in \<open>auto simp: fresh_entity_def sound_call_def\<close>)

lemma ordered_upsert: "log_ordered did (upsert_after v e db) = log_ordered did db"
  by (simp add: log_ordered_def)

lemma effect_refined:
  assumes "effect v did db db'" and ref: "log_refined did db" and call: "sound_call v did db"
  shows "log_refined did db'"
proof -
  have ok: "db_ok db" "dated db" "log_ordered did db"
    and sim: "\<And>i. projected did (replay (map event_of (peer_log did db))) db i"
    using ref by (simp_all add: log_refined_def)
  have t: "time_ok (v_now v)" "v_now v \<noteq> 0" using call by (simp_all add: sound_call_def)
  have ok': "db_ok db'" using effect_db_ok [OF assms(1) ok(1) t(1)] .
  define st where "st = replay (map event_of (peer_log did db))"
  have st: "gomap_ok st" by (simp add: st_def replay_ok)
  from assms(1) show ?thesis
  proof cases
    case quiet
    then show ?thesis using ref by simp
  next
    case (create e db1)
    obtain row where row: "peer_log did db1 = peer_log did db @ [row]" "log_ordered did db1" "did \<noteq> []"
      "ev_type (event_of row) = EventEntityCreated" "ev_payload (event_of row) = Doc (entity_json e)"
      using event_of_log [OF create(2) call _ ok(3)] by auto
    note e = fresh_upsert_facts [OF create(3) call row(3)]
    note up = upsert_after_find [OF e(7,2-5)]
    show ?thesis unfolding create(1)
    proof (rule log_refined_extend)
      show "dated (upsert_after v e db1)"
        using dated_upsert [OF _ e(7,2-5,1)] log_as_dated [OF create(2)] ok(2) by simp
      show "projected did (replay_step (event_of row) (replay (map event_of (peer_log did db)))) (upsert_after v e db1) i" for i
        using step_create [OF row(4,5) e(1,2,6) row(3) e(4,5) st, of "upsert_after v e db1" db i]
          up(1) e(6) log_as_find [OF create(2)] sim by (simp add: st_def)
    qed (use ok' create(1) row ordered_upsert in \<open>simp_all\<close>)
  next
    case (update k cur m e db1)
    obtain row where row: "peer_log did db1 = peer_log did db @ [row]" "log_ordered did db1" "did \<noteq> []"
      "ev_type (event_of row) = EventEntityUpdated" "ev_payload (event_of row) = Doc (entity_json e)"
      "ev_time (event_of row) = v_now v"
      using event_of_log [OF update(5) call _ ok(3)] by auto
    note c = get_entity_row [OF update(2) ok(1)]
    have got: "get_entity None did k db = Inr (Some cur)"
      using update(2) by (cases "v_io_read v") (simp_all add: get_entity_def)
    then obtain r where r: "find_row did k db = Some r" "entity_of r = cur"
      using find_row_get [OF ok(1)] by auto
    then have "r \<in> set (d_entities db)" using find_Some_set by (fastforce simp: find_row_def)
    then have cur: "e_id cur \<noteq> []" "e_created_at cur \<noteq> 0"
      using ok(1,2) r(2) by (auto simp: dated_def db_ok_def entity_of_fields)
    have e: "v_io_write v = None" "e_id e \<noteq> []" "e_peer e \<noteq> []" "e_created_at e \<noteq> 0" "e_updated_at e \<noteq> 0"
        "entity_ok e" "e_peer e = did" "e_id e = k"
      using c cur row(3) t update(3,4) call by (simp_all add: updated_entity_ok sound_call_def)
    note up = upsert_after_find [OF e(1-5)]
    show ?thesis unfolding update(1)
    proof (rule log_refined_extend)
      show "dated (upsert_after v e db1)"
        using dated_upsert [OF _ e(1-6)] log_as_dated [OF update(5)] ok(2) by simp
      show "projected did (replay_step (event_of row) (replay (map event_of (peer_log did db)))) (upsert_after v e db1) i" for i
      proof -
        have rows: "find_row did j (upsert_after v e db1) = (if j = e_id e then Some (entity_row e) else find_row did j db)" for j
          using up(1) e(7) log_as_find [OF update(5)] by simp
        have own: "find_row did (e_id e) db = Some r" using r(1) e(8) by simp
        show ?thesis
          using step_update [OF row(4,5) e(6) update(4) row(6) t(2) e(2,7) row(3) e(4) st rows own r(2), of i] sim
          by (simp add: st_def)
      qed
    qed (use ok' update(1) row ordered_upsert in \<open>simp_all\<close>)
  next
    case (archive k db1)
    obtain row where row: "peer_log did db1 = peer_log did db @ [row]" "log_ordered did db1" "did \<noteq> []"
      "ev_type (event_of row) = EventEntityArchived"
      "ev_payload (event_of row) = Doc (stamp_json ''archived_at'' k (v_now v))"
      using event_of_log [OF archive(2) call _ ok(3)] by auto
    have io: "v_io_write v = None" using call by (simp add: sound_call_def)
    have db1: "db_ok db1" "dated db1" using log_as_ok [OF archive(2) ok(1) t(1)] log_as_dated [OF archive(2)] ok(2) by simp_all
    have sim1: "projected did st db1 i" for i
      using sim [of i] projected_frame [OF log_as_find [OF archive(2)]] by (simp add: st_def)
    show ?thesis unfolding archive(1)
    proof (rule log_refined_extend)
      show "dated (after (archive_entity (v_io_write v) (v_now v) did k (v_now v) db1) db1)"
      proof (cases "archive_entity (v_io_write v) (v_now v) did k (v_now v) db1")
        case (Inr db2)
        have "e_created_at (entity_of (r\<lparr>er_archived_at := Some (format_time (v_now v)), er_updated_at := format_time (v_now v)\<rparr>))
            = e_created_at (entity_of r)" if "r \<in> set (d_entities db1)" for r
          using archived_row(2) [OF _ t(1)] db1(1) that by (simp add: db_ok_def)
        moreover have "d_entities db2 = map (\<lambda>r. if er_peer r = did \<and> er_id r = k
            then r\<lparr>er_archived_at := Some (format_time (v_now v)), er_updated_at := format_time (v_now v)\<rparr> else r)
            (d_entities db1)"
          using Inr t(2) by (simp add: archive_entity_cases)
        ultimately have "dated db2" using db1(2) by (auto simp: dated_def)
        then show ?thesis by (simp add: Inr)
      qed (use db1 in simp)
      show "projected did (replay_step (event_of row) (replay (map event_of (peer_log did db))))
          (after (archive_entity (v_io_write v) (v_now v) did k (v_now v) db1) db1) i" for i
        using step_archive [OF row(4,5) t st db1 row(3) sim1] by (simp add: st_def io)
    qed (use ok' archive(1) row in \<open>simp_all add: peer_log_def log_ordered_def\<close>)
  next
    case (relate payload db1 x)
    obtain row where row: "peer_log did db1 = peer_log did db @ [row]" "log_ordered did db1"
      "ev_type (event_of row) = EventRelationCreated"
      using event_of_log [OF relate(2) call _ ok(3)] by auto
    show ?thesis unfolding relate(1)
    proof (rule log_refined_extend)
      show "projected did (replay_step (event_of row) (replay (map event_of (peer_log did db))))
          (after (map_result snd (upsert_relation (v_io_write v) (v_now v) (Some x) db1)) db1) i" for i
        using sim [of i] row(3) log_as_rows [OF relate(2)]
        by (simp add: step_other_event projected_def find_row_def)
    qed (use ok' relate(1) row ok(2) log_as_rows [OF relate(2)] in \<open>simp_all add: peer_log_def log_ordered_def dated_def\<close>)
  next
    case (dissolve payload db1 k)
    obtain row where row: "peer_log did db1 = peer_log did db @ [row]" "log_ordered did db1"
      "ev_type (event_of row) = EventRelationDissolved"
      using event_of_log [OF dissolve(2) call _ ok(3)] by auto
    show ?thesis unfolding dissolve(1)
    proof (rule log_refined_extend)
      show "projected did (replay_step (event_of row) (replay (map event_of (peer_log did db))))
          (after (dissolve_relation (v_io_write v) did k db1) db1) i" for i
        using sim [of i] row(3) log_as_rows [OF dissolve(2)]
        by (simp add: step_other_event projected_def find_row_def)
    qed (use ok' dissolve(1) row ok(2) log_as_rows [OF dissolve(2)] in \<open>simp_all add: peer_log_def log_ordered_def dated_def\<close>)
  next
    case (def_type ty payload db1 e)
    obtain row where row: "peer_log did db1 = peer_log did db @ [row]" "log_ordered did db1" "did \<noteq> []"
      "ev_type (event_of row) = ty"
      using event_of_log [OF def_type(3) call _ ok(3)] by auto
    note e = fresh_upsert_facts [OF def_type(4) call row(3)]
    note up = upsert_after_find [OF e(7,2-5)]
    have skip: "replay_step (event_of row) st = st"
      using def_type(2) row(4) by (intro step_other_event) auto
    show ?thesis unfolding def_type(1)
    proof (rule log_refined_extend)
      show "dated (upsert_after v e db1)"
        using dated_upsert [OF _ e(7,2-5,1)] log_as_dated [OF def_type(3)] ok(2) by simp
      show "projected did (replay_step (event_of row) (replay (map event_of (peer_log did db)))) (upsert_after v e db1) i" for i
      proof (cases "i = e_id e")
        case True
        then have "mget st i = None" using sim [of i] e(8) by (simp add: st_def projected_def)
        with True show ?thesis
          using up(1) e(6) def_type(5) skip by (simp add: st_def [symmetric] projected_def)
      next
        case False
        then have "find_row did i (upsert_after v e db1) = find_row did i db"
          using up(1) log_as_find [OF def_type(3)] by simp
        then have "projected did st (upsert_after v e db1) i = projected did st db i" by (rule projected_frame)
        then show ?thesis using sim [of i] skip by (simp add: st_def [symmetric])
      qed
    qed (use ok' def_type(1) row ordered_upsert in \<open>simp_all\<close>)
  qed
qed

section \<open>Any sequence of requests\<close>

text \<open>The states a host passes through: a fresh store, then messages for peers.\<close>

inductive served :: "sqlite \<Rightarrow> host \<Rightarrow> bool" for sq where
  start: "new_store path n = Inr db \<Longrightarrow> served sq \<lparr>hs_db = db, hs_schema = Some NewResolver\<rparr>"
| request: "served sq h \<Longrightarrow> (\<forall>p. sound_call v p (hs_db h)) \<Longrightarrow> dispatch sq v did msg w h = (out, h')
    \<Longrightarrow> served sq h'"

lemma served_refined: "served sq h \<Longrightarrow> host_ok h \<and> (\<forall>did. log_refined did (hs_db h))"
proof (induction rule: served.induct)
  case (start path n db)
  then have "db_ok db" "d_events db = []" "d_entities db = []"
    by (auto simp: new_store_ok new_store_def split: if_splits)
  then show ?case
    by (simp add: host_ok_def schema_ok_new log_refined_def dated_def log_ordered_def peer_log_def replay_def
        projected_def find_row_def)
next
  case (request h v did msg w out h')
  have eff: "effect v did (hs_db h) (hs_db h')" using dispatch_effect request by blast
  have call: "sound_call v p (hs_db h)" for p using request by blast
  then have t: "time_ok (v_now v)" "fresh_id v (hs_db h)" by (simp_all add: sound_call_def)
  have ok: "db_ok (hs_db h)" "db_ok (hs_db h')"
    using request effect_db_ok [OF eff _ t(1)] by (auto simp: host_ok_def)
  have "log_refined p (hs_db h')" for p
  proof (cases "p = did")
    case True
    then show ?thesis using effect_refined [OF eff] request.IH call by blast
  next
    case False
    have view: "peer_view p (hs_db h') = peer_view p (hs_db h)" using effect_isolated [OF eff ok(1) t(2) False] .
    have own: "dated (hs_db h')" using effect_refined [OF eff] request.IH call by (simp add: log_refined_def)
    have "peer_log p (hs_db h') = peer_log p (hs_db h)" using view by (simp add: peer_view_def peer_log_def)
    moreover have "find_row p i (hs_db h') = find_row p i (hs_db h)" for i
    proof -
      have "find_row p i db = find (\<lambda>r. er_peer r = p \<and> er_id r = i) (filter (\<lambda>r. er_peer r = p) (d_entities db))" for db
        unfolding find_row_def by (rule find_own) simp
      then show ?thesis using view by (simp add: peer_view_def)
    qed
    ultimately show ?thesis
      using request.IH own ok(2) by (simp add: log_refined_def log_ordered_def projected_def)
  qed
  moreover have "host_ok h'"
    using dispatch_effect [OF request.hyps(3)] request.IH schema_step_ok ok(2) unfolding host_ok_def by blast
  ultimately show ?case by blast
qed

text \<open>C1: The event log is a faithful source for time travel: after any sequence of requests (with fresh
  identifiers, statements that run, and events appended in the order in which they are read back), the
  log of every peer can be read and replaying it gives exactly that peer's entities table: an id is in
  the table if and only if the replay has it, with the same content up to the time of the last change
  of an archived entity, except that definitions of types, whose events the replay skips, may be in the
  table only.\<close>

theorem replay_refines_projection:
  assumes "served sq h"
  shows "\<exists>evs. list_events None did 0 0 (hs_db h) = Inr evs \<and> (\<forall>i. projected did (replay evs) (hs_db h) i)"
  using served_refined [OF assms] list_events_log by (fastforce simp: log_refined_def)

lemma agrees_keep: "agrees e cur \<Longrightarrow> travel_keep did q e = travel_keep did q cur"
proof -
  assume a: "agrees e cur"
  then have eq: "(stored e)\<lparr>e_updated_at := 0\<rparr> = cur\<lparr>e_updated_at := 0\<rparr>" by (simp add: agrees_def)
  have "e_peer e = e_peer cur" "e_archived_at e = e_archived_at cur" "e_type e = e_type cur"
    "e_data cur = Some (case e_data e of None \<Rightarrow> [] | Some m \<Rightarrow> m)"
    using eq by (cases e; cases cur; simp add: stored_def)+
  then show ?thesis
    by (cases "e_data e") (simp_all add: travel_keep_def matches_filters_def)
qed

text \<open>The replayed entities of a refined log are what \<open>get_entity\<close> finds.\<close>

lemma replayed_found:
  assumes ref: "log_refined did d" and mem: "(i, e) \<in> set (replay (map event_of (peer_log did d)))"
  shows "\<exists>cur. get_entity None did (e_id cur) d = Inr (Some cur) \<and> agrees e cur \<and> e_peer e = did \<and> did \<noteq> []"
proof -
  have ok: "db_ok d" using ref by (simp add: log_refined_def)
  have "mget (replay (map event_of (peer_log did d))) i = Some e"
    using mem by (simp add: gomap_ok_distinct replay_ok)
  moreover have "projected did (replay (map event_of (peer_log did d))) d i" using ref by (simp add: log_refined_def)
  ultimately obtain r where r: "find_row did i d = Some r" "agrees e (entity_of r)" "e_peer e = did"
    by (auto simp: projected_def split: option.splits)
  have "get_entity None did (e_id (entity_of r)) d = Inr (Some (entity_of r))"
    using find_row_get [OF ok, of did i] r(1) get_entity_row(5) [OF _ ok] by simp
  moreover have "did \<noteq> []" using ok r(1) find_Some_set by (fastforce simp: find_row_def db_ok_def)
  ultimately show ?thesis using r by blast
qed

lemma found_replayed:
  assumes ref: "log_refined did d" and cur: "get_entity None did i d = Inr (Some cur)"
    and ty: "e_type cur \<notin> set typedef_types"
  shows "\<exists>e. (i, e) \<in> set (replay (map event_of (peer_log did d))) \<and> agrees e cur"
proof -
  have ok: "db_ok d" and sim: "projected did (replay (map event_of (peer_log did d))) d i"
    using ref by (simp_all add: log_refined_def)
  obtain r where r: "find_row did i d = Some r" "entity_of r = cur"
    using cur find_row_get [OF ok, of did i] by auto
  then have "r \<in> set (d_entities d)" using find_Some_set by (fastforce simp: find_row_def)
  then have "er_type r = e_type cur" using ok r(2) entity_of_fields(2) by (auto simp: db_ok_def)
  then show ?thesis using sim r ty by (force simp: projected_def split: option.splits dest: map_of_SomeD)
qed

text \<open>C9: Time travel to the present answers with what the peer has now: every entity it returns is found
  by \<open>GetEntity\<close>, with the same content up to the time of the last change of an archived entity, and
  every entity that \<open>GetEntity\<close> finds and the query accepts is returned, unless it defines a type or
  the limit cuts it off.\<close>

theorem time_travel_present:
  assumes "served sq h"
  shows "\<exists>es. time_travel_entities None did q 0 (hs_db h) = Inr es
    \<and> (\<forall>e \<in> set es. \<exists>cur. get_entity None did (e_id cur) (hs_db h) = Inr (Some cur) \<and> agrees e cur)
    \<and> (length es < nat (default_limit 50 (q_limit q)) \<longrightarrow>
        (\<forall>i cur. get_entity None did i (hs_db h) = Inr (Some cur) \<longrightarrow> e_type cur \<notin> set typedef_types
           \<longrightarrow> travel_keep did q cur \<longrightarrow> (\<exists>e \<in> set es. agrees e cur)))"
proof -
  define d where "d = hs_db h"
  define st where "st = replay (map event_of (peer_log did d))"
  have ref: "log_refined did d" using served_refined [OF assms] by (simp add: d_def)
  define fill where "fill = (\<lambda>e :: entity. if e_peer e = [] then e\<lparr>e_peer := did\<rparr> else e)"
  define kept where "kept = filter (travel_keep did q) (map (fill \<circ> snd) st)"
  define es where "es = take (nat (default_limit 50 (q_limit q))) (rev (sort_key e_created_at (sort_key e_id kept)))"
  have run: "time_travel_entities None did q 0 d = Inr es"
    using list_events_log [of d did] ref
    by (simp add: time_travel_entities_def log_refined_def es_def kept_def fill_def st_def Let_def)
  have fill: "fill e = e" if "(i, e) \<in> set st" for i e
    using replayed_found [OF ref] that by (fastforce simp: st_def fill_def)
  have "set es \<subseteq> set kept" using set_take_subset by (fastforce simp: es_def)
  then have one: "\<exists>cur. get_entity None did (e_id cur) d = Inr (Some cur) \<and> agrees e cur" if "e \<in> set es" for e
    using that fill replayed_found [OF ref] by (fastforce simp: kept_def st_def)
  have two: "\<exists>e \<in> set es. agrees e cur"
    if len: "length es < nat (default_limit 50 (q_limit q))" and cur: "get_entity None did i d = Inr (Some cur)"
      and ty: "e_type cur \<notin> set typedef_types" and keep: "travel_keep did q cur" for i cur
  proof -
    obtain e where e: "(i, e) \<in> set st" "agrees e cur" using found_replayed [OF ref cur ty] st_def by blast
    then have "e \<in> set kept" using fill [OF e(1)] keep agrees_keep [OF e(2)] by (force simp: kept_def)
    moreover have "es = rev (sort_key e_created_at (sort_key e_id kept))" using len by (auto simp: es_def)
    ultimately show ?thesis using e(2) by auto
  qed
  show ?thesis using run one two unfolding d_def by blast
qed


section \<open>The order of the log is the order of texts\<close>

text \<open>A time window selects by text, and for whole seconds that is by time: if a peer's events and the
  bounds are stamped at whole seconds, \<open>ListEvents\<close> selects exactly the peer's events between the bounds
  (a zero bound being open).\<close>

theorem window_of_whole_seconds:
  assumes "\<forall>r \<in> set (d_events db). vr_peer r = did
      \<longrightarrow> (\<exists>t. vr_time r = format_time t \<and> time_ok t \<and> t mod nanos = 0)"
    and "time_ok since" "since mod nanos = 0" "time_ok until" "until mod nanos = 0"
  shows "set (select_events did since until db) = {r \<in> set (d_events db). vr_peer r = did
     \<and> (\<exists>t. vr_time r = format_time t \<and> time_ok t \<and> t mod nanos = 0
          \<and> (since \<noteq> 0 \<longrightarrow> since \<le> t) \<and> (until \<noteq> 0 \<longrightarrow> t \<le> until))}"
  using assms(1) format_time_whole_iff assms(2-5) by (fastforce simp: select_events_def)

text \<open>Inside a second it is not: time travel to a whole second \<open>T\<close> also replays every event of the peer
  that was stamped in the second after \<open>T\<close>, because the text of \<open>T\<close> sorts after theirs.\<close>

theorem as_of_includes_later:
  assumes "T mod nanos = 0" and "T \<noteq> 0" and "0 < n" and "n < nanos"
    and "r \<in> set (d_events db)" and "vr_peer r = did" and "vr_time r = format_time (T + n)"
  shows "r \<in> set (select_events did 0 T db)"
  using format_time_inverted [OF assms(1,3,4)] assms(2,5-7) by (simp add: select_events_def)

text \<open>The same inversion loses updates: when an entity is created at a whole second and updated later in
  that second, the log is read back with the update first, and the replay ends with the entity as it was
  created.\<close>

theorem same_second_update_lost:
  assumes "T mod nanos = 0" and "0 < n" and "n < nanos" and "time_ok T" and "time_ok (T + n)" and "T \<noteq> 0" and "T + n \<noteq> 0"
    and "entity_ok e" and "e_id e \<noteq> []" and "e_peer e = did" and "did \<noteq> []" and "e_created_at e = T" and "e_updated_at e = T"
    and "e' = e\<lparr>e_data := Some m, e_updated_at := T + n\<rparr>" and "entity_ok e'"
    and "c = event_row_of 0 [] (new_event (sample_env\<lparr>v_now := T\<rparr>) i did EventEntityCreated (entity_json e) a cl)"
    and "u = event_row_of 0 [] (new_event (sample_env\<lparr>v_now := T + n\<rparr>) j did EventEntityUpdated (entity_json e') a cl)"
    and "d_events db = [c, u]"
  shows "\<exists>evs. list_events None did 0 0 db = Inr evs \<and> mget (replay evs) (e_id e) = Some e"
proof -
  have times: "vr_time c = format_time T" "vr_time u = format_time (T + n)" "vr_peer c = did" "vr_peer u = did"
    using assms(6,7) by (simp_all add: assms(16,17) event_row_of_def new_event_def)
  have "event_key u < event_key c"
    using format_time_inverted [OF assms(1-3)] times by (simp add: event_key_def less_row_key_def)
  then have sel: "select_events did 0 0 db = [u, c]"
    using times by (simp add: select_events_def assms(18))
  have sc: "scan_event c = Inr (event_of c)" "ev_type (event_of c) = EventEntityCreated" "ev_payload (event_of c) = Doc (entity_json e)"
    using assms(4,6) by (simp_all add: event_of_def scan_event_def times time_text.dec_enc)
      (simp_all add: assms(16) event_row_of_def new_event_def)
  have su: "scan_event u = Inr (event_of u)" "ev_type (event_of u) = EventEntityUpdated" "ev_payload (event_of u) = Doc (entity_json e')"
    using assms(5,7) by (simp_all add: event_of_def scan_event_def times time_text.dec_enc)
      (simp_all add: assms(17) event_row_of_def new_event_def)
  have dec: "decode_entity_payload (event_of c) = Inr e" "decode_entity_payload (event_of u) = Inr e'"
    using decode_payload_entity [OF sc(3) assms(8,9)] decode_payload_entity [OF su(3) assms(15)] assms(6,7,9-14) by simp_all
  have "list_events None did 0 0 db = Inr [event_of u, event_of c]"
    by (simp add: list_events_def sel sc su)
  moreover have "replay [event_of u, event_of c] = [(e_id e, e)]"
    using dec sc su assms(14) by (simp add: replay_def replay_step_def)
  ultimately show ?thesis by auto
qed

section \<open>Concrete runs\<close>

definition created_host :: host where
  "created_host = snd (dispatch sample_sqlite sample_env ''p'' (op_message ''entity.create'' create_args) True
     \<lparr>hs_db = sample_db, hs_schema = Some NewResolver\<rparr>)"

lemma created_served: "served sample_sqlite created_host"
proof -
  have start: "served sample_sqlite \<lparr>hs_db = sample_db, hs_schema = Some NewResolver\<rparr>"
    by (rule served.start [of "''x''" 3]) (simp add: new_store_def sample_db_def)
  have "sound_call sample_env p sample_db" for p
    using sample_env_ok by (simp add: sound_call_def sample_env_def sample_db_def fresh_id_def peer_log_def)
  then show ?thesis unfolding created_host_def
    by (intro served.request [OF start]) (auto intro: prod.collapse [symmetric])
qed

lemma replay_refines_projection_witness:
  "\<exists>evs. list_events None ''p'' 0 0 (hs_db created_host) = Inr evs
     \<and> (\<forall>i. projected ''p'' (replay evs) (hs_db created_host) i)"
  by (rule replay_refines_projection [OF created_served])

lemma time_travel_present_witness:
  "\<exists>es. time_travel_entities None ''p'' zero_query 0 (hs_db created_host) = Inr es"
  using time_travel_present [OF created_served, of "''p''" zero_query] by blast

definition row_at :: "string \<Rightarrow> time \<Rightarrow> event_row" where
  "row_at i t = event_row_of t i (new_event (sample_env\<lparr>v_now := t\<rparr>) i ''p'' EventEntityCreated (entity_json sample_entity) [] [])"

lemma row_at_time [simp]: "vr_time (row_at i t) = format_time t" "vr_peer (row_at i t) = ''p''"
  by (simp_all add: row_at_def event_row_of_def new_event_def)


lemma window_of_whole_seconds_witness:
  "set (select_events ''p'' nanos 0 (sample_db\<lparr>d_events := [row_at ''b'' (2 * nanos)]\<rparr>)) = {row_at ''b'' (2 * nanos)}"
proof -
  have ok: "time_ok (2 * nanos)" "2 * nanos mod nanos = 0" by (simp_all add: time_ok_def nanos_def)
  have "set (select_events ''p'' nanos 0 (sample_db\<lparr>d_events := [row_at ''b'' (2 * nanos)]\<rparr>))
      = {r \<in> {row_at ''b'' (2 * nanos)}. vr_peer r = ''p''
         \<and> (\<exists>t. vr_time r = format_time t \<and> time_ok t \<and> t mod nanos = 0 \<and> (nanos \<noteq> 0 \<longrightarrow> nanos \<le> t) \<and> (0 \<noteq> (0::int) \<longrightarrow> t \<le> 0))}"
    by (subst window_of_whole_seconds) (use ok in \<open>auto simp: time_ok_def nanos_def\<close>)
  also have "\<dots> = {row_at ''b'' (2 * nanos)}" using ok by (auto simp: nanos_def intro!: exI [of _ "2 * nanos"])
  finally show ?thesis .
qed

lemma as_of_includes_later_witness:
  "row_at ''b'' (nanos + 5) \<in> set (select_events ''p'' 0 nanos (sample_db\<lparr>d_events := [row_at ''b'' (nanos + 5)]\<rparr>))"
  by (rule as_of_includes_later [where n = 5]) (simp_all add: nanos_def)

definition lost_db :: "entity \<Rightarrow> db" where
  "lost_db e = sample_db\<lparr>d_events :=
     [event_row_of 0 [] (new_event (sample_env\<lparr>v_now := nanos\<rparr>) ''a'' ''p'' EventEntityCreated (entity_json e) [] []),
      event_row_of 0 [] (new_event (sample_env\<lparr>v_now := nanos + 5\<rparr>) ''b'' ''p'' EventEntityUpdated
        (entity_json (e\<lparr>e_data := Some [], e_updated_at := nanos + 5\<rparr>)) [] [])]\<rparr>"

lemma same_second_update_lost_witness:
  "\<exists>evs. list_events None ''p'' 0 0 (lost_db (complete_times nanos sample_entity)) = Inr evs
     \<and> mget (replay evs) ''e1'' = Some (complete_times nanos sample_entity)"
proof -
  define e where "e = complete_times nanos sample_entity"
  have e: "e_id e = ''e1''" "e_peer e = ''p''" "e_created_at e = nanos" "e_updated_at e = nanos"
    by (simp_all add: e_def sample_entity_def zero_entity_def complete_times_def nanos_def)
  have ok: "entity_ok e" "entity_ok (e\<lparr>e_data := Some [], e_updated_at := nanos + 5\<rparr>)"
    by (simp_all add: e_def sample_entity_def zero_entity_def complete_times_def entity_ok_def time_ok_def nanos_def)
  have nums: "nanos mod nanos = 0" "(0::int) < 5" "5 < nanos" "time_ok nanos" "time_ok (nanos + 5)" "nanos \<noteq> 0" "nanos + 5 \<noteq> 0"
    by (simp_all add: nanos_def time_ok_def)
  have ids: "e_id e \<noteq> []" "''p'' \<noteq> []" "e_peer e = ''p''" using e by simp_all
  have rows: "d_events (lost_db e) =
     [event_row_of 0 [] (new_event (sample_env\<lparr>v_now := nanos\<rparr>) ''a'' ''p'' EventEntityCreated (entity_json e) [] []),
      event_row_of 0 [] (new_event (sample_env\<lparr>v_now := nanos + 5\<rparr>) ''b'' ''p'' EventEntityUpdated
        (entity_json (e\<lparr>e_data := Some [], e_updated_at := nanos + 5\<rparr>)) [] [])]"
    by (simp add: lost_db_def)
  show ?thesis
    using same_second_update_lost [OF nums ok(1) ids(1,3,2) e(3,4) refl ok(2) refl refl rows] e(1)
    unfolding e_def by simp
qed

end
