(* ===== verification/Router.thy ===== *)
theory Router
  imports Handler_Props
begin

text \<open>
  internal/federation/router.go: the table of handlers by DID and the dispatch of a message
  to the handler of its target. The router knows its handlers only through the interface
  \<open>types.PeerHandler\<close>: the record \<open>peer_ops\<close> of three operations on the shared state, and
  the locale \<open>peer_handler\<close> for what they promise. A \<open>StoreHandler\<close> keeps that promise.
\<close>

record 's peer_ops =
  po_query :: "env \<Rightarrow> fed_message \<Rightarrow> 's \<Rightarrow> outcome \<times> 's"
  po_write :: "env \<Rightarrow> fed_message \<Rightarrow> 's \<Rightarrow> outcome \<times> 's"
  po_ping :: "env \<Rightarrow> fed_message \<Rightarrow> 's \<Rightarrow> outcome \<times> 's"

type_synonym 's router = "'s peer_ops gomap"

definition new_router :: "'s router" where
  "new_router = []"

definition RegisterPeer :: "string \<Rightarrow> 's peer_ops option \<Rightarrow> 's router \<Rightarrow> 's router result" where
  "RegisterPeer did h r =
     (if did = [] then Inl (Errorf ''federation: empty DID'')
      else case h of
          None \<Rightarrow> Inl (Errorf (''federation: nil handler for '' @ did))
        | Some ops \<Rightarrow>
            if mget r did \<noteq> None then Inl (Errorf (''federation: peer '' @ did @ '' already registered''))
            else Inr (mput did ops r))"

definition errorReply :: "env \<Rightarrow> fed_message \<Rightarrow> error \<Rightarrow> reply" where
  "errorReply v msg e =
     (\<lparr>m_version = m_version msg, m_source = m_target msg, m_target = m_source msg, m_type = FedMsgError,
        m_payload = Doc (error_json e), m_auth = [], m_id = v_msg_id v, m_time = v_reply_time v\<rparr>, Some e)"

definition finish_route :: "env \<Rightarrow> fed_message \<Rightarrow> outcome \<times> 's \<Rightarrow> outcome \<times> 's" where
  "finish_route v msg res = (case res of
      (Panics m, s) \<Rightarrow> (Panics m, s)
    | (Returned (resp, None), s) \<Rightarrow> (Returned (resp, None), s)
    | (Returned (resp, Some e), s) \<Rightarrow> (Returned (errorReply v msg e), s))"

definition Route :: "env \<Rightarrow> 's router \<Rightarrow> fed_message \<Rightarrow> 's \<Rightarrow> outcome \<times> 's" where
  "Route v r msg s = (case mget r (m_target msg) of
      None \<Rightarrow> (Returned (errorReply v msg (Errorf (''federation: no handler for target DID '' @ m_target msg))), s)
    | Some h \<Rightarrow>
        if m_type msg = FedMsgQuery then finish_route v msg (po_query h v msg s)
        else if m_type msg = FedMsgWrite then finish_route v msg (po_write h v msg s)
        else if m_type msg = FedMsgPing then finish_route v msg (po_ping h v msg s)
        else (Returned (errorReply v msg (Errorf (''federation: unsupported message type '' @ quote_go (m_type msg)))), s))"

definition ListPeers :: "'s router \<Rightarrow> string list" where
  "ListPeers r = sort (mkeys r)"

section \<open>The handler interface\<close>

text \<open>
  \<open>good v s\<close> is what the handler relies on: a well-formed state and usable outside values.
  It promises to answer as itself to the sender, an error exactly as an error message, to keep
  the state well formed and to leave the other peers' view alone.
\<close>

definition reply_ok :: "string \<Rightarrow> fed_message \<Rightarrow> outcome \<Rightarrow> bool" where
  "reply_ok did msg out \<longleftrightarrow> (case out of Panics _ \<Rightarrow> True
     | Returned (m, e) \<Rightarrow> m_version m = m_version msg \<and> m_source m = did \<and> m_target m = m_source msg
         \<and> m_type m = (if e = None then FedMsgResponse else FedMsgError))"

lemma reply_ok_errorReply: "reply_ok (m_target msg) msg (Returned (errorReply v msg e))"
  by (simp add: reply_ok_def errorReply_def)

locale peer_handler =
  fixes h :: "'s peer_ops"
    and did :: string
    and good :: "env \<Rightarrow> 's \<Rightarrow> bool"
    and inv :: "'s \<Rightarrow> bool"
    and view :: "string \<Rightarrow> 's \<Rightarrow> 'w"
  assumes replies: "good v s \<Longrightarrow> f \<in> {po_query h, po_write h, po_ping h} \<Longrightarrow> reply_ok did msg (fst (f v msg s))"
    and keeps: "good v s \<Longrightarrow> f \<in> {po_query h, po_write h, po_ping h} \<Longrightarrow> inv (snd (f v msg s))"
    and isolated: "good v s \<Longrightarrow> f \<in> {po_query h, po_write h, po_ping h} \<Longrightarrow> did' \<noteq> did
      \<Longrightarrow> view did' (snd (f v msg s)) = view did' s"
    and good_inv: "good v s \<Longrightarrow> inv s"
begin

lemma finish_reply: "reply_ok did msg (fst res) \<Longrightarrow> m_target msg = did \<Longrightarrow> reply_ok did msg (fst (finish_route v msg res))"
proof (cases res)
  case (Pair out s)
  show "reply_ok did msg (fst res) \<Longrightarrow> m_target msg = did \<Longrightarrow> ?thesis"
  proof (cases out)
    case (Returned reply)
    assume "reply_ok did msg (fst res)" "m_target msg = did"
    moreover obtain resp e where "reply = (resp, e)" by force
    ultimately show ?thesis
      using Pair Returned reply_ok_errorReply by (cases e) (auto simp: finish_route_def)
  qed (simp add: Pair finish_route_def reply_ok_def)
qed

lemma finish_state [simp]: "snd (finish_route v msg res) = snd res"
  by (simp add: finish_route_def split: prod.split outcome.split option.split)

lemma route_reply:
  assumes "good v s" and "mget r did = Some h" and "m_target msg = did"
  shows "reply_ok did msg (fst (Route v r msg s))"
proof -
  have "reply_ok did msg (fst (finish_route v msg (f v msg s)))"
    if "f \<in> {po_query h, po_write h, po_ping h}" for f
    using replies [OF assms(1) that] assms(3) by (rule finish_reply)
  then show ?thesis using assms(2,3) reply_ok_errorReply by (auto simp: Route_def)
qed

lemma route_keeps:
  assumes "good v s" and "mget r did = Some h" and "m_target msg = did"
  shows "inv (snd (Route v r msg s))"
  using assms keeps [OF assms(1)] good_inv by (auto simp: Route_def)

lemma route_isolated:
  assumes "good v s" and "mget r did = Some h" and "m_target msg = did" and "did' \<noteq> did"
  shows "view did' (snd (Route v r msg s)) = view did' s"
  using assms isolated [OF assms(1)] by (auto simp: Route_def)

end

section \<open>Store handlers keep the contract\<close>

definition store_handler :: "sqlite \<Rightarrow> string \<Rightarrow> host peer_ops" where
  "store_handler sq did = \<lparr>po_query = \<lambda>v msg s. HandleQuery sq v did msg s,
     po_write = \<lambda>v msg s. HandleWrite sq v did msg s, po_ping = \<lambda>v msg s. HandlePing v did msg s\<rparr>"

definition good_call :: "env \<Rightarrow> host \<Rightarrow> bool" where
  "good_call v h \<longleftrightarrow> host_ok h \<and> time_ok (v_now v) \<and> fresh_id v (hs_db h)"

lemma reply_ok_respond [simp]: "reply_ok did msg (respond v did msg j)"
  by (simp add: reply_ok_def respond_def message_def)

lemma reply_ok_error [simp]: "reply_ok did msg (errorResp v did msg e)"
  by (simp add: reply_ok_def errorResp_def message_def)

lemma reply_ok_nil [simp]: "reply_ok did msg nil_dereference"
  by (simp add: reply_ok_def nil_dereference_def)

lemma op_reply_ok:
  "reply_ok did msg (fst (opEntityGet v did msg r h))" "reply_ok did msg (fst (opEntityQuery sq v did msg r h))"
  "reply_ok did msg (fst (opEntityCreate v did msg r h))" "reply_ok did msg (fst (opEntityUpdate v did msg r h))"
  "reply_ok did msg (fst (opEntityArchive v did msg r h))" "reply_ok did msg (fst (opRelationCreate v did msg r h))"
  "reply_ok did msg (fst (opRelationQuery v did msg r h))" "reply_ok did msg (fst (opRelationDissolve v did msg r h))"
  "reply_ok did msg (fst (opTypeList v did msg r h))" "reply_ok did msg (fst (opTypeDescribe v did msg r h))"
  "reply_ok did msg (fst (opTypeDefine v did msg r h))" "reply_ok did msg (fst (opSemanticSearch sq v did msg r h))"
  "reply_ok did msg (fst (opTimeTravel v did msg r h))"
  by (simp_all add: opEntityGet_def opEntityQuery_def opEntityCreate_def opEntityUpdate_def opEntityArchive_def
      opRelationCreate_def opRelationQuery_def opRelationDissolve_def opTypeList_def opTypeDescribe_def
      opTypeDefine_def opSemanticSearch_def opTimeTravel_def Let_def
      split: sum.split option.split prod.split)

text \<open>What the host holds for a peer: its rows and its type definitions.\<close>

definition host_view :: "string \<Rightarrow> host
    \<Rightarrow> (event_row list \<times> entity_record list \<times> relation_record list)
       \<times> (entity_type_def gomap \<times> rel_type_def gomap) option" where
  "host_view did h = (peer_view did (hs_db h),
     map_option (\<lambda>r. (peer_map did (rs_entity_types r), peer_map did (rs_rel_types r))) (hs_schema h))"

lemma schema_step_maps:
  assumes "schema_step did rs rs'" and "case rs of None \<Rightarrow> True | Some r \<Rightarrow> schema_ok r" and "did' \<noteq> did"
  shows "map_option (\<lambda>r. (peer_map did' (rs_entity_types r), peer_map did' (rs_rel_types r))) rs'
    = map_option (\<lambda>r. (peer_map did' (rs_entity_types r), peer_map did' (rs_rel_types r))) rs"
  using assms
  by (auto simp: schema_step_def register_args_def RegisterEntityType_def RegisterRelationType_def
      schema_ok_def resolver_ok_def split: option.splits)

lemma host_view_types:
  assumes "host_view did h = host_view did h'"
  shows "map_option (EntityType did n) (hs_schema h) = map_option (EntityType did n) (hs_schema h')"
  using assms by (auto simp: host_view_def EntityType_def map_option_case split: option.splits)

lemma dispatch_reply_ok: "reply_ok did msg (fst (dispatch sq v did msg w h))"
  by (simp add: dispatch_def dispatch_op_def op_reply_ok split: sum.split)

interpretation store_peer: peer_handler "store_handler sq did" did good_call host_ok host_view
  for sq did
proof
  fix v s f msg did'
  assume good: "good_call v s"
    and f: "f \<in> {po_query (store_handler sq did), po_write (store_handler sq did), po_ping (store_handler sq did)}"
  have run: "snd (f v msg s) = s \<or> (\<exists>w. f v msg s = dispatch sq v did msg w s)"
    using f by (auto simp: store_handler_def HandleQuery_def HandleWrite_def HandlePing_def)
  show "reply_ok did msg (fst (f v msg s))"
    using f dispatch_reply_ok
    by (auto simp: store_handler_def HandleQuery_def HandleWrite_def HandlePing_def)
  have eff: "effect v did (hs_db s) (hs_db (snd (f v msg s)))
      \<and> schema_step did (hs_schema s) (hs_schema (snd (f v msg s)))"
    using run
  proof
    assume "\<exists>w. f v msg s = dispatch sq v did msg w s"
    then show ?thesis using dispatch_effect good unfolding good_call_def by (metis surjective_pairing)
  qed (simp add: quiet schema_step_def)
  then show "host_ok (snd (f v msg s))"
    using good effect_db_ok schema_step_ok unfolding good_call_def host_ok_def by blast
  assume "did' \<noteq> did"
  then show "host_view did' (snd (f v msg s)) = host_view did' s"
    using eff effect_isolated schema_step_maps good unfolding good_call_def host_ok_def host_view_def by auto
qed (simp add: good_call_def)

section \<open>Routing\<close>

text \<open>The routers the program builds: every DID is bound to the store handler of that DID.\<close>

definition router_ok :: "sqlite \<Rightarrow> host router \<Rightarrow> bool" where
  "router_ok sq r \<longleftrightarrow> gomap_ok r \<and> (\<forall>did h. mget r did = Some h \<longrightarrow> h = store_handler sq did)"

lemma router_ok_new: "router_ok sq new_router"
  by (simp add: router_ok_def new_router_def)

lemma router_ok_register:
  "router_ok sq r \<Longrightarrow> RegisterPeer did (Some (store_handler sq did)) r = Inr r' \<Longrightarrow> router_ok sq r'"
  by (auto simp: router_ok_def RegisterPeer_def gomap_simps split: if_splits)

lemma route_some: "router_ok sq r \<Longrightarrow> mget r did = Some h \<Longrightarrow> h = store_handler sq did"
  by (simp add: router_ok_def)

lemma route_none: "mget r (m_target msg) = None \<Longrightarrow> snd (Route v r msg s) = s"
  by (simp add: Route_def)

lemma route_host_ok:
  assumes "router_ok sq r" and "good_call v s"
  shows "host_ok (snd (Route v r msg s))"
proof (cases "mget r (m_target msg)")
  case None
  then show ?thesis using assms(2) by (simp add: route_none good_call_def)
next
  case (Some h)
  then show ?thesis using route_some [OF assms(1) Some] store_peer.route_keeps [OF assms(2) _ refl] by simp
qed

lemma route_view:
  assumes "router_ok sq r" and "good_call v s" and "did \<noteq> m_target msg"
  shows "host_view did (snd (Route v r msg s)) = host_view did s"
proof (cases "mget r (m_target msg)")
  case (Some h)
  then show ?thesis
    using route_some [OF assms(1) Some] store_peer.route_isolated [OF assms(2) _ refl assms(3)] by simp
qed (simp add: route_none)

text \<open>Every message routed on the in-process network gets a reply from the peer it was addressed to,
  addressed to its sender and of the same version; the reply is an error message exactly when an error
  is returned, and a \<open>Response\<close> otherwise. This includes unknown targets and message types.\<close>

theorem route_reply_addressed:
  assumes "router_ok sq r" and "good_call v s"
  shows "reply_ok (m_target msg) msg (fst (Route v r msg s))"
proof (cases "mget r (m_target msg)")
  case None
  then show ?thesis by (simp add: Route_def reply_ok_errorReply)
next
  case (Some h)
  then have "h = store_handler sq (m_target msg)" using assms(1) by (simp add: router_ok_def)
  with Some show ?thesis using store_peer.route_reply assms(2) by blast
qed

text \<open>Routing a message affects at most the peer it is addressed to: the rows and the type
  definitions of every other peer are the same before and after, and the host stays well formed.\<close>

theorem route_touches_target_only:
  assumes "router_ok sq r" and "good_call v s"
  shows "host_ok (snd (Route v r msg s)) \<and> (did \<noteq> m_target msg
     \<longrightarrow> peer_view did (hs_db (snd (Route v r msg s))) = peer_view did (hs_db s)
       \<and> map_option (EntityType did n) (hs_schema (snd (Route v r msg s))) = map_option (EntityType did n) (hs_schema s))"
proof (intro conjI impI)
  show "host_ok (snd (Route v r msg s))" by (rule route_host_ok [OF assms])
next
  assume "did \<noteq> m_target msg"
  note same = route_view [OF assms this]
  show "peer_view did (hs_db (snd (Route v r msg s))) = peer_view did (hs_db s)"
    using same by (simp add: host_view_def)
  show "map_option (EntityType did n) (hs_schema (snd (Route v r msg s))) = map_option (EntityType did n) (hs_schema s)"
    by (rule host_view_types [OF same])
qed

lemma keys_image_mput: "fst ` set (mput k v m) = insert k (fst ` set m)"
  using set_keys_mput [of k v m] by simp

text \<open>Registration: a peer is registered at most once and under a non-empty DID with a handler;
  when it is, exactly this DID is added to the sorted listing, messages to it reach its handler and
  every other DID keeps the handler it had.\<close>

theorem register_peer_correct:
  assumes "gomap_ok r"
  shows "((\<exists>r'. RegisterPeer did h r = Inr r') \<longleftrightarrow> did \<noteq> [] \<and> h \<noteq> None \<and> did \<notin> set (ListPeers r))
    \<and> (\<forall>r'. RegisterPeer did h r = Inr r' \<longrightarrow> gomap_ok r' \<and> mget r' = (mget r)(did := h)
           \<and> set (ListPeers r') = insert did (set (ListPeers r)) \<and> sorted (ListPeers r') \<and> distinct (ListPeers r'))"
proof (intro conjI allI impI)
  have peers: "set (ListPeers r) = fst ` set r" by (simp add: ListPeers_def)
  show "(\<exists>r'. RegisterPeer did h r = Inr r') \<longleftrightarrow> did \<noteq> [] \<and> h \<noteq> None \<and> did \<notin> set (ListPeers r)"
    unfolding peers by (cases h) (auto simp: RegisterPeer_def map_of_eq_None_iff)
next
  fix r' assume "RegisterPeer did h r = Inr r'"
  then obtain ops where "h = Some ops" and r': "r' = mput did ops r"
    by (auto simp: RegisterPeer_def split: option.splits if_splits)
  moreover have "sorted (ListPeers r')" by (simp add: ListPeers_def)
  moreover have "distinct (ListPeers r')" using assms by (simp add: ListPeers_def r' gomap_ok_distinct)
  moreover have "set (ListPeers r) = fst ` set r" "set (ListPeers r') = fst ` set r'" by (simp_all add: ListPeers_def)
  ultimately show "gomap_ok r'" "mget r' = (mget r)(did := h)" "set (ListPeers r') = insert did (set (ListPeers r))"
      "sorted (ListPeers r')" "distinct (ListPeers r')"
    using assms by (simp_all add: mget_mput keys_image_mput)
qed

definition sample_router :: "host router" where
  "sample_router = [(''p'', store_handler sample_sqlite ''p'')]"

lemma sample_router_ok: "router_ok sample_sqlite sample_router" "good_call sample_env sample_host"
  using sample_host_ok sample_env_ok sample_fresh by (simp_all add: router_ok_def good_call_def gomap_ok_def sample_router_def)

lemma op_message_target: "m_target (op_message op args) = ''p''"
  by (simp add: op_message_def)

lemma route_reply_addressed_witness:
  "reply_ok ''p'' (op_message ''entity.create'' create_args)
     (fst (Route sample_env sample_router (op_message ''entity.create'' create_args) sample_host))"
  using route_reply_addressed [OF sample_router_ok, where msg = "op_message ''entity.create'' create_args"]
  unfolding op_message_target .

lemma route_touches_target_only_witness:
  "host_ok (snd (Route sample_env sample_router (op_message ''entity.create'' create_args) sample_host))
   \<and> peer_view ''q'' (hs_db (snd (Route sample_env sample_router (op_message ''entity.create'' create_args) sample_host)))
       = peer_view ''q'' (hs_db sample_host)"
proof
  show "host_ok (snd (Route sample_env sample_router (op_message ''entity.create'' create_args) sample_host))"
    using route_touches_target_only [OF sample_router_ok] by blast
  have "''q'' \<noteq> m_target (op_message ''entity.create'' create_args)" unfolding op_message_target by simp
  then show "peer_view ''q'' (hs_db (snd (Route sample_env sample_router (op_message ''entity.create'' create_args) sample_host)))
      = peer_view ''q'' (hs_db sample_host)"
    using route_touches_target_only [OF sample_router_ok] by blast
qed

lemma register_peer_correct_witness:
  "RegisterPeer ''p'' (Some (store_handler sample_sqlite ''p'')) new_router = Inr sample_router
   \<and> set (ListPeers sample_router) = {''p''}"
proof -
  have ok: "gomap_ok (new_router :: host router)" by (simp add: new_router_def)
  have reg: "RegisterPeer ''p'' (Some (store_handler sample_sqlite ''p'')) new_router = Inr sample_router"
    by (simp add: RegisterPeer_def new_router_def sample_router_def)
  have "set (ListPeers (new_router :: host router)) = {}" by (simp add: ListPeers_def new_router_def)
  with reg register_peer_correct [OF ok] show ?thesis by auto
qed

end
