(* ===== verification/Encoding.thy ===== *)
theory Encoding
  imports Coggo_Prelude "HOL-Library.Word"
begin

unbundle bit_operations_syntax

text \<open>
  The encodings of Go's standard library that the sources use on byte strings: hexadecimal
  text, base64 in its standard and raw-URL forms, and SHA-256, which the token store hashes
  secrets with.
\<close>

section \<open>Hexadecimal\<close>

definition hex_encode :: "string \<Rightarrow> string" where
  "hex_encode bs = concat (map (\<lambda>c. [hex_digit (byte_of c div 16), hex_digit (byte_of c mod 16)]) bs)"

section \<open>Base64\<close>

text \<open>The symbol of a six-bit value; the two encodings differ in the last two symbols.\<close>

definition b64_symbol :: "bool \<Rightarrow> nat \<Rightarrow> char" where
  "b64_symbol url n =
     (if n < 26 then char_of (65 + n)
      else if n < 52 then char_of (97 + (n - 26))
      else if n < 62 then char_of (48 + (n - 52))
      else if n = 62 then (if url then CHR ''-'' else CHR ''+'')
      else (if url then CHR ''_'' else CHR ''/''))"

definition b64_value :: "char \<Rightarrow> nat option" where
  "b64_value c =
     (let b = byte_of c in
      if 65 \<le> b \<and> b \<le> 90 then Some (b - 65)
      else if 97 \<le> b \<and> b \<le> 122 then Some (b - 97 + 26)
      else if 48 \<le> b \<and> b \<le> 57 then Some (b - 48 + 52)
      else if b = 43 then Some 62
      else if b = 47 then Some 63
      else None)"

fun b64_encode :: "bool \<Rightarrow> bool \<Rightarrow> string \<Rightarrow> string" where
  "b64_encode url pad (a # b # c # r) =
     b64_symbol url (byte_of a div 4)
     # b64_symbol url (byte_of a mod 4 * 16 + byte_of b div 16)
     # b64_symbol url (byte_of b mod 16 * 4 + byte_of c div 64)
     # b64_symbol url (byte_of c mod 64) # b64_encode url pad r"
| "b64_encode url pad [a, b] =
     [b64_symbol url (byte_of a div 4), b64_symbol url (byte_of a mod 4 * 16 + byte_of b div 16),
      b64_symbol url (byte_of b mod 16 * 4)] @ (if pad then ''='' else [])"
| "b64_encode url pad [a] =
     [b64_symbol url (byte_of a div 4), b64_symbol url (byte_of a mod 4 * 16)] @ (if pad then ''=='' else [])"
| "b64_encode url pad [] = []"

definition base64StdEncode :: "string \<Rightarrow> string" where
  "base64StdEncode bs = b64_encode False True bs"

definition base64RawURLEncode :: "string \<Rightarrow> string" where
  "base64RawURLEncode bs = b64_encode True False bs"

text \<open>
  Decoding the padded form, after the line breaks have been dropped: groups of four symbols;
  \<open>None\<close> beside the bytes of the groups before it is the error of a bad group.
\<close>

definition b64_bytes3 :: "nat \<Rightarrow> nat \<Rightarrow> nat \<Rightarrow> nat \<Rightarrow> string" where
  "b64_bytes3 p q r s = [char_of (p * 4 + q div 16), char_of (q mod 16 * 16 + r div 4), char_of (r mod 4 * 64 + s)]"

fun b64_decode_groups :: "string \<Rightarrow> string" where
  "b64_decode_groups (c1 # c2 # c3 # c4 # rest) =
     (case (b64_value c1, b64_value c2, b64_value c3, b64_value c4) of
        (Some p, Some q, Some r, Some s) \<Rightarrow> b64_bytes3 p q r s @ b64_decode_groups rest
      | (Some p, Some q, Some r, None) \<Rightarrow>
          if c4 = CHR ''='' then [char_of (p * 4 + q div 16), char_of (q mod 16 * 16 + r div 4)] else []
      | (Some p, Some q, None, _) \<Rightarrow>
          if c3 = CHR ''='' \<and> c4 = CHR ''='' then [char_of (p * 4 + q div 16)] else []
      | _ \<Rightarrow> [])"
| "b64_decode_groups _ = []"

text \<open>
  \<open>base64StdDecode\<close> of the sources ignores the decoder's error, so a malformed text gives the
  bytes before the first bad group (and those of a padded group that is followed by more text).
\<close>

definition base64StdDecode :: "string \<Rightarrow> string" where
  "base64StdDecode s = b64_decode_groups (filter (\<lambda>c. byte_of c \<noteq> 10 \<and> byte_of c \<noteq> 13) s)"

lemma byte_of_less [simp]: "byte_of c < 256"
  by (simp add: byte_of_def)

lemma char_of_byte_of [simp]: "char_of (byte_of c) = c"
  by (simp add: byte_of_def)

lemma byte_of_char_of [simp]: "n < 256 \<Longrightarrow> byte_of (char_of n) = n"
  by (simp add: byte_of_def)

lemma byte_symbol: "n < 64 \<Longrightarrow> byte_of (b64_symbol False n) =
    (if n < 26 then 65 + n else if n < 52 then 71 + n else if n < 62 then n - 4 else if n = 62 then 43 else 47)"
  by (auto simp: b64_symbol_def) (simp_all add: byte_of_def)

lemma b64_value_symbol [simp]: "n < 64 \<Longrightarrow> b64_value (b64_symbol False n) = Some n"
  by (auto simp: b64_value_def byte_symbol Let_def)

lemma symbol_no_break: "n < 64 \<Longrightarrow> byte_of (b64_symbol False n) \<noteq> 10 \<and> byte_of (b64_symbol False n) \<noteq> 13"
  by (auto simp: byte_symbol)

lemma b64_value_pad [simp]: "b64_value (CHR ''='') = None"
  by (simp add: b64_value_def byte_of_def)

lemma six_bits: "a div 4 < 64" "a mod 4 * 16 + b div 16 < 64" "b mod 16 * 4 + c div 64 < 64" "c mod 64 < 64"
    "a mod 4 * 16 < 64" "b mod 16 * 4 < 64"
  if "a < 256" "b < 256" "c < (256 :: nat)"
proof -
  have "a mod 4 < 4" "b mod 16 < 16" "b div 16 < 16" "c div 64 < 4" using that by auto
  then show "a div 4 < 64" "a mod 4 * 16 + b div 16 < 64" "b mod 16 * 4 + c div 64 < 64" "c mod 64 < 64"
    "a mod 4 * 16 < 64" "b mod 16 * 4 < 64" using that by auto
qed

lemma byte_parts [simp]:
  "byte_of b div 16 div 16 = 0" "byte_of c div 64 div 4 = 0" "byte_of b div 16 mod 16 = byte_of b div 16"
  "byte_of c div 64 mod 4 = byte_of c div 64"
proof -
  have "byte_of b div 16 < 16" "byte_of c div 64 < 4" by (simp_all add: less_mult_imp_div_less)
  then show "byte_of b div 16 div 16 = 0" "byte_of c div 64 div 4 = 0" "byte_of b div 16 mod 16 = byte_of b div 16"
    "byte_of c div 64 mod 4 = byte_of c div 64" by simp_all
qed

lemma b64_groups: "b64_decode_groups (b64_encode False True bs) = bs"
proof (induction "False" "True" bs rule: b64_encode.induct)
  case (1 a b c r)
  note s = six_bits [OF byte_of_less [of a] byte_of_less [of b] byte_of_less [of c]]
  show ?case using 1 by (simp add: s b64_bytes3_def)
next
  case (2 a b)
  note s = six_bits [OF byte_of_less [of a] byte_of_less [of b] byte_of_less [of b]]
  show ?case by (simp add: s)
next
  case (3 a)
  note s = six_bits [OF byte_of_less [of a] byte_of_less [of a] byte_of_less [of a]]
  show ?case by (simp add: s)
qed simp

lemma b64_no_breaks: "filter (\<lambda>c. byte_of c \<noteq> 10 \<and> byte_of c \<noteq> 13) (b64_encode False True bs) = b64_encode False True bs"
proof (induction "False" "True" bs rule: b64_encode.induct)
  case (1 a b c r)
  then show ?case using six_bits [OF byte_of_less [of a] byte_of_less [of b] byte_of_less [of c]] by (simp add: symbol_no_break)
next
  case (2 a b)
  then show ?case using six_bits [OF byte_of_less [of a] byte_of_less [of b] byte_of_less [of b]]
    by (simp add: symbol_no_break) (simp add: byte_of_def)
next
  case (3 a)
  then show ?case using six_bits [OF byte_of_less [of a] byte_of_less [of a] byte_of_less [of a]]
    by (simp add: symbol_no_break) (simp add: byte_of_def)
qed simp

lemma base64_roundtrip: "base64StdDecode (base64StdEncode bs) = bs"
  by (simp add: base64StdDecode_def base64StdEncode_def b64_no_breaks b64_groups)

interpretation base64: codec base64StdEncode "\<lambda>s. Inr (base64StdDecode s) :: error + string" "\<lambda>_. True"
  by unfold_locales (simp add: base64_roundtrip)

section \<open>SHA-256\<close>

type_synonym w32 = "32 word"

text \<open>
  The constants are the first 32 bits of the fractional parts of the cube roots of the first 64
  primes and of the square roots of the first eight; \<open>root_bits k n b 0\<close> is the largest number
  below \<open>2 ^ b\<close> whose \<open>k\<close>-th power is at most \<open>n\<close>, found bit by bit.
\<close>

primrec root_bits :: "nat \<Rightarrow> nat \<Rightarrow> nat \<Rightarrow> nat \<Rightarrow> nat" where
  "root_bits k n 0 x = x"
| "root_bits k n (Suc b) x = root_bits k n b (if (x + 2 ^ b) ^ k \<le> n then x + 2 ^ b else x)"

definition small_primes :: "nat list" where
  "small_primes = filter (\<lambda>p. list_all (\<lambda>d. p mod d \<noteq> 0) [2..<p]) [2..<312]"

definition sha_k :: "w32 list" where
  "sha_k = map (\<lambda>p. of_nat (root_bits 3 (p * 2 ^ 96) 40 0)) small_primes"

definition sha_init :: "w32 list" where
  "sha_init = map (\<lambda>p. of_nat (root_bits 2 (p * 2 ^ 64) 40 0)) (take 8 small_primes)"

definition rotr :: "nat \<Rightarrow> w32 \<Rightarrow> w32" where
  "rotr n w = (drop_bit n w) OR (push_bit (32 - n) w)"

definition sigma0 :: "w32 \<Rightarrow> w32" where
  "sigma0 w = rotr 7 w XOR rotr 18 w XOR drop_bit 3 w"

definition sigma1 :: "w32 \<Rightarrow> w32" where
  "sigma1 w = rotr 17 w XOR rotr 19 w XOR drop_bit 10 w"

text \<open>The message schedule, most recent word first.\<close>

primrec sha_extend :: "nat \<Rightarrow> w32 list \<Rightarrow> w32 list" where
  "sha_extend 0 ws = ws"
| "sha_extend (Suc n) ws = sha_extend n ((sigma1 (ws ! 1) + ws ! 6 + sigma0 (ws ! 14) + ws ! 15) # ws)"

fun sha_round :: "w32 list \<Rightarrow> w32 \<times> w32 \<Rightarrow> w32 list" where
  "sha_round [a, b, c, d, e, f, g, h] (k, w) =
     (let t1 = h + (rotr 6 e XOR rotr 11 e XOR rotr 25 e) + ((e AND f) XOR (NOT e AND g)) + k + w;
          t2 = (rotr 2 a XOR rotr 13 a XOR rotr 22 a) + ((a AND b) XOR (a AND c) XOR (b AND c))
      in [t1 + t2, a, b, c, d + t1, e, f, g])"
| "sha_round s kw = s"

definition sha_block :: "w32 list \<Rightarrow> w32 list \<Rightarrow> w32 list" where
  "sha_block s ws = map2 (+) s (foldl sha_round s (zip sha_k (rev (sha_extend 48 (rev ws)))))"

fun be_words :: "nat list \<Rightarrow> w32 list" where
  "be_words (a # b # c # d # r) = of_nat (((a * 256 + b) * 256 + c) * 256 + d) # be_words r"
| "be_words _ = []"

definition be_bytes :: "nat \<Rightarrow> nat \<Rightarrow> nat list" where
  "be_bytes k n = map (\<lambda>i. n div 256 ^ (k - 1 - i) mod 256) [0..<k]"

definition sha_pad :: "nat list \<Rightarrow> nat list" where
  "sha_pad bs = bs @ [128] @ replicate ((119 - length bs mod 64) mod 64) 0 @ be_bytes 8 (8 * length bs)"

fun sha_blocks :: "nat \<Rightarrow> w32 list \<Rightarrow> w32 list \<Rightarrow> w32 list" where
  "sha_blocks 0 s ws = s"
| "sha_blocks (Suc n) s ws = sha_blocks n (sha_block s (take 16 ws)) (drop 16 ws)"

definition sha256 :: "string \<Rightarrow> string" where
  "sha256 m =
     (let ws = be_words (sha_pad (map byte_of m))
      in concat (map (\<lambda>w. map char_of (be_bytes 4 (unat w))) (sha_blocks (length ws div 16) sha_init ws)))"

end
