(* ===== verification/Did.thy ===== *)
theory Did
  imports Coggo_Types Encoding
begin

text \<open>
  internal/peer/did.go: a peer's DID is \<open>did:key:z\<close> followed by the base58 text of the
  two multicodec bytes and the 32 bytes of the ed25519 public key. Key generation belongs to
  the cryptographic library: the key pair is an argument, or its error.
\<close>

section \<open>Positional notation\<close>

fun digits :: "nat \<Rightarrow> nat \<Rightarrow> nat list" where
  "digits b n = (if n = 0 \<or> b < 2 then [] else digits b (n div b) @ [n mod b])"

declare digits.simps [simp del]

definition value_of :: "nat \<Rightarrow> nat list \<Rightarrow> nat" where
  "value_of b ds = foldl (\<lambda>a d. a * b + d) 0 ds"

definition base58Alphabet :: string where
  "base58Alphabet = ''123456789ABCDEFGHJKLMNPQRSTUVWXYZabcdefghijkmnopqrstuvwxyz''"

fun index_of :: "char \<Rightarrow> string \<Rightarrow> nat option" where
  "index_of c [] = None"
| "index_of c (d # s) = (if c = d then Some 0 else map_option Suc (index_of c s))"

definition base58Encode :: "string \<Rightarrow> string" where
  "base58Encode input =
     (let zeros = length (takeWhile (\<lambda>c. byte_of c = 0) input)
      in replicate zeros (base58Alphabet ! 0)
         @ map (\<lambda>d. base58Alphabet ! d) (digits 58 (value_of 256 (map byte_of input))))"

text \<open>The verb \<open>%q\<close> on a byte: a quoted character literal of the code point with that number.\<close>

definition quote_byte :: "char \<Rightarrow> string" where
  "quote_byte c =
     (let b = byte_of c in
      if b = 39 then [CHR 0x27, CHR 0x5C, CHR 0x27, CHR 0x27]
      else if b = 34 then [CHR 0x27, c, CHR 0x27]
      else if b < 128 then CHR 0x27 # quote_char c @ [CHR 0x27]
      else if b \<le> 160 \<or> b = 173
      then [CHR 0x27, CHR 0x5C, CHR ''u'', CHR ''0'', CHR ''0'', hex_digit (b div 16), hex_digit (b mod 16), CHR 0x27]
      else [CHR 0x27, char_of (192 + b div 64), char_of (128 + b mod 64), CHR 0x27])"

definition base58_index :: "char \<Rightarrow> nat result" where
  "base58_index c = (case index_of c base58Alphabet of
      None \<Rightarrow> Inl (Errorf (''invalid base58 character '' @ quote_byte c))
    | Some i \<Rightarrow> Inr i)"

definition base58Decode :: "string \<Rightarrow> string result" where
  "base58Decode s =
     (let zeros = length (takeWhile (\<lambda>c. c = base58Alphabet ! 0) s)
      in map_result (\<lambda>ds. replicate zeros (char_of (0 :: nat)) @ map char_of (digits 256 (value_of 58 ds)))
           (mapM base58_index s))"

section \<open>did:key\<close>

definition didKeyPrefix :: string where
  "didKeyPrefix = ''did:key:''"

definition ed25519MulticodecPrefix :: string where
  "ed25519MulticodecPrefix = [char_of (0xed :: nat), char_of (0x01 :: nat)]"

definition NewDID :: "error + (string \<times> string) \<Rightarrow> (string \<times> string \<times> string) result" where
  "NewDID keys = (case keys of
      Inl e \<Rightarrow> Inl (Wrap ''ed25519'' e)
    | Inr (pub, priv) \<Rightarrow>
        Inr (didKeyPrefix @ ''z'' @ base58Encode (ed25519MulticodecPrefix @ pub), pub, priv))"

definition DecodePublicKey :: "string \<Rightarrow> string result" where
  "DecodePublicKey did =
     (if \<not> has_prefix did didKeyPrefix then Inl (Errorf ''not a did:key'')
      else (case drop (length didKeyPrefix) did of
          [] \<Rightarrow> Inl (Errorf (''did:key: only multibase base58btc ('' @ [CHR 0x27] @ ''z'' @ [CHR 0x27] @ '') supported''))
        | c # body \<Rightarrow>
            if c \<noteq> CHR ''z''
            then Inl (Errorf (''did:key: only multibase base58btc ('' @ [CHR 0x27] @ ''z'' @ [CHR 0x27] @ '') supported''))
            else (case base58Decode body of
                Inl e \<Rightarrow> Inl (Wrap ''did:key: base58'' e)
              | Inr r \<Rightarrow>
                  if length r < 34 then Inl (Errorf ''did:key: payload too short'')
                  else if take 2 r \<noteq> ed25519MulticodecPrefix
                  then Inl (Errorf ''did:key: not an ed25519-pub multicodec'')
                  else if length (drop 2 r) \<noteq> 32
                  then Inl (Errorf (''did:key: expected 32-byte ed25519 pubkey, got '' @ show_nat (length (drop 2 r))))
                  else Inr (drop 2 r))))"

text \<open>\<open>NewPeer\<close>: the caller registers the result, which sets the creation time.\<close>

definition default_settings :: peer_settings where
  "default_settings = \<lparr>ps_threshold = ''ask_when_ambiguous'', ps_frequency = ''on_demand'',
     ps_briefing_time = [], ps_capture = ''log_and_tell''\<rparr>"

definition NewPeer :: "error + (string \<times> string) \<Rightarrow> string \<Rightarrow> string \<Rightarrow> peer result" where
  "NewPeer keys name desc = (case NewDID keys of
      Inl e \<Rightarrow> Inl e
    | Inr (did, pub, priv) \<Rightarrow> Inr \<lparr>p_did = did, p_name = name, p_desc = desc, p_private = priv,
        p_public = pub, p_created_at = 0, p_settings = default_settings\<rparr>)"

section \<open>Base58 is a codec\<close>

lemma value_of_Nil [simp]: "value_of b [] = 0"
  by (simp add: value_of_def)

lemma value_of_snoc [simp]: "value_of b (ds @ [d]) = value_of b ds * b + d"
  by (simp add: value_of_def)

lemma value_of_Cons0: "value_of b (0 # ds) = value_of b ds"
  by (simp add: value_of_def)

lemma value_digits: "2 \<le> b \<Longrightarrow> value_of b (digits b n) = n"
proof (induction b n rule: digits.induct)
  case (1 b n)
  then show ?case by (subst digits.simps) auto
qed

lemma digits_less: "2 \<le> b \<Longrightarrow> d \<in> set (digits b n) \<Longrightarrow> d < b"
proof (induction b n rule: digits.induct)
  case (1 b n)
  then show ?case by (subst (asm) (2) digits.simps) (auto split: if_splits)
qed

lemma digits_head: "2 \<le> b \<Longrightarrow> digits b n = d # ds \<Longrightarrow> d \<noteq> 0"
proof (induction b n arbitrary: d ds rule: digits.induct)
  case (1 b n)
  show ?case
  proof (cases "digits b (n div b)")
    case Nil
    have "n div b = 0"
    proof (rule ccontr)
      assume "n div b \<noteq> 0"
      then have "digits b (n div b) \<noteq> []" using 1(2) by (subst digits.simps) auto
      with Nil show False by simp
    qed
    then have "n < b" using 1(2) by (simp add: div_eq_0_iff)
    then have "digits b n = (if n = 0 then [] else [n])"
      using Nil 1(2) by (subst digits.simps) simp
    then show ?thesis using 1(3) by (auto split: if_splits)
  next
    case (Cons e es)
    then have "n \<noteq> 0" using digits.simps [of b 0] by (cases "n = 0") simp_all
    then have "e \<noteq> 0" using 1 Cons by simp
    moreover have "digits b n = (e # es) @ [n mod b]"
      using 1(2) Cons \<open>n \<noteq> 0\<close> by (subst digits.simps) simp
    then have "d = e" using 1(3) by simp
    ultimately show ?thesis by simp
  qed
qed

lemma digits_value:
  "2 \<le> b \<Longrightarrow> \<forall>d \<in> set ds. d < b \<Longrightarrow> digits b (value_of b ds) = dropWhile (\<lambda>d. d = 0) ds"
proof (induction ds rule: rev_induct)
  case Nil
  then show ?case by (simp add: digits.simps)
next
  case (snoc d ds)
  then have d: "d < b" and IH: "digits b (value_of b ds) = dropWhile (\<lambda>d. d = 0) ds" by simp_all
  show ?case
  proof (cases "value_of b ds * b + d = 0")
    case True
    then have "value_of b ds = 0" "d = 0" using d by auto
    then have "dropWhile (\<lambda>d. d = 0) ds = []" using IH by (simp add: digits.simps)
    then have "\<forall>x \<in> set ds. x = 0" by simp
    then show ?thesis using True \<open>d = 0\<close> by (simp add: digits.simps dropWhile_append2)
  next
    case False
    then have step: "digits b (value_of b (ds @ [d])) = digits b (value_of b ds) @ [d]"
      using d snoc.prems(1) by (subst digits.simps) simp
    show ?thesis
    proof (cases "\<forall>x \<in> set ds. x = 0")
      case True
      then have "dropWhile (\<lambda>d. d = 0) ds = []" by simp
      moreover have "value_of b ds = 0"
        using value_digits [OF snoc.prems(1), of "value_of b ds"] IH calculation by simp
      ultimately show ?thesis using step IH True False by (simp add: dropWhile_append2)
    next
      case False
      then show ?thesis using step IH by (auto simp: dropWhile_append1)
    qed
  qed
qed

lemma index_alphabet: "d < 58 \<Longrightarrow> index_of (base58Alphabet ! d) base58Alphabet = Some d"
proof -
  have "distinct base58Alphabet" by (simp add: base58Alphabet_def)
  moreover have "distinct s \<Longrightarrow> d < length s \<Longrightarrow> index_of (s ! d) s = Some d" for s d
  proof (induction s arbitrary: d)
    case (Cons c s)
    then show ?case by (cases d) auto
  qed simp
  moreover have "length base58Alphabet = 58" by (simp add: base58Alphabet_def)
  ultimately show "d < 58 \<Longrightarrow> index_of (base58Alphabet ! d) base58Alphabet = Some d" by simp
qed

lemma alphabet_zero: "d < 58 \<Longrightarrow> base58Alphabet ! d = base58Alphabet ! 0 \<longleftrightarrow> d = 0"
  using index_alphabet [of d] index_alphabet [of 0] by auto

lemma value_of_zeros [simp]: "value_of b (replicate n 0 @ ds) = value_of b ds"
  by (induction n) (simp_all add: value_of_Cons0)

lemma takeWhile_replicate_append: "P x \<Longrightarrow> takeWhile P (replicate n x @ ys) = replicate n x @ takeWhile P ys"
  by (induction n) auto

lemma base58_roundtrip: "base58Decode (base58Encode bs) = Inr bs"
proof -
  define z where "z = length (takeWhile (\<lambda>c. byte_of c = 0) bs)"
  define ds where "ds = digits 58 (value_of 256 (map byte_of bs))"
  have small: "\<forall>d \<in> set ds. d < 58" using digits_less by (auto simp: ds_def)
  have enc: "base58Encode bs = map (\<lambda>d. base58Alphabet ! d) (replicate z 0 @ ds)"
    by (simp add: base58Encode_def Let_def z_def ds_def)
  have idx: "mapM base58_index (map (\<lambda>d. base58Alphabet ! d) es) = Inr es" if "\<forall>d \<in> set es. d < 58" for es
    using that by (induction es) (simp_all add: base58_index_def index_alphabet)
  have "takeWhile (\<lambda>c. c = base58Alphabet ! 0) (map (\<lambda>d. base58Alphabet ! d) ds) = []"
  proof (cases ds)
    case (Cons d es)
    then have "d \<noteq> 0" using digits_head [of 58 _ d es] by (simp add: ds_def)
    moreover have "d < 58" using small Cons by simp
    ultimately show ?thesis using Cons alphabet_zero by simp
  qed simp
  then have zeros: "length (takeWhile (\<lambda>c. c = base58Alphabet ! 0) (base58Encode bs)) = z"
    unfolding enc map_append map_replicate by (subst takeWhile_replicate_append) simp_all
  have "digits 256 (value_of 58 ds) = dropWhile (\<lambda>d. d = 0) (map byte_of bs)"
    by (simp add: ds_def value_digits digits_value)
  also have "\<dots> = map byte_of (dropWhile (\<lambda>c. byte_of c = 0) bs)" by (simp add: dropWhile_map comp_def)
  finally have "map char_of (digits 256 (value_of 58 ds)) = dropWhile (\<lambda>c. byte_of c = 0) bs"
    by (simp add: comp_def)
  moreover have "replicate z (char_of (0 :: nat)) = takeWhile (\<lambda>c. byte_of c = 0) bs"
  proof -
    have "\<forall>c \<in> set (takeWhile (\<lambda>c. byte_of c = 0) bs). c = char_of (0 :: nat)"
      by (metis (mono_tags) char_of_byte_of set_takeWhileD)
    then show ?thesis unfolding z_def by (metis replicate_length_same)
  qed
  moreover have "mapM base58_index (base58Encode bs) = Inr (replicate z 0 @ ds)"
    unfolding enc using small by (intro idx) auto
  ultimately show ?thesis
    unfolding base58Decode_def Let_def zeros by (simp add: takeWhile_dropWhile_id)
qed

interpretation base58: codec base58Encode base58Decode "\<lambda>_. True"
  by unfold_locales (rule base58_roundtrip)

text \<open>C39: A peer's DID is its public key: for every 32-byte key the DID of a new peer decodes to exactly
  that key, so that two peers have the same DID only if they have the same key.\<close>

theorem did_roundtrip:
  assumes "NewPeer (Inr (pub, priv)) name desc = Inr p" and "length pub = 32"
  shows "DecodePublicKey (p_did p) = Inr pub \<and> p_public p = pub
    \<and> (\<forall>pub' priv' name' desc' p'. NewPeer (Inr (pub', priv')) name' desc' = Inr p' \<and> p_did p' = p_did p \<longrightarrow> pub' = pub)"
proof -
  have did: "p_did p = didKeyPrefix @ ''z'' @ base58Encode (ed25519MulticodecPrefix @ pub)" "p_public p = pub"
    using assms(1) by (auto simp: NewPeer_def NewDID_def)
  have "DecodePublicKey (p_did p) = Inr pub"
    using assms(2) by (simp add: did DecodePublicKey_def has_prefix_def base58.dec_enc ed25519MulticodecPrefix_def)
  moreover have "pub' = pub" if "NewPeer (Inr (pub', priv')) name' desc' = Inr p'" "p_did p' = p_did p"
    for pub' priv' name' desc' p'
  proof -
    have "base58Encode (ed25519MulticodecPrefix @ pub') = base58Encode (ed25519MulticodecPrefix @ pub)"
      using that did by (auto simp: NewPeer_def NewDID_def)
    then show ?thesis using base58.enc_inj by blast
  qed
  ultimately show ?thesis using did(2) by blast
qed

text \<open>The decoder of DIDs accepts only texts that decode to the multicodec prefix and exactly 32 bytes
  of key, and never a text of another DID method.\<close>

theorem decoded_key_wellformed:
  assumes "DecodePublicKey did = Inr pub"
  shows "length pub = 32 \<and> (\<exists>body. did = didKeyPrefix @ CHR ''z'' # body
    \<and> base58Decode body = Inr (ed25519MulticodecPrefix @ pub))"
proof -
  have pre: "has_prefix did didKeyPrefix" using assms by (auto simp: DecodePublicKey_def split: if_splits)
  obtain c body where body: "drop (length didKeyPrefix) did = c # body"
    using assms pre by (auto simp: DecodePublicKey_def split: list.splits)
  obtain r where r: "c = CHR ''z''" "base58Decode body = Inr r" "take 2 r = ed25519MulticodecPrefix"
      "length (drop 2 r) = 32" "pub = drop 2 r"
    using assms pre body by (auto simp: DecodePublicKey_def split: if_splits sum.splits)
  have "did = didKeyPrefix @ CHR ''z'' # body"
    using pre body r(1) by (metis append_take_drop_id has_prefix_def)
  moreover have "r = ed25519MulticodecPrefix @ pub" using r(3,5) by (metis append_take_drop_id)
  ultimately show ?thesis using r by auto
qed

definition sample_key :: string where
  "sample_key = replicate 32 (char_of (7 :: nat))"

lemma did_roundtrip_witness:
  "\<exists>p. NewPeer (Inr (sample_key, [])) ''work'' [] = Inr p \<and> DecodePublicKey (p_did p) = Inr sample_key"
proof -
  obtain p where p: "NewPeer (Inr (sample_key, [])) ''work'' [] = Inr p" by (simp add: NewPeer_def NewDID_def)
  have "length sample_key = 32" by (simp add: sample_key_def)
  from did_roundtrip [OF p this] p show ?thesis by blast
qed

lemma decoded_key_wellformed_witness:
  "\<exists>body. didKeyPrefix @ ''z'' @ base58Encode (ed25519MulticodecPrefix @ sample_key) = didKeyPrefix @ CHR ''z'' # body
     \<and> base58Decode body = Inr (ed25519MulticodecPrefix @ sample_key)"
proof -
  have "DecodePublicKey (didKeyPrefix @ ''z'' @ base58Encode (ed25519MulticodecPrefix @ sample_key)) = Inr sample_key"
    by (simp add: DecodePublicKey_def has_prefix_def base58_roundtrip ed25519MulticodecPrefix_def sample_key_def)
  from decoded_key_wellformed [OF this] show ?thesis by blast
qed

end
