(* ===== verification/Registry.thy ===== *)
theory Registry
  imports Did "HOL-Library.Multiset"
begin

text \<open>
  internal/peer/registry.go: the directory of the peers this binary hosts, two maps to shared
  peer objects and the file peers.json. The objects are an explicit list, addressed by
  position, because a rename changes an object that both maps point to.

  \<open>order\<close> is the order in which Go's range visits the map of names; the lemmas hold for all
  of them. A write of the file replaces it whole or, when it fails (the argument \<open>io\<close>),
  leaves it as it was.
\<close>

section \<open>The file\<close>

definition zero_settings :: peer_settings where
  "zero_settings = \<lparr>ps_threshold = [], ps_frequency = [], ps_briefing_time = [], ps_capture = []\<rparr>"

definition settings_json :: "peer_settings \<Rightarrow> json" where
  "settings_json s = JObj
     (member_opt ''default_clarification_threshold'' (nonempty_str (ps_threshold s))
      @ member_opt ''briefing_frequency'' (nonempty_str (ps_frequency s))
      @ member_opt ''briefing_time'' (nonempty_str (ps_briefing_time s))
      @ member_opt ''capture_confirmation'' (nonempty_str (ps_capture s)))"

definition assign_settings :: "string \<Rightarrow> json \<Rightarrow> peer_settings \<Rightarrow> peer_settings result" where
  "assign_settings k v s =
     (if k = ''default_clarification_threshold''
      then set_string ''PeerSettings.settings.default_clarification_threshold'' v (\<lambda>x. ps_threshold_update (\<lambda>_. x)) s
      else if k = ''briefing_frequency''
      then set_string ''PeerSettings.settings.briefing_frequency'' v (\<lambda>x. ps_frequency_update (\<lambda>_. x)) s
      else if k = ''briefing_time''
      then set_string ''PeerSettings.settings.briefing_time'' v (\<lambda>x. ps_briefing_time_update (\<lambda>_. x)) s
      else if k = ''capture_confirmation''
      then set_string ''PeerSettings.settings.capture_confirmation'' v (\<lambda>x. ps_capture_update (\<lambda>_. x)) s
      else Inr s)"

record peerOnDisk =
  pd_did :: string
  pd_name :: string
  pd_desc :: string
  pd_private :: string
  pd_public :: string
  pd_created_at :: time
  pd_settings :: peer_settings

definition zero_on_disk :: peerOnDisk where
  "zero_on_disk = \<lparr>pd_did = [], pd_name = [], pd_desc = [], pd_private = [], pd_public = [],
     pd_created_at = 0, pd_settings = zero_settings\<rparr>"

definition fromPeer :: "peer \<Rightarrow> peerOnDisk" where
  "fromPeer p = \<lparr>pd_did = p_did p, pd_name = p_name p, pd_desc = p_desc p,
     pd_private = base64StdEncode (p_private p), pd_public = base64StdEncode (p_public p),
     pd_created_at = p_created_at p, pd_settings = p_settings p\<rparr>"

definition toPeer :: "peerOnDisk \<Rightarrow> peer" where
  "toPeer p = \<lparr>p_did = pd_did p, p_name = pd_name p, p_desc = pd_desc p,
     p_private = base64StdDecode (pd_private p), p_public = base64StdDecode (pd_public p),
     p_created_at = pd_created_at p, p_settings = pd_settings p\<rparr>"

definition on_disk_json :: "peerOnDisk \<Rightarrow> json" where
  "on_disk_json p = JObj
     ([(''did'', JStr (pd_did p)), (''name'', JStr (pd_name p))]
      @ member_opt ''description'' (nonempty_str (pd_desc p))
      @ [(''private_key'', JStr (pd_private p)), (''public_key'', JStr (pd_public p)),
         (''created_at'', enc_time (pd_created_at p)), (''settings'', settings_json (pd_settings p))])"

definition assign_on_disk :: "string \<Rightarrow> json \<Rightarrow> peerOnDisk \<Rightarrow> peerOnDisk result" where
  "assign_on_disk k v p =
     (if k = ''did'' then set_string ''peerOnDisk.did'' v (\<lambda>x. pd_did_update (\<lambda>_. x)) p
      else if k = ''name'' then set_string ''peerOnDisk.name'' v (\<lambda>x. pd_name_update (\<lambda>_. x)) p
      else if k = ''description'' then set_string ''peerOnDisk.description'' v (\<lambda>x. pd_desc_update (\<lambda>_. x)) p
      else if k = ''private_key'' then set_string ''peerOnDisk.private_key'' v (\<lambda>x. pd_private_update (\<lambda>_. x)) p
      else if k = ''public_key'' then set_string ''peerOnDisk.public_key'' v (\<lambda>x. pd_public_update (\<lambda>_. x)) p
      else if k = ''created_at'' then set_time ''peerOnDisk.created_at'' v (\<lambda>x. pd_created_at_update (\<lambda>_. x)) p
      else if k = ''settings''
      then map_result (\<lambda>s. p\<lparr>pd_settings := s\<rparr>) (decode_struct ''types.PeerSettings'' assign_settings v (pd_settings p))
      else Inr p)"

definition decode_on_disk :: "json \<Rightarrow> peerOnDisk result" where
  "decode_on_disk j = decode_struct ''peer.peerOnDisk'' assign_on_disk j zero_on_disk"

definition decode_peers :: "json \<Rightarrow> peerOnDisk list result" where
  "decode_peers j = (case j of
      JNull \<Rightarrow> Inr []
    | JArr js \<Rightarrow> mapM decode_on_disk js
    | _ \<Rightarrow> type_error j ''value of type []peer.peerOnDisk'')"

section \<open>Operations\<close>

record registry =
  rg_objs :: "peer list"
  rg_by_did :: "nat gomap"
  rg_by_name :: "nat gomap"
  rg_file :: "raw option"

definition empty_registry :: "raw option \<Rightarrow> registry" where
  "empty_registry file = \<lparr>rg_objs = [], rg_by_did = [], rg_by_name = [], rg_file = file\<rparr>"

text \<open>A new object, with an entry in each map that replaces the one of its key.\<close>

definition index_peer :: "registry \<Rightarrow> peer \<Rightarrow> registry" where
  "index_peer s p =
     (let a = length (rg_objs s)
      in s\<lparr>rg_objs := rg_objs s @ [p], rg_by_did := mput (p_did p) a (rg_by_did s),
           rg_by_name := mput (p_name p) a (rg_by_name s)\<rparr>)"

definition open_registry :: "error option \<Rightarrow> error option \<Rightarrow> raw option \<Rightarrow> registry result" where
  "open_registry io_dir io_read file = (case io_dir of
      Some e \<Rightarrow> Inl e
    | None \<Rightarrow> (case file of
          None \<Rightarrow> Inr (empty_registry None)
        | Some r \<Rightarrow> (case io_read of
              Some e \<Rightarrow> Inl e
            | None \<Rightarrow> (case and_then (raw_doc r) decode_peers of
                  Inl e \<Rightarrow> Inl (Wrap ''peers.json'' e)
                | Inr ps \<Rightarrow> Inr (foldl index_peer (empty_registry file) (map toPeer ps))))))"

definition ByName :: "registry \<Rightarrow> string \<Rightarrow> peer option" where
  "ByName s name = map_option ((!) (rg_objs s)) (mget (rg_by_name s) name)"

definition ByDID :: "registry \<Rightarrow> string \<Rightarrow> peer option" where
  "ByDID s did = map_option ((!) (rg_objs s)) (mget (rg_by_did s) did)"

definition flush_registry :: "string list \<Rightarrow> error option \<Rightarrow> registry \<Rightarrow> error option \<times> registry" where
  "flush_registry order io s = (case io of
      Some e \<Rightarrow> (Some e, s)
    | None \<Rightarrow> (None, s\<lparr>rg_file :=
        Some (Doc (JArr (map (\<lambda>k. on_disk_json (fromPeer (the (ByName s k)))) order)))\<rparr>))"

definition Add :: "string list \<Rightarrow> error option \<Rightarrow> time \<Rightarrow> peer \<Rightarrow> registry \<Rightarrow> error option \<times> registry" where
  "Add order io now p s =
     (if mget (rg_by_name s) (p_name p) \<noteq> None
      then (Some (Errorf (''peer name '' @ quote_go (p_name p) @ '' already exists'')), s)
      else if mget (rg_by_did s) (p_did p) \<noteq> None
      then (Some (Errorf (''peer DID '' @ quote_go (p_did p) @ '' already exists'')), s)
      else flush_registry order io
             (index_peer s (if p_created_at p = 0 then p\<lparr>p_created_at := now\<rparr> else p)))"

definition Rename :: "string list \<Rightarrow> error option \<Rightarrow> string \<Rightarrow> string \<Rightarrow> registry \<Rightarrow> error option \<times> registry" where
  "Rename order io oldName newName s = (case mget (rg_by_name s) oldName of
      None \<Rightarrow> (Some (Errorf (''no peer named '' @ quote_go oldName)), s)
    | Some a \<Rightarrow>
        if mget (rg_by_name s) newName \<noteq> None
        then (Some (Errorf (''peer name '' @ quote_go newName @ '' already exists'')), s)
        else flush_registry order io
          (s\<lparr>rg_objs := (rg_objs s)[a := (rg_objs s ! a)\<lparr>p_name := newName\<rparr>],
             rg_by_name := mput newName a (mdel oldName (rg_by_name s))\<rparr>))"

definition UpdateSettings :: "string list \<Rightarrow> error option \<Rightarrow> string \<Rightarrow> peer_settings \<Rightarrow> registry
    \<Rightarrow> error option \<times> registry" where
  "UpdateSettings order io name ps s = (case mget (rg_by_name s) name of
      None \<Rightarrow> (Some (Errorf (''no peer named '' @ quote_go name)), s)
    | Some a \<Rightarrow> flush_registry order io
        (s\<lparr>rg_objs := (rg_objs s)[a := (rg_objs s ! a)\<lparr>p_settings := ps\<rparr>]\<rparr>))"

definition sortByName :: "peer list \<Rightarrow> peer list" where
  "sortByName ps = sort_key p_name ps"

definition list_peers :: "string list \<Rightarrow> registry \<Rightarrow> peer list" where
  "list_peers order s = sortByName (map (\<lambda>k. the (ByName s k)) order)"

definition Resolve :: "registry \<Rightarrow> string \<Rightarrow> peer result" where
  "Resolve s x = (case ByName s x of
      Some p \<Rightarrow> Inr p
    | None \<Rightarrow> (case ByDID s x of
          Some p \<Rightarrow> Inr p
        | None \<Rightarrow> Inl (Errorf (''no peer matches '' @ quote_go x))))"

section \<open>The invariant\<close>

text \<open>Both maps hold the same objects, each under the key the object itself carries.\<close>

definition registry_ok :: "registry \<Rightarrow> bool" where
  "registry_ok s \<longleftrightarrow> gomap_ok (rg_by_did s) \<and> gomap_ok (rg_by_name s)
     \<and> (\<forall>k a. mget (rg_by_name s) k = Some a \<longrightarrow> a < length (rg_objs s)
          \<and> p_name (rg_objs s ! a) = k \<and> mget (rg_by_did s) (p_did (rg_objs s ! a)) = Some a)
     \<and> (\<forall>k a. mget (rg_by_did s) k = Some a \<longrightarrow> a < length (rg_objs s)
          \<and> p_did (rg_objs s ! a) = k \<and> mget (rg_by_name s) (p_name (rg_objs s ! a)) = Some a)"

lemma registry_okD:
  assumes "registry_ok s"
  shows "gomap_ok (rg_by_did s)" "gomap_ok (rg_by_name s)"
    and "mget (rg_by_name s) k = Some a \<Longrightarrow> a < length (rg_objs s) \<and> p_name (rg_objs s ! a) = k
      \<and> mget (rg_by_did s) (p_did (rg_objs s ! a)) = Some a"
    and "mget (rg_by_did s) k = Some a \<Longrightarrow> a < length (rg_objs s) \<and> p_did (rg_objs s ! a) = k
      \<and> mget (rg_by_name s) (p_name (rg_objs s ! a)) = Some a"
  using assms by (auto simp: registry_ok_def)

lemma registry_okI:
  assumes "gomap_ok (rg_by_did s)" "gomap_ok (rg_by_name s)"
    and "\<And>k a. mget (rg_by_name s) k = Some a \<Longrightarrow> a < length (rg_objs s) \<and> p_name (rg_objs s ! a) = k
      \<and> mget (rg_by_did s) (p_did (rg_objs s ! a)) = Some a"
    and "\<And>k a. mget (rg_by_did s) k = Some a \<Longrightarrow> a < length (rg_objs s) \<and> p_did (rg_objs s ! a) = k
      \<and> mget (rg_by_name s) (p_name (rg_objs s ! a)) = Some a"
  shows "registry_ok s"
  using assms unfolding registry_ok_def by blast

lemma registry_ok_empty: "registry_ok (empty_registry file)"
  by (simp add: registry_ok_def empty_registry_def)

lemma registry_ok_file [simp]: "registry_ok (s\<lparr>rg_file := f\<rparr>) \<longleftrightarrow> registry_ok s"
  by (simp add: registry_ok_def)

text \<open>An object is under both of its keys or under neither.\<close>

lemma registry_ok_indexed:
  assumes "registry_ok s"
  shows "ByName s n = Some p \<longleftrightarrow> p_name p = n \<and> ByDID s (p_did p) = Some p"
proof
  assume "ByName s n = Some p"
  then obtain a where a: "mget (rg_by_name s) n = Some a" "p = rg_objs s ! a" by (auto simp: ByName_def)
  show "p_name p = n \<and> ByDID s (p_did p) = Some p"
    using registry_okD(3) [OF assms a(1)] a(2) by (simp add: ByDID_def)
next
  assume "p_name p = n \<and> ByDID s (p_did p) = Some p"
  then obtain a where a: "mget (rg_by_did s) (p_did p) = Some a" "p = rg_objs s ! a" "p_name p = n"
    by (auto simp: ByDID_def)
  show "ByName s n = Some p"
    using registry_okD(4) [OF assms a(1)] a by (simp add: ByName_def)
qed

lemma registry_ok_index:
  assumes "registry_ok s" and "mget (rg_by_name s) (p_name p) = None" and "mget (rg_by_did s) (p_did p) = None"
  shows "registry_ok (index_peer s p)"
proof (rule registry_okI)
  note ok = registry_okD [OF assms(1)]
  show "gomap_ok (rg_by_did (index_peer s p))" "gomap_ok (rg_by_name (index_peer s p))"
    using ok(1,2) by (simp_all add: index_peer_def Let_def)
  fix k a
  let ?n = "length (rg_objs s)"
  {
    assume "mget (rg_by_name (index_peer s p)) k = Some a"
    then consider "k = p_name p" "a = ?n" | "k \<noteq> p_name p" "mget (rg_by_name s) k = Some a"
      using ok(2) by (auto simp: index_peer_def Let_def gomap_simps split: if_splits)
    then show "a < length (rg_objs (index_peer s p)) \<and> p_name (rg_objs (index_peer s p) ! a) = k
        \<and> mget (rg_by_did (index_peer s p)) (p_did (rg_objs (index_peer s p) ! a)) = Some a"
    proof cases
      case 2
      then have "p_did (rg_objs s ! a) \<noteq> p_did p" using ok(3) assms(3) by force
      then show ?thesis using 2 ok(1) ok(3) [of k a] by (auto simp: index_peer_def Let_def gomap_simps nth_append)
    qed (use ok(1) in \<open>simp add: index_peer_def Let_def gomap_simps\<close>)
  next
    assume "mget (rg_by_did (index_peer s p)) k = Some a"
    then consider "k = p_did p" "a = ?n" | "k \<noteq> p_did p" "mget (rg_by_did s) k = Some a"
      using ok(1) by (auto simp: index_peer_def Let_def gomap_simps split: if_splits)
    then show "a < length (rg_objs (index_peer s p)) \<and> p_did (rg_objs (index_peer s p) ! a) = k
        \<and> mget (rg_by_name (index_peer s p)) (p_name (rg_objs (index_peer s p) ! a)) = Some a"
    proof cases
      case 2
      then have "p_name (rg_objs s ! a) \<noteq> p_name p" using ok(4) assms(2) by force
      then show ?thesis using 2 ok(2) ok(4) [of k a] by (auto simp: index_peer_def Let_def gomap_simps nth_append)
    qed (use ok(2) in \<open>simp add: index_peer_def Let_def gomap_simps\<close>)
  }
qed

lemma flush_registry_frame [simp]:
  "rg_objs (snd (flush_registry order io s)) = rg_objs s"
  "rg_by_did (snd (flush_registry order io s)) = rg_by_did s"
  "rg_by_name (snd (flush_registry order io s)) = rg_by_name s"
  "ByName (snd (flush_registry order io s)) = ByName s"
  "ByDID (snd (flush_registry order io s)) = ByDID s"
  "registry_ok (snd (flush_registry order io s)) \<longleftrightarrow> registry_ok s"
  by (auto simp: flush_registry_def ByName_def ByDID_def fun_eq_iff registry_ok_def split: option.split)

text \<open>A change of an object that keeps its DID and, unless the map of names is changed too, its name.\<close>

lemma same_address:
  assumes "registry_ok s" "mget (rg_by_name s) k = Some a" "mget (rg_by_name s) k' = Some a"
  shows "k = k'"
  using registry_okD(3) [OF assms(1,2)] registry_okD(3) [OF assms(1,3)] by simp

lemma registry_ok_change:
  assumes "registry_ok s" and "mget (rg_by_name s) k = Some a" and "p_did p = p_did (rg_objs s ! a)" and "p_name p = k"
  shows "registry_ok (s\<lparr>rg_objs := (rg_objs s)[a := p]\<rparr>)"
proof (rule registry_okI)
  note ok = registry_okD [OF assms(1)] and a = registry_okD(3) [OF assms(1,2)]
  show "gomap_ok (rg_by_did (s\<lparr>rg_objs := (rg_objs s)[a := p]\<rparr>))" "gomap_ok (rg_by_name (s\<lparr>rg_objs := (rg_objs s)[a := p]\<rparr>))"
    using ok(1,2) by simp_all
  fix j b
  {
    assume "mget (rg_by_name (s\<lparr>rg_objs := (rg_objs s)[a := p]\<rparr>)) j = Some b"
    then show "b < length (rg_objs (s\<lparr>rg_objs := (rg_objs s)[a := p]\<rparr>)) \<and> p_name (rg_objs (s\<lparr>rg_objs := (rg_objs s)[a := p]\<rparr>) ! b) = j
        \<and> mget (rg_by_did (s\<lparr>rg_objs := (rg_objs s)[a := p]\<rparr>)) (p_did (rg_objs (s\<lparr>rg_objs := (rg_objs s)[a := p]\<rparr>) ! b)) = Some b"
      using ok(3) [of j b] a assms(3,4) by (cases "b = a") auto
  next
    assume "mget (rg_by_did (s\<lparr>rg_objs := (rg_objs s)[a := p]\<rparr>)) j = Some b"
    then show "b < length (rg_objs (s\<lparr>rg_objs := (rg_objs s)[a := p]\<rparr>)) \<and> p_did (rg_objs (s\<lparr>rg_objs := (rg_objs s)[a := p]\<rparr>) ! b) = j
        \<and> mget (rg_by_name (s\<lparr>rg_objs := (rg_objs s)[a := p]\<rparr>)) (p_name (rg_objs (s\<lparr>rg_objs := (rg_objs s)[a := p]\<rparr>) ! b)) = Some b"
      using ok(4) [of j b] a assms(2,3,4) by (cases "b = a") auto
  }
qed

definition renamed :: "string \<Rightarrow> string \<Rightarrow> nat \<Rightarrow> registry \<Rightarrow> registry" where
  "renamed old new a s = s\<lparr>rg_objs := (rg_objs s)[a := (rg_objs s ! a)\<lparr>p_name := new\<rparr>],
     rg_by_name := mput new a (mdel old (rg_by_name s))\<rparr>"

lemma registry_ok_renamed:
  assumes "registry_ok s" and "mget (rg_by_name s) old = Some a" and "mget (rg_by_name s) new = None"
  shows "registry_ok (renamed old new a s)"
proof (rule registry_okI)
  note ok = registry_okD [OF assms(1)] and a = registry_okD(3) [OF assms(1,2)]
  show "gomap_ok (rg_by_did (renamed old new a s))" "gomap_ok (rg_by_name (renamed old new a s))"
    using ok(1,2) by (simp_all add: renamed_def)
  fix k b
  have names: "mget (rg_by_name (renamed old new a s)) = (mget (rg_by_name s))(old := None, new \<mapsto> a)"
    using ok(2) by (simp add: renamed_def gomap_simps)
  {
    assume k: "mget (rg_by_name (renamed old new a s)) k = Some b"
    show "b < length (rg_objs (renamed old new a s)) \<and> p_name (rg_objs (renamed old new a s) ! b) = k
        \<and> mget (rg_by_did (renamed old new a s)) (p_did (rg_objs (renamed old new a s) ! b)) = Some b"
    proof (cases "k = new")
      case True
      then show ?thesis using k a by (simp add: names) (simp add: renamed_def)
    next
      case False
      then have "mget (rg_by_name s) k = Some b" "k \<noteq> old" using k by (auto simp: names split: if_splits)
      moreover from this have "b \<noteq> a" using same_address [OF assms(1,2)] by blast
      ultimately show ?thesis using ok(3) [of k b] by (simp add: renamed_def)
    qed
  next
    assume k: "mget (rg_by_did (renamed old new a s)) k = Some b"
    show "b < length (rg_objs (renamed old new a s)) \<and> p_did (rg_objs (renamed old new a s) ! b) = k
        \<and> mget (rg_by_name (renamed old new a s)) (p_name (rg_objs (renamed old new a s) ! b)) = Some b"
    proof (cases "b = a")
      case True
      then show ?thesis using k a ok(4) [of k b] by (simp add: names) (simp add: renamed_def)
    next
      case False
      have b: "mget (rg_by_did s) k = Some b" using k by (simp add: renamed_def)
      then have "p_name (rg_objs s ! b) \<noteq> old" "p_name (rg_objs s ! b) \<noteq> new"
        using ok(4) [OF b] assms(2,3) False by auto
      then show ?thesis using ok(4) [OF b] False by (simp add: names) (simp add: renamed_def)
    qed
  }
qed

lemma Rename_cases:
  assumes "Rename order io old new s = (e, s')"
  obtains (refused) "s' = s" "e \<noteq> None" "mget (rg_by_name s) old = None \<or> mget (rg_by_name s) new \<noteq> None"
  | (moved) a where "mget (rg_by_name s) old = Some a" "mget (rg_by_name s) new = None"
      "(e, s') = flush_registry order io (renamed old new a s)"
  using assms by (auto simp: Rename_def renamed_def split: option.splits if_splits)

section \<open>The file holds the registry\<close>

lemma registry_keys [simp]:
  "fold_name ''default_clarification_threshold'' = ''default_clarification_threshold''"
  "fold_name ''briefing_frequency'' = ''briefing_frequency''" "fold_name ''briefing_time'' = ''briefing_time''"
  "fold_name ''capture_confirmation'' = ''capture_confirmation''" "fold_name ''did'' = ''did''"
  "fold_name ''private_key'' = ''private_key''" "fold_name ''public_key'' = ''public_key''"
  "fold_name ''settings'' = ''settings''"
  by (rule fold_name_plain, simp add: plain_key_def byte_of_def)+

lemma decode_settings_json:
  "decode_struct ''types.PeerSettings'' assign_settings (settings_json s) zero_settings = Inr s"
  by (cases s) (auto simp: struct_simps settings_json_def assign_settings_def zero_settings_def
      nonempty_str_def member_opt_def)

lemma assign_on_disk_keys:
  "assign_on_disk ''did'' v p = set_string ''peerOnDisk.did'' v (\<lambda>x. pd_did_update (\<lambda>_. x)) p"
  "assign_on_disk ''name'' v p = set_string ''peerOnDisk.name'' v (\<lambda>x. pd_name_update (\<lambda>_. x)) p"
  "assign_on_disk ''description'' v p = set_string ''peerOnDisk.description'' v (\<lambda>x. pd_desc_update (\<lambda>_. x)) p"
  "assign_on_disk ''private_key'' v p = set_string ''peerOnDisk.private_key'' v (\<lambda>x. pd_private_update (\<lambda>_. x)) p"
  "assign_on_disk ''public_key'' v p = set_string ''peerOnDisk.public_key'' v (\<lambda>x. pd_public_update (\<lambda>_. x)) p"
  "assign_on_disk ''created_at'' v p = set_time ''peerOnDisk.created_at'' v (\<lambda>x. pd_created_at_update (\<lambda>_. x)) p"
  "assign_on_disk ''settings'' v p =
     map_result (\<lambda>s. p\<lparr>pd_settings := s\<rparr>) (decode_struct ''types.PeerSettings'' assign_settings v (pd_settings p))"
  by (simp_all add: assign_on_disk_def)

lemma decode_on_disk_json:
  assumes "time_ok (pd_created_at p)"
  shows "decode_on_disk (on_disk_json p) = Inr p"
proof -
  obtain did n d priv pub t s where p: "p = \<lparr>pd_did = did, pd_name = n, pd_desc = d, pd_private = priv,
      pd_public = pub, pd_created_at = t, pd_settings = s\<rparr>"
    by (cases p)
  have "decode_on_disk (on_disk_json p) =
      map_result (\<lambda>s. p\<lparr>pd_settings := s\<rparr>) (decode_struct ''types.PeerSettings'' assign_settings (settings_json s) zero_settings)"
    using assms by (cases d) (auto simp: p decode_on_disk_def decode_struct_def [of "''peer.peerOnDisk''"] on_disk_json_def
        zero_on_disk_def assign_on_disk_keys foldM_append nonempty_str_def member_opt_def decode_settings_json)
  then show ?thesis by (simp add: decode_settings_json p)
qed

interpretation peer_file: codec "\<lambda>p :: peer. on_disk_json (fromPeer p)" "\<lambda>j. map_result toPeer (decode_on_disk j)"
  "\<lambda>p :: peer. time_ok (p_created_at p)"
proof
  fix p :: peer assume "time_ok (p_created_at p)"
  then have "decode_on_disk (on_disk_json (fromPeer p)) = Inr (fromPeer p)"
    by (intro decode_on_disk_json) (simp add: fromPeer_def)
  then show "map_result toPeer (decode_on_disk (on_disk_json (fromPeer p))) = Inr p"
    by (simp add: fromPeer_def toPeer_def base64_roundtrip)
qed

definition file_of :: "peer list \<Rightarrow> raw" where
  "file_of ps = Doc (JArr (map (\<lambda>p. on_disk_json (fromPeer p)) ps))"

lemma open_file_of:
  assumes "\<forall>p \<in> set ps. time_ok (p_created_at p)"
  shows "open_registry None None (Some (file_of ps)) = Inr (foldl index_peer (empty_registry (Some (file_of ps))) ps)"
proof -
  have "mapM decode_on_disk (map (\<lambda>p. on_disk_json (fromPeer p)) ps) = Inr (map fromPeer ps)"
    using assms by (induction ps) (auto simp: decode_on_disk_json fromPeer_def)
  moreover have "map toPeer (map fromPeer ps) = ps"
    by (induction ps) (simp_all add: fromPeer_def toPeer_def base64_roundtrip)
  ultimately show ?thesis by (simp add: open_registry_def file_of_def raw_doc_def decode_peers_def)
qed

text \<open>Loading peers with distinct names and distinct DIDs.\<close>

lemma load_peers:
  assumes "distinct (map p_name ps)" and "distinct (map p_did ps)"
  shows "registry_ok (foldl index_peer (empty_registry f) ps) \<and> rg_objs (foldl index_peer (empty_registry f) ps) = ps
    \<and> dom (mget (rg_by_name (foldl index_peer (empty_registry f) ps))) = p_name ` set ps
    \<and> dom (mget (rg_by_did (foldl index_peer (empty_registry f) ps))) = p_did ` set ps"
  using assms
proof (induction ps rule: rev_induct)
  case Nil
  then show ?case by (simp add: registry_ok_empty) (simp add: empty_registry_def)
next
  case (snoc p ps)
  define t where "t = foldl index_peer (empty_registry f) ps"
  have t: "registry_ok t" "rg_objs t = ps" "dom (mget (rg_by_name t)) = p_name ` set ps"
      "dom (mget (rg_by_did t)) = p_did ` set ps"
    using snoc by (simp_all add: t_def)
  have free: "mget (rg_by_name t) (p_name p) = None" "mget (rg_by_did t) (p_did p) = None"
    using snoc.prems t(3,4) by (auto simp: domIff)
  have "dom (mget (rg_by_name (index_peer t p))) = p_name ` set (ps @ [p])"
      "dom (mget (rg_by_did (index_peer t p))) = p_did ` set (ps @ [p])"
    using t(3,4) registry_okD(1,2) [OF t(1)] by (auto simp: index_peer_def Let_def gomap_simps)
  moreover have "rg_objs (index_peer t p) = ps @ [p]" using t(2) by (simp add: index_peer_def Let_def)
  ultimately show ?case using registry_ok_index [OF t(1) free] by (simp add: t_def)
qed

lemma loaded_lookups:
  assumes "registry_ok t" and "rg_objs t = ps" and "dom (mget (rg_by_name t)) = p_name ` set ps"
    and "distinct (map p_name ps)"
  shows "ByName t k = Some p \<longleftrightarrow> p \<in> set ps \<and> p_name p = k"
proof
  assume "ByName t k = Some p"
  then obtain a where "mget (rg_by_name t) k = Some a" "p = ps ! a" using assms(2) by (auto simp: ByName_def)
  then show "p \<in> set ps \<and> p_name p = k" using registry_okD(3) [OF assms(1)] assms(2) by auto
next
  assume p: "p \<in> set ps \<and> p_name p = k"
  then obtain a where a: "mget (rg_by_name t) k = Some a" using assms(3) by (auto simp: dom_def set_eq_iff)
  then have "a < length ps" "p_name (ps ! a) = k" using registry_okD(3) [OF assms(1) a] assms(2) by auto
  then have "ps ! a = p" using p assms(4) by (metis distinct_map inj_onD nth_mem)
  then show "ByName t k = Some p" using a assms(2) by (simp add: ByName_def)
qed

lemma option_ext: "(\<And>p. x = Some p \<longleftrightarrow> y = Some p) \<Longrightarrow> x = y"
  by (cases x; cases y) auto

lemma registry_ext:
  assumes "registry_ok s" and "registry_ok t" and "\<And>k p. ByName s k = Some p \<longleftrightarrow> ByName t k = Some p"
  shows "ByName s = ByName t \<and> ByDID s = ByDID t"
proof
  show "ByName s = ByName t" using assms(3) by (intro ext option_ext)
  have did: "ByDID r d = Some p \<longleftrightarrow> ByName r (p_name p) = Some p \<and> p_did p = d" if "registry_ok r" for r d p
  proof
    assume "ByDID r d = Some p"
    then obtain a where a: "mget (rg_by_did r) d = Some a" "p = rg_objs r ! a" by (auto simp: ByDID_def)
    then show "ByName r (p_name p) = Some p \<and> p_did p = d" using registry_okD(4) [OF that a(1)] by (simp add: ByName_def)
  qed (use registry_ok_indexed [OF that] in auto)
  show "ByDID s = ByDID t"
    by (intro ext option_ext) (simp only: did [OF assms(1)] did [OF assms(2)] assms(3))
qed

text \<open>\<open>order\<close> visits the map of names of the state it is used in.\<close>

definition visits :: "string list \<Rightarrow> registry \<Rightarrow> bool" where
  "visits order s \<longleftrightarrow> mset order = mset (mkeys (rg_by_name s))"

definition times_ok :: "registry \<Rightarrow> bool" where
  "times_ok s \<longleftrightarrow> (\<forall>p \<in> set (rg_objs s). time_ok (p_created_at p))"

definition listed :: "string list \<Rightarrow> registry \<Rightarrow> peer list" where
  "listed order s = map (\<lambda>k. the (ByName s k)) order"

lemma listed_facts:
  assumes "registry_ok s" and "visits order s"
  shows "map p_name (listed order s) = order" "distinct order" "distinct (map p_did (listed order s))"
    and "p \<in> set (listed order s) \<longleftrightarrow> (\<exists>k. ByName s k = Some p)"
    and "set (listed order s) \<subseteq> set (rg_objs s)"
proof -
  note ok = registry_okD [OF assms(1)]
  have set: "set order = dom (mget (rg_by_name s))"
    using assms(2) by (metis dom_map_of_conv_image_fst mset_eq_setD set_map visits_def)
  show dist: "distinct order"
    using assms(2) gomap_ok_distinct [OF ok(2)] by (metis mset_eq_imp_distinct_iff visits_def)
  have found: "\<exists>a. ByName s k = Some (rg_objs s ! a) \<and> a < length (rg_objs s) \<and> p_name (rg_objs s ! a) = k"
    if "k \<in> set order" for k
  proof -
    have "k \<in> dom (mget (rg_by_name s))" using that unfolding set .
    then obtain a where a: "mget (rg_by_name s) k = Some a" by (auto simp only: dom_def mem_Collect_eq not_None_eq)
    then show ?thesis using ok(3) [OF a] by (intro exI [of _ a]) (simp add: ByName_def)
  qed
  have "p_name (the (ByName s k)) = k" if "k \<in> set order" for k using found [OF that] by auto
  then show names: "map p_name (listed order s) = order" by (simp add: listed_def comp_def map_idI)
  have byname: "ByName s (p_name p) = Some p" if "p \<in> set (listed order s)" for p
  proof -
    obtain k where k: "k \<in> set order" "p = the (ByName s k)" using \<open>p \<in> set (listed order s)\<close> by (auto simp: listed_def)
    then show ?thesis using found [OF k(1)] by auto
  qed
  then have "inj_on p_did (set (listed order s))"
    using registry_ok_indexed [OF assms(1)] by (intro inj_onI) (metis option.inject)
  moreover have "distinct (listed order s)" using names dist by (metis distinct_map)
  ultimately show "distinct (map p_did (listed order s))" by (simp add: distinct_map)
  show "p \<in> set (listed order s) \<longleftrightarrow> (\<exists>k. ByName s k = Some p)"
  proof
    assume "\<exists>k. ByName s k = Some p"
    then obtain k where k: "ByName s k = Some p" by blast
    then have "k \<in> set order" using set by (auto simp: ByName_def)
    then show "p \<in> set (listed order s)" using k by (force simp: listed_def)
  qed (use byname in blast)
  show "set (listed order s) \<subseteq> set (rg_objs s)"
    using found by (force simp: listed_def)
qed

lemma flush_reopens:
  assumes "registry_ok s" and "times_ok s" and "visits order s"
  shows "\<exists>t. open_registry None None (rg_file (snd (flush_registry order None s))) = Inr t
    \<and> registry_ok t \<and> times_ok t \<and> ByName t = ByName s \<and> ByDID t = ByDID s"
proof -
  note l = listed_facts [OF assms(1,3)]
  define t where "t = foldl index_peer (empty_registry (Some (file_of (listed order s)))) (listed order s)"
  have dist: "distinct (map p_name (listed order s))" using l(1,2) by simp
  have t: "registry_ok t" "rg_objs t = listed order s" "dom (mget (rg_by_name t)) = p_name ` set (listed order s)"
    using load_peers [OF dist l(3)] by (auto simp: t_def)
  have "rg_file (snd (flush_registry order None s)) = Some (file_of (listed order s))"
    by (simp add: flush_registry_def file_of_def listed_def comp_def)
  moreover have "\<forall>p \<in> set (listed order s). time_ok (p_created_at p)" using assms(2) l(5) by (auto simp: times_ok_def)
  moreover have "ByName t k = Some p \<longleftrightarrow> ByName s k = Some p" for k p
    unfolding loaded_lookups [OF t dist] l(4) using registry_ok_indexed [OF assms(1)] by metis
  ultimately show ?thesis
    using open_file_of [of "listed order s"] registry_ext [OF t(1) assms(1)] t(1,2) by (auto simp: t_def times_ok_def)
qed

section \<open>Histories\<close>

text \<open>
  One operation, labelled with the error it returned. A file that fails to be written and a
  process that dies between writing the temporary file and the rename leave the same file.
\<close>

inductive registry_step :: "error option \<Rightarrow> registry \<Rightarrow> registry \<Rightarrow> bool" where
  add: "Add order io now p s = (e, s') \<Longrightarrow> visits order s' \<Longrightarrow> time_ok now \<Longrightarrow> time_ok (p_created_at p)
    \<Longrightarrow> registry_step e s s'"
| rename: "Rename order io old new s = (e, s') \<Longrightarrow> visits order s' \<Longrightarrow> registry_step e s s'"
| settings: "UpdateSettings order io name ps s = (e, s') \<Longrightarrow> visits order s' \<Longrightarrow> registry_step e s s'"

inductive registry_history :: "registry \<Rightarrow> bool" where
  fresh: "open_registry None None None = Inr s \<Longrightarrow> registry_history s"
| step: "registry_history s \<Longrightarrow> registry_step e s s' \<Longrightarrow> registry_history s'"
| restart: "registry_history s \<Longrightarrow> open_registry None None (rg_file s) = Inr s' \<Longrightarrow> registry_history s'"

definition registry_inv :: "registry \<Rightarrow> bool" where
  "registry_inv s \<longleftrightarrow> registry_ok s \<and> times_ok s"

text \<open>What a step leaves: the state and file it found, or a good state with the file written or not.\<close>

lemma flushed:
  assumes "flush_registry order io r = (e, s')" "registry_inv r" "visits order s'" "rg_file r = f"
  shows "registry_inv s' \<and> (if e = None
    then \<exists>order r. s' = snd (flush_registry order None r) \<and> visits order r \<and> registry_inv r
    else rg_file s' = f)"
proof (cases io)
  case None
  then have "e = None" "s' = snd (flush_registry order None r)" using assms(1) by (auto simp: flush_registry_def)
  moreover have "visits order r" "registry_inv s'"
    using assms None by (auto simp: flush_registry_def visits_def registry_inv_def times_ok_def)
  ultimately show ?thesis using assms(2) by auto
next
  case (Some x)
  then show ?thesis using assms by (auto simp: flush_registry_def)
qed

lemma times_ok_update: "times_ok s \<Longrightarrow> time_ok (p_created_at p) \<Longrightarrow> times_ok (s\<lparr>rg_objs := (rg_objs s)[a := p]\<rparr>)"
  using set_update_subset_insert [of "rg_objs s" a p] by (auto simp: times_ok_def)

lemma registry_step_inv:
  assumes "registry_step e s s'" "registry_inv s"
  shows "registry_inv s' \<and> (if e = None
    then \<exists>order r. s' = snd (flush_registry order None r) \<and> visits order r \<and> registry_inv r
    else rg_file s' = rg_file s)"
  using assms
proof cases
  case (add order io now p)
  show ?thesis
  proof (cases "mget (rg_by_name s) (p_name p) = None \<and> mget (rg_by_did s) (p_did p) = None")
    case True
    let ?p = "if p_created_at p = 0 then p\<lparr>p_created_at := now\<rparr> else p"
    have "registry_ok (index_peer s ?p)" using assms(2) True by (intro registry_ok_index) (auto simp: registry_inv_def)
    moreover have "times_ok (index_peer s ?p)"
      using assms(2) add(3,4) by (auto simp: registry_inv_def times_ok_def index_peer_def Let_def)
    ultimately have "registry_inv (index_peer s ?p)" by (simp add: registry_inv_def)
    moreover have "flush_registry order io (index_peer s ?p) = (e, s')" using add(1) True by (simp add: Add_def)
    ultimately show ?thesis using add(2) by (intro flushed [of order io "index_peer s ?p"]) (simp_all add: index_peer_def Let_def)
  next
    case False
    then have "s' = s" "e \<noteq> None" using add(1) by (auto simp: Add_def split: if_splits)
    then show ?thesis using assms(2) by (cases e) simp_all
  qed
next
  case (rename order io old new)
  from rename(1) show ?thesis
  proof (cases rule: Rename_cases)
    case refused
    then show ?thesis using assms(2) by (cases e) simp_all
  next
    case (moved a)
    have "a < length (rg_objs s)" using registry_okD(3) [OF _ moved(1)] assms(2) by (simp add: registry_inv_def)
    then have "time_ok (p_created_at ((rg_objs s ! a)\<lparr>p_name := new\<rparr>))"
      using assms(2) by (simp add: registry_inv_def times_ok_def)
    then have "times_ok (s\<lparr>rg_objs := (rg_objs s)[a := (rg_objs s ! a)\<lparr>p_name := new\<rparr>]\<rparr>)"
      using assms(2) by (intro times_ok_update) (simp_all add: registry_inv_def)
    then have "times_ok (renamed old new a s)" by (simp add: renamed_def times_ok_def)
    then have "registry_inv (renamed old new a s)"
      using registry_ok_renamed moved(1,2) assms(2) by (simp add: registry_inv_def)
    then show ?thesis using moved(3) rename(2) by (intro flushed [of order io "renamed old new a s"]) (simp_all add: renamed_def)
  qed
next
  case (settings order io name ps)
  show ?thesis
  proof (cases "mget (rg_by_name s) name")
    case None
    then have "s' = s" "e \<noteq> None" using settings(1) by (auto simp: UpdateSettings_def)
    then show ?thesis using assms(2) by (cases e) simp_all
  next
    case (Some a)
    let ?s = "s\<lparr>rg_objs := (rg_objs s)[a := (rg_objs s ! a)\<lparr>p_settings := ps\<rparr>]\<rparr>"
    note a = registry_okD(3) [OF _ Some]
    have s: "registry_ok s" "times_ok s" using assms(2) by (simp_all add: registry_inv_def)
    then have "registry_ok ?s" using registry_ok_change [OF s(1) Some] a by simp
    moreover have "times_ok ?s" using s a by (intro times_ok_update) (simp_all add: times_ok_def)
    ultimately have "registry_inv ?s" by (simp add: registry_inv_def)
    moreover have "flush_registry order io ?s = (e, s')" using settings(1) Some by (simp add: UpdateSettings_def)
    ultimately show ?thesis using settings(2) by (intro flushed [of order io ?s]) simp_all
  qed
qed

text \<open>The file of a registry that has been running: absent, or one that opens to a good registry.\<close>

definition file_good :: "registry \<Rightarrow> bool" where
  "file_good s \<longleftrightarrow> (\<exists>t. open_registry None None (rg_file s) = Inr t \<and> registry_inv t \<and> rg_file t = rg_file s)"

lemma index_peer_file: "rg_file (foldl index_peer s ps) = rg_file s"
  by (induction ps arbitrary: s) (auto simp: index_peer_def Let_def)

lemma open_registry_file: "open_registry io_dir io_read f = Inr t \<Longrightarrow> rg_file t = f"
  by (auto simp: open_registry_def index_peer_file split: option.splits sum.splits) (auto simp: empty_registry_def)

lemma registry_history_inv: "registry_history s \<Longrightarrow> registry_inv s \<and> file_good s"
proof (induction rule: registry_history.induct)
  case (fresh s)
  then have "s = empty_registry None" by (simp add: open_registry_def)
  then show ?case
    using registry_ok_empty [of None]
    by (auto simp: registry_inv_def file_good_def open_registry_def times_ok_def empty_registry_def)
next
  case (step s e s')
  note s' = registry_step_inv [OF step.hyps(2) conjunct1 [OF step.IH]]
  show ?case
  proof (cases e)
    case None
    then obtain order r where "s' = snd (flush_registry order None r)" "visits order r" "registry_inv r"
      using s' by auto
    then have "file_good s'"
      using flush_reopens [of r order] open_registry_file by (fastforce simp: registry_inv_def file_good_def)
    then show ?thesis using s' by simp
  next
    case (Some x)
    then show ?thesis using s' step.IH by (simp add: file_good_def)
  qed
next
  case (restart s s')
  then obtain t where "open_registry None None (rg_file s) = Inr t" "registry_inv t" "rg_file t = rg_file s"
    by (auto simp: file_good_def)
  then show ?case using restart by (auto simp: file_good_def)
qed

text \<open>C19: In every state the program can reach, through any operations, failed writes and restarts, the two
  maps of the registry agree: a peer is found under a name exactly when that is its name and it is
  found under its DID; the list of peers is sorted by name and holds each of them once.\<close>

theorem registry_consistent:
  assumes "registry_history s" and "visits order s"
  shows "(\<forall>n p. ByName s n = Some p \<longleftrightarrow> p_name p = n \<and> ByDID s (p_did p) = Some p)
    \<and> (\<forall>d p. ByDID s d = Some p \<longrightarrow> p_did p = d)
    \<and> sorted (map p_name (list_peers order s)) \<and> distinct (map p_name (list_peers order s))
    \<and> set (list_peers order s) = {p. \<exists>d. ByDID s d = Some p}"
proof -
  have ok: "registry_ok s" using registry_history_inv [OF assms(1)] by (simp add: registry_inv_def)
  note l = listed_facts [OF ok assms(2)]
  have did: "ByDID s d = Some p \<Longrightarrow> p_did p = d" for d p
    using registry_okD(4) [OF ok] by (auto simp: ByDID_def)
  have "list_peers order s = sort_key p_name (listed order s)" by (simp add: list_peers_def sortByName_def listed_def)
  moreover have "mset (map p_name (sort_key p_name (listed order s))) = mset order" using l(1) by (metis mset_map mset_sort)
  then have "distinct (map p_name (sort_key p_name (listed order s)))" using l(2) by (metis mset_eq_imp_distinct_iff)
  moreover have "(\<exists>k. ByName s k = Some p) \<longleftrightarrow> (\<exists>d. ByDID s d = Some p)" for p
    using registry_ok_indexed [OF ok] did by metis
  ultimately show ?thesis using registry_ok_indexed [OF ok] did l(4) by auto
qed


lemma update_other: "m \<noteq> Some a \<Longrightarrow> map_option ((!) (xs[a := y])) m = map_option ((!) xs) m"
  by (cases m) auto

text \<open>C20: A rename moves one peer to the new name and touches nothing else: the peer keeps its DID, key and
  settings, is found under the new name only, also through its DID, and every other lookup is as
  before. It is refused exactly when the old name is unknown or the new one is taken.\<close>

theorem rename_correct:
  assumes "registry_history s" and "Rename order io old new s = (e, s')"
  shows "case ByName s old of
      None \<Rightarrow> s' = s \<and> e \<noteq> None
    | Some p \<Rightarrow>
        if ByName s new \<noteq> None then s' = s \<and> e \<noteq> None
        else ByName s' = (ByName s)(old := None, new \<mapsto> p\<lparr>p_name := new\<rparr>)
          \<and> ByDID s' = (ByDID s)(p_did p \<mapsto> p\<lparr>p_name := new\<rparr>) \<and> e = io"
  using assms(2)
proof (cases rule: Rename_cases)
  case refused
  then show ?thesis by (auto simp: ByName_def split: option.split)
next
  case (moved a)
  have ok: "registry_ok s" using registry_history_inv [OF assms(1)] by (simp add: registry_inv_def)
  note a = registry_okD(3) [OF ok moved(1)]
  have s': "ByName s' = ByName (renamed old new a s)" "ByDID s' = ByDID (renamed old new a s)"
    using moved(3) by (metis flush_registry_frame(4,5) snd_conv)+
  have e: "e = io" using moved(3) by (auto simp: flush_registry_def split: option.splits)
  have diff: "k \<noteq> old \<Longrightarrow> mget (rg_by_name s) k \<noteq> Some a" for k using same_address [OF ok moved(1)] by blast
  have "ByName (renamed old new a s) = (ByName s)(old := None, new \<mapsto> (rg_objs s ! a)\<lparr>p_name := new\<rparr>)"
    using a moved(2) diff registry_okD(2) [OF ok]
    by (auto simp: fun_eq_iff ByName_def renamed_def gomap_simps update_other)
  moreover have "ByDID (renamed old new a s) = (ByDID s)(p_did (rg_objs s ! a) \<mapsto> (rg_objs s ! a)\<lparr>p_name := new\<rparr>)"
  proof
    fix d
    have "d \<noteq> p_did (rg_objs s ! a) \<Longrightarrow> mget (rg_by_did s) d \<noteq> Some a" using registry_okD(4) [OF ok] by blast
    then show "ByDID (renamed old new a s) d = ((ByDID s)(p_did (rg_objs s ! a) \<mapsto> (rg_objs s ! a)\<lparr>p_name := new\<rparr>)) d"
      using a by (simp add: ByDID_def renamed_def update_other)
  qed
  moreover have "ByName s old = Some (rg_objs s ! a)" "ByName s new = None" using moved(1,2) by (simp_all add: ByName_def)
  ultimately show ?thesis using e s' by simp
qed

section \<open>A concrete registry\<close>

definition sample_peer :: peer where
  "sample_peer = \<lparr>p_did = ''did:key:z1'', p_name = ''work'', p_desc = [], p_private = ''k'', p_public = ''q'',
     p_created_at = 5, p_settings = default_settings\<rparr>"

definition one_peer :: registry where
  "one_peer = snd (Add [''work''] None 7 sample_peer (empty_registry None))"

lemma one_peer_step: "registry_step None (empty_registry None) one_peer"
proof (rule registry_step.add)
  show "Add [''work''] None 7 sample_peer (empty_registry None) = (None, one_peer)"
    by (simp add: one_peer_def Add_def empty_registry_def flush_registry_def)
  show "visits [''work''] one_peer"
    by (simp add: one_peer_def Add_def empty_registry_def flush_registry_def visits_def index_peer_def sample_peer_def)
qed (simp_all add: time_ok_def nanos_def sample_peer_def)

lemma empty_history: "registry_history (empty_registry None)"
  by (rule registry_history.fresh) (simp add: open_registry_def)

lemma one_peer_history: "registry_history one_peer"
  by (rule registry_history.step [OF empty_history one_peer_step])

lemma one_peer_name: "ByName one_peer ''work'' = Some sample_peer" "ByName one_peer ''home'' = None" "visits [''work''] one_peer"
  by (simp_all add: one_peer_def Add_def empty_registry_def flush_registry_def index_peer_def ByName_def visits_def)
    (simp_all add: sample_peer_def)

lemma registry_consistent_witness: "ByDID one_peer ''did:key:z1'' = Some sample_peer"
proof -
  have "p_did sample_peer = ''did:key:z1''" by (simp add: sample_peer_def)
  then show ?thesis using registry_consistent [OF one_peer_history one_peer_name(3)] one_peer_name(1) by metis
qed


lemma rename_correct_witness:
  "ByName (snd (Rename [''home''] None ''work'' ''home'' one_peer)) ''home'' = Some (sample_peer\<lparr>p_name := ''home''\<rparr>)"
  using rename_correct [OF one_peer_history prod.collapse [symmetric], of "[''home'']" None "''work''" "''home''"]
  by (simp add: one_peer_name)

end
