(* ===== verification/Auth.thy ===== *)
theory Auth
  imports Coggo_Types Encoding
begin

text \<open>
  internal/auth/tokens.go: the token store, a list in memory and the file tokens.json. Only
  the SHA-256 of a secret is kept. A write of the file replaces it whole or, when it fails
  (the argument \<open>io\<close>), leaves it as it was; the list in memory has changed by then.

  \<open>Verify\<close> starts \<open>touch\<close> in the background; here \<open>touch\<close> is an operation of its own, run at
  any later point. A \<open>null\<close> element in tokens.json, which the program never writes, is read
  as an empty token.
\<close>

section \<open>The file\<close>

definition zero_token :: token where
  "zero_token = \<lparr>t_id = [], t_hash = [], t_peers = [], t_label = [], t_created_at = 0, t_last_used = 0\<rparr>"

definition strings_json :: "string list \<Rightarrow> json" where
  "strings_json xs = (if xs = [] then JNull else JArr (map JStr xs))"

definition set_strings :: "string \<Rightarrow> json \<Rightarrow> (string list \<Rightarrow> 's \<Rightarrow> 's) \<Rightarrow> 's \<Rightarrow> 's result" where
  "set_strings fld j upd s = (case j of
      JNull \<Rightarrow> Inr (upd [] s)
    | JArr js \<Rightarrow> and_then (mapM (\<lambda>x. case x of
          JStr t \<Rightarrow> Inr t | JNull \<Rightarrow> Inr []
        | _ \<Rightarrow> type_error x (''struct field '' @ fld @ '' of type string'')) js) (\<lambda>v. Inr (upd v s))
    | _ \<Rightarrow> type_error j (''struct field '' @ fld @ '' of type []string''))"

definition token_json :: "token \<Rightarrow> json" where
  "token_json t = JObj
     ([(''id'', JStr (t_id t)), (''secret_hash'', JStr (t_hash t)), (''peers'', strings_json (t_peers t))]
      @ member_opt ''label'' (nonempty_str (t_label t))
      @ [(''created_at'', enc_time (t_created_at t))]
      @ member_opt ''last_used_at'' (if t_last_used t = 0 then None else Some (enc_time (t_last_used t))))"

definition assign_token :: "string \<Rightarrow> json \<Rightarrow> token \<Rightarrow> token result" where
  "assign_token k v t =
     (if k = ''id'' then set_string ''Token.id'' v (\<lambda>x. t_id_update (\<lambda>_. x)) t
      else if k = ''secret_hash'' then set_string ''Token.secret_hash'' v (\<lambda>x. t_hash_update (\<lambda>_. x)) t
      else if k = ''peers'' then set_strings ''Token.peers'' v (\<lambda>x. t_peers_update (\<lambda>_. x)) t
      else if k = ''label'' then set_string ''Token.label'' v (\<lambda>x. t_label_update (\<lambda>_. x)) t
      else if k = ''created_at'' then set_time ''Token.created_at'' v (\<lambda>x. t_created_at_update (\<lambda>_. x)) t
      else if k = ''last_used_at'' then set_time ''Token.last_used_at'' v (\<lambda>x. t_last_used_update (\<lambda>_. x)) t
      else Inr t)"

definition decode_token :: "json \<Rightarrow> token result" where
  "decode_token j = decode_struct ''types.Token'' assign_token j zero_token"

definition tokens_json :: "token list \<Rightarrow> json" where
  "tokens_json ts = (if ts = [] then JNull else JArr (map token_json ts))"

definition decode_tokens :: "json \<Rightarrow> token list result" where
  "decode_tokens j = (case j of
      JNull \<Rightarrow> Inr []
    | JArr js \<Rightarrow> mapM decode_token js
    | _ \<Rightarrow> type_error j ''value of type []*types.Token'')"

section \<open>Operations\<close>

record auth =
  au_tokens :: "token list"
  au_file :: "raw option"

definition open_auth :: "error option \<Rightarrow> error option \<Rightarrow> raw option \<Rightarrow> auth result" where
  "open_auth io_dir io_read file = (case io_dir of
      Some e \<Rightarrow> Inl (Wrap ''auth'' e)
    | None \<Rightarrow> (case file of
          None \<Rightarrow> Inr \<lparr>au_tokens = [], au_file = None\<rparr>
        | Some r \<Rightarrow> (case io_read of
              Some e \<Rightarrow> Inl (Wrap ''auth'' e)
            | None \<Rightarrow>
                if r = Empty then Inr \<lparr>au_tokens = [], au_file = file\<rparr>
                else (case and_then (raw_doc r) decode_tokens of
                    Inl e \<Rightarrow> Inl (Wrap ''auth: tokens.json'' e)
                  | Inr ts \<Rightarrow> Inr \<lparr>au_tokens = ts, au_file = file\<rparr>))))"

definition flush_auth :: "error option \<Rightarrow> auth \<Rightarrow> error option \<times> auth" where
  "flush_auth io s = (case io of
      Some e \<Rightarrow> (Some e, s)
    | None \<Rightarrow> (None, s\<lparr>au_file := Some (Doc (tokens_json (au_tokens s)))\<rparr>))"

definition hashSecret :: "string \<Rightarrow> string" where
  "hashSecret secret = ''sha256:'' @ hex_encode (sha256 secret)"

definition tokenCoversPeer :: "token \<Rightarrow> string \<Rightarrow> bool" where
  "tokenCoversPeer t name \<longleftrightarrow> list_ex (\<lambda>p. p = ''*'' \<or> p = name) (t_peers t)"

text \<open>\<open>entropy\<close> is what the random source delivers, or its error; \<open>ulid\<close> the fresh identifier.\<close>

definition Issue :: "error + string \<Rightarrow> error option \<Rightarrow> string \<Rightarrow> time \<Rightarrow> string list \<Rightarrow> string \<Rightarrow> auth
    \<Rightarrow> (string \<times> string) result \<times> auth" where
  "Issue entropy io ulid now peers label s =
     (if peers = [] then (Inl (Errorf ''auth: at least one peer required''), s)
      else (case entropy of
          Inl e \<Rightarrow> (Inl (Wrap ''auth'' e), s)
        | Inr bytes \<Rightarrow>
            (let secret = base64RawURLEncode bytes;
                 i = ''tok_'' @ ulid;
                 t = \<lparr>t_id = i, t_hash = hashSecret secret, t_peers = peers, t_label = label,
                      t_created_at = now, t_last_used = 0\<rparr>
             in case flush_auth io (s\<lparr>au_tokens := au_tokens s @ [t]\<rparr>) of
                  (Some e, s') \<Rightarrow> (Inl (Wrap ''auth'' e), s')
                | (None, s') \<Rightarrow> (Inr (i, secret), s'))))"

definition Verify :: "auth \<Rightarrow> string \<Rightarrow> string \<Rightarrow> token result" where
  "Verify s secret name = (case find (\<lambda>t. t_hash t = hashSecret secret) (au_tokens s) of
      None \<Rightarrow> Inl (Errorf ''auth: unauthorized: unknown token'')
    | Some t \<Rightarrow>
        if tokenCoversPeer t name then Inr t
        else Inl (Errorf (''auth: unauthorized: token not valid for peer '' @ name)))"

definition list_tokens :: "auth \<Rightarrow> token list" where
  "list_tokens s = au_tokens s"

fun remove_token :: "string \<Rightarrow> token list \<Rightarrow> token list option" where
  "remove_token i [] = None"
| "remove_token i (t # ts) = (if t_id t = i then Some ts else map_option (Cons t) (remove_token i ts))"

definition Revoke :: "error option \<Rightarrow> string \<Rightarrow> auth \<Rightarrow> error option \<times> auth" where
  "Revoke io i s = (case remove_token i (au_tokens s) of
      None \<Rightarrow> (Some (Errorf (''auth: no token with id '' @ quote_go i)), s)
    | Some ts \<Rightarrow> flush_auth io (s\<lparr>au_tokens := ts\<rparr>))"

fun touch_token :: "time \<Rightarrow> string \<Rightarrow> token list \<Rightarrow> token list option" where
  "touch_token now i [] = None"
| "touch_token now i (t # ts) =
     (if t_id t = i then Some (t\<lparr>t_last_used := now\<rparr> # ts) else map_option (Cons t) (touch_token now i ts))"

definition touch :: "error option \<Rightarrow> time \<Rightarrow> string \<Rightarrow> auth \<Rightarrow> auth" where
  "touch io now i s = (case touch_token now i (au_tokens s) of
      None \<Rightarrow> s
    | Some ts \<Rightarrow> snd (flush_auth io (s\<lparr>au_tokens := ts\<rparr>)))"

section \<open>Persistence\<close>

definition token_ok :: "token \<Rightarrow> bool" where
  "token_ok t \<longleftrightarrow> time_ok (t_created_at t) \<and> time_ok (t_last_used t)"

lemma token_keys [simp]:
  "fold_name ''secret_hash'' = ''secret_hash''" "fold_name ''peers'' = ''peers''" "fold_name ''label'' = ''label''"
  "fold_name ''last_used_at'' = ''last_used_at''"
  by (rule fold_name_plain, simp add: plain_key_def byte_of_def)+

lemma assign_token_keys:
  "assign_token ''id'' v t = set_string ''Token.id'' v (\<lambda>x. t_id_update (\<lambda>_. x)) t"
  "assign_token ''secret_hash'' v t = set_string ''Token.secret_hash'' v (\<lambda>x. t_hash_update (\<lambda>_. x)) t"
  "assign_token ''peers'' v t = set_strings ''Token.peers'' v (\<lambda>x. t_peers_update (\<lambda>_. x)) t"
  "assign_token ''label'' v t = set_string ''Token.label'' v (\<lambda>x. t_label_update (\<lambda>_. x)) t"
  "assign_token ''created_at'' v t = set_time ''Token.created_at'' v (\<lambda>x. t_created_at_update (\<lambda>_. x)) t"
  "assign_token ''last_used_at'' v t = set_time ''Token.last_used_at'' v (\<lambda>x. t_last_used_update (\<lambda>_. x)) t"
  by (simp_all add: assign_token_def)

lemma set_strings_json [simp]: "set_strings fld (strings_json xs) upd s = Inr (upd xs s)"
proof -
  have "mapM (\<lambda>x. case x of JStr t \<Rightarrow> Inr t | JNull \<Rightarrow> Inr []
      | _ \<Rightarrow> type_error x (''struct field '' @ fld @ '' of type string'')) (map JStr xs) = Inr xs"
    by (induction xs) auto
  then show ?thesis by (simp add: set_strings_def strings_json_def)
qed

lemma decode_token_json: "token_ok t \<Longrightarrow> decode_token (token_json t) = Inr t"
  by (cases t) (auto simp: decode_token_def struct_simps token_json_def assign_token_keys zero_token_def
      nonempty_str_def member_opt_def token_ok_def)

interpretation token_codec: codec token_json decode_token token_ok
  by unfold_locales (rule decode_token_json)

definition auth_ok :: "auth \<Rightarrow> bool" where
  "auth_ok s \<longleftrightarrow> (\<forall>t \<in> set (au_tokens s). token_ok t)"

lemma decode_tokens_json: "\<forall>t \<in> set ts. token_ok t \<Longrightarrow> decode_tokens (tokens_json ts) = Inr ts"
  using token_codec.dec_enc_list by (auto simp: decode_tokens_def tokens_json_def)

lemma flush_reopened:
  assumes "flush_auth None s = (e, s')" and "auth_ok s"
  shows "e = None \<and> open_auth None None (au_file s') = Inr s' \<and> au_tokens s' = au_tokens s"
  using assms decode_tokens_json [of "au_tokens s"]
  by (auto simp: flush_auth_def open_auth_def raw_doc_def auth_ok_def)

text \<open>Tokens survive a restart: once a change has been written to tokens.json, opening the store from
  that file gives exactly the tokens in memory.\<close>

theorem reopen_after_flush:
  assumes "flush_auth None s = (e, s')" and "auth_ok s"
  shows "e = None \<and> open_auth None None (au_file s') = Inr s' \<and> au_tokens s' = au_tokens s"
  by (rule flush_reopened [OF assms])

section \<open>What a token authorizes\<close>

lemma Verify_Inr_iff:
  "Verify s secret name = Inr t \<longleftrightarrow>
     find (\<lambda>t. t_hash t = hashSecret secret) (au_tokens s) = Some t \<and> tokenCoversPeer t name"
  by (auto simp: Verify_def split: option.splits if_splits)

lemma flush_tokens [simp]: "au_tokens (snd (flush_auth io s)) = au_tokens s"
  by (simp add: flush_auth_def split: option.split)

lemma issue_authorizes:
  assumes "Issue (Inr bytes) io ulid now peers label s = (Inr (i, secret), s')"
    and "\<forall>t \<in> set (au_tokens s). t_hash t \<noteq> hashSecret secret"
  shows "((\<exists>t. Verify s' secret name = Inr t) \<longleftrightarrow> name \<in> set peers \<or> ''*'' \<in> set peers)
    \<and> (hashSecret other \<noteq> hashSecret secret \<longrightarrow> Verify s' other name = Verify s other name)"
proof -
  have secret: "secret = base64RawURLEncode bytes" and peers: "peers \<noteq> []"
    using assms(1) by (auto simp: Issue_def Let_def split: if_splits prod.splits option.splits)
  have new: "au_tokens s' = au_tokens s @ [\<lparr>t_id = i, t_hash = hashSecret secret, t_peers = peers, t_label = label,
      t_created_at = now, t_last_used = 0\<rparr>]"
    using assms(1) by (auto simp: Issue_def Let_def flush_auth_def split: if_splits prod.splits option.splits)
  have old: "find (\<lambda>t. t_hash t = hashSecret secret) (au_tokens s) = None"
    using assms(2) by (auto simp: find_None_iff)
  have find_end: "find P (xs @ [x]) = (case find P xs of None \<Rightarrow> if P x then Some x else None | Some y \<Rightarrow> Some y)"
    for P and xs :: "token list" and x
    by (induction xs) auto
  have "(\<exists>t. Verify s' secret name = Inr t) \<longleftrightarrow> name \<in> set peers \<or> ''*'' \<in> set peers"
    using old by (auto simp: Verify_Inr_iff new find_end tokenCoversPeer_def list_ex_iff)
  moreover have "hashSecret other \<noteq> hashSecret secret \<Longrightarrow> Verify s' other name = Verify s other name"
    by (auto simp: Verify_def new find_end split: option.split)
  ultimately show ?thesis by blast
qed

text \<open>A secret authorizes what it was issued for and nothing else: after a successful \<open>Issue\<close> the
  returned secret verifies for a peer exactly when the token was issued for that peer or for \<open>*\<close>, and
  every other secret verifies exactly as before, provided the new secret's hash is not in use.\<close>

theorem issued_token_authorizes:
  assumes "Issue (Inr bytes) io ulid now peers label s = (Inr (i, secret), s')"
    and "\<forall>t \<in> set (au_tokens s). t_hash t \<noteq> hashSecret secret"
  shows "((\<exists>t. Verify s' secret name = Inr t) \<longleftrightarrow> name \<in> set peers \<or> ''*'' \<in> set peers)
    \<and> (hashSecret other \<noteq> hashSecret secret \<longrightarrow> Verify s' other name = Verify s other name)"
  by (rule issue_authorizes [OF assms])

lemma remove_token_split:
  "remove_token i ts = Some ts' \<Longrightarrow> \<exists>a t b. ts = a @ t # b \<and> t_id t = i \<and> ts' = a @ b \<and> (\<forall>x \<in> set a. t_id x \<noteq> i)"
proof (induction ts arbitrary: ts')
  case (Cons t ts)
  show ?case
  proof (cases "t_id t = i")
    case True
    then show ?thesis using Cons.prems by (intro exI [of _ "[]"]) auto
  next
    case False
    then obtain us where us: "remove_token i ts = Some us" "ts' = t # us" using Cons.prems by auto
    then obtain a u b where "ts = a @ u # b" "t_id u = i" "us = a @ b" "\<forall>x \<in> set a. t_id x \<noteq> i"
      using Cons.IH by blast
    then show ?thesis using us False by (intro exI [of _ "t # a"]) auto
  qed
qed simp

lemma remove_token_None: "remove_token i ts = None \<longleftrightarrow> i \<notin> t_id ` set ts"
  by (induction ts) auto

lemma find_unique_hash:
  assumes "distinct (map t_hash ts)"
  shows "find (\<lambda>t. t_hash t = h) ts = Some t \<longleftrightarrow> t \<in> set ts \<and> t_hash t = h"
  using assms
proof (induction ts)
  case (Cons u ts)
  then show ?case by (cases "t_hash u = h") (auto simp: image_iff)
qed simp

definition tokens_distinct :: "auth \<Rightarrow> bool" where
  "tokens_distinct s \<longleftrightarrow> distinct (map t_id (au_tokens s)) \<and> distinct (map t_hash (au_tokens s))"

lemma Verify_distinct:
  "tokens_distinct s \<Longrightarrow> Verify s secret name = Inr t
     \<longleftrightarrow> t \<in> set (au_tokens s) \<and> t_hash t = hashSecret secret \<and> tokenCoversPeer t name"
  by (auto simp: Verify_Inr_iff tokens_distinct_def find_unique_hash)

text \<open>C29: Revocation takes effect at once and hits nothing else: after \<open>Revoke\<close>, even when it reports that
  writing the file failed, a secret is accepted for a peer exactly when it was accepted before with
  another token than the revoked one, for a store whose identifiers and hashes are distinct.\<close>

theorem revoke_exactly:
  assumes "Revoke io i s = (e, s')" and "tokens_distinct s"
  shows "(Verify s' secret name = Inr t \<longleftrightarrow> Verify s secret name = Inr t \<and> t_id t \<noteq> i) \<and> tokens_distinct s'"
proof -
  have "set (au_tokens s') = {t \<in> set (au_tokens s). t_id t \<noteq> i} \<and> tokens_distinct s'"
  proof (cases "remove_token i (au_tokens s)")
    case None
    then have "i \<notin> t_id ` set (au_tokens s)" by (simp add: remove_token_None)
    moreover have "s' = s" using assms(1) None by (simp add: Revoke_def)
    ultimately show ?thesis using assms(2) by auto
  next
    case (Some ts)
    obtain a u b where split: "au_tokens s = a @ u # b" "t_id u = i" "ts = a @ b" "\<forall>x \<in> set a. t_id x \<noteq> i"
      using remove_token_split [OF Some] by blast
    have ts: "au_tokens s' = ts"
      using assms(1) Some flush_tokens [of io "s\<lparr>au_tokens := ts\<rparr>"] by (simp add: Revoke_def)
    have "i \<notin> t_id ` set b" using assms(2) split by (auto simp: tokens_distinct_def)
    then have "\<forall>x \<in> set b. t_id x \<noteq> i" by auto
    then show ?thesis using assms(2) split by (auto simp: ts tokens_distinct_def)
  qed
  then show ?thesis
    using assms(2) by (auto simp: Verify_distinct)
qed

text \<open>A failed write of tokens.json does not undo a change in memory: an \<open>Issue\<close> that returns an error
  because the file could not be written leaves the token active until the process ends, and a \<open>Revoke\<close>
  that does leaves the token in the file, from which the next start restores it.\<close>

theorem failed_flush_diverges:
  assumes "auth_ok s" and "au_file s = Some (Doc (tokens_json (au_tokens s)))"
    and "\<forall>t \<in> set (au_tokens s). t_hash t \<noteq> hashSecret (base64RawURLEncode bytes)"
  shows "(\<forall>s'. Issue (Inr bytes) (Some e) ulid now (p # ps) label s = (Inl (Wrap ''auth'' e), s')
        \<longrightarrow> (\<exists>t. Verify s' (base64RawURLEncode bytes) p = Inr t))
    \<and> (\<forall>s'. Revoke (Some e) i s = (Some e, s') \<longrightarrow> open_auth None None (au_file s') = Inr s)"
proof (intro conjI allI impI)
  fix s'
  assume issue: "Issue (Inr bytes) (Some e) ulid now (p # ps) label s = (Inl (Wrap ''auth'' e), s')"
  note fresh = assms(3)
  define t where "t = \<lparr>t_id = ''tok_'' @ ulid, t_hash = hashSecret (base64RawURLEncode bytes), t_peers = p # ps,
      t_label = label, t_created_at = now, t_last_used = 0\<rparr>"
  have s': "au_tokens s' = au_tokens s @ [t]"
    using issue by (auto simp: Issue_def Let_def flush_auth_def t_def)
  have "find P (xs @ [t]) = (case find P xs of None \<Rightarrow> if P t then Some t else None | Some y \<Rightarrow> Some y)"
    for P and xs :: "token list"
    by (induction xs) auto
  moreover have "find (\<lambda>t. t_hash t = hashSecret (base64RawURLEncode bytes)) (au_tokens s) = None"
    using fresh by (auto simp: find_None_iff)
  ultimately have "Verify s' (base64RawURLEncode bytes) p = Inr t"
    by (simp add: Verify_Inr_iff s') (simp add: t_def tokenCoversPeer_def)
  then show "\<exists>t. Verify s' (base64RawURLEncode bytes) p = Inr t" by blast
next
  fix s' assume rev: "Revoke (Some e) i s = (Some e, s')"
  note ok = assms(1) and on_disk = assms(2)
  have "au_file s' = au_file s"
    using rev by (auto simp: Revoke_def flush_auth_def split: option.splits)
  then show "open_auth None None (au_file s') = Inr s"
    using decode_tokens_json [of "au_tokens s"] ok on_disk
    by (cases s) (simp add: open_auth_def raw_doc_def auth_ok_def)
qed

section \<open>The authority interface\<close>

text \<open>What the MCP server relies on: a token is returned only for a secret that hashes to it and a peer
  that it covers.\<close>

locale authority =
  fixes verify :: "string \<Rightarrow> string \<Rightarrow> token result"
    and known :: "token \<Rightarrow> bool"
    and opens :: "string \<Rightarrow> token \<Rightarrow> bool"
  assumes verify_known: "verify secret name = Inr t \<Longrightarrow> known t"
    and verify_opens: "verify secret name = Inr t \<Longrightarrow> opens secret t"
    and verify_covers: "verify secret name = Inr t \<Longrightarrow> tokenCoversPeer t name"
begin

lemma refused: "\<not> (\<exists>t. known t \<and> opens secret t \<and> tokenCoversPeer t name) \<Longrightarrow> \<exists>e. verify secret name = Inl e"
  by (metis verify_known verify_opens verify_covers sum.exhaust)

end

interpretation token_store: authority "Verify s" "\<lambda>t. t \<in> set (au_tokens s)" "\<lambda>secret t. t_hash t = hashSecret secret"
  for s
proof
  fix secret name t assume v: "Verify s secret name = Inr t"
  then have "find (\<lambda>t. t_hash t = hashSecret secret) (au_tokens s) = Some t" by (simp add: Verify_Inr_iff)
  then have "t \<in> set (au_tokens s) \<and> t_hash t = hashSecret secret"
    by (metis (mono_tags, lifting) find_Some_iff nth_mem)
  then show "t \<in> set (au_tokens s)" "t_hash t = hashSecret secret" by simp_all
  show "tokenCoversPeer t name" using v by (simp add: Verify_Inr_iff)
qed

section \<open>A concrete store\<close>

definition sample_token :: token where
  "sample_token = \<lparr>t_id = ''tok_1'', t_hash = hashSecret ''s1'', t_peers = [''work''], t_label = ''laptop'',
     t_created_at = 5, t_last_used = 0\<rparr>"

definition sample_auth :: auth where
  "sample_auth = \<lparr>au_tokens = [sample_token], au_file = Some (Doc (tokens_json [sample_token]))\<rparr>"

definition empty_auth :: auth where
  "empty_auth = \<lparr>au_tokens = [], au_file = None\<rparr>"

lemma sample_auth_ok: "auth_ok sample_auth" "tokens_distinct sample_auth"
  by (simp_all add: auth_ok_def token_ok_def time_ok_def nanos_def tokens_distinct_def sample_auth_def)
    (simp add: sample_token_def)

lemma reopen_after_flush_witness:
  "open_auth None None (au_file (snd (flush_auth None sample_auth))) = Inr sample_auth"
  using reopen_after_flush [OF prod.collapse [symmetric] sample_auth_ok(1)]
  by (simp add: sample_auth_def flush_auth_def)

lemma issued_token_authorizes_witness:
  "\<exists>i secret s'. Issue (Inr ''0123456789abcdef'') None ''A'' 5 [''work''] ''laptop'' empty_auth = (Inr (i, secret), s')
     \<and> (\<exists>t. Verify s' secret ''work'' = Inr t) \<and> \<not> (\<exists>t. Verify s' secret ''home'' = Inr t)"
proof -
  obtain i secret s' where run: "Issue (Inr ''0123456789abcdef'') None ''A'' 5 [''work''] ''laptop'' empty_auth = (Inr (i, secret), s')"
    by (simp add: Issue_def Let_def flush_auth_def)
  have fresh: "\<forall>t \<in> set (au_tokens empty_auth). t_hash t \<noteq> hashSecret secret" by (simp add: empty_auth_def)
  show ?thesis
    using run issued_token_authorizes [OF run fresh, of "''work''"] issued_token_authorizes [OF run fresh, of "''home''"]
    by auto
qed

lemma revoke_exactly_witness:
  "\<not> (\<exists>t. Verify (snd (Revoke None ''tok_1'' sample_auth)) ''s1'' ''work'' = Inr t \<and> t_id t = ''tok_1'')"
  using revoke_exactly [OF prod.collapse [symmetric] sample_auth_ok(2)] by blast

definition other_auth :: auth where
  "other_auth = \<lparr>au_tokens = [sample_token\<lparr>t_hash := ''x''\<rparr>],
     au_file = Some (Doc (tokens_json [sample_token\<lparr>t_hash := ''x''\<rparr>]))\<rparr>"

lemma failed_flush_diverges_witness:
  "\<exists>s'. Revoke (Some (Errorf ''disk full'')) ''tok_1'' other_auth = (Some (Errorf ''disk full''), s')
     \<and> au_tokens s' = [] \<and> open_auth None None (au_file s') = Inr other_auth"
proof -
  obtain s' where run: "Revoke (Some (Errorf ''disk full'')) ''tok_1'' other_auth = (Some (Errorf ''disk full''), s')"
      "au_tokens s' = []"
    by (simp add: Revoke_def other_auth_def sample_token_def flush_auth_def)
  have "auth_ok other_auth"
    by (simp add: auth_ok_def token_ok_def other_auth_def) (simp add: sample_token_def time_ok_def nanos_def)
  moreover have "au_file other_auth = Some (Doc (tokens_json (au_tokens other_auth)))" by (simp add: other_auth_def)
  moreover have "\<forall>t \<in> set (au_tokens other_auth). t_hash t \<noteq> hashSecret (base64RawURLEncode [])"
    by (simp add: other_auth_def hashSecret_def)
  ultimately show ?thesis using failed_flush_diverges run by blast
qed

end
