(* ===== verification/Projection.thy ===== *)
theory Projection
  imports Coggo_Types
begin

text \<open>
  internal/mcp/projection.go: the allowlist of fields a client may put on a read. The payload is
  a document; decoding it into \<open>any\<close> makes it canonical. A truncation counts runes, so the
  UTF-8 decoder of Go's \<open>[]rune\<close> conversion is written out.
\<close>

section \<open>Runes\<close>

definition in_range :: "nat \<Rightarrow> nat \<Rightarrow> char \<Rightarrow> bool" where
  "in_range lo hi c \<longleftrightarrow> lo \<le> byte_of c \<and> byte_of c \<le> hi"

text \<open>
  The length of the UTF-8 sequence a text starts with, 0 where there is none: the first byte gives
  the length and the range of the second, the others are continuation bytes.
\<close>

definition lead_len :: "char \<Rightarrow> nat" where
  "lead_len a =
     (if byte_of a < 0x80 then 1
      else if in_range 0xc2 0xdf a then 2
      else if in_range 0xe0 0xef a then 3
      else if in_range 0xf0 0xf4 a then 4
      else 0)"

definition second_ok :: "char \<Rightarrow> char \<Rightarrow> bool" where
  "second_ok a b =
     (if byte_of a = 0xe0 then in_range 0xa0 0xbf b
      else if byte_of a = 0xed then in_range 0x80 0x9f b
      else if byte_of a = 0xf0 then in_range 0x90 0xbf b
      else if byte_of a = 0xf4 then in_range 0x80 0x8f b
      else in_range 0x80 0xbf b)"

fun tail_ok :: "string \<Rightarrow> bool" where
  "tail_ok [] = False"
| "tail_ok [a] = True"
| "tail_ok (a # b # r) = (second_ok a b \<and> list_all (in_range 0x80 0xbf) r)"

definition utf8_len :: "string \<Rightarrow> nat" where
  "utf8_len s = (case s of
      [] \<Rightarrow> 0
    | a # r \<Rightarrow> if lead_len a \<le> length s \<and> tail_ok (take (lead_len a) s) then lead_len a else 0)"

definition replacement_rune :: string where
  "replacement_rune = map char_of [0xef, 0xbf, 0xbd :: nat]"

definition ellipsis :: string where
  "ellipsis = map char_of [0xe2, 0x80, 0xa6 :: nat]"

text \<open>The runes of a text, each as its UTF-8 bytes; a byte that starts no sequence is U+FFFD.\<close>

function runes :: "string \<Rightarrow> string list" where
  "runes s = (if s = [] then []
     else if utf8_len s = 0 then replacement_rune # runes (tl s)
     else take (utf8_len s) s # runes (drop (utf8_len s) s))"
  by pat_completeness auto
termination by (relation "measure length") (auto simp: neq_Nil_conv)

declare runes.simps [simp del]

section \<open>Selections\<close>

text \<open>\<open>strconv.Atoi\<close>: an optional sign and decimal digits, in the range of a 64-bit \<open>int\<close>.\<close>

definition parse_digits :: "string \<Rightarrow> int option" where
  "parse_digits s = (if s \<noteq> [] \<and> list_all is_digit s
     then Some (foldl (\<lambda>a c. a * 10 + int (digit_val c)) 0 s) else None)"

definition Atoi :: "string \<Rightarrow> int option" where
  "Atoi s =
     (let v = (case s of
          c # r \<Rightarrow> if c = CHR ''-'' then map_option uminus (parse_digits r)
                    else if c = CHR ''+'' then parse_digits r else parse_digits s
        | [] \<Rightarrow> None)
      in case v of Some n \<Rightarrow> if int64_ok n then Some n else None | None \<Rightarrow> None)"

record selection =
  sl_keep :: "bool gomap"
  sl_truncate :: "int gomap"

definition add_selection :: "selection \<Rightarrow> string \<Rightarrow> selection" where
  "add_selection s f0 =
     (let f = trim_space f0; before = takeWhile (\<lambda>c. c \<noteq> CHR '':'') f; i = length before
      in if f = [] then s
         else if 0 < i \<and> i < length f
         then (let s' = (case Atoi (drop (i + 1) f) of
                    Some n \<Rightarrow> if 0 < n then s\<lparr>sl_truncate := mput before n (sl_truncate s)\<rparr> else s
                  | None \<Rightarrow> s)
               in s'\<lparr>sl_keep := mput before True (sl_keep s')\<rparr>)
         else s\<lparr>sl_keep := mput f True (sl_keep s)\<rparr>)"

definition parseSelections :: "string list \<Rightarrow> selection" where
  "parseSelections fs = foldl add_selection \<lparr>sl_keep = [], sl_truncate = []\<rparr> fs"

definition applyTruncate :: "json \<Rightarrow> string \<Rightarrow> selection \<Rightarrow> json" where
  "applyTruncate v name sel = (case mget (sl_truncate sel) name of
      None \<Rightarrow> v
    | Some n \<Rightarrow> (case v of
          JStr s \<Rightarrow> if int (length (runes s)) \<le> n then JStr s
                     else JStr (concat (take (nat n) (runes s)) @ ellipsis)
        | _ \<Rightarrow> v))"

section \<open>Walking a payload\<close>

definition isEntityLike :: "obj \<Rightarrow> bool" where
  "isEntityLike m = (case mget m ''data'' of Some (JObj d) \<Rightarrow> True | _ \<Rightarrow> False)"

definition isTypeDefLike :: "obj \<Rightarrow> bool" where
  "isTypeDefLike m =
     ((case mget m ''name'' of Some (JStr s) \<Rightarrow> True | _ \<Rightarrow> False)
      \<and> (case mget m ''fields'' of Some (JArr js) \<Rightarrow> True | _ \<Rightarrow> False))"

definition data_of :: "obj \<Rightarrow> obj" where
  "data_of m = (case mget m ''data'' of Some (JObj d) \<Rightarrow> d | _ \<Rightarrow> [])"

definition project_field :: "obj \<Rightarrow> selection \<Rightarrow> obj \<Rightarrow> string \<Rightarrow> obj" where
  "project_field m sel out name =
     (if mget m name \<noteq> None \<and> name \<noteq> ''data''
      then mput name (applyTruncate (the (mget m name)) name sel) out
      else (case mget (data_of m) name of
          Some dv \<Rightarrow> mput ''data'' (JObj (mput name (applyTruncate dv name sel) (data_of out))) out
        | None \<Rightarrow> out))"

definition projectEntity :: "obj \<Rightarrow> selection \<Rightarrow> obj" where
  "projectEntity m sel = foldl (project_field m sel) [] (mkeys (sl_keep sel))"

definition projectFlat :: "obj \<Rightarrow> selection \<Rightarrow> obj" where
  "projectFlat m sel = foldl (\<lambda>out name. case mget m name of
       Some v \<Rightarrow> mput name (applyTruncate v name sel) out
     | None \<Rightarrow> out) [] (mkeys (sl_keep sel))"

fun walk :: "selection \<Rightarrow> json \<Rightarrow> json"
  and walk_list :: "selection \<Rightarrow> json list \<Rightarrow> json list"
  and walk_members :: "selection \<Rightarrow> (string \<times> json) list \<Rightarrow> (string \<times> json) list" where
  "walk sel (JArr js) = JArr (walk_list sel js)"
| "walk sel (JObj m) =
     (if isEntityLike m then JObj (projectEntity m sel)
      else if isTypeDefLike m then JObj (projectFlat m sel)
      else JObj (walk_members sel m))"
| "walk sel JNull = JNull"
| "walk sel (JBool b) = JBool b"
| "walk sel (JNum n) = JNum n"
| "walk sel (JStr s) = JStr s"
| "walk_list sel [] = []"
| "walk_list sel (j # js) = walk sel j # walk_list sel js"
| "walk_members sel [] = []"
| "walk_members sel ((k, v) # kvs) = (k, walk sel v) # walk_members sel kvs"

text \<open>The error result of the code is that of encoding a decoded value, which does not fail.\<close>

definition projectJSON :: "raw \<Rightarrow> string list \<Rightarrow> raw" where
  "projectJSON r fs =
     (if fs = [] \<or> r = Empty then r
      else (let sel = parseSelections fs in
        if sl_keep sel = [] then r
        else (case r of Doc j \<Rightarrow> Doc (walk sel (normalize j)) | _ \<Rightarrow> r)))"

section \<open>What a selection keeps\<close>

lemma mget_mputs_rev: "gomap_ok m \<Longrightarrow> mget (mputs kvs m) = mget m ++ map_of (rev kvs)"
proof (induction kvs arbitrary: m)
  case (Cons kv kvs)
  obtain k v where kv: "kv = (k, v)" by force
  have "mget (mputs (kv # kvs) m) = mget (mput k v m) ++ map_of (rev kvs)" using Cons by (simp add: kv)
  also have "\<dots> = mget m ++ map_of (rev (kv # kvs))"
    using Cons.prems by (simp add: kv gomap_simps map_add_def fun_eq_iff split: option.split)
  finally show ?case .
qed simp

lemma data_of_mput: "gomap_ok m \<Longrightarrow> data_of (mput k v m) = (if k = ''data'' then (case v of JObj d \<Rightarrow> d | _ \<Rightarrow> []) else data_of m)"
  by (auto simp: data_of_def gomap_simps split: json.split)

text \<open>An output under construction: its \<open>data\<close>, when there is one, is a non-empty object.\<close>

definition out_ok :: "obj \<Rightarrow> bool" where
  "out_ok out \<longleftrightarrow> gomap_ok out \<and> gomap_ok (data_of out)
     \<and> mget out ''data'' = (if data_of out = [] then None else Some (JObj (data_of out)))"

lemma mput_not_Nil [simp]: "mput k v m \<noteq> []"
  by (cases "(k, v, m)" rule: mput.cases) auto

lemma project_field_ok: "out_ok out \<Longrightarrow> out_ok (project_field m sel out name)"
  by (auto simp: project_field_def out_ok_def data_of_mput gomap_simps split: option.split)

lemma project_field_top:
  "out_ok out \<Longrightarrow> k \<noteq> ''data'' \<Longrightarrow> mget (project_field m sel out name) k
     = (if k = name \<and> mget m k \<noteq> None then Some (applyTruncate (the (mget m k)) k sel) else mget out k)"
  by (auto simp: project_field_def out_ok_def gomap_simps split: option.split)

lemma project_field_data:
  "out_ok out \<Longrightarrow> mget (data_of (project_field m sel out name)) k
     = (if k = name \<and> (k = ''data'' \<or> mget m k = None) \<and> mget (data_of m) k \<noteq> None
        then Some (applyTruncate (the (mget (data_of m) k)) k sel) else mget (data_of out) k)"
  by (auto simp: project_field_def out_ok_def data_of_mput gomap_simps split: option.split)

lemma project_fields_ok: "out_ok out \<Longrightarrow> out_ok (foldl (project_field m sel) out ks)"
  by (induction ks arbitrary: out) (auto simp: project_field_ok)

lemma project_fields_top:
  "out_ok out \<Longrightarrow> k \<noteq> ''data'' \<Longrightarrow> mget (foldl (project_field m sel) out ks) k
     = (if k \<in> set ks \<and> mget m k \<noteq> None then Some (applyTruncate (the (mget m k)) k sel) else mget out k)"
  by (induction ks arbitrary: out) (auto simp: project_field_ok project_field_top)

lemma project_fields_data:
  "out_ok out \<Longrightarrow> mget (data_of (foldl (project_field m sel) out ks)) k
     = (if k \<in> set ks \<and> (k = ''data'' \<or> mget m k = None) \<and> mget (data_of m) k \<noteq> None
        then Some (applyTruncate (the (mget (data_of m) k)) k sel) else mget (data_of out) k)"
  by (induction ks arbitrary: out) (auto simp: project_field_ok project_field_data)

lemma data_of_Nil [simp]: "data_of [] = []"
  by (simp add: data_of_def)

lemma out_ok_Nil: "out_ok []"
  by (simp add: out_ok_def)

lemma entity_projected:
  assumes "isEntityLike m"
  shows "\<exists>out. walk sel (JObj m) = JObj out
    \<and> (\<forall>k. k \<noteq> ''data'' \<longrightarrow> mget out k =
        (if k \<in> set (mkeys (sl_keep sel)) then map_option (\<lambda>v. applyTruncate v k sel) (mget m k) else None))
    \<and> (\<forall>k. mget (data_of out) k =
        (if k \<in> set (mkeys (sl_keep sel)) \<and> (k = ''data'' \<or> mget m k = None)
         then map_option (\<lambda>v. applyTruncate v k sel) (mget (data_of m) k) else None))
    \<and> (mget out ''data'' = None \<longleftrightarrow> data_of out = [])"
proof -
  have keys: "(if P \<and> x \<noteq> None then Some (f (the x)) else None) = (if P then map_option f x else None)"
    for P x and f :: "json \<Rightarrow> json"
    by (cases x) auto
  have ok: "out_ok (projectEntity m sel)" unfolding projectEntity_def by (rule project_fields_ok [OF out_ok_Nil])
  have top: "mget (projectEntity m sel) k = (if k \<in> set (mkeys (sl_keep sel))
      then map_option (\<lambda>v. applyTruncate v k sel) (mget m k) else None)" if "k \<noteq> ''data''" for k
    unfolding projectEntity_def project_fields_top [OF out_ok_Nil that] map_of.simps(1) by (rule keys)
  have inner: "mget (data_of (projectEntity m sel)) k = (if k \<in> set (mkeys (sl_keep sel)) \<and> (k = ''data'' \<or> mget m k = None)
      then map_option (\<lambda>v. applyTruncate v k sel) (mget (data_of m) k) else None)" for k
    unfolding projectEntity_def project_fields_data [OF out_ok_Nil] data_of_Nil map_of.simps(1) conj_assoc [symmetric]
    by (rule keys)
  have "mget (projectEntity m sel) ''data'' = None \<longleftrightarrow> data_of (projectEntity m sel) = []"
    using ok by (auto simp: out_ok_def)
  moreover have "walk sel (JObj m) = JObj (projectEntity m sel)" using assms by simp
  ultimately show ?thesis
    by (intro exI [of _ "projectEntity m sel"] conjI allI impI) (assumption | rule top inner)+
qed

text \<open>C26: A selection keeps exactly what it names: a projected entity has, beside \<open>data\<close>, the selected
  members it had, and inside \<open>data\<close> the selected members of its data whose name is not also that of
  a top-level member; a selected string may be truncated. Members that are not selected are gone,
  and \<open>data\<close> itself is left out when nothing in it is selected, even when \<open>data\<close> is selected.\<close>

theorem projection_selects:
  assumes "isEntityLike m"
  shows "\<exists>out. walk sel (JObj m) = JObj out
    \<and> (\<forall>k. k \<noteq> ''data'' \<longrightarrow> mget out k =
        (if k \<in> set (mkeys (sl_keep sel)) then map_option (\<lambda>v. applyTruncate v k sel) (mget m k) else None))
    \<and> (\<forall>k. mget (data_of out) k =
        (if k \<in> set (mkeys (sl_keep sel)) \<and> (k = ''data'' \<or> mget m k = None)
         then map_option (\<lambda>v. applyTruncate v k sel) (mget (data_of m) k) else None))
    \<and> (mget out ''data'' = None \<longleftrightarrow> data_of out = [])"
  by (rule entity_projected [OF assms])

section \<open>Truncation\<close>

lemma utf8_len_bounds: "utf8_len s \<le> length s"
  by (simp add: utf8_len_def split: list.split)

lemma utf8_len_take: "0 < utf8_len s \<Longrightarrow> utf8_len (take (utf8_len s) s @ t) = utf8_len s"
  by (cases s) (auto simp: utf8_len_def take_Cons' split: if_splits)

lemma runes_Nil [simp]: "runes [] = []"
  by (simp add: runes.simps)

lemma runes_step: "0 < utf8_len s \<Longrightarrow> runes s = take (utf8_len s) s # runes (drop (utf8_len s) s)"
  by (subst runes.simps) (auto simp: utf8_len_def)

text \<open>The encoding of one rune.\<close>

definition rune_ok :: "string \<Rightarrow> bool" where
  "rune_ok r \<longleftrightarrow> r \<noteq> [] \<and> utf8_len r = length r"

lemma runes_Cons: "rune_ok r \<Longrightarrow> runes (r @ t) = r # runes t"
  using utf8_len_take [of r t] runes_step [of "r @ t"] by (simp add: rune_ok_def)

lemma runes_concat: "\<forall>r \<in> set rs. rune_ok r \<Longrightarrow> runes (concat rs @ t) = rs @ runes t"
  by (induction rs) (simp_all add: runes_Cons)

lemma special_runes_ok: "rune_ok replacement_rune" "rune_ok ellipsis"
  by (simp_all add: rune_ok_def replacement_rune_def ellipsis_def utf8_len_def lead_len_def in_range_def
      second_ok_def byte_of_def)

lemma runes_ok: "\<forall>r \<in> set (runes s). rune_ok r"
proof (induction s rule: runes.induct)
  case (1 s)
  show ?case
  proof (cases "s = [] \<or> utf8_len s = 0")
    case True
    then show ?thesis using 1(1) special_runes_ok(1) by (subst runes.simps) auto
  next
    case False
    then have "rune_ok (take (utf8_len s) s)"
      using utf8_len_take [of s "[]"] utf8_len_bounds [of s] by (simp add: rune_ok_def)
    then show ?thesis using False 1(2) by (subst runes_step) auto
  qed
qed

text \<open>A text is UTF-8 when splitting it into runes loses nothing.\<close>

definition utf8_ok :: "string \<Rightarrow> bool" where
  "utf8_ok s \<longleftrightarrow> concat (runes s) = s"

text \<open>C27: Truncation respects the bound and the encoding: with a limit of \<open>n\<close> a string of at most \<open>n\<close> runes is
  returned unchanged, a longer one becomes its first \<open>n\<close> runes and an ellipsis, which is valid UTF-8 of
  exactly \<open>n + 1\<close> runes whatever the bytes of the original; values that are not strings are unchanged.\<close>

theorem truncation_bounded:
  assumes "mget (sl_truncate sel) name = Some (int n)"
  shows "(length (runes s) \<le> n \<longrightarrow> applyTruncate (JStr s) name sel = JStr s)
    \<and> (n < length (runes s) \<longrightarrow> (\<exists>s'. applyTruncate (JStr s) name sel = JStr s' \<and> utf8_ok s'
         \<and> runes s' = take n (runes s) @ [ellipsis] \<and> length (runes s') = n + 1))
    \<and> ((\<forall>s. v \<noteq> JStr s) \<longrightarrow> applyTruncate v name sel = v)"
proof -
  have "runes (concat (take n (runes s)) @ ellipsis) = take n (runes s) @ [ellipsis]"
    using runes_ok [of s] runes_concat [of "take n (runes s)" ellipsis] runes_Cons [OF special_runes_ok(2), of "[]"]
    by (auto dest: in_set_takeD)
  then show ?thesis using assms by (auto simp: applyTruncate_def utf8_ok_def split: json.split)
qed

section \<open>When nothing is projected\<close>

lemma sl_keep_fold: "sl_keep (foldl add_selection sel fs) = [] \<longleftrightarrow> sl_keep sel = [] \<and> (\<forall>f \<in> set fs. trim_space f = [])"
  by (induction fs arbitrary: sel) (auto simp: add_selection_def Let_def split: option.split)

lemma projection_identity:
  "(\<forall>f \<in> set fs. trim_space f = []) \<or> (\<forall>j. r \<noteq> Doc j) \<Longrightarrow> projectJSON r fs = r"
  using sl_keep_fold [of "\<lparr>sl_keep = [], sl_truncate = []\<rparr>" fs]
  by (cases r) (auto simp: projectJSON_def parseSelections_def Let_def)

text \<open>Selecting every field is the same as selecting none: when the selection names every top-level member
  and every member of a non-empty \<open>data\<close>, truncates none of them, and no member of \<open>data\<close> has the name of
  another top-level member, the projected entity is the entity.\<close>

theorem projection_complete:
  assumes "json_ok (JObj m)" and "isEntityLike m" and "data_of m \<noteq> []"
    and "\<forall>k. mget m k \<noteq> None \<or> mget (data_of m) k \<noteq> None \<longrightarrow>
      (k = ''data'' \<or> k \<in> set (mkeys (sl_keep sel))) \<and> mget (sl_truncate sel) k = None"
    and "\<forall>k. mget m k = None \<or> mget (data_of m) k = None"
  shows "walk sel (JObj m) = JObj m"
proof -
  define out where "out = projectEntity m sel"
  have d: "mget m ''data'' = Some (JObj (data_of m))"
    using assms(2) by (auto simp: isEntityLike_def data_of_def split: option.splits json.splits)
  have "(k, v) \<in> set m \<Longrightarrow> json_ok v" for k v using assms(1) by (auto simp: members_ok_iff)
  then have ok: "gomap_ok m" "gomap_ok (data_of m)" using assms(1) map_of_SomeD [OF d] by fastforce+
  have out_ok: "out_ok out" unfolding out_def projectEntity_def by (rule project_fields_ok [OF out_ok_Nil])
  obtain out' where w: "walk sel (JObj m) = JObj out'" and top: "\<And>k. k \<noteq> ''data'' \<Longrightarrow> mget out' k =
        (if k \<in> set (mkeys (sl_keep sel)) then map_option (\<lambda>v. applyTruncate v k sel) (mget m k) else None)"
    and inner: "\<And>k. mget (data_of out') k =
        (if k \<in> set (mkeys (sl_keep sel)) \<and> (k = ''data'' \<or> mget m k = None)
         then map_option (\<lambda>v. applyTruncate v k sel) (mget (data_of m) k) else None)"
    using entity_projected [OF assms(2), of sel] by blast
  have [simp]: "out' = out" using w assms(2) by (simp add: out_def)
  have keep: "mget m k \<noteq> None \<or> mget (data_of m) k \<noteq> None \<Longrightarrow> applyTruncate v k sel = v" for k v
  proof -
    assume "mget m k \<noteq> None \<or> mget (data_of m) k \<noteq> None"
    then have "mget (sl_truncate sel) k = None" using assms(4) by blast
    then show ?thesis by (simp add: applyTruncate_def)
  qed
  have "mget (data_of out) k = mget (data_of m) k" for k
  proof (cases "mget (data_of m) k")
    case None
    then show ?thesis using inner [of k] by simp
  next
    case (Some a)
    then have "mget m k = None" using assms(5) by (metis option.distinct(1))
    then have "k \<in> set (mkeys (sl_keep sel))" using assms(4) d Some by (metis option.distinct(1))
    then show ?thesis using inner [of k] keep [of k] Some \<open>mget m k = None\<close> by simp
  qed
  then have data: "data_of out = data_of m" using ok(2) out_ok by (intro gomap_ext) (auto simp: out_ok_def)
  have "mget out k = mget m k" for k
  proof (cases "k = ''data''")
    case True
    then show ?thesis using out_ok data d assms(3) by (simp add: out_ok_def)
  next
    case False
    show ?thesis
    proof (cases "mget m k")
      case None
      then show ?thesis using top [OF False] by simp
    next
      case (Some a)
      then have "k \<in> set (mkeys (sl_keep sel))" using assms(4) False by (metis option.distinct(1))
      then show ?thesis using top [OF False] keep [of k] Some by simp
    qed
  qed
  then have "out = m" using ok(1) out_ok by (intro gomap_ext) (auto simp: out_ok_def)
  then show ?thesis using w by simp
qed

text \<open>A relation without data ignores the selection: its \<open>data\<close> member is \<open>null\<close>, so it is not taken for an
  entity and every member is returned, whatever fields were asked for.\<close>

theorem bare_relation_not_projected:
  "projectJSON (Doc (relation_json (r\<lparr>r_data := None\<rparr>))) fs
     = Doc (if sl_keep (parseSelections fs) = [] then relation_json (r\<lparr>r_data := None\<rparr>) else normalize (relation_json (r\<lparr>r_data := None\<rparr>)))"
proof -
  define m where "m = [(''created_at'', enc_time (r_created_at r)),
    (''created_by_client'', JStr (r_client r)), (''created_by_did'', JStr (r_created_by r)), (''data'', JNull),
    (''from'', JStr (r_from r)), (''id'', JStr (r_id r)), (''peer_did'', JStr (r_peer r)),
    (''to'', JStr (r_to r)), (''type'', JStr (r_type r))]"
  have norm: "normalize (relation_json (r\<lparr>r_data := None\<rparr>)) = JObj m"
    by (simp add: relation_json_def m_def enc_map_def enc_time_def)
  have "\<not> isEntityLike m" "\<not> isTypeDefLike m" by (simp_all add: isEntityLike_def isTypeDefLike_def m_def)
  moreover have "walk_members sel m = m" for sel by (simp add: m_def enc_time_def)
  ultimately show ?thesis
    by (cases "fs = []") (simp_all add: projectJSON_def norm Let_def parseSelections_def)
qed

section \<open>Concrete payloads\<close>

definition sample_selection :: selection where
  "sample_selection = parseSelections [''name'', ''note:2'']"

lemma sample_selection_eq: "sample_selection = \<lparr>sl_keep = [(''name'', True), (''note'', True)], sl_truncate = [(''note'', 2)]\<rparr>"
  by (simp add: sample_selection_def parseSelections_def add_selection_def trim_space_def is_space_def byte_of_def Let_def
      Atoi_def parse_digits_def is_digit_def digit_val_def int64_ok_def)

definition sample_payload :: obj where
  "sample_payload = [(''data'', JObj [(''name'', JStr ''inner''), (''note'', JStr ''abcdef''), (''x'', JNull)]),
     (''id'', JStr ''1''), (''name'', JStr ''outer'')]"

lemma projection_selects_witness:
  "\<exists>out. walk sample_selection (JObj sample_payload) = JObj out \<and> mget out ''id'' = None
     \<and> mget out ''name'' = Some (JStr ''outer'') \<and> mget (data_of out) ''name'' = None \<and> mget (data_of out) ''x'' = None"
proof -
  have "isEntityLike sample_payload" by (simp add: isEntityLike_def sample_payload_def)
  from projection_selects [OF this, of sample_selection]
  obtain out where w: "walk sample_selection (JObj sample_payload) = JObj out"
    and top: "\<And>k. k \<noteq> ''data'' \<Longrightarrow> mget out k = (if k \<in> set (mkeys (sl_keep sample_selection))
        then map_option (\<lambda>v. applyTruncate v k sample_selection) (mget sample_payload k) else None)"
    and inner: "\<And>k. mget (data_of out) k =
        (if k \<in> set (mkeys (sl_keep sample_selection)) \<and> (k = ''data'' \<or> mget sample_payload k = None)
         then map_option (\<lambda>v. applyTruncate v k sample_selection) (mget (data_of sample_payload) k) else None)"
    by blast
  show ?thesis
    using w top [of "''id''"] top [of "''name''"] inner [of "''name''"] inner [of "''x''"]
    by (simp add: sample_selection_eq sample_payload_def applyTruncate_def)
qed

lemma truncation_bounded_witness:
  "\<exists>s'. applyTruncate (JStr ''abcdef'') ''note'' sample_selection = JStr s' \<and> length (runes s') = 3"
proof -
  have "mget (sl_truncate sample_selection) ''note'' = Some (int 2)" by (simp add: sample_selection_eq)
  note t = truncation_bounded [OF this, of "''abcdef''"]
  have "length (runes ''abcdef'') = 6"
    by (simp add: runes.simps utf8_len_def lead_len_def byte_of_def)
  then show ?thesis using t by auto
qed

lemma projection_complete_witness:
  "walk (parseSelections [''a'', ''b'']) (JObj [(''a'', JNull), (''data'', JObj [(''b'', JNull)])])
     = JObj [(''a'', JNull), (''data'', JObj [(''b'', JNull)])]"
proof -
  have sel: "parseSelections [''a'', ''b''] = \<lparr>sl_keep = [(''a'', True), (''b'', True)], sl_truncate = []\<rparr>"
    by (simp add: parseSelections_def add_selection_def trim_space_def is_space_def byte_of_def Let_def)
  show ?thesis unfolding sel
    by (rule projection_complete) (auto simp: isEntityLike_def data_of_def gomap_ok_def)
qed

end
