(* ===== verification/Mcp.thy ===== *)
theory Mcp
  imports Router Registry Auth Projection
begin

text \<open>
  internal/mcp/auth.go and tools.go: the twelve tools of the MCP server. A tool reads its
  arguments, authorizes the caller for the peer it names, sends one message through the router
  and returns the reply's payload, projected on the requested fields.

  The request object belongs to the library mcp-go: the record \<open>tool_request\<close> holds its
  accessors, the map \<open>GetArguments\<close> returns (nil is empty) and the functions \<open>RequireString\<close>,
  \<open>GetString\<close> and \<open>GetInt\<close>. \<open>render\<close> is the text of an error payload. A call is made at the
  time \<open>sent\<close> with the outside values \<open>v\<close> of the handler it reaches.
\<close>

section \<open>Contexts\<close>

record mcp_server =
  sv_router :: "host router option"
  sv_registry :: "registry option"
  sv_auth :: "auth option"

record mcp_context =
  cx_token :: string
  cx_auth :: "auth option"
  cx_registry :: "registry option"
  cx_router :: "host router option"

definition injectAuth :: "mcp_server \<Rightarrow> string \<Rightarrow> mcp_context" where
  "injectAuth sv authorization = \<lparr>cx_token = trim_space (trim_prefix authorization ''Bearer ''),
     cx_auth = sv_auth sv, cx_registry = sv_registry sv, cx_router = sv_router sv\<rparr>"

definition authorizeForPeer :: "mcp_context \<Rightarrow> string \<Rightarrow> (string \<times> peer \<times> token) result" where
  "authorizeForPeer cx name = (case (cx_registry cx, cx_auth cx) of
      (Some reg, Some au) \<Rightarrow>
        if name = [] then Inl (Errorf ''peer is required'')
        else (case Resolve reg name of
            Inl e \<Rightarrow> Inl (Errorf (''unknown peer '' @ quote_go name))
          | Inr p \<Rightarrow>
              if cx_token cx = [] then Inl (Errorf ''unauthorized: missing bearer token'')
              else (case Verify au (cx_token cx) (p_name p) of
                  Inl e \<Rightarrow> Inl (Wrap ''unauthorized'' e)
                | Inr t \<Rightarrow> Inr (p_did p, p, t)))
    | _ \<Rightarrow> Inl (Errorf ''server misconfigured''))"

definition clientIDFromToken :: "token \<Rightarrow> string" where
  "clientIDFromToken t = (if t_label t \<noteq> [] then t_label t else ''mcp'')"

section \<open>Requests and results\<close>

record tool_request =
  rq_args :: obj
  rq_require :: "string \<Rightarrow> string result"
  rq_string :: "string \<Rightarrow> string \<Rightarrow> string"
  rq_int :: "string \<Rightarrow> int \<Rightarrow> int"

datatype tool_result =
    ToolText raw
  | ToolError string
  | ToolErrorPayload raw
  | ToolPanics string

type_synonym tool_run = "host \<Rightarrow> tool_result \<times> host"

text \<open>\<open>if err != nil\<close>: the error becomes the tool's result.\<close>

definition with_ok :: "'a result \<Rightarrow> ('a \<Rightarrow> tool_run) \<Rightarrow> tool_run" where
  "with_ok r k s = (case r of Inl e \<Rightarrow> (ToolError (error_text e), s) | Inr x \<Rightarrow> k x s)"

definition object_arg :: "tool_request \<Rightarrow> string \<Rightarrow> obj option" where
  "object_arg req k = (case mget (rq_args req) k of Some (JObj m) \<Rightarrow> Some m | _ \<Rightarrow> None)"

definition array_arg :: "tool_request \<Rightarrow> string \<Rightarrow> json list option" where
  "array_arg req k = (case mget (rq_args req) k of Some (JArr js) \<Rightarrow> Some js | _ \<Rightarrow> None)"

definition bool_arg :: "tool_request \<Rightarrow> string \<Rightarrow> bool option" where
  "bool_arg req k = (case mget (rq_args req) k of Some (JBool b) \<Rightarrow> Some b | _ \<Rightarrow> None)"

definition need :: "string \<Rightarrow> 'a option \<Rightarrow> 'a result" where
  "need msg x = (case x of None \<Rightarrow> Inl (Errorf msg) | Some y \<Rightarrow> Inr y)"

definition getFieldsArg :: "tool_request \<Rightarrow> string list" where
  "getFieldsArg req = (case array_arg req ''fields'' of
      None \<Rightarrow> []
    | Some js \<Rightarrow> concat (map (\<lambda>j. case j of JStr s \<Rightarrow> if s \<noteq> [] then [s] else [] | _ \<Rightarrow> []) js))"

section \<open>Routing\<close>

definition routeFederation :: "mcp_server \<Rightarrow> mcp_context \<Rightarrow> time \<Rightarrow> env \<Rightarrow> string \<Rightarrow> string \<Rightarrow> string \<Rightarrow> json
    \<Rightarrow> host \<Rightarrow> outcome \<times> host" where
  "routeFederation sv cx sent v did ty op args s =
     (case (case cx_router cx of Some r \<Rightarrow> Some r | None \<Rightarrow> sv_router sv) of
        None \<Rightarrow> (nil_dereference, s)
      | Some r \<Rightarrow> Route v r \<lparr>m_version = ''0.1'', m_source = ''did:mcp:client'', m_target = did, m_type = ty,
          m_payload = Doc (JObj [(''args'', args), (''op'', JStr op)]), m_auth = [], m_id = [], m_time = sent\<rparr> s)"

definition tool_reply :: "(raw \<Rightarrow> raw) \<Rightarrow> outcome \<times> host \<Rightarrow> tool_result \<times> host" where
  "tool_reply f res = (case res of
      (Panics m, s) \<Rightarrow> (ToolPanics m, s)
    | (Returned (resp, Some e), s) \<Rightarrow> (ToolError (error_text e), s)
    | (Returned (resp, None), s) \<Rightarrow>
        if m_type resp = FedMsgError then (ToolErrorPayload (m_payload resp), s)
        else (ToolText (f (m_payload resp)), s))"

definition routeQueryProjected :: "mcp_server \<Rightarrow> mcp_context \<Rightarrow> time \<Rightarrow> env \<Rightarrow> string \<Rightarrow> string \<Rightarrow> json
    \<Rightarrow> string list \<Rightarrow> tool_run" where
  "routeQueryProjected sv cx sent v did op args fs s =
     tool_reply (\<lambda>r. if fs = [] then r else projectJSON r fs) (routeFederation sv cx sent v did FedMsgQuery op args s)"

definition routeAndReturn :: "mcp_server \<Rightarrow> mcp_context \<Rightarrow> time \<Rightarrow> env \<Rightarrow> string \<Rightarrow> string \<Rightarrow> string \<Rightarrow> json
    \<Rightarrow> tool_run" where
  "routeAndReturn sv cx sent v did ty op args s = tool_reply (\<lambda>r. r) (routeFederation sv cx sent v did ty op args s)"

definition routeWrite :: "mcp_server \<Rightarrow> mcp_context \<Rightarrow> time \<Rightarrow> env \<Rightarrow> string \<Rightarrow> string \<Rightarrow> json \<Rightarrow> tool_run" where
  "routeWrite sv cx sent v did op args = routeAndReturn sv cx sent v did FedMsgWrite op args"

section \<open>Decoding helpers\<close>

definition decodeEntityQuery :: "obj \<Rightarrow> entity_query result" where
  "decodeEntityQuery m = (case decode_struct ''types.EntityQuery'' assign_query (JObj m) zero_query of
      Inl e \<Rightarrow> Inl (Wrap ''query'' e)
    | Inr q \<Rightarrow> if q_type q = [] then Inl (Errorf ''query.type is required'') else Inr q)"

definition decodeFieldDef :: "obj \<Rightarrow> field_def result" where
  "decodeFieldDef m = (case decode_field (JObj m) of
      Inl e \<Rightarrow> Inl (Wrap ''field'' e)
    | Inr fd \<Rightarrow> if fd_name fd = [] \<or> fd_type fd = [] then Inl (Errorf ''field requires name and type'') else Inr fd)"

definition decodeFields :: "json list \<Rightarrow> field_def list result" where
  "decodeFields js = mapM (\<lambda>j. case j of
      JObj m \<Rightarrow> decodeFieldDef m
    | _ \<Rightarrow> Inl (Errorf ''each field must be an object'')) js"

section \<open>Tools that read\<close>

definition handleEntityGet :: "mcp_server \<Rightarrow> mcp_context \<Rightarrow> time \<Rightarrow> env \<Rightarrow> tool_request \<Rightarrow> tool_run" where
  "handleEntityGet sv cx sent v req =
     with_ok (rq_require req ''peer'') (\<lambda>peerArg.
     with_ok (rq_require req ''id'') (\<lambda>i.
     with_ok (authorizeForPeer cx peerArg) (\<lambda>(did, p, t).
     routeQueryProjected sv cx sent v did ''entity.get'' (JObj [(''id'', JStr i)]) (getFieldsArg req))))"

definition handleEntityQuery :: "mcp_server \<Rightarrow> mcp_context \<Rightarrow> time \<Rightarrow> env \<Rightarrow> tool_request \<Rightarrow> tool_run" where
  "handleEntityQuery sv cx sent v req =
     with_ok (rq_require req ''peer'') (\<lambda>peerArg.
     with_ok (rq_require req ''type'') (\<lambda>ty.
     with_ok (authorizeForPeer cx peerArg) (\<lambda>(did, p, t).
     (let q = \<lparr>q_type = ty, q_filters = object_arg req ''filters'', q_limit = rq_int req ''limit'' 0,
               q_archived = (bool_arg req ''include_archived'' = Some True)\<rparr>
      in routeQueryProjected sv cx sent v did ''entity.query'' (query_json q) (getFieldsArg req)))))"

definition given :: "string \<Rightarrow> string \<Rightarrow> obj \<Rightarrow> obj" where
  "given k x m = (if x \<noteq> [] then mput k (JStr x) m else m)"

definition handleRelationQuery :: "mcp_server \<Rightarrow> mcp_context \<Rightarrow> time \<Rightarrow> env \<Rightarrow> tool_request \<Rightarrow> tool_run" where
  "handleRelationQuery sv cx sent v req =
     with_ok (rq_require req ''peer'') (\<lambda>peerArg.
     with_ok (authorizeForPeer cx peerArg) (\<lambda>(did, p, t).
     (let a1 = given ''from'' (rq_string req ''from'' []) [];
          a2 = given ''to'' (rq_string req ''to'' []) a1;
          a3 = given ''type'' (rq_string req ''type'' []) a2;
          n = rq_int req ''limit'' 0;
          a4 = (if n \<noteq> 0 then mput ''limit'' (enc_int n) a3 else a3)
      in routeQueryProjected sv cx sent v did ''relation.query'' (JObj a4) (getFieldsArg req))))"

definition handleSemanticSearch :: "mcp_server \<Rightarrow> mcp_context \<Rightarrow> time \<Rightarrow> env \<Rightarrow> tool_request \<Rightarrow> tool_run" where
  "handleSemanticSearch sv cx sent v req =
     with_ok (rq_require req ''peer'') (\<lambda>peerArg.
     with_ok (rq_require req ''query'') (\<lambda>query.
     with_ok (authorizeForPeer cx peerArg) (\<lambda>(did, p, t).
     routeQueryProjected sv cx sent v did ''semantic.search''
       (JObj (given ''type_filter'' (rq_string req ''type_filter'' [])
          [(''limit'', enc_int (rq_int req ''limit'' 10)), (''query'', JStr query)])) (getFieldsArg req))))"

definition handleTimeTravel :: "mcp_server \<Rightarrow> mcp_context \<Rightarrow> time \<Rightarrow> env \<Rightarrow> tool_request \<Rightarrow> tool_run" where
  "handleTimeTravel sv cx sent v req =
     with_ok (rq_require req ''peer'') (\<lambda>peerArg.
     with_ok (rq_require req ''as_of'') (\<lambda>asOfStr.
     with_ok (case parse_rfc3339 False asOfStr of
         Some t \<Rightarrow> Inr t
       | None \<Rightarrow> Inl (Wrap ''as_of must be RFC3339'' (Errorf (''parsing time '' @ quote_go asOfStr)))) (\<lambda>asOf.
     with_ok (authorizeForPeer cx peerArg) (\<lambda>(did, p, t).
     with_ok (need ''query is required'' (object_arg req ''query'')) (\<lambda>queryRaw.
     with_ok (decodeEntityQuery queryRaw) (\<lambda>q.
     routeQueryProjected sv cx sent v did ''time.travel''
       (JObj [(''as_of'', enc_time asOf), (''query'', query_json q)]) (getFieldsArg req)))))))"

definition handleTypeList :: "mcp_server \<Rightarrow> mcp_context \<Rightarrow> time \<Rightarrow> env \<Rightarrow> tool_request \<Rightarrow> tool_run" where
  "handleTypeList sv cx sent v req =
     with_ok (rq_require req ''peer'') (\<lambda>peerArg.
     with_ok (authorizeForPeer cx peerArg) (\<lambda>(did, p, t).
     routeQueryProjected sv cx sent v did ''type.list'' (JObj []) (getFieldsArg req)))"

definition flag :: "string \<Rightarrow> bool option \<Rightarrow> obj \<Rightarrow> obj" where
  "flag k b m = (case b of None \<Rightarrow> m | Some x \<Rightarrow> mput k (JBool x) m)"

definition handleTypeDescribe :: "mcp_server \<Rightarrow> mcp_context \<Rightarrow> time \<Rightarrow> env \<Rightarrow> tool_request \<Rightarrow> tool_run" where
  "handleTypeDescribe sv cx sent v req =
     with_ok (rq_require req ''peer'') (\<lambda>peerArg.
     with_ok (rq_require req ''type_name'') (\<lambda>name.
     with_ok (authorizeForPeer cx peerArg) (\<lambda>(did, p, t).
     routeQueryProjected sv cx sent v did ''type.describe''
       (JObj (flag ''is_relationship'' (bool_arg req ''is_relationship'') [(''name'', JStr name)])) (getFieldsArg req))))"

section \<open>Tools that write\<close>

definition handleEntityCreate :: "mcp_server \<Rightarrow> mcp_context \<Rightarrow> time \<Rightarrow> env \<Rightarrow> tool_request \<Rightarrow> tool_run" where
  "handleEntityCreate sv cx sent v req =
     with_ok (rq_require req ''peer'') (\<lambda>peerArg.
     with_ok (rq_require req ''type'') (\<lambda>ty.
     with_ok (authorizeForPeer cx peerArg) (\<lambda>(did, p, t).
     with_ok (need ''fields is required'' (object_arg req ''fields'')) (\<lambda>fs.
     routeWrite sv cx sent v did ''entity.create''
       (JObj [(''client_id'', JStr (clientIDFromToken t)), (''fields'', JObj fs), (''type'', JStr ty)])))))"

definition handleEntityUpdate :: "mcp_server \<Rightarrow> mcp_context \<Rightarrow> time \<Rightarrow> env \<Rightarrow> tool_request \<Rightarrow> tool_run" where
  "handleEntityUpdate sv cx sent v req =
     with_ok (rq_require req ''peer'') (\<lambda>peerArg.
     with_ok (rq_require req ''id'') (\<lambda>i.
     with_ok (authorizeForPeer cx peerArg) (\<lambda>(did, p, t).
     with_ok (need ''fields is required'' (object_arg req ''fields'')) (\<lambda>fs.
     routeWrite sv cx sent v did ''entity.update''
       (JObj [(''client_id'', JStr (clientIDFromToken t)), (''fields'', JObj fs), (''id'', JStr i)])))))"

definition handleRelationCreate :: "mcp_server \<Rightarrow> mcp_context \<Rightarrow> time \<Rightarrow> env \<Rightarrow> tool_request \<Rightarrow> tool_run" where
  "handleRelationCreate sv cx sent v req =
     with_ok (rq_require req ''peer'') (\<lambda>peerArg.
     with_ok (rq_require req ''from'') (\<lambda>source.
     with_ok (rq_require req ''to'') (\<lambda>target.
     with_ok (rq_require req ''type'') (\<lambda>ty.
     with_ok (authorizeForPeer cx peerArg) (\<lambda>(did, p, t).
     (let args = [(''client_id'', JStr (clientIDFromToken t)), (''from'', JStr source), (''to'', JStr target),
                  (''type'', JStr ty)]
      in routeWrite sv cx sent v did ''relation.create''
           (JObj (case object_arg req ''data'' of None \<Rightarrow> args | Some d \<Rightarrow> mput ''data'' (JObj d) args))))))))"

definition handleTypeDefine :: "mcp_server \<Rightarrow> mcp_context \<Rightarrow> time \<Rightarrow> env \<Rightarrow> tool_request \<Rightarrow> tool_run" where
  "handleTypeDefine sv cx sent v req =
     with_ok (rq_require req ''peer'') (\<lambda>peerArg.
     with_ok (rq_require req ''name'') (\<lambda>name.
     with_ok (rq_require req ''description'') (\<lambda>desc.
     with_ok (authorizeForPeer cx peerArg) (\<lambda>(did, p, t).
     with_ok (need ''fields must be an array'' (array_arg req ''fields'')) (\<lambda>rawFields.
     with_ok (decodeFields rawFields) (\<lambda>fs.
     routeWrite sv cx sent v did ''type.define''
       (JObj (flag ''is_relationship'' (bool_arg req ''is_relationship'')
          [(''client_id'', JStr (clientIDFromToken t)), (''description'', JStr desc),
           (''fields'', JArr (map field_json fs)), (''name'', JStr name)]))))))))"

section \<open>The tool over several peers\<close>

record peer_result =
  pr_peer :: string
  pr_entities :: json
  pr_error :: string

definition peer_result_json :: "peer_result \<Rightarrow> json" where
  "peer_result_json r = JObj
     ([(''peer'', JStr (pr_peer r))]
      @ member_opt ''entities'' (if pr_entities r = JNull then None else Some (pr_entities r))
      @ member_opt ''error'' (nonempty_str (pr_error r)))"

definition peer_failed :: "string \<Rightarrow> string \<Rightarrow> peer_result" where
  "peer_failed name e = \<lparr>pr_peer = name, pr_entities = JNull, pr_error = e\<rparr>"

text \<open>One iteration: the row of a peer, or the panic of the handler.\<close>

definition query_peer :: "(raw \<Rightarrow> string) \<Rightarrow> mcp_server \<Rightarrow> mcp_context \<Rightarrow> time \<Rightarrow> env \<Rightarrow> entity_query
    \<Rightarrow> string list \<Rightarrow> string \<Rightarrow> host \<Rightarrow> (string + peer_result) \<times> host" where
  "query_peer render sv cx sent v q fs name s = (case authorizeForPeer cx name of
      Inl e \<Rightarrow> (Inr (peer_failed name (error_text e)), s)
    | Inr (did, p, t) \<Rightarrow> (case routeFederation sv cx sent v did FedMsgQuery ''entity.query'' (query_json q) s of
          (Panics m, s') \<Rightarrow> (Inl m, s')
        | (Returned (resp, Some e), s') \<Rightarrow> (Inr (peer_failed name (error_text e)), s')
        | (Returned (resp, None), s') \<Rightarrow>
            if m_type resp = FedMsgError then (Inr (peer_failed name (render (m_payload resp))), s')
            else (case raw_doc (if fs = [] then m_payload resp else projectJSON (m_payload resp) fs) of
                Inl e \<Rightarrow> (Inr (peer_failed name (error_text e)), s')
              | Inr j \<Rightarrow> (Inr \<lparr>pr_peer = name, pr_entities = normalize j, pr_error = []\<rparr>, s'))))"

fun query_peers :: "(raw \<Rightarrow> string) \<Rightarrow> mcp_server \<Rightarrow> mcp_context \<Rightarrow> (nat \<Rightarrow> time \<times> env) \<Rightarrow> nat \<Rightarrow> entity_query
    \<Rightarrow> string list \<Rightarrow> json list \<Rightarrow> peer_result list \<Rightarrow> tool_run" where
  "query_peers render sv cx vs n q fs [] out s = (ToolText (Doc (JArr (map peer_result_json out))), s)"
| "query_peers render sv cx vs n q fs (JStr name # prs) out s =
     (case query_peer render sv cx (fst (vs n)) (snd (vs n)) q fs name s of
        (Inl m, s') \<Rightarrow> (ToolPanics m, s')
      | (Inr r, s') \<Rightarrow> query_peers render sv cx vs (n + 1) q fs prs (out @ [r]) s')"
| "query_peers render sv cx vs n q fs (pr # prs) out s = (ToolError ''peers entries must be strings'', s)"

definition handleCrossPeerQuery :: "(raw \<Rightarrow> string) \<Rightarrow> mcp_server \<Rightarrow> mcp_context \<Rightarrow> (nat \<Rightarrow> time \<times> env)
    \<Rightarrow> tool_request \<Rightarrow> tool_run" where
  "handleCrossPeerQuery render sv cx vs req =
     with_ok (need ''query is required'' (object_arg req ''query'')) (\<lambda>queryRaw.
     with_ok (decodeEntityQuery queryRaw) (\<lambda>q0.
     with_ok (case array_arg req ''peers'' of
         Some (pr # prs) \<Rightarrow> Inr (pr # prs)
       | _ \<Rightarrow> Inl (Errorf ''peers is required (non-empty array)'')) (\<lambda>peersRaw.
     (let n = rq_int req ''limit_per_peer'' 0;
          q = (if n \<noteq> 0 then q0\<lparr>q_limit := n\<rparr> else q0)
      in query_peers render sv cx vs 0 q (getFieldsArg req) peersRaw []))))"

section \<open>The table of tools\<close>

text \<open>
  What \<open>registerTools\<close> declares: the name, the parameters with their kind and whether they are
  required, and the handler. The descriptions for the client are left out. Only the tool over
  several peers makes more than one call, each with its own outside values.
\<close>

datatype param_kind = PString | PNumber | PBoolean | PObject | PArray

type_synonym tool_handler =
  "(raw \<Rightarrow> string) \<Rightarrow> mcp_server \<Rightarrow> mcp_context \<Rightarrow> (nat \<Rightarrow> time \<times> env) \<Rightarrow> tool_request \<Rightarrow> tool_run"

record tool_decl =
  td_name :: string
  td_params :: "(string \<times> param_kind \<times> bool) list"
  td_handler :: tool_handler

definition one_call :: "(mcp_server \<Rightarrow> mcp_context \<Rightarrow> time \<Rightarrow> env \<Rightarrow> tool_request \<Rightarrow> tool_run) \<Rightarrow> tool_handler" where
  "one_call f render sv cx vs req = f sv cx (fst (vs 0)) (snd (vs 0)) req"

definition fieldsParam :: "string \<times> param_kind \<times> bool" where
  "fieldsParam = (''fields'', PArray, False)"

definition tool_entity_get :: tool_decl where
  "tool_entity_get = \<lparr>td_name = ''coggo_entity_get'',
     td_params = [(''peer'', PString, True), (''id'', PString, True), fieldsParam],
     td_handler = one_call handleEntityGet\<rparr>"

definition tool_entity_query :: tool_decl where
  "tool_entity_query = \<lparr>td_name = ''coggo_entity_query'',
     td_params = [(''peer'', PString, True), (''type'', PString, True), (''filters'', PObject, False),
       (''limit'', PNumber, False), (''include_archived'', PBoolean, False), fieldsParam],
     td_handler = one_call handleEntityQuery\<rparr>"

definition tool_relation_query :: tool_decl where
  "tool_relation_query = \<lparr>td_name = ''coggo_relation_query'',
     td_params = [(''peer'', PString, True), (''from'', PString, False), (''to'', PString, False),
       (''type'', PString, False), (''limit'', PNumber, False), fieldsParam],
     td_handler = one_call handleRelationQuery\<rparr>"

definition tool_semantic_search :: tool_decl where
  "tool_semantic_search = \<lparr>td_name = ''coggo_semantic_search'',
     td_params = [(''peer'', PString, True), (''query'', PString, True), (''type_filter'', PString, False),
       (''limit'', PNumber, False), fieldsParam],
     td_handler = one_call handleSemanticSearch\<rparr>"

definition tool_time_travel :: tool_decl where
  "tool_time_travel = \<lparr>td_name = ''coggo_time_travel'',
     td_params = [(''peer'', PString, True), (''query'', PObject, True), (''as_of'', PString, True), fieldsParam],
     td_handler = one_call handleTimeTravel\<rparr>"

definition tool_type_list :: tool_decl where
  "tool_type_list = \<lparr>td_name = ''coggo_type_list'', td_params = [(''peer'', PString, True), fieldsParam],
     td_handler = one_call handleTypeList\<rparr>"

definition tool_type_describe :: tool_decl where
  "tool_type_describe = \<lparr>td_name = ''coggo_type_describe'',
     td_params = [(''peer'', PString, True), (''type_name'', PString, True), (''is_relationship'', PBoolean, False), fieldsParam],
     td_handler = one_call handleTypeDescribe\<rparr>"

definition tool_entity_create :: tool_decl where
  "tool_entity_create = \<lparr>td_name = ''coggo_entity_create'',
     td_params = [(''peer'', PString, True), (''type'', PString, True), (''fields'', PObject, True)],
     td_handler = one_call handleEntityCreate\<rparr>"

definition tool_entity_update :: tool_decl where
  "tool_entity_update = \<lparr>td_name = ''coggo_entity_update'',
     td_params = [(''peer'', PString, True), (''id'', PString, True), (''fields'', PObject, True)],
     td_handler = one_call handleEntityUpdate\<rparr>"

definition tool_relation_create :: tool_decl where
  "tool_relation_create = \<lparr>td_name = ''coggo_relation_create'',
     td_params = [(''peer'', PString, True), (''from'', PString, True), (''to'', PString, True),
       (''type'', PString, True), (''data'', PObject, False)],
     td_handler = one_call handleRelationCreate\<rparr>"

definition tool_type_define :: tool_decl where
  "tool_type_define = \<lparr>td_name = ''coggo_type_define'',
     td_params = [(''peer'', PString, True), (''name'', PString, True), (''description'', PString, True),
       (''fields'', PArray, True), (''is_relationship'', PBoolean, False)],
     td_handler = one_call handleTypeDefine\<rparr>"

definition tool_cross_peer_query :: tool_decl where
  "tool_cross_peer_query = \<lparr>td_name = ''coggo_cross_peer_query'',
     td_params = [(''query'', PObject, True), (''peers'', PArray, True), (''limit_per_peer'', PNumber, False), fieldsParam],
     td_handler = handleCrossPeerQuery\<rparr>"

definition registerTools :: "tool_decl list" where
  "registerTools = [tool_entity_get, tool_entity_query, tool_relation_query, tool_semantic_search, tool_time_travel,
     tool_type_list, tool_type_describe, tool_entity_create, tool_entity_update, tool_relation_create,
     tool_type_define, tool_cross_peer_query]"

end
