(* ===== verification/Mcp_Props.thy ===== *)
theory Mcp_Props
  imports Mcp
begin

text \<open>
  What the MCP server promises about authority. \<open>covered\<close> is the abstract policy: a peer is
  covered by a request when the registry has it and some token of the store was issued for the
  request's secret and the peer's name. The tools change and reveal nothing of a peer that is
  not covered, and a write is logged under the label of the token that authorized it.
\<close>

section \<open>Authorization\<close>

definition covered :: "mcp_context \<Rightarrow> string \<Rightarrow> bool" where
  "covered cx did \<longleftrightarrow> (\<exists>reg au n p t. cx_registry cx = Some reg \<and> cx_auth cx = Some au \<and> cx_token cx \<noteq> []
     \<and> Resolve reg n = Inr p \<and> p_did p = did \<and> t \<in> set (au_tokens au)
     \<and> t_hash t = hashSecret (cx_token cx) \<and> tokenCoversPeer t (p_name p))"

lemma authorize_Inr:
  assumes "authorizeForPeer cx name = Inr (did, p, t)"
  obtains reg au where "cx_registry cx = Some reg" "cx_auth cx = Some au" "name \<noteq> []" "cx_token cx \<noteq> []"
    "Resolve reg name = Inr p" "did = p_did p" "Verify au (cx_token cx) (p_name p) = Inr t"
  using assms by (auto simp: authorizeForPeer_def split: option.splits if_splits sum.splits)

lemma authorize_covered:
  assumes "authorizeForPeer cx name = Inr (did, p, t)"
  shows "covered cx did"
  using assms
proof (rule authorize_Inr)
  fix reg au
  assume a: "cx_registry cx = Some reg" "cx_auth cx = Some au" "cx_token cx \<noteq> []" "Resolve reg name = Inr p"
    "did = p_did p" "Verify au (cx_token cx) (p_name p) = Inr t"
  note t = token_store.verify_known [OF a(6)] token_store.verify_opens [OF a(6)] token_store.verify_covers [OF a(6)]
  show "covered cx did" unfolding covered_def using a t by blast
qed

section \<open>Runs of a tool\<close>

text \<open>A run that ends without routing has a result that depends on the request alone.\<close>

definition routed :: "mcp_server \<Rightarrow> mcp_context \<Rightarrow> env \<Rightarrow> tool_run \<Rightarrow> bool" where
  "routed sv cx v f \<longleftrightarrow> (\<exists>out. \<forall>s. f s = (out, s))
     \<or> (\<exists>did sent ty op args g. covered cx did \<and> (\<forall>s. f s = tool_reply g (routeFederation sv cx sent v did ty op args s)))"

lemma routed_with_ok: "(\<And>x. r = Inr x \<Longrightarrow> routed sv cx v (k x)) \<Longrightarrow> routed sv cx v (with_ok r k)"
  by (cases r) (auto simp: with_ok_def routed_def)

lemma routed_authorized:
  assumes "\<And>did p t. authorizeForPeer cx name = Inr (did, p, t) \<Longrightarrow> routed sv cx v (k did p t)"
  shows "routed sv cx v (with_ok (authorizeForPeer cx name) (\<lambda>(did, p, t). k did p t))"
  using assms by (intro routed_with_ok) auto

lemma routed_query: "covered cx did \<Longrightarrow> routed sv cx v (routeQueryProjected sv cx sent v did op args fs)"
  unfolding routed_def routeQueryProjected_def by blast

lemma routed_write: "covered cx did \<Longrightarrow> routed sv cx v (routeWrite sv cx sent v did op args)"
  unfolding routed_def routeWrite_def routeAndReturn_def by blast

lemmas routed_intros = routed_with_ok routed_authorized routed_query routed_write authorize_covered

lemma handlers_routed:
  "routed sv cx v (handleEntityGet sv cx sent v req)" "routed sv cx v (handleEntityQuery sv cx sent v req)"
  "routed sv cx v (handleRelationQuery sv cx sent v req)" "routed sv cx v (handleSemanticSearch sv cx sent v req)"
  "routed sv cx v (handleTimeTravel sv cx sent v req)" "routed sv cx v (handleTypeList sv cx sent v req)"
  "routed sv cx v (handleTypeDescribe sv cx sent v req)" "routed sv cx v (handleEntityCreate sv cx sent v req)"
  "routed sv cx v (handleEntityUpdate sv cx sent v req)" "routed sv cx v (handleRelationCreate sv cx sent v req)"
  "routed sv cx v (handleTypeDefine sv cx sent v req)"
  unfolding handleEntityGet_def handleEntityQuery_def handleRelationQuery_def handleSemanticSearch_def
    handleTimeTravel_def handleTypeList_def handleTypeDescribe_def handleEntityCreate_def handleEntityUpdate_def
    handleRelationCreate_def handleTypeDefine_def Let_def
  by (intro routed_with_ok routed_authorized, (rule routed_query | rule routed_write), erule authorize_covered
      | intro routed_with_ok routed_authorized)+

section \<open>Writes\<close>

lemma tool_reply_state [simp]: "snd (tool_reply g res) = snd res"
  by (simp add: tool_reply_def split: prod.split outcome.split option.split)

definition read_tools :: "tool_decl list" where
  "read_tools = [tool_entity_get, tool_entity_query, tool_relation_query, tool_semantic_search, tool_time_travel,
     tool_type_list, tool_type_describe, tool_cross_peer_query]"

definition write_tools :: "tool_decl list" where
  "write_tools = [tool_entity_create, tool_entity_update, tool_relation_create, tool_type_define]"

lemma registered_tools: "set registerTools = set read_tools \<union> set write_tools"
  by (auto simp: registerTools_def read_tools_def write_tools_def)

lemmas tool_defs = tool_entity_get_def tool_entity_query_def tool_relation_query_def tool_semantic_search_def
  tool_time_travel_def tool_type_list_def tool_type_describe_def tool_entity_create_def tool_entity_update_def
  tool_relation_create_def tool_type_define_def tool_cross_peer_query_def

lemma tools_routed:
  assumes "td \<in> set registerTools" and "td \<noteq> tool_cross_peer_query"
  shows "routed sv cx (snd (vs 0)) (td_handler td render sv cx vs req)"
proof -
  obtain f where "td_handler td = one_call f" and "\<And>sent v. routed sv cx v (f sv cx sent v req)"
  proof -
    assume *: "\<And>f. td_handler td = one_call f \<Longrightarrow> (\<And>sent v. routed sv cx v (f sv cx sent v req)) \<Longrightarrow> thesis"
    have "td \<in> {tool_entity_get, tool_entity_query, tool_relation_query, tool_semantic_search, tool_time_travel,
        tool_type_list, tool_type_describe, tool_entity_create, tool_entity_update, tool_relation_create, tool_type_define}"
      using assms by (simp add: registerTools_def)
    then consider "td_handler td = one_call handleEntityGet" | "td_handler td = one_call handleEntityQuery"
      | "td_handler td = one_call handleRelationQuery" | "td_handler td = one_call handleSemanticSearch"
      | "td_handler td = one_call handleTimeTravel" | "td_handler td = one_call handleTypeList"
      | "td_handler td = one_call handleTypeDescribe" | "td_handler td = one_call handleEntityCreate"
      | "td_handler td = one_call handleEntityUpdate" | "td_handler td = one_call handleRelationCreate"
      | "td_handler td = one_call handleTypeDefine"
      by (elim insertE) (simp_all add: tool_defs)
    then show thesis by cases (erule *, rule handlers_routed)+
  qed
  then show ?thesis by (simp add: one_call_def)
qed

text \<open>The router a request is given to.\<close>

definition serves :: "sqlite \<Rightarrow> mcp_server \<Rightarrow> mcp_context \<Rightarrow> host router \<Rightarrow> bool" where
  "serves sq sv cx r \<longleftrightarrow> router_ok sq r \<and> sv_router sv = Some r \<and> cx_router cx = Some r"

lemma serves_inject: "router_ok sq r \<Longrightarrow> sv_router sv = Some r \<Longrightarrow> serves sq sv (injectAuth sv authorization) r"
  by (simp add: serves_def injectAuth_def)

lemma federation_routes:
  assumes "serves sq sv cx r"
  shows "routeFederation sv cx sent v did ty op args s = Route v r \<lparr>m_version = ''0.1'', m_source = ''did:mcp:client'',
     m_target = did, m_type = ty, m_payload = Doc (JObj [(''args'', args), (''op'', JStr op)]), m_auth = [],
     m_id = [], m_time = sent\<rparr> s"
  using assms by (simp add: routeFederation_def serves_def)

lemma routed_state:
  assumes "routed sv cx v f" and "serves sq sv cx r" and "good_call v s"
  shows "host_ok (snd (f s)) \<and> (\<not> covered cx did \<longrightarrow> host_view did (snd (f s)) = host_view did s)"
proof -
  from assms(1) consider out where "f s = (out, s)"
    | did' sent ty op args g where "covered cx did'" "f s = tool_reply g (routeFederation sv cx sent v did' ty op args s)"
    unfolding routed_def by blast
  then show ?thesis
  proof cases
    case 1
    then show ?thesis using assms(3) by (simp add: good_call_def)
  next
    case 2
    have "\<not> covered cx did \<Longrightarrow> did \<noteq> did'" using 2(1) by auto
    then show ?thesis
      using 2(2) assms(2,3) route_host_ok [of sq r v s] route_view [of sq r v s did]
      by (simp add: federation_routes [OF assms(2)] serves_def)
  qed
qed

section \<open>Reads\<close>

text \<open>A run that changes nothing and shows only what belongs to covered peers.\<close>

definition agree :: "mcp_context \<Rightarrow> host \<Rightarrow> host \<Rightarrow> bool" where
  "agree cx s s' \<longleftrightarrow> (\<forall>did. covered cx did \<longrightarrow> host_view did s = host_view did s')"

definition confined :: "mcp_context \<Rightarrow> (host \<Rightarrow> 'r \<times> host) \<Rightarrow> bool" where
  "confined cx f \<longleftrightarrow> (\<forall>s. snd (f s) = s) \<and> (\<forall>s s'. agree cx s s' \<longrightarrow> fst (f s) = fst (f s'))"

lemma confined_with_ok: "(\<And>x. r = Inr x \<Longrightarrow> confined cx (k x)) \<Longrightarrow> confined cx (with_ok r k)"
  by (cases r) (auto simp: with_ok_def confined_def)

lemma confined_authorized:
  assumes "\<And>did p t. authorizeForPeer cx name = Inr (did, p, t) \<Longrightarrow> confined cx (k did p t)"
  shows "confined cx (with_ok (authorizeForPeer cx name) (\<lambda>(did, p, t). k did p t))"
  using assms by (intro confined_with_ok) auto

text \<open>The reading operations of a handler see the view of their peer only.\<close>

lemma view_rows: "host_view did h = host_view did h' \<Longrightarrow> peer_view did (hs_db h) = peer_view did (hs_db h')"
  by (simp add: host_view_def)

lemma view_types:
  assumes "host_view did h = host_view did h'"
  obtains "hs_schema h = None" "hs_schema h' = None"
  | r r' where "hs_schema h = Some r" "hs_schema h' = Some r'"
    "EntityTypes did r = EntityTypes did r'" "RelationTypes did r = RelationTypes did r'"
    "\<And>n. EntityType did n r = EntityType did n r'" "\<And>n. RelationType did n r = RelationType did n r'"
proof -
  have maps: "map_option (\<lambda>r. (peer_map did (rs_entity_types r), peer_map did (rs_rel_types r))) (hs_schema h)
      = map_option (\<lambda>r. (peer_map did (rs_entity_types r), peer_map did (rs_rel_types r))) (hs_schema h')"
    using assms by (simp add: host_view_def)
  show thesis
  proof (cases "hs_schema h")
    case None
    with maps have "hs_schema h' = None" by simp
    with None show thesis by (rule that(1))
  next
    case (Some r)
    with maps obtain r' where r': "hs_schema h' = Some r'"
      and eq: "peer_map did (rs_entity_types r) = peer_map did (rs_entity_types r')"
        "peer_map did (rs_rel_types r) = peer_map did (rs_rel_types r')"
      by (cases "hs_schema h'") simp_all
    show thesis
      by (rule that(2) [OF Some r']) (simp_all add: EntityTypes_def RelationTypes_def EntityType_def RelationType_def eq)
  qed
qed

definition own_reads :: "op \<Rightarrow> raw \<Rightarrow> bool" where
  "own_reads f r \<longleftrightarrow> (\<forall>v did msg h. snd (f v did msg r h) = h)
     \<and> (\<forall>v did msg h h'. host_view did h = host_view did h' \<longrightarrow> fst (f v did msg r h) = fst (f v did msg r h'))"

lemma own_readsI:
  assumes "reads f" and "\<And>v did msg h h'. host_view did h = host_view did h' \<Longrightarrow> fst (f v did msg r h) = fst (f v did msg r h')"
  shows "own_reads f r"
  unfolding own_reads_def using assms(1) [unfolded reads_def] assms(2) by blast

lemma view_reads:
  assumes "host_view did h = host_view did h'"
  shows "get_entity io did i (hs_db h) = get_entity io did i (hs_db h')"
    and "query_entities sq io did q (hs_db h) = query_entities sq io did q (hs_db h')"
    and "query_relations io did from to ty limit (hs_db h) = query_relations io did from to ty limit (hs_db h')"
    and "substring_search sq io did tx ty limit (hs_db h) = substring_search sq io did tx ty limit (hs_db h')"
    and "time_travel_entities io did q as_of (hs_db h) = time_travel_entities io did q as_of (hs_db h')"
  using reads_own_rows [OF view_rows [OF assms]] by blast+

lemma row_ops_own:
  "own_reads opEntityGet r" "own_reads (opEntityQuery sq) r" "own_reads opRelationQuery r" "own_reads opTimeTravel r"
proof -
  show "own_reads opEntityGet r"
  proof (rule own_readsI [OF reading_ops(1)])
    fix v did msg h h' assume same: "host_view did h = host_view did h'"
    show "fst (opEntityGet v did msg r h) = fst (opEntityGet v did msg r h')"
      by (simp add: opEntityGet_def view_reads(1) [OF same] split: sum.split)
  qed
  show "own_reads (opEntityQuery sq) r"
  proof (rule own_readsI [OF reading_ops(2)])
    fix v did msg h h' assume same: "host_view did h = host_view did h'"
    show "fst (opEntityQuery sq v did msg r h) = fst (opEntityQuery sq v did msg r h')"
      by (simp add: opEntityQuery_def view_reads(2) [OF same] split: sum.split)
  qed
  show "own_reads opRelationQuery r"
  proof (rule own_readsI [OF reading_ops(3)])
    fix v did msg h h' assume same: "host_view did h = host_view did h'"
    show "fst (opRelationQuery v did msg r h) = fst (opRelationQuery v did msg r h')"
      by (simp add: opRelationQuery_def view_reads(3) [OF same] split: sum.split)
  qed
  show "own_reads opTimeTravel r"
  proof (rule own_readsI [OF reading_ops(7)])
    fix v did msg h h' assume same: "host_view did h = host_view did h'"
    show "fst (opTimeTravel v did msg r h) = fst (opTimeTravel v did msg r h')"
      by (simp add: opTimeTravel_def view_reads(5) [OF same] split: sum.split)
  qed
qed

lemma type_ops_own: "own_reads opTypeList r" "own_reads opTypeDescribe r"
proof -
  show "own_reads opTypeList r"
  proof (rule own_readsI [OF reading_ops(4)])
    fix v did msg h h' assume same: "host_view did h = host_view did h'"
    show "fst (opTypeList v did msg r h) = fst (opTypeList v did msg r h')"
      by (rule view_types [OF same]) (simp_all add: opTypeList_def)
  qed
  show "own_reads opTypeDescribe r"
  proof (rule own_readsI [OF reading_ops(5)])
    fix v did msg h h' assume same: "host_view did h = host_view did h'"
    show "fst (opTypeDescribe v did msg r h) = fst (opTypeDescribe v did msg r h')"
      by (rule view_types [OF same]) (simp_all add: opTypeDescribe_def split: sum.split)
  qed
qed

lemma search_own:
  assumes "\<And>a. decode_semanticArgs r = Inr a \<Longrightarrow> sa_vector a = []"
  shows "own_reads (opSemanticSearch sq) r"
proof (rule own_readsI [OF reading_ops(6)])
  fix v did msg h h' assume same: "host_view did h = host_view did h'"
  show "fst (opSemanticSearch sq v did msg r h) = fst (opSemanticSearch sq v did msg r h')"
    using assms by (cases "decode_semanticArgs r") (simp_all add: opSemanticSearch_def view_reads(4) [OF same] split: sum.split)
qed

lemma mcp_envelope:
  "decode_envelope (Doc (JObj [(''args'', args), (''op'', JStr op)])) = Inr \<lparr>en_op = op, en_args = Doc args\<rparr>"
  by (simp add: decode_envelope_def struct_simps assign_envelope_def set_raw_def)

lemma finish_route_fst: "fst res = fst res' \<Longrightarrow> fst (finish_route v msg res) = fst (finish_route v msg res')"
  by (cases res; cases res') (auto simp: finish_route_def split: outcome.split option.split)

lemma tool_reply_fst: "fst res = fst res' \<Longrightarrow> fst (tool_reply g res) = fst (tool_reply g res')"
  by (cases res; cases res') (auto simp: tool_reply_def split: outcome.split option.split)

lemma query_confined:
  assumes "serves sq sv cx r" and "covered cx did" and "dispatch_op sq op = Some f" and "own_reads f (Doc args)"
  shows "confined cx (routeFederation sv cx sent v did FedMsgQuery op args)"
proof -
  define msg where "msg = \<lparr>m_version = ''0.1'', m_source = ''did:mcp:client'', m_target = did, m_type = FedMsgQuery,
    m_payload = Doc (JObj [(''args'', args), (''op'', JStr op)]), m_auth = [], m_id = [], m_time = sent\<rparr>"
  have run: "routeFederation sv cx sent v did FedMsgQuery op args s = (case mget r did of
      None \<Rightarrow> (Returned (errorReply v msg (Errorf (''federation: no handler for target DID '' @ did))), s)
    | Some h \<Rightarrow> finish_route v msg (f v did msg (Doc args) s))" for s
  proof (cases "mget r did")
    case (Some h)
    moreover have "router_ok sq r" using assms(1) by (simp add: serves_def)
    ultimately have "h = store_handler sq did" using route_some by blast
    then show ?thesis using Some assms(3)
      by (simp add: federation_routes [OF assms(1)] Route_def msg_def store_handler_def HandleQuery_def dispatch_def mcp_envelope)
  qed (simp add: federation_routes [OF assms(1)] Route_def msg_def)
  have own: "snd (f v did msg (Doc args) s) = s"
    "host_view did s = host_view did s' \<Longrightarrow> fst (f v did msg (Doc args) s) = fst (f v did msg (Doc args) s')" for s s'
    using assms(4) unfolding own_reads_def by blast+
  show ?thesis unfolding confined_def
  proof (intro conjI allI impI)
    fix s show "snd (routeFederation sv cx sent v did FedMsgQuery op args s) = s"
      unfolding run using own(1) by (simp add: store_peer.finish_state split: option.split)
  next
    fix s s' assume "agree cx s s'"
    then have "host_view did s = host_view did s'" using assms(2) by (simp add: agree_def)
    from finish_route_fst [OF own(2) [OF this]]
    show "fst (routeFederation sv cx sent v did FedMsgQuery op args s) = fst (routeFederation sv cx sent v did FedMsgQuery op args s')"
      unfolding run by (simp split: option.split)
  qed
qed

lemma confined_projected:
  assumes "serves sq sv cx r" and "covered cx did" and "dispatch_op sq op = Some f" and "own_reads f (Doc args)"
  shows "confined cx (routeQueryProjected sv cx sent v did op args fs)"
proof -
  have c: "\<forall>s. snd (routeFederation sv cx sent v did FedMsgQuery op args s) = s"
    "\<And>s s'. agree cx s s' \<Longrightarrow> fst (routeFederation sv cx sent v did FedMsgQuery op args s)
        = fst (routeFederation sv cx sent v did FedMsgQuery op args s')"
    using query_confined [OF assms, of sent v] unfolding confined_def by blast+
  show ?thesis unfolding confined_def routeQueryProjected_def
    by (intro conjI allI impI tool_reply_fst c(2)) (simp only: tool_reply_state c(1))
qed

lemma read_ops_own:
  "dispatch_op sq ''entity.get'' = Some opEntityGet" "dispatch_op sq ''entity.query'' = Some (opEntityQuery sq)"
  "dispatch_op sq ''relation.query'' = Some opRelationQuery" "dispatch_op sq ''semantic.search'' = Some (opSemanticSearch sq)"
  "dispatch_op sq ''time.travel'' = Some opTimeTravel" "dispatch_op sq ''type.list'' = Some opTypeList"
  "dispatch_op sq ''type.describe'' = Some opTypeDescribe"
  by (simp_all add: dispatch_op_def)

text \<open>The search tool never sends a vector, so the handler always takes its substring search.\<close>

lemma search_args_no_vector:
  assumes "decode_semanticArgs (Doc (JObj (given ''type_filter'' ty [(''limit'', enc_int n), (''query'', JStr q)]))) = Inr a"
  shows "sa_vector a = []"
proof -
  have keys: "fold_name ''limit'' = ''limit''" "fold_name ''query'' = ''query''" "fold_name ''type_filter'' = ''type_filter''"
    by (rule fold_name_plain, simp add: plain_key_def byte_of_def)+
  show ?thesis
    using assms by (cases "ty = []")
      (auto simp: decode_semanticArgs_def struct_simps given_def keys set_int_def enc_int_def type_error_def split: if_splits)
qed

lemma reading_handlers_confined:
  assumes "serves sq sv cx r"
  shows "confined cx (handleEntityGet sv cx sent v req)" "confined cx (handleEntityQuery sv cx sent v req)"
    "confined cx (handleRelationQuery sv cx sent v req)" "confined cx (handleSemanticSearch sv cx sent v req)"
    "confined cx (handleTimeTravel sv cx sent v req)" "confined cx (handleTypeList sv cx sent v req)"
    "confined cx (handleTypeDescribe sv cx sent v req)"
proof -
  show "confined cx (handleSemanticSearch sv cx sent v req)"
    unfolding handleSemanticSearch_def
    by ((rule confined_authorized | rule confined_with_ok)+,
        rule confined_projected [OF assms _ read_ops_own(4)], erule authorize_covered, rule search_own, erule search_args_no_vector)
  show "confined cx (handleEntityGet sv cx sent v req)"
    unfolding handleEntityGet_def
    by ((rule confined_authorized | rule confined_with_ok)+,
        rule confined_projected [OF assms _ read_ops_own(1) row_ops_own(1)], erule authorize_covered)
  show "confined cx (handleEntityQuery sv cx sent v req)"
    unfolding handleEntityQuery_def Let_def
    by ((rule confined_authorized | rule confined_with_ok)+,
        rule confined_projected [OF assms _ read_ops_own(2) row_ops_own(2)], erule authorize_covered)
  show "confined cx (handleRelationQuery sv cx sent v req)"
    unfolding handleRelationQuery_def Let_def
    by ((rule confined_authorized | rule confined_with_ok)+,
        rule confined_projected [OF assms _ read_ops_own(3) row_ops_own(3)], erule authorize_covered)
  show "confined cx (handleTimeTravel sv cx sent v req)"
    unfolding handleTimeTravel_def
    by ((rule confined_authorized | rule confined_with_ok)+,
        rule confined_projected [OF assms _ read_ops_own(5) row_ops_own(4)], erule authorize_covered)
  show "confined cx (handleTypeList sv cx sent v req)"
    unfolding handleTypeList_def
    by ((rule confined_authorized | rule confined_with_ok)+,
        rule confined_projected [OF assms _ read_ops_own(6) type_ops_own(1)], erule authorize_covered)
  show "confined cx (handleTypeDescribe sv cx sent v req)"
    unfolding handleTypeDescribe_def
    by ((rule confined_authorized | rule confined_with_ok)+,
        rule confined_projected [OF assms _ read_ops_own(7) type_ops_own(2)], erule authorize_covered)
qed

text \<open>The tool over several peers: every row comes from a covered peer or says why it does not.\<close>

lemma query_peer_confined:
  assumes "serves sq sv cx r"
  shows "confined cx (query_peer render sv cx sent v q fs name)"
proof (cases "authorizeForPeer cx name")
  case (Inl e)
  then show ?thesis by (simp add: confined_def query_peer_def)
next
  case (Inr x)
  obtain did p t where x: "x = (did, p, t)" by (cases x)
  note c = query_confined [OF assms authorize_covered [OF Inr [unfolded x]] read_ops_own(2) row_ops_own(2),
      of sent v "query_json q", unfolded confined_def]
  define k where "k = (\<lambda>out. case out of
      Panics m \<Rightarrow> Inl m
    | Returned (resp, Some e) \<Rightarrow> Inr (peer_failed name (error_text e))
    | Returned (resp, None) \<Rightarrow>
        if m_type resp = FedMsgError then Inr (peer_failed name (render (m_payload resp)))
        else (case raw_doc (if fs = [] then m_payload resp else projectJSON (m_payload resp) fs) of
            Inl e \<Rightarrow> Inr (peer_failed name (error_text e))
          | Inr j \<Rightarrow> Inr \<lparr>pr_peer = name, pr_entities = normalize j, pr_error = []\<rparr>))"
  have run: "query_peer render sv cx sent v q fs name s =
      (k (fst (routeFederation sv cx sent v did FedMsgQuery ''entity.query'' (query_json q) s)),
       snd (routeFederation sv cx sent v did FedMsgQuery ''entity.query'' (query_json q) s))" for s
    unfolding query_peer_def Inr x sum.case prod.case k_def
    by (simp split: prod.split outcome.split option.split sum.split)
  show ?thesis
    unfolding confined_def run fst_conv snd_conv
    using c by (intro conjI allI impI) (blast, blast intro: arg_cong [of _ _ k])
qed

lemma query_peers_confined:
  assumes "serves sq sv cx r"
  shows "confined cx (query_peers render sv cx vs n q fs prs out)"
proof (induction prs arbitrary: n out)
  case Nil
  then show ?case by (simp add: confined_def)
next
  case (Cons pr prs)
  show ?case
  proof (cases pr)
    case (JStr name)
    define f where "f = query_peer render sv cx (fst (vs n)) (snd (vs n)) q fs name"
    have c: "snd (f s) = s" "agree cx s s' \<Longrightarrow> fst (f s) = fst (f s')" for s s'
      using query_peer_confined [OF assms] unfolding confined_def f_def by blast+
    have run: "query_peers render sv cx vs n q fs (pr # prs) out s = (case fst (f s) of
        Inl m \<Rightarrow> (ToolPanics m, s)
      | Inr row \<Rightarrow> query_peers render sv cx vs (n + 1) q fs prs (out @ [row]) s)" for s
      using c(1) [of s] by (cases "f s") (simp add: JStr f_def [symmetric] split: sum.split)
    have IH: "snd (query_peers render sv cx vs (n + 1) q fs prs (out @ [row]) s) = s"
      "agree cx s s' \<Longrightarrow> fst (query_peers render sv cx vs (n + 1) q fs prs (out @ [row]) s)
         = fst (query_peers render sv cx vs (n + 1) q fs prs (out @ [row]) s')" for row s s'
      using Cons.IH unfolding confined_def by blast+
    show ?thesis
      unfolding confined_def run
    proof (intro conjI allI impI)
      fix s s' assume a: "agree cx s s'"
      show "fst (case fst (f s) of Inl m \<Rightarrow> (ToolPanics m, s)
            | Inr row \<Rightarrow> query_peers render sv cx vs (n + 1) q fs prs (out @ [row]) s)
          = fst (case fst (f s') of Inl m \<Rightarrow> (ToolPanics m, s')
            | Inr row \<Rightarrow> query_peers render sv cx vs (n + 1) q fs prs (out @ [row]) s')"
        unfolding c(2) [OF a] using IH(2) [OF a] by (simp split: sum.split)
    qed (simp add: IH(1) [simplified] split: sum.split)
  qed (simp_all add: confined_def)
qed

lemma read_tools_confined:
  assumes "serves sq sv cx r" and "td \<in> set read_tools"
  shows "confined cx (td_handler td render sv cx vs req)"
proof -
  have cross: "confined cx (handleCrossPeerQuery render sv cx vs req)"
    unfolding handleCrossPeerQuery_def Let_def by (intro confined_with_ok query_peers_confined [OF assms(1)])
  note h = reading_handlers_confined [OF assms(1)] cross
  show ?thesis
    using assms(2) unfolding read_tools_def set_simps
    by (elim insertE) (simp_all only: tool_defs tool_decl.simps one_call_def h empty_iff)
qed

section \<open>The server's guarantees\<close>

text \<open>C3: No tool changes a peer the caller has no authority over: whatever the tool, its arguments and the
  bearer token, the rows and type definitions of every peer that the token does not cover are the same
  after the call, and the host stays well formed.\<close>

theorem mcp_changes_covered_only:
  assumes "router_ok sq r" and "sv_router sv = Some r" and "cx = injectAuth sv authorization"
    and "td \<in> set registerTools" and "good_call (snd (vs 0)) s"
  shows "host_ok (snd (td_handler td render sv cx vs req s))
    \<and> (\<forall>did. \<not> covered cx did \<longrightarrow> host_view did (snd (td_handler td render sv cx vs req s)) = host_view did s)"
proof -
  have serves: "serves sq sv cx r" using assms(1,2,3) serves_inject by blast
  show ?thesis
  proof (cases "td = tool_cross_peer_query")
    case True
    then have "td \<in> set read_tools" by (simp add: read_tools_def)
    then have "snd (td_handler td render sv cx vs req s) = s"
      using read_tools_confined [OF serves] unfolding confined_def by blast
    then show ?thesis using assms(5) by (simp add: good_call_def)
  next
    case False
    note routed = tools_routed [OF assms(4) False, of sv cx vs render req]
    show ?thesis using routed_state [OF routed serves assms(5)] by blast
  qed
qed

text \<open>C4: No reading tool reveals a peer the caller has no authority over: two hosts that agree on the rows and
  type definitions of the covered peers give the same answer to any reading tool, the query over several
  peers included, and a reading tool changes nothing. In particular a call without a valid token gets an
  answer that says nothing about the stored data.\<close>

theorem mcp_reads_covered_only:
  assumes "router_ok sq r" and "sv_router sv = Some r" and "cx = injectAuth sv authorization"
    and "td \<in> set read_tools" and "\<forall>did. covered cx did \<longrightarrow> host_view did s = host_view did s'"
  shows "fst (td_handler td render sv cx vs req s) = fst (td_handler td render sv cx vs req s')
    \<and> snd (td_handler td render sv cx vs req s) = s"
  using read_tools_confined [OF serves_inject [OF assms(1,2)] assms(4), where authorization1 = authorization] assms(3,5)
  unfolding confined_def agree_def by blast

section \<open>Provenance\<close>

lemma with_ok_text: "with_ok res k s = (ToolText x, s') \<longleftrightarrow> (\<exists>y. res = Inr y \<and> k y s = (ToolText x, s'))"
  by (cases res) (auto simp: with_ok_def)

lemma tool_reply_text: "tool_reply g res = (ToolText x, s') \<Longrightarrow> \<exists>resp. res = (Returned (resp, None), s') \<and> x = g (m_payload resp)"
  by (auto simp: tool_reply_def split: prod.splits outcome.splits option.splits if_splits)

lemma write_reaches_handler:
  assumes "serves sq sv cx r" and "routeFederation sv cx sent v did FedMsgWrite op args s = (Returned (resp, None), s')"
    and "dispatch_op sq op = Some f"
  obtains msg where "m_source msg = ''did:mcp:client''" "f v did msg (Doc args) s = (Returned (resp, None), s')"
proof -
  define msg where "msg = \<lparr>m_version = ''0.1'', m_source = ''did:mcp:client'', m_target = did, m_type = FedMsgWrite,
    m_payload = Doc (JObj [(''args'', args), (''op'', JStr op)]), m_auth = [], m_id = [], m_time = sent\<rparr>"
  have run: "Route v r msg s = (Returned (resp, None), s')"
    using assms(2) federation_routes [OF assms(1)] by (simp add: msg_def)
  then obtain h where h: "mget r did = Some h" by (cases "mget r did") (auto simp: Route_def errorReply_def msg_def)
  moreover have "router_ok sq r" using assms(1) by (simp add: serves_def)
  ultimately have "h = store_handler sq did" using route_some by blast
  then have "Route v r msg s = finish_route v msg (f v did msg (Doc args) s)"
    using h assms(3) by (simp add: Route_def msg_def store_handler_def HandleWrite_def dispatch_def mcp_envelope)
  then have "finish_route v msg (f v did msg (Doc args) s) = (Returned (resp, None), s')" using run by simp
  then have "f v did msg (Doc args) s = (Returned (resp, None), s')"
    by (auto simp: finish_route_def errorReply_def split: prod.splits outcome.splits option.splits)
  then show thesis by (intro that [of msg]) (simp add: msg_def)
qed

lemma mcp_create_args:
  "decode_entityCreateArgs (Doc (JObj [(''client_id'', JStr c), (''fields'', JObj fs), (''type'', JStr ty)]))
     = Inr \<lparr>wa_id = [], wa_type = ty, wa_fields = Some (mputs (normalize_members fs) []), wa_author = [], wa_client = c\<rparr>"
  by (simp add: decode_entityCreateArgs_def struct_simps set_map_def assign_author_def no_write_args_def)

text \<open>C18: What is created through the MCP server carries its provenance: when the tool returns a payload, the
  caller was authorized for the named peer, the payload is the new entity of that peer with the requested
  type, it is what is stored, and both the entity and the one event appended to the log name the label of
  the authorizing token as client.\<close>

theorem mcp_create_provenance:
  assumes "router_ok sq r" and "sv_router sv = Some r" and "good_call v s" and "v_now v \<noteq> 0"
    and "handleEntityCreate sv (injectAuth sv authorization) sent v req s = (ToolText payload, s')"
  shows "\<exists>peerArg ty did p t e row. rq_require req ''peer'' = Inr peerArg \<and> rq_require req ''type'' = Inr ty
    \<and> authorizeForPeer (injectAuth sv authorization) peerArg = Inr (did, p, t) \<and> decode_entity payload = Inr e
    \<and> e_peer e = did \<and> e_type e = ty \<and> e_client e = clientIDFromToken t \<and> e_created_by e = ''did:mcp:client''
    \<and> get_entity None did (e_id e) (hs_db s') = Inr (Some (stored e))
    \<and> d_events (hs_db s') = d_events (hs_db s) @ [row] \<and> vr_payload row = Doc (entity_json e)
    \<and> vr_client row = clientIDFromToken t \<and> vr_author row = ''did:mcp:client''"
proof -
  note serves = serves_inject [OF assms(1,2), of authorization]
  obtain peerArg ty did p t fs where a: "rq_require req ''peer'' = Inr peerArg" "rq_require req ''type'' = Inr ty"
      "authorizeForPeer (injectAuth sv authorization) peerArg = Inr (did, p, t)"
    and run: "routeWrite sv (injectAuth sv authorization) sent v did ''entity.create''
       (JObj [(''client_id'', JStr (clientIDFromToken t)), (''fields'', JObj fs), (''type'', JStr ty)]) s = (ToolText payload, s')"
    using assms(5) by (auto simp: handleEntityCreate_def with_ok_text)
  obtain resp where routed: "routeFederation sv (injectAuth sv authorization) sent v did FedMsgWrite ''entity.create''
       (JObj [(''client_id'', JStr (clientIDFromToken t)), (''fields'', JObj fs), (''type'', JStr ty)]) s
         = (Returned (resp, None), s')" and payload: "payload = m_payload resp"
    using tool_reply_text [OF run [unfolded routeWrite_def routeAndReturn_def]] by auto
  have op: "dispatch_op sq ''entity.create'' = Some opEntityCreate" by (simp add: dispatch_op_def)
  obtain msg where msg: "m_source msg = ''did:mcp:client''" and handled: "opEntityCreate v did msg
      (Doc (JObj [(''client_id'', JStr (clientIDFromToken t)), (''fields'', JObj fs), (''type'', JStr ty)])) s
        = (Returned (resp, None), s')"
    by (rule write_reaches_handler [OF serves routed op])
  have ok: "host_ok s" "time_ok (v_now v)" using assms(3) by (simp_all add: good_call_def)
  have label: "clientIDFromToken t \<noteq> []" by (simp add: clientIDFromToken_def)
  let ?a = "\<lparr>wa_id = [], wa_type = ty, wa_fields = Some (mputs (normalize_members fs) []), wa_author = [], wa_client = clientIDFromToken t\<rparr>"
  obtain m e row where e0: "e = new_entity v did msg (wa_type ?a) (wa_author ?a) (wa_client ?a) m"
    and res: "decode_entity (m_payload resp) = Inr e" "get_entity None did (v_id1 v) (hs_db s') = Inr (Some (stored e))"
      "d_events (hs_db s') = d_events (hs_db s) @ [row]"
    and row: "row = event_row_of (v_now v) (v_id2 v) (new_event v (v_id2 v) did EventEntityCreated (entity_json e) (e_created_by e) (e_client e))"
    by (rule create_result [OF handled ok(1) mcp_create_args ok(2) assms(4)])
  have e: "e = new_entity v did msg ty [] (clientIDFromToken t) m" using e0 by simp
  have "e_client e = clientIDFromToken t" "e_created_by e = ''did:mcp:client''"
    using label msg by (simp_all add: e new_entity_def fallback_def)
  moreover have "e_id e = v_id1 v" "e_peer e = did" "e_type e = ty" unfolding e by (rule new_entity_fields)+
  ultimately have "decode_entity payload = Inr e \<and> e_peer e = did \<and> e_type e = ty \<and> e_client e = clientIDFromToken t
    \<and> e_created_by e = ''did:mcp:client'' \<and> get_entity None did (e_id e) (hs_db s') = Inr (Some (stored e))
    \<and> d_events (hs_db s') = d_events (hs_db s) @ [row] \<and> vr_payload row = Doc (entity_json e)
    \<and> vr_client row = clientIDFromToken t \<and> vr_author row = ''did:mcp:client''"
    using res payload event_row_fields(2-4) by (simp add: row del: EventEntityCreated_def)
  with a show ?thesis by blast
qed

section \<open>A concrete server\<close>

definition work_router :: "host router" where
  "work_router = [(''did:key:z1'', store_handler sample_sqlite ''did:key:z1'')]"

definition work_server :: mcp_server where
  "work_server = \<lparr>sv_router = Some work_router, sv_registry = Some one_peer, sv_auth = Some sample_auth\<rparr>"

definition plain_request :: "obj \<Rightarrow> tool_request" where
  "plain_request m = \<lparr>rq_args = m,
     rq_require = (\<lambda>k. case mget m k of Some (JStr x) \<Rightarrow> Inr x | _ \<Rightarrow> Inl (Errorf (''required argument '' @ quote_go k))),
     rq_string = (\<lambda>k d. case mget m k of Some (JStr x) \<Rightarrow> x | _ \<Rightarrow> d), rq_int = (\<lambda>k d. d)\<rparr>"

definition create_request :: tool_request where
  "create_request = plain_request [(''fields'', JObj []), (''peer'', JStr ''work''), (''type'', JStr ''Note'')]"

definition open_host :: host where
  "open_host = sample_host\<lparr>hs_schema := None\<rparr>"

lemma work_ok: "router_ok sample_sqlite work_router" "sv_router work_server = Some work_router" "good_call sample_env open_host"
  using sample_host_ok(2) sample_env_ok sample_fresh
  by (simp_all add: router_ok_def good_call_def gomap_ok_def work_router_def work_server_def open_host_def)

lemma mcp_changes_covered_only_witness:
  "host_view ''did:key:z2'' (snd (td_handler tool_entity_create (\<lambda>_. []) work_server
      (injectAuth work_server ''Bearer s1'') (\<lambda>_. (5, sample_env)) create_request open_host)) = host_view ''did:key:z2'' open_host"
proof -
  have "\<not> covered (injectAuth work_server ''Bearer s1'') ''did:key:z2''"
  proof
    assume "covered (injectAuth work_server ''Bearer s1'') ''did:key:z2''"
    then obtain n p where "Resolve one_peer n = Inr p" "p_did p = ''did:key:z2''"
      by (auto simp: covered_def injectAuth_def work_server_def)
    then have "p \<in> set (rg_objs one_peer)"
      using registry_history_inv [OF one_peer_history]
      by (auto simp: Resolve_def ByName_def ByDID_def registry_inv_def registry_ok_def split: option.splits)
    moreover have "rg_objs one_peer = [sample_peer]"
      by (simp add: one_peer_def Add_def empty_registry_def flush_registry_def index_peer_def) (simp add: sample_peer_def)
    ultimately show False using \<open>p_did p = ''did:key:z2''\<close> by (simp add: sample_peer_def)
  qed
  moreover have "tool_entity_create \<in> set registerTools" by (simp add: registerTools_def)
  ultimately show ?thesis
    using mcp_changes_covered_only [OF work_ok(1,2) refl, where vs = "\<lambda>_. (5, sample_env)" and s = open_host] work_ok(3) by simp
qed

lemma mcp_reads_covered_only_witness:
  "fst (td_handler tool_entity_get (\<lambda>_. []) work_server (injectAuth work_server []) (\<lambda>_. (5, sample_env)) create_request open_host)
     = fst (td_handler tool_entity_get (\<lambda>_. []) work_server (injectAuth work_server []) (\<lambda>_. (5, sample_env)) create_request sample_host)"
proof -
  have "\<forall>did. covered (injectAuth work_server []) did \<longrightarrow> host_view did open_host = host_view did sample_host"
    by (simp add: covered_def injectAuth_def trim_space_def trim_prefix_def has_prefix_def)
  moreover have "tool_entity_get \<in> set read_tools" by (simp add: read_tools_def)
  ultimately show ?thesis using mcp_reads_covered_only [OF work_ok(1,2) refl] by blast
qed

lemma work_authorized:
  "authorizeForPeer (injectAuth work_server ''Bearer s1'') ''work'' = Inr (''did:key:z1'', sample_peer, sample_token)"
proof -
  have "cx_token (injectAuth work_server ''Bearer s1'') = ''s1''"
    by (simp add: injectAuth_def trim_space_def trim_prefix_def has_prefix_def is_space_def byte_of_def)
  moreover have "Resolve one_peer ''work'' = Inr sample_peer" by (simp add: Resolve_def one_peer_name)
  moreover have "Verify sample_auth ''s1'' (p_name sample_peer) = Inr sample_token"
    by (simp add: Verify_def sample_auth_def) (simp add: sample_token_def tokenCoversPeer_def sample_peer_def)
  moreover have "p_did sample_peer = ''did:key:z1''" by (simp add: sample_peer_def)
  ultimately show ?thesis
    unfolding authorizeForPeer_def by (simp add: injectAuth_def work_server_def)
qed

lemma mcp_create_provenance_witness:
  "\<exists>payload s' e. handleEntityCreate work_server (injectAuth work_server ''Bearer s1'') 5 sample_env create_request open_host
       = (ToolText payload, s') \<and> decode_entity payload = Inr e \<and> e_client e = ''laptop''"
proof -
  obtain payload s' where run: "handleEntityCreate work_server (injectAuth work_server ''Bearer s1'') 5 sample_env create_request open_host
       = (ToolText payload, s')"
    using mcp_create_args
    by (simp add: handleEntityCreate_def with_ok_def create_request_def plain_request_def work_authorized need_def
        object_arg_def routeWrite_def routeAndReturn_def federation_routes [OF serves_inject [OF work_ok(1,2)]]
        Route_def work_router_def store_handler_def HandleWrite_def dispatch_def mcp_envelope dispatch_op_def
        opEntityCreate_def validate_create_def open_host_def sample_host_def Let_def respond_def new_entity_def
        new_event_def sample_env_def append_event_Some one_entity_db_def sample_db_def event_row_of_def
        insert_event_def exec_def upsert_entity_def finish_route_def tool_reply_def message_def)
  from mcp_create_provenance [OF work_ok sample_env_ok(2) run] obtain e where
    "decode_entity payload = Inr e" "e_client e = clientIDFromToken sample_token"
    using work_authorized by (auto simp: create_request_def plain_request_def)
  then show ?thesis using run by (auto simp: clientIDFromToken_def sample_token_def)
qed

end
