(* ===== verification/Go_Text.thy ===== *)
theory Go_Text
  imports Coggo_Types
begin

text \<open>
  Parts of Go's standard library that the gateway and the command line share: \<open>strings.Split\<close> on a
  separator of one byte, and the numbers and names that \<open>strconv.ParseFloat\<close> reads.
\<close>

fun split_sep :: "char \<Rightarrow> string \<Rightarrow> string list" where
  "split_sep c [] = [[]]"
| "split_sep c (x # s) =
     (if x = c then [] # split_sep c s
      else (case split_sep c s of p # ps \<Rightarrow> (x # p) # ps | [] \<Rightarrow> [[x]]))"

text \<open>\<open>strings.TrimRight\<close> of one character.\<close>

definition trim_right :: "char \<Rightarrow> string \<Rightarrow> string" where
  "trim_right c s = rev (dropWhile (\<lambda>x. x = c) (rev s))"

text \<open>
  A \<open>float64\<close>: a finite value, taken exactly, or one of the special values. \<open>ParseFloat\<close> reads the
  special values' names itself, in any case of letters and with a sign before an infinity only;
  \<open>dec\<close> is its reading of the numerals.
\<close>

datatype float64 = Finite rat | PosInf | NegInf | NaN

definition ParseFloat :: "(string \<Rightarrow> rat option) \<Rightarrow> string \<Rightarrow> float64 option" where
  "ParseFloat dec s =
     (let t = to_lower s in
      if t = ''nan'' then Some NaN
      else if t \<in> set [''inf'', ''infinity'', ''+inf'', ''+infinity''] then Some PosInf
      else if t \<in> set [''-inf'', ''-infinity''] then Some NegInf
      else map_option Finite (dec s))"

primrec float_le_zero :: "float64 \<Rightarrow> bool" where
  "float_le_zero (Finite q) = (q \<le> 0)"
| "float_le_zero PosInf = False"
| "float_le_zero NegInf = True"
| "float_le_zero NaN = False"

end
