(* ===== verification/Gateway.thy ===== *)
theory Gateway
  imports Mcp Go_Text
begin

text \<open>
  cmd/coggo-oauth-gateway: main.go, google_validator.go and ratelimit.go. The gateway stands in
  front of the MCP server: it checks the caller's Google token, limits the rate of requests and
  forwards what it admits with the bearer token of Coggo.

  Parameters: \<open>getenv\<close> is the environment (unset is empty), \<open>parse_url\<close> is \<open>url.Parse\<close>,
  \<open>google\<close> what the tokeninfo service answers to a URL, \<open>limiter_lib\<close> the token bucket of the
  library x/time/rate, \<open>send\<close> the upstream server and \<open>oauth\<close> the handlers the library
  oauth-mcp-proxy registers. Each reading of the clock is an argument. Header names are in their
  canonical spelling and log lines are left out.
\<close>

section \<open>Configuration\<close>

definition splitCSV :: "string \<Rightarrow> string list" where
  "splitCSV s = (if s = [] then [] else filter (\<lambda>p. p \<noteq> []) (map trim_space (split_sep CHR '','' s)))"

definition envOr :: "(string \<Rightarrow> string) \<Rightarrow> string \<Rightarrow> string \<Rightarrow> string" where
  "envOr getenv key dflt = (if getenv key \<noteq> [] then getenv key else dflt)"

definition envInt :: "(string \<Rightarrow> string) \<Rightarrow> string \<Rightarrow> int \<Rightarrow> int" where
  "envInt getenv key dflt =
     (let v = getenv key in if v = [] then dflt
      else (case Atoi v of None \<Rightarrow> dflt | Some i \<Rightarrow> if i \<le> 0 then dflt else i))"

primrec per_second :: "float64 \<Rightarrow> float64" where
  "per_second (Finite q) = Finite (q / 60)"
| "per_second PosInf = PosInf"
| "per_second NegInf = NegInf"
| "per_second NaN = NaN"

definition envFloat :: "(string \<Rightarrow> rat option) \<Rightarrow> (string \<Rightarrow> string) \<Rightarrow> string \<Rightarrow> float64 \<Rightarrow> float64" where
  "envFloat dec getenv key dflt =
     (let v = getenv key in if v = [] then dflt
      else (case ParseFloat dec v of None \<Rightarrow> dflt | Some f \<Rightarrow> if float_le_zero f then dflt else f))"

record url =
  u_scheme :: string
  u_host :: string
  u_path :: string
  u_query :: string

record gateway_config =
  gc_listen :: string
  gc_public :: string
  gc_upstream :: url
  gc_token :: string
  gc_client_id :: string
  gc_client_secret :: string
  gc_state_secret :: string
  gc_log_level :: string
  gc_domains :: string
  gc_emails :: "string list"
  gc_global_rps :: float64
  gc_global_burst :: int
  gc_email_rpm :: float64
  gc_email_burst :: int

definition loadConfig :: "(string \<Rightarrow> url result) \<Rightarrow> (string \<Rightarrow> rat option) \<Rightarrow> (string \<Rightarrow> string) \<Rightarrow> gateway_config result" where
  "loadConfig parse_url dec getenv =
     (let raw = envOr getenv ''COGGO_UPSTREAM'' ''http://localhost:6177'' in
      case parse_url raw of
        Inl e \<Rightarrow> Inl (Wrap (''COGGO_UPSTREAM '' @ quote_go raw) e)
      | Inr u \<Rightarrow>
          (let c = \<lparr>gc_listen = envOr getenv ''GATEWAY_LISTEN'' '':8080'',
                    gc_public = trim_right CHR ''/'' (getenv ''GATEWAY_PUBLIC_URL''),
                    gc_upstream = u,
                    gc_token = getenv ''COGGO_TOKEN'',
                    gc_client_id = getenv ''GOOGLE_CLIENT_ID'',
                    gc_client_secret = getenv ''GOOGLE_CLIENT_SECRET'',
                    gc_state_secret = envOr getenv ''OAUTH_STATE_SECRET'' (getenv ''JWT_SECRET''),
                    gc_log_level = envOr getenv ''COGGO_LOG_LEVEL'' ''info'',
                    gc_domains = envOr getenv ''OAUTH_ALLOWED_CLIENT_DOMAINS'' ''claude.ai,claude.com'',
                    gc_emails = splitCSV (getenv ''OAUTH_ALLOWED_EMAILS''),
                    gc_global_rps = envFloat dec getenv ''RATE_GLOBAL_RPS'' (Finite 50),
                    gc_global_burst = envInt getenv ''RATE_GLOBAL_BURST'' 100,
                    gc_email_rpm = envFloat dec getenv ''RATE_PER_EMAIL_RPM'' (Finite 10),
                    gc_email_burst = envInt getenv ''RATE_PER_EMAIL_BURST'' 30\<rparr>
           in if gc_token c = [] then Inl (Errorf ''COGGO_TOKEN is required (run 'coggo token create --all' to mint one)'')
              else if gc_client_id c = [] then Inl (Errorf ''GOOGLE_CLIENT_ID is required'')
              else if gc_client_secret c = [] then Inl (Errorf ''GOOGLE_CLIENT_SECRET is required'')
              else if gc_public c = [] then Inl (Errorf ''GATEWAY_PUBLIC_URL is required (the public URL this gateway is reachable at)'')
              else Inr c))"

definition tokenFingerprint :: "string \<Rightarrow> string" where
  "tokenFingerprint token = take 12 (hex_encode (sha256 token))"

section \<open>Google's verdict on a token\<close>

record tokeninfo =
  ti_aud :: string
  ti_sub :: string
  ti_email :: string
  ti_verified :: string
  ti_exp :: string
  ti_scope :: string
  ti_error :: string
  ti_description :: string

definition zero_tokeninfo :: tokeninfo where
  "zero_tokeninfo = \<lparr>ti_aud = [], ti_sub = [], ti_email = [], ti_verified = [], ti_exp = [], ti_scope = [],
     ti_error = [], ti_description = []\<rparr>"

definition assign_tokeninfo :: "string \<Rightarrow> json \<Rightarrow> tokeninfo \<Rightarrow> tokeninfo result" where
  "assign_tokeninfo k v t =
     (if k = ''aud'' then set_string ''googleTokenInfo.aud'' v (\<lambda>x. ti_aud_update (\<lambda>_. x)) t
      else if k = ''sub'' then set_string ''googleTokenInfo.sub'' v (\<lambda>x. ti_sub_update (\<lambda>_. x)) t
      else if k = ''email'' then set_string ''googleTokenInfo.email'' v (\<lambda>x. ti_email_update (\<lambda>_. x)) t
      else if k = ''email_verified'' then set_string ''googleTokenInfo.email_verified'' v (\<lambda>x. ti_verified_update (\<lambda>_. x)) t
      else if k = ''exp'' then set_string ''googleTokenInfo.exp'' v (\<lambda>x. ti_exp_update (\<lambda>_. x)) t
      else if k = ''scope'' then set_string ''googleTokenInfo.scope'' v (\<lambda>x. ti_scope_update (\<lambda>_. x)) t
      else if k = ''error'' then set_string ''googleTokenInfo.error'' v (\<lambda>x. ti_error_update (\<lambda>_. x)) t
      else if k = ''error_description'' then set_string ''googleTokenInfo.error_description'' v (\<lambda>x. ti_description_update (\<lambda>_. x)) t
      else Inr t)"

record cached_user =
  cu_sub :: string
  cu_email :: string
  cu_expires :: time

text \<open>A Go map to \<open>struct{}\<close> is a map to \<open>unit\<close>.\<close>

record validator =
  gv_audience :: string
  gv_allowed :: "unit gomap"
  gv_cache :: "cached_user gomap"

definition newGoogleValidator :: "string \<Rightarrow> string list \<Rightarrow> validator" where
  "newGoogleValidator audience emails =
     \<lparr>gv_audience = audience,
      gv_allowed = foldl (\<lambda>m e. let e = to_lower (trim_space e) in if e \<noteq> [] then mput e () m else m) [] emails,
      gv_cache = []\<rparr>"

definition tokenKey :: "string \<Rightarrow> string" where
  "tokenKey token = hex_encode (sha256 token)"

definition maxCacheTTL :: int where
  "maxCacheTTL = 5 * 60 * nanos"

text \<open>\<open>time.Unix\<close> shifts the seconds to the year 1 in 64 bits, with wrap-around.\<close>

definition unix_time :: "int \<Rightarrow> time" where
  "unix_time secs = wrap64 (secs + 62135596800) * nanos"

text \<open>\<open>url.QueryEscape\<close>.\<close>

definition url_safe :: "char \<Rightarrow> bool" where
  "url_safe c \<longleftrightarrow> is_digit c \<or> (65 \<le> byte_of c \<and> byte_of c \<le> 90) \<or> (97 \<le> byte_of c \<and> byte_of c \<le> 122)
     \<or> c \<in> set ''-_.~''"

definition upper_hex :: "nat \<Rightarrow> char" where
  "upper_hex n = (if n < 10 then digit_char n else char_of (55 + n))"

definition QueryEscape :: "string \<Rightarrow> string" where
  "QueryEscape s = concat (map (\<lambda>c. if url_safe c then [c] else if c = CHR '' '' then ''+''
     else [CHR ''%'', upper_hex (byte_of c div 16), upper_hex (byte_of c mod 16)]) s)"

definition tokeninfo_url :: "string \<Rightarrow> string" where
  "tokeninfo_url token = ''https://oauth2.googleapis.com/tokeninfo?access_token='' @ QueryEscape token"

text \<open>
  \<open>Validate\<close> locks the cache twice, to look the token up and to store the verdict, and asks
  Google in between. The first part is \<open>look_up\<close>, the last is \<open>remember\<close>; other requests may
  run between them.
\<close>

definition look_up :: "time \<Rightarrow> string \<Rightarrow> validator \<Rightarrow> cached_user option \<times> validator" where
  "look_up now token v =
     (let key = tokenKey token; pruned = v\<lparr>gv_cache := mdel key (gv_cache v)\<rparr> in
      case mget (gv_cache v) key of
        Some u \<Rightarrow> if now < cu_expires u then (Some u, v) else (None, pruned)
      | None \<Rightarrow> (None, pruned))"

definition remember :: "string \<Rightarrow> cached_user \<Rightarrow> validator \<Rightarrow> validator" where
  "remember token u v = v\<lparr>gv_cache := mput (tokenKey token) u (gv_cache v)\<rparr>"

text \<open>The checks of the decoded answer; \<open>now\<close> is the time of the check for expiry and \<open>now'\<close> that
  from which the entry in the cache is dated. A rejection carries the email Google reported.\<close>

definition examine :: "time \<Rightarrow> time \<Rightarrow> tokeninfo \<Rightarrow> validator \<Rightarrow> (string \<times> error) + cached_user" where
  "examine now now' info v =
     (if ti_error info \<noteq> [] then
        Inl (ti_email info, Errorf (''google rejected token: '' @ ti_error info @ '': '' @ ti_description info))
      else if ti_aud info \<noteq> gv_audience v then
        Inl (ti_email info, Errorf (''audience mismatch: got '' @ quote_go (ti_aud info) @ '' want '' @ quote_go (gv_audience v)))
      else if gv_allowed v = [] then
        Inl (ti_email info, Errorf ''no allowed emails configured (set OAUTH_ALLOWED_EMAILS)'')
      else if ti_verified info \<noteq> ''true'' then Inl (ti_email info, Errorf ''email not verified'')
      else if mget (gv_allowed v) (to_lower (ti_email info)) = None then
        Inl (ti_email info, Errorf ''email not in allowlist'')
      else (case Atoi (ti_exp info) of
          None \<Rightarrow> Inl (ti_email info, Wrap (''invalid exp '' @ quote_go (ti_exp info)) (Errorf ''strconv.ParseInt''))
        | Some n \<Rightarrow>
            (let expiry = unix_time n; cap = now' + maxCacheTTL in
             if expiry < now then Inl (ti_email info, Errorf (''token expired at '' @ date_text (expiry div nanos) @ ''Z''))
             else Inr \<lparr>cu_sub = ti_sub info, cu_email = ti_email info, cu_expires = (if cap < expiry then cap else expiry)\<rparr>)))"

text \<open>The answer of the tokeninfo service, from the request to the decoded body.\<close>

record google =
  gg_request :: "error option"
  gg_answer :: "string \<Rightarrow> raw result"

definition ask :: "google \<Rightarrow> string \<Rightarrow> (string \<times> error) + tokeninfo" where
  "ask g token = (case gg_request g of
      Some e \<Rightarrow> Inl ([], Wrap ''build tokeninfo request'' e)
    | None \<Rightarrow> (case gg_answer g (tokeninfo_url token) of
        Inl e \<Rightarrow> Inl ([], Wrap ''call tokeninfo'' e)
      | Inr body \<Rightarrow> (case unmarshal ''main.googleTokenInfo'' assign_tokeninfo zero_tokeninfo body of
          Inl e \<Rightarrow> Inl ([], Wrap ''decode tokeninfo'' e)
        | Inr info \<Rightarrow> Inr info)))"

record clock =
  ck_lookup :: time
  ck_check :: time
  ck_cap :: time

definition Validate :: "google \<Rightarrow> clock \<Rightarrow> string \<Rightarrow> validator \<Rightarrow> ((string \<times> error) + cached_user) \<times> validator" where
  "Validate g ck token v = (case look_up (ck_lookup ck) token v of
      (Some u, v) \<Rightarrow> (Inr u, v)
    | (None, v) \<Rightarrow> (case and_then (ask g token) (\<lambda>info. examine (ck_check ck) (ck_cap ck) info v) of
          Inl e \<Rightarrow> (Inl e, v)
        | Inr u \<Rightarrow> (Inr u, remember token u v)))"

section \<open>Requests and replies\<close>

type_synonym headers = "string list gomap"

record http_request =
  hq_method :: string
  hq_url :: url
  hq_host :: string
  hq_headers :: headers
  hq_client_ip :: "string option"
  hq_email :: "string option"

record http_reply =
  hr_status :: nat
  hr_headers :: headers
  hr_body :: string

text \<open>What a handler does: its reply, and the requests it sent upstream.\<close>

record exchange =
  ex_reply :: http_reply
  ex_sent :: "http_request list"

definition header_get :: "string \<Rightarrow> headers \<Rightarrow> string" where
  "header_get k hs = (case mget hs k of Some (v # vs) \<Rightarrow> v | _ \<Rightarrow> [])"

definition reply_with :: "nat \<Rightarrow> (string \<times> string list) list \<Rightarrow> string \<Rightarrow> exchange" where
  "reply_with status hs body = \<lparr>ex_reply = \<lparr>hr_status = status, hr_headers = mputs hs [], hr_body = body\<rparr>, ex_sent = []\<rparr>"

text \<open>\<open>http.Error\<close>, on top of the headers already set.\<close>

definition http_error :: "nat \<Rightarrow> (string \<times> string list) list \<Rightarrow> string \<Rightarrow> exchange" where
  "http_error status hs msg = reply_with status
     (hs @ [(''Content-Type'', [''text/plain; charset=utf-8'']), (''X-Content-Type-Options'', [''nosniff''])]) (msg @ [CHR 0x0A])"

definition bearerToken :: "http_request \<Rightarrow> string" where
  "bearerToken r =
     (let h = header_get ''Authorization'' (hq_headers r) in
      if length h \<le> length ''Bearer '' \<or> take (length ''Bearer '') h \<noteq> ''Bearer '' then []
      else drop (length ''Bearer '') h)"

definition respondUnauthorized :: "string \<Rightarrow> string \<Rightarrow> exchange" where
  "respondUnauthorized metadata description = reply_with 401
     [(''Www-Authenticate'',
         [''Bearer realm='' @ quote_go ''OAuth'' @ '', error='' @ quote_go ''invalid_token'' @ '', error_description=''
            @ [CHR 0x22] @ description @ [CHR 0x22],
          ''resource_metadata='' @ [CHR 0x22] @ metadata @ [CHR 0x22]]),
      (''Content-Type'', [''application/json''])]
     (''{'' @ quote_go ''error'' @ '':'' @ quote_go ''invalid_token'' @ '',''
        @ quote_go ''error_description'' @ '':'' @ quote_go description @ ''}'' @ [CHR 0x0A])"

definition handleHealthz :: "http_request \<Rightarrow> exchange" where
  "handleHealthz r =
     (if hq_method r \<noteq> ''GET'' \<and> hq_method r \<noteq> ''HEAD''
      then http_error 405 [(''Allow'', [''GET, HEAD''])] ''method not allowed''
      else reply_with 200 [(''Content-Type'', [''text/plain; charset=utf-8''])] (''ok'' @ [CHR 0x0A]))"

section \<open>The reverse proxy\<close>

text \<open>
  Before \<open>Rewrite\<close> runs, \<open>httputil.ReverseProxy\<close> removes the headers that concern one hop, those
  the \<open>Connection\<close> header names and the ones about forwarding. Protocol upgrades are left out.
\<close>

fun canonical_from :: "bool \<Rightarrow> string \<Rightarrow> string" where
  "canonical_from up [] = []"
| "canonical_from up (c # s) =
     (if up \<and> 97 \<le> byte_of c \<and> byte_of c \<le> 122 then char_of (byte_of c - 32)
      else if up then c else lower_char c) # canonical_from (c = CHR ''-'') s"

definition connection_names :: "headers \<Rightarrow> string list" where
  "connection_names hs = (case mget hs ''Connection'' of
      None \<Rightarrow> []
    | Some vs \<Rightarrow> map (canonical_from True) (map trim_space (concat (map (split_sep CHR '','') vs))))"

definition hop_headers :: "string list" where
  "hop_headers = [''Connection'', ''Proxy-Connection'', ''Keep-Alive'', ''Proxy-Authenticate'', ''Proxy-Authorization'',
     ''Te'', ''Trailer'', ''Transfer-Encoding'', ''Upgrade'']"

definition forwarding_headers :: "string list" where
  "forwarding_headers = [''Forwarded'', ''X-Forwarded-For'', ''X-Forwarded-Host'', ''X-Forwarded-Proto'']"

definition outgoing_headers :: "headers \<Rightarrow> headers" where
  "outgoing_headers hs = foldl (\<lambda>m k. mdel k m) hs (connection_names hs @ hop_headers @ forwarding_headers)"

definition singleJoiningSlash :: "string \<Rightarrow> string \<Rightarrow> string" where
  "singleJoiningSlash a b =
     (let aslash = (a \<noteq> [] \<and> last a = CHR ''/''); bslash = (b \<noteq> [] \<and> hd b = CHR ''/'') in
      if aslash \<and> bslash then a @ tl b
      else if \<not> aslash \<and> \<not> bslash then a @ ''/'' @ b
      else a @ b)"

definition SetURL :: "url \<Rightarrow> url \<Rightarrow> url" where
  "SetURL target u = \<lparr>u_scheme = u_scheme target, u_host = u_host target,
     u_path = singleJoiningSlash (u_path target) (u_path u),
     u_query = (if u_query target = [] \<or> u_query u = [] then u_query target @ u_query u
                else u_query target @ ''&'' @ u_query u)\<rparr>"

definition SetXForwarded :: "http_request \<Rightarrow> headers \<Rightarrow> headers" where
  "SetXForwarded r hs =
     mput ''X-Forwarded-Proto'' [''http''] (mput ''X-Forwarded-Host'' [hq_host r]
       (case hq_client_ip r of
          None \<Rightarrow> mdel ''X-Forwarded-For'' hs
        | Some ip \<Rightarrow> mput ''X-Forwarded-For'' [ip] hs))"

definition rewrite :: "url \<Rightarrow> string \<Rightarrow> http_request \<Rightarrow> http_request" where
  "rewrite upstream token r = r\<lparr>hq_url := SetURL upstream (hq_url r), hq_host := [],
     hq_headers := mput ''Authorization'' [''Bearer '' @ token] (SetXForwarded r (outgoing_headers (hq_headers r)))\<rparr>"

definition newReverseProxy :: "(http_request \<Rightarrow> http_reply result) \<Rightarrow> url \<Rightarrow> string \<Rightarrow> http_request \<Rightarrow> exchange" where
  "newReverseProxy send upstream token r =
     (let out = rewrite upstream token r in
      case send out of
        Inr resp \<Rightarrow> \<lparr>ex_reply = resp, ex_sent = [out]\<rparr>
      | Inl e \<Rightarrow> (http_error 502 [] ''upstream coggo unreachable'')\<lparr>ex_sent := [out]\<rparr>)"

section \<open>Rate limits\<close>

record 'l limiter_lib =
  ll_new :: "float64 \<Rightarrow> int \<Rightarrow> 'l"
  ll_allow :: "time \<Rightarrow> 'l \<Rightarrow> bool \<times> 'l"

record 'l email_bucket =
  eb_lim :: 'l
  eb_seen :: time

record 'l email_limiter =
  pl_rps :: float64
  pl_burst :: int
  pl_buckets :: "'l email_bucket gomap"

definition newPerEmailLimiter :: "float64 \<Rightarrow> int \<Rightarrow> 'l email_limiter" where
  "newPerEmailLimiter rps burst = \<lparr>pl_rps = rps, pl_burst = burst, pl_buckets = []\<rparr>"

text \<open>\<open>seen\<close> is the time noted in the bucket, \<open>now\<close> that of the call of the bucket itself.\<close>

definition allow :: "'l limiter_lib \<Rightarrow> time \<Rightarrow> time \<Rightarrow> string \<Rightarrow> 'l email_limiter \<Rightarrow> bool \<times> 'l email_limiter" where
  "allow L seen now email0 p =
     (let email = to_lower email0;
          lim = (case mget (pl_buckets p) email of
              Some b \<Rightarrow> eb_lim b
            | None \<Rightarrow> ll_new L (pl_rps p) (pl_burst p));
          (ok, lim') = ll_allow L now lim
      in (ok, p\<lparr>pl_buckets := mput email \<lparr>eb_lim = lim', eb_seen = seen\<rparr> (pl_buckets p)\<rparr>))"

definition idle_limit :: int where
  "idle_limit = 10 * 60 * nanos"

text \<open>One tick of \<open>sweep\<close>.\<close>

definition sweep :: "time \<Rightarrow> 'l email_limiter \<Rightarrow> 'l email_limiter" where
  "sweep now p = p\<lparr>pl_buckets := filter (\<lambda>(k, b). \<not> now - eb_seen b > idle_limit) (pl_buckets p)\<rparr>"

definition tooManyRequests :: exchange where
  "tooManyRequests = http_error 429 [(''Retry-After'', [''1''])] ''rate limit exceeded''"

definition withEmail :: "http_request \<Rightarrow> string \<Rightarrow> http_request" where
  "withEmail r email = r\<lparr>hq_email := Some email\<rparr>"

definition emailFromCtx :: "http_request \<Rightarrow> string" where
  "emailFromCtx r = (case hq_email r of Some e \<Rightarrow> e | None \<Rightarrow> [])"

section \<open>The chain of handlers\<close>

record 'l gateway =
  gs_global :: 'l
  gs_validator :: validator
  gs_limiter :: "'l email_limiter"

type_synonym 'l http_handler = "http_request \<Rightarrow> 'l gateway \<Rightarrow> exchange \<times> 'l gateway"

text \<open>The outside values of one request.\<close>

record gateway_env =
  ge_google :: google
  ge_clock :: clock
  ge_seen :: time
  ge_email_now :: time
  ge_global_now :: time
  ge_metadata :: string
  ge_send :: "http_request \<Rightarrow> http_reply result"
  ge_oauth :: "http_request \<Rightarrow> http_reply"

definition limit_email :: "'l limiter_lib \<Rightarrow> gateway_env \<Rightarrow> 'l http_handler \<Rightarrow> 'l http_handler" where
  "limit_email L ge next r s =
     (let email = emailFromCtx r in
      if email = [] then (http_error 500 [] ''internal error'', s)
      else (case allow L (ge_seen ge) (ge_email_now ge) email (gs_limiter s) of
          (ok, p) \<Rightarrow> if ok then next r (s\<lparr>gs_limiter := p\<rparr>) else (tooManyRequests, s\<lparr>gs_limiter := p\<rparr>)))"

definition WrapHandler :: "gateway_env \<Rightarrow> 'l http_handler \<Rightarrow> 'l http_handler" where
  "WrapHandler ge next r s =
     (let token = bearerToken r in
      if token = [] then (respondUnauthorized (ge_metadata ge) ''missing access token'', s)
      else (case Validate (ge_google ge) (ge_clock ge) token (gs_validator s) of
          (Inl e, v) \<Rightarrow> (respondUnauthorized (ge_metadata ge) ''authentication failed'', s\<lparr>gs_validator := v\<rparr>)
        | (Inr u, v) \<Rightarrow> next (withEmail r (cu_email u)) (s\<lparr>gs_validator := v\<rparr>)))"

definition globalLimiter :: "'l limiter_lib \<Rightarrow> gateway_env \<Rightarrow> 'l http_handler \<Rightarrow> 'l http_handler" where
  "globalLimiter L ge next r s = (case ll_allow L (ge_global_now ge) (gs_global s) of
      (ok, l) \<Rightarrow> if ok then next r (s\<lparr>gs_global := l\<rparr>) else (tooManyRequests, s\<lparr>gs_global := l\<rparr>))"

definition gateway_mux :: "'l limiter_lib \<Rightarrow> gateway_config \<Rightarrow> gateway_env \<Rightarrow> 'l http_handler" where
  "gateway_mux L cfg ge r s =
     (if u_path (hq_url r) = ''/healthz'' then (handleHealthz r, s)
      else if u_path (hq_url r) = ''/mcp'' then
        WrapHandler ge (limit_email L ge (\<lambda>r s. (newReverseProxy (ge_send ge) (gc_upstream cfg) (gc_token cfg) r, s))) r s
      else (\<lparr>ex_reply = ge_oauth ge r, ex_sent = []\<rparr>, s))"

definition new_gateway :: "'l limiter_lib \<Rightarrow> gateway_config \<Rightarrow> 'l gateway" where
  "new_gateway L cfg = \<lparr>gs_global = ll_new L (gc_global_rps cfg) (gc_global_burst cfg),
     gs_validator = newGoogleValidator (gc_client_id cfg) (gc_emails cfg),
     gs_limiter = newPerEmailLimiter (per_second (gc_email_rpm cfg)) (gc_email_burst cfg)\<rparr>"

definition serve_gateway :: "'l limiter_lib \<Rightarrow> gateway_config \<Rightarrow> gateway_env \<Rightarrow> 'l http_handler" where
  "serve_gateway L cfg ge = globalLimiter L ge (gateway_mux L cfg ge)"

end
