(* ===== verification/Gateway_Props.thy ===== *)
theory Gateway_Props
  imports Gateway
begin

text \<open>
  What the gateway guarantees: a request is forwarded only for an allowed, verified email that
  Google vouched for within the last five minutes, it carries Coggo's token and no other, and the
  rate limit of one email does not depend on the requests of another.
\<close>

section \<open>Maps\<close>

lemma mdel_member: "(k, x) \<in> set (mdel key m) \<Longrightarrow> (k, x) \<in> set m"
  by (induction m) (auto split: if_splits)

lemma mput_member: "(k, x) \<in> set (mput key v m) \<Longrightarrow> (k, x) = (key, v) \<or> (k, x) \<in> set m"
  by (induction key v m rule: mput.induct) (auto split: if_splits)

lemma mget_filter:
  "distinct (mkeys m) \<Longrightarrow> mget (filter (\<lambda>(k, b). P b) m) k = (case mget m k of Some b \<Rightarrow> if P b then Some b else None | None \<Rightarrow> None)"
  by (induction m) (auto split: option.splits simp: map_of_eq_None_iff intro: rev_image_eqI)

lemma gomap_ok_filter: "gomap_ok m \<Longrightarrow> gomap_ok (filter P m)"
  by (induction m) (auto simp: gomap_ok_Cons)

section \<open>The cache of verdicts\<close>

text \<open>
  A verdict is an answer of Google with the times at which it was examined. \<open>validator_run\<close> are
  the states a validator reaches from its construction by the two locked steps of any number of
  concurrent requests, with the verdicts so far.
\<close>

record verdict =
  vd_token :: string
  vd_info :: tokeninfo
  vd_check :: time
  vd_cap :: time

inductive validator_run :: "string \<Rightarrow> string list \<Rightarrow> verdict list \<Rightarrow> validator \<Rightarrow> bool"
  for aud :: string and emails :: "string list" where
  fresh: "validator_run aud emails [] (newGoogleValidator aud emails)"
| looked: "validator_run aud emails vs v \<Longrightarrow> validator_run aud emails vs (snd (look_up now token v))"
| stored: "validator_run aud emails vs v \<Longrightarrow> examine now now' info v = Inr u \<Longrightarrow>
    validator_run aud emails (\<lparr>vd_token = token, vd_info = info, vd_check = now, vd_cap = now'\<rparr> # vs) (remember token u v)"

definition allows :: "string list \<Rightarrow> string \<Rightarrow> bool" where
  "allows emails email \<longleftrightarrow> email \<noteq> [] \<and> email \<in> (\<lambda>e. to_lower (trim_space e)) ` set emails"

text \<open>The answer is good for a use of the token at the time \<open>t\<close>.\<close>

definition vouches :: "string \<Rightarrow> string list \<Rightarrow> tokeninfo \<Rightarrow> bool" where
  "vouches aud emails info \<longleftrightarrow> ti_error info = [] \<and> ti_aud info = aud \<and> ti_verified info = ''true''
     \<and> allows emails (to_lower (ti_email info)) \<and> Atoi (ti_exp info) \<noteq> None"

definition expiry_of :: "tokeninfo \<Rightarrow> time" where
  "expiry_of info = unix_time (the (Atoi (ti_exp info)))"

lemma allowed_emails:
  "mget (gv_allowed (newGoogleValidator aud emails)) e \<noteq> None \<longleftrightarrow> allows emails e"
proof -
  have "set (mkeys (foldl (\<lambda>m e. let e = to_lower (trim_space e) in if e \<noteq> [] then mput e () m else m) m emails))
      = set (mkeys m) \<union> {e. allows emails e}" for m
  proof (induction emails arbitrary: m)
    case (Cons e es)
    have "{x. allows (e # es) x} = (if to_lower (trim_space e) \<noteq> [] then {to_lower (trim_space e)} else {}) \<union> {x. allows es x}"
      by (auto simp: allows_def)
    with Cons show ?case by (simp add: Let_def set_keys_mput del: set_map)
  qed (auto simp: allows_def)
  from this [of "[]"] show ?thesis
    by (simp add: newGoogleValidator_def map_of_eq_None_iff)
qed

lemma look_up_frame [frame_simps]:
  "gv_audience (snd (look_up now token v)) = gv_audience v"
  "gv_allowed (snd (look_up now token v)) = gv_allowed v"
  by (auto simp: look_up_def Let_def split: option.splits)

lemma validator_run_config:
  assumes "validator_run aud emails vs v"
  shows "gv_audience v = aud" and "gv_allowed v = gv_allowed (newGoogleValidator aud emails)"
  using assms by (induction rule: validator_run.induct)
    (simp_all add: frame_simps remember_def, simp add: newGoogleValidator_def)

lemma examine_Inr:
  assumes "examine now now' info v = Inr u" and "validator_run aud emails vs v"
  shows "vouches aud emails info" and "now \<le> expiry_of info" and "cu_email u = ti_email info"
    and "cu_expires u = min (now' + maxCacheTTL) (expiry_of info)"
proof -
  from assms(1) obtain n where n: "Atoi (ti_exp info) = Some n" and x: "\<not> unix_time n < now"
    and u: "u = \<lparr>cu_sub = ti_sub info, cu_email = ti_email info,
      cu_expires = (if now' + maxCacheTTL < unix_time n then now' + maxCacheTTL else unix_time n)\<rparr>"
    and c: "ti_error info = []" "ti_aud info = gv_audience v" "ti_verified info = ''true''"
      "mget (gv_allowed v) (to_lower (ti_email info)) \<noteq> None"
    by (auto simp: examine_def Let_def split: if_splits option.splits)
  have "allows emails (to_lower (ti_email info))"
    using c(4) unfolding validator_run_config(2) [OF assms(2)] allowed_emails .
  then show "vouches aud emails info"
    using c n validator_run_config [OF assms(2)] by (simp add: vouches_def)
  show "now \<le> expiry_of info" using x n by (simp add: expiry_of_def)
  show "cu_email u = ti_email info" using u by simp
  show "cu_expires u = min (now' + maxCacheTTL) (expiry_of info)" using u n by (simp add: expiry_of_def)
qed

text \<open>Every entry of the cache goes back to a verdict and outlives neither it nor the token.\<close>

definition entry_from :: "string \<Rightarrow> string list \<Rightarrow> verdict list \<Rightarrow> string \<Rightarrow> cached_user \<Rightarrow> bool" where
  "entry_from aud emails vs k u \<longleftrightarrow> (\<exists>d \<in> set vs. tokenKey (vd_token d) = k \<and> vouches aud emails (vd_info d)
     \<and> cu_email u = ti_email (vd_info d) \<and> vd_check d \<le> expiry_of (vd_info d)
     \<and> cu_expires u \<le> vd_cap d + maxCacheTTL \<and> cu_expires u \<le> expiry_of (vd_info d))"

lemma look_up_member: "(k, u) \<in> set (gv_cache (snd (look_up now token v))) \<Longrightarrow> (k, u) \<in> set (gv_cache v)"
  by (auto simp: look_up_def Let_def split: option.splits if_splits dest: mdel_member)

lemma validator_run_cache:
  assumes "validator_run aud emails vs v" and "(k, u) \<in> set (gv_cache v)"
  shows "entry_from aud emails vs k u"
  using assms
proof (induction arbitrary: k u rule: validator_run.induct)
  case fresh
  then show ?case by (simp add: newGoogleValidator_def)
next
  case (looked vs v now token)
  then show ?case by (blast dest: look_up_member)
next
  case (stored vs v now now' info u' token)
  note facts = examine_Inr [OF stored.hyps(2,1)]
  from stored.prems have "(k, u) = (tokenKey token, u') \<or> (k, u) \<in> set (gv_cache v)"
    by (auto simp: remember_def dest: mput_member)
  then show ?case
  proof
    assume "(k, u) = (tokenKey token, u')"
    with facts show ?thesis by (simp add: entry_from_def)
  next
    assume "(k, u) \<in> set (gv_cache v)"
    from stored.IH [OF this] show ?thesis by (auto simp: entry_from_def)
  qed
qed

lemma look_up_Some:
  assumes "look_up now token v = (Some u, v')"
  shows "v' = v" and "(tokenKey token, u) \<in> set (gv_cache v)" and "now < cu_expires u"
  using assms by (auto simp: look_up_def Let_def dest: map_of_SomeD split: option.splits if_splits)

lemma mget_mput_same: "mget (mput k v m) k = Some v"
  by (induction k v m rule: mput.induct) auto

lemma Validate_keeps_run:
  assumes "validator_run aud emails vs v"
  shows "\<exists>vs'. validator_run aud emails vs' (snd (Validate g ck token v))"
proof -
  obtain res w where l: "look_up (ck_lookup ck) token v = (res, w)" by fastforce
  then have w: "validator_run aud emails vs w" using looked [OF assms, of "ck_lookup ck" token] by simp
  show ?thesis
  proof (cases "res = None \<and> (\<exists>info u. ask g token = Inr info \<and> examine (ck_check ck) (ck_cap ck) info w = Inr u)")
    case True
    then obtain info u where a: "ask g token = Inr info" "examine (ck_check ck) (ck_cap ck) info w = Inr u"
      by blast
    then show ?thesis using True l stored [OF w a(2), of token] by (auto simp: Validate_def)
  next
    case False
    then have "snd (Validate g ck token v) = w"
      using l by (cases "ask g token") (auto simp: Validate_def split: option.splits sum.splits)
    then show ?thesis using w by auto
  qed
qed

text \<open>
  \<open>granted\<close>: the user \<open>u\<close> is one an answer of Google vouches for; either it answers the present
  request for the token, or it was examined within the last five minutes for a token with the same
  SHA-256 and the token has not expired since.
\<close>

definition granted :: "string \<Rightarrow> string list \<Rightarrow> verdict list \<Rightarrow> google \<Rightarrow> clock \<Rightarrow> string \<Rightarrow> string \<Rightarrow> bool" where
  "granted aud emails vs g ck token email \<longleftrightarrow>
     (\<exists>info. vouches aud emails info \<and> email = ti_email info
        \<and> (ask g token = Inr info \<and> ck_check ck \<le> expiry_of info
           \<or> (\<exists>d \<in> set vs. vd_info d = info \<and> tokenKey (vd_token d) = tokenKey token
                \<and> ck_lookup ck < vd_cap d + maxCacheTTL \<and> ck_lookup ck < expiry_of info)))"

lemma Validate_granted:
  assumes run: "validator_run aud emails vs v" and ok: "Validate g ck token v = (Inr u, v')"
  shows "granted aud emails vs g ck token (cu_email u)"
proof -
  obtain res w where l: "look_up (ck_lookup ck) token v = (res, w)" by fastforce
  show ?thesis
  proof (cases res)
    case (Some x)
    then have "x = u" using ok l by (simp add: Validate_def)
    with l Some have m: "(tokenKey token, u) \<in> set (gv_cache v)" and t: "ck_lookup ck < cu_expires u"
      by (auto dest: look_up_Some)
    from validator_run_cache [OF run m] obtain d where d: "d \<in> set vs" "tokenKey (vd_token d) = tokenKey token"
        "vouches aud emails (vd_info d)" "cu_email u = ti_email (vd_info d)"
      and "cu_expires u \<le> vd_cap d + maxCacheTTL" "cu_expires u \<le> expiry_of (vd_info d)"
      unfolding entry_from_def by blast
    then have "ck_lookup ck < vd_cap d + maxCacheTTL" "ck_lookup ck < expiry_of (vd_info d)" using t by linarith+
    with d show ?thesis unfolding granted_def by blast
  next
    case None
    have w: "validator_run aud emails vs w" using looked [OF run, of "ck_lookup ck" token] l by simp
    from None ok l obtain info where a: "ask g token = Inr info" and e: "examine (ck_check ck) (ck_cap ck) info w = Inr u"
      by (auto simp: Validate_def and_then_Inr_iff split: sum.splits)
    from examine_Inr [OF e w] a show ?thesis unfolding granted_def by blast
  qed
qed

lemma no_emails_not_granted:
  assumes "\<forall>e \<in> set emails. trim_space e = []"
  shows "\<not> granted aud emails vs g ck token email"
  using assms by (auto simp: granted_def vouches_def allows_def to_lower_def)

section \<open>Forwarding\<close>

lemma quiet_replies [simp]:
  "ex_sent (reply_with st hs b) = []" "ex_sent (http_error st hs b) = []" "ex_sent (respondUnauthorized m d) = []"
  "ex_sent tooManyRequests = []" "ex_sent (handleHealthz r) = []"
  by (simp_all add: reply_with_def http_error_def respondUnauthorized_def tooManyRequests_def handleHealthz_def)

lemma proxy_sends:
  "ex_sent (newReverseProxy send upstream token r) = [rewrite upstream token r]"
  by (simp add: newReverseProxy_def Let_def split: sum.splits)

lemma serve_sends:
  assumes "serve_gateway L cfg ge r s = (ex, s')" and "ex_sent ex \<noteq> []"
  obtains u v where "Validate (ge_google ge) (ge_clock ge) (bearerToken r) (gs_validator s) = (Inr u, v)"
    and "u_path (hq_url r) = ''/mcp''" and "fst (ll_allow L (ge_global_now ge) (gs_global s))"
    and "fst (allow L (ge_seen ge) (ge_email_now ge) (cu_email u) (gs_limiter s))"
    and "ex_sent ex = [rewrite (gc_upstream cfg) (gc_token cfg) (withEmail r (cu_email u))]"
proof -
  obtain ok l where g: "ll_allow L (ge_global_now ge) (gs_global s) = (ok, l)" by fastforce
  then have ok and m: "gateway_mux L cfg ge r (s\<lparr>gs_global := l\<rparr>) = (ex, s')"
    using assms by (auto simp: serve_gateway_def globalLimiter_def split: if_splits)
  have path: "u_path (hq_url r) = ''/mcp''"
    using m assms(2) by (auto simp: gateway_mux_def split: if_splits)
  then have wr: "WrapHandler ge (limit_email L ge (\<lambda>r s. (newReverseProxy (ge_send ge) (gc_upstream cfg) (gc_token cfg) r, s))) r
      (s\<lparr>gs_global := l\<rparr>) = (ex, s')"
    using m by (simp add: gateway_mux_def)
  then obtain u v where v: "Validate (ge_google ge) (ge_clock ge) (bearerToken r) (gs_validator s) = (Inr u, v)"
    and li: "limit_email L ge (\<lambda>r s. (newReverseProxy (ge_send ge) (gc_upstream cfg) (gc_token cfg) r, s))
      (withEmail r (cu_email u)) (s\<lparr>gs_global := l, gs_validator := v\<rparr>) = (ex, s')"
    using assms(2) by (auto simp: WrapHandler_def Let_def split: if_splits prod.splits sum.splits)
  show ?thesis
  proof (rule that [OF v path])
    show "fst (ll_allow L (ge_global_now ge) (gs_global s))" using g \<open>ok\<close> by simp
    show "fst (allow L (ge_seen ge) (ge_email_now ge) (cu_email u) (gs_limiter s))"
      and "ex_sent ex = [rewrite (gc_upstream cfg) (gc_token cfg) (withEmail r (cu_email u))]"
      using li assms(2)
      by (auto simp: limit_email_def Let_def emailFromCtx_def withEmail_def proxy_sends split: if_splits prod.splits)
  qed
qed

text \<open>C2: The gateway forwards a request only on \<^verbatim>\<open>/mcp\<close>, for a caller Google vouches for (audience, verified
  email on the allowlist, not expired; a verdict is at most five minutes old) and within both rate
  limits, whatever concurrent requests did to the cache before. The one request it sends carries Coggo's
  token as its only Authorization value, so the MCP server sees the gateway's token, never the caller's.\<close>

theorem forwards_only_vouched:
  assumes "validator_run (gc_client_id cfg) (gc_emails cfg) vs (gs_validator s)"
    and "serve_gateway L cfg ge r s = (ex, s')" and "ex_sent ex \<noteq> []"
  shows "\<exists>email out. granted (gc_client_id cfg) (gc_emails cfg) vs (ge_google ge) (ge_clock ge) (bearerToken r) email
    \<and> u_path (hq_url r) = ''/mcp''
    \<and> fst (ll_allow L (ge_global_now ge) (gs_global s))
    \<and> fst (allow L (ge_seen ge) (ge_email_now ge) email (gs_limiter s))
    \<and> ex_sent ex = [out] \<and> mget (hq_headers out) ''Authorization'' = Some [''Bearer '' @ gc_token cfg]
    \<and> cx_token (injectAuth sv (header_get ''Authorization'' (hq_headers out))) = trim_space (gc_token cfg)"
proof -
  from serve_sends [OF assms(2,3)] obtain u v
    where v: "Validate (ge_google ge) (ge_clock ge) (bearerToken r) (gs_validator s) = (Inr u, v)"
      and rest: "u_path (hq_url r) = ''/mcp''" "fst (ll_allow L (ge_global_now ge) (gs_global s))"
        "fst (allow L (ge_seen ge) (ge_email_now ge) (cu_email u) (gs_limiter s))"
      and out: "ex_sent ex = [rewrite (gc_upstream cfg) (gc_token cfg) (withEmail r (cu_email u))]" .
  have h: "mget (hq_headers (rewrite (gc_upstream cfg) (gc_token cfg) (withEmail r (cu_email u)))) ''Authorization''
      = Some [''Bearer '' @ gc_token cfg]"
    by (simp add: rewrite_def mget_mput_same)
  moreover have "cx_token (injectAuth sv (''Bearer '' @ gc_token cfg)) = trim_space (gc_token cfg)"
    by (simp add: injectAuth_def trim_prefix_def has_prefix_def)
  ultimately show ?thesis
    using Validate_granted [OF assms(1) v] rest out by (auto simp: header_get_def)
qed

text \<open>C28: Without allowed emails the gateway is closed: nothing is ever forwarded, and a request on
  \<^verbatim>\<open>/mcp\<close> that passes the global limit is answered 401.\<close>

theorem empty_allowlist_closed:
  assumes "validator_run (gc_client_id cfg) (gc_emails cfg) vs (gs_validator s)"
    and "\<forall>e \<in> set (gc_emails cfg). trim_space e = []" and "serve_gateway L cfg ge r s = (ex, s')"
  shows "ex_sent ex = [] \<and> (u_path (hq_url r) = ''/mcp'' \<and> fst (ll_allow L (ge_global_now ge) (gs_global s))
    \<longrightarrow> hr_status (ex_reply ex) = 401)"
proof -
  have no: "fst (Validate (ge_google ge) (ge_clock ge) (bearerToken r) (gs_validator s)) \<noteq> Inr u" for u
    using Validate_granted [OF assms(1)] no_emails_not_granted [OF assms(2)] by (metis prod.collapse)
  have "ex_sent ex = []"
    using serve_sends [OF assms(3)] no by (metis fst_conv)
  moreover have "hr_status (ex_reply ex) = 401"
    if "u_path (hq_url r) = ''/mcp''" "fst (ll_allow L (ge_global_now ge) (gs_global s))"
    using that no assms(3)
    by (auto simp: serve_gateway_def globalLimiter_def gateway_mux_def WrapHandler_def Let_def respondUnauthorized_def
        reply_with_def split: if_splits prod.splits sum.splits)
  ultimately show ?thesis by blast
qed

section \<open>Asking about a token\<close>

definition hex_value :: "char \<Rightarrow> nat" where
  "hex_value c = (if is_digit c then digit_val c else byte_of c - 55)"

fun QueryUnescape :: "string \<Rightarrow> string" where
  "QueryUnescape [] = []"
| "QueryUnescape (c # s) =
     (if c = CHR ''%'' then (case s of a # b # r \<Rightarrow> char_of (16 * hex_value a + hex_value b) # QueryUnescape (drop 2 s) | _ \<Rightarrow> [])
      else (if c = CHR ''+'' then CHR '' '' else c) # QueryUnescape s)"

lemma hex_value_upper: "n < 16 \<Longrightarrow> hex_value (upper_hex n) = n"
  by (simp add: hex_value_def upper_hex_def is_digit_def byte_of_def digit_char_def digit_val_def)

lemma unescape_char:
  "QueryUnescape ((if url_safe c then [c] else if c = CHR '' '' then ''+''
     else [CHR ''%'', upper_hex (byte_of c div 16), upper_hex (byte_of c mod 16)]) @ t) = c # QueryUnescape t"
proof -
  have "byte_of c div 16 < 16" using byte_of_less [of c] by (simp add: less_mult_imp_div_less)
  then have "char_of (16 * hex_value (upper_hex (byte_of c div 16)) + hex_value (upper_hex (byte_of c mod 16))) = c"
    by (simp add: hex_value_upper)
  moreover have "url_safe c \<Longrightarrow> c \<noteq> CHR ''%'' \<and> c \<noteq> CHR ''+''"
    by (auto simp: url_safe_def is_digit_def byte_of_def)
  ultimately show ?thesis by auto
qed

text \<open>The tokeninfo service is asked about exactly the caller's token: the token can be read back
  from the query of the URL, so different tokens are different questions.\<close>

theorem token_read_back:
  "tokeninfo_url token = ''https://oauth2.googleapis.com/tokeninfo?access_token='' @ q \<Longrightarrow> QueryUnescape q = token"
proof -
  have "QueryUnescape (QueryEscape t) = t" for t
    by (induction t) (simp_all add: QueryEscape_def unescape_char)
  from this [of token] show "tokeninfo_url token = ''https://oauth2.googleapis.com/tokeninfo?access_token='' @ q \<Longrightarrow> QueryUnescape q = token"
    by (simp add: tokeninfo_url_def)
qed

section \<open>Limits per email\<close>

datatype limiter_event = Call string time time | Tick time

primrec limiter_run :: "'l limiter_lib \<Rightarrow> limiter_event list \<Rightarrow> 'l email_limiter \<Rightarrow> (string \<times> bool) list \<times> 'l email_limiter" where
  "limiter_run L [] p = ([], p)"
| "limiter_run L (e # es) p = (case e of
      Tick now \<Rightarrow> limiter_run L es (sweep now p)
    | Call email seen now \<Rightarrow> (case allow L seen now email p of
        (ok, p') \<Rightarrow> (case limiter_run L es p' of (out, q) \<Rightarrow> ((to_lower email, ok) # out, q))))"

definition concerns :: "string \<Rightarrow> limiter_event \<Rightarrow> bool" where
  "concerns email e = (case e of Tick now \<Rightarrow> True | Call m seen now \<Rightarrow> to_lower m = to_lower email)"

lemma limiter_run_simps [simp]:
  "limiter_run L (Tick now # es) p = limiter_run L es (sweep now p)"
  "fst (limiter_run L (Call m seen now # es) p)
     = (to_lower m, fst (allow L seen now m p)) # fst (limiter_run L es (snd (allow L seen now m p)))"
  "snd (limiter_run L (Call m seen now # es) p) = snd (limiter_run L es (snd (allow L seen now m p)))"
  by (simp_all split: prod.splits)

lemma concerns_simps [simp]:
  "concerns email (Tick now)" "concerns email (Call m seen now) \<longleftrightarrow> to_lower m = to_lower email"
  by (simp_all add: concerns_def)

declare limiter_run.simps(2) [simp del]

definition limiter_ok :: "'l email_limiter \<Rightarrow> bool" where
  "limiter_ok p \<longleftrightarrow> gomap_ok (pl_buckets p)"

text \<open>The limiter a call by \<open>email\<close> meets.\<close>

definition bucket_for :: "'l limiter_lib \<Rightarrow> 'l email_limiter \<Rightarrow> string \<Rightarrow> 'l" where
  "bucket_for L p email = (case mget (pl_buckets p) (to_lower email) of
      Some b \<Rightarrow> eb_lim b | None \<Rightarrow> ll_new L (pl_rps p) (pl_burst p))"

lemma allow_bucket:
  assumes "limiter_ok p"
  shows "limiter_ok (snd (allow L seen now email p))" and "pl_rps (snd (allow L seen now email p)) = pl_rps p"
    and "pl_burst (snd (allow L seen now email p)) = pl_burst p"
    and "mget (pl_buckets (snd (allow L seen now email p)))
      = (mget (pl_buckets p))(to_lower email \<mapsto> \<lparr>eb_lim = snd (ll_allow L now (bucket_for L p email)), eb_seen = seen\<rparr>)"
    and "fst (allow L seen now email p) = fst (ll_allow L now (bucket_for L p email))"
  using assms by (simp_all add: allow_def bucket_for_def limiter_ok_def Let_def gomap_simps split: prod.splits)

lemma sweep_bucket:
  assumes "limiter_ok p"
  shows "limiter_ok (sweep now p)" and "pl_rps (sweep now p) = pl_rps p" and "pl_burst (sweep now p) = pl_burst p"
    and "mget (pl_buckets (sweep now p)) k = (case mget (pl_buckets p) k of
          Some b \<Rightarrow> if now - eb_seen b > idle_limit then None else Some b | None \<Rightarrow> None)"
  using assms by (simp_all add: sweep_def limiter_ok_def gomap_ok_filter gomap_ok_distinct mget_filter split: option.splits)

lemma sweep_Some:
  "limiter_ok p \<Longrightarrow> mget (pl_buckets (sweep now p)) k = Some b
     \<longleftrightarrow> mget (pl_buckets p) k = Some b \<and> now - eb_seen b \<le> idle_limit"
  by (auto simp: sweep_bucket(4) split: option.splits if_splits)

lemma limiter_run_isolated:
  assumes "limiter_ok p" and "limiter_ok q" and "pl_rps p = pl_rps q" and "pl_burst p = pl_burst q"
    and "mget (pl_buckets p) (to_lower email) = mget (pl_buckets q) (to_lower email)"
  shows "filter (\<lambda>(e, ok). e = to_lower email) (fst (limiter_run L es p)) = fst (limiter_run L (filter (concerns email) es) q)"
  using assms
proof (induction es arbitrary: p q)
  case (Cons e es)
  note pq = allow_bucket [OF Cons.prems(1), of L] allow_bucket [OF Cons.prems(2), of L]
  show ?case
  proof (cases e)
    case (Tick now)
    have "filter (\<lambda>(e, ok). e = to_lower email) (fst (limiter_run L es (sweep now p)))
        = fst (limiter_run L (filter (concerns email) es) (sweep now q))"
      by (rule Cons.IH) (use Cons.prems in \<open>simp_all add: sweep_bucket\<close>)
    then show ?thesis using Tick by simp
  next
    case (Call m seen now)
    show ?thesis
    proof (cases "to_lower m = to_lower email")
      case True
      then have b: "bucket_for L p m = bucket_for L q m" using Cons.prems by (simp add: bucket_for_def split: option.splits)
      have "filter (\<lambda>(e, ok). e = to_lower email) (fst (limiter_run L es (snd (allow L seen now m p))))
          = fst (limiter_run L (filter (concerns email) es) (snd (allow L seen now m q)))"
        by (rule Cons.IH) (use Cons.prems pq b True in simp_all)
      then show ?thesis using Call b pq True by simp
    next
      case False
      have "filter (\<lambda>(e, ok). e = to_lower email) (fst (limiter_run L es (snd (allow L seen now m p))))
          = fst (limiter_run L (filter (concerns email) es) q)"
        by (rule Cons.IH) (use Cons.prems pq False in simp_all)
      then show ?thesis using Call False by simp
    qed
  qed
qed simp

text \<open>C21: Whatever the others do, the calls of one email get the answers they would get alone: the
  answers to one email in any sequence of calls and sweeps are those of the sequence with the calls of
  all other emails left out. Emails are the same up to the case of letters.\<close>

theorem email_limits_isolated:
  "filter (\<lambda>(e, ok). e = to_lower email) (fst (limiter_run L es (newPerEmailLimiter rps burst)))
     = fst (limiter_run L (filter (concerns email) es) (newPerEmailLimiter rps burst))"
  by (rule limiter_run_isolated) (simp_all add: newPerEmailLimiter_def limiter_ok_def)

lemma limiter_run_snoc: "snd (limiter_run L (es @ [e]) p) = snd (limiter_run L [e] (snd (limiter_run L es p)))"
proof (induction es arbitrary: p)
  case (Cons x es)
  then show ?case by (cases x) simp_all
qed simp

definition bucket_from :: "limiter_event list \<Rightarrow> 'l email_limiter \<Rightarrow> string \<Rightarrow> 'l email_bucket \<Rightarrow> bool" where
  "bucket_from es p k b \<longleftrightarrow> mget (pl_buckets p) k = Some b \<or> (\<exists>m now. Call m (eb_seen b) now \<in> set es \<and> k = to_lower m)"

lemma limiter_run_buckets:
  assumes "limiter_ok p"
  shows "limiter_ok (snd (limiter_run L es p))"
    and "mget (pl_buckets (snd (limiter_run L es p))) k = Some b \<Longrightarrow> bucket_from es p k b"
proof -
  have "limiter_ok (snd (limiter_run L es p)) \<and>
      (mget (pl_buckets (snd (limiter_run L es p))) k = Some b \<longrightarrow> bucket_from es p k b)"
    using assms
  proof (induction es arbitrary: p)
    case (Cons e es)
    show ?case
    proof (cases e)
      case (Tick now)
      with Cons.IH [OF sweep_bucket(1) [OF Cons.prems]] Cons.prems show ?thesis
        by (auto simp: bucket_from_def sweep_Some)
    next
      case (Call m seen now)
      note pa = allow_bucket [OF Cons.prems, of L seen now m]
      have "bucket_from (e # es) p k b" if "bucket_from es (snd (allow L seen now m p)) k b"
        using that Call unfolding bucket_from_def pa(4)
        by (cases "k = to_lower m") (simp, metis email_bucket.select_convs(2), auto)
      with Cons.IH [OF pa(1)] Call show ?thesis by simp
    qed
  qed (simp add: bucket_from_def)
  then show "limiter_ok (snd (limiter_run L es p))"
    and "mget (pl_buckets (snd (limiter_run L es p))) k = Some b \<Longrightarrow> bucket_from es p k b" by blast+
qed

text \<open>After a sweep every remaining bucket belongs to an email that called within the last ten
  minutes, so idle entries do not pile up.\<close>

theorem sweep_evicts_idle:
  assumes "mget (pl_buckets (snd (limiter_run L (es @ [Tick now]) (newPerEmailLimiter rps burst)))) k = Some b"
  shows "\<exists>m t. Call m (eb_seen b) t \<in> set es \<and> k = to_lower m \<and> now - eb_seen b \<le> idle_limit"
proof -
  define p where "p = snd (limiter_run L es (newPerEmailLimiter rps burst))"
  have new: "limiter_ok (newPerEmailLimiter rps burst :: 'a email_limiter)"
    by (simp add: newPerEmailLimiter_def limiter_ok_def)
  note p = limiter_run_buckets [OF new, of L es, folded p_def]
  have "mget (pl_buckets (sweep now p)) k = Some b"
    using assms by (simp add: limiter_run_snoc p_def limiter_run.simps(1))
  then have "mget (pl_buckets p) k = Some b" and "now - eb_seen b \<le> idle_limit"
    using p(1) by (simp_all add: sweep_Some)
  with p(2) show ?thesis by (fastforce simp: bucket_from_def newPerEmailLimiter_def)
qed

section \<open>The configuration\<close>

lemma trim_space_trimmed: "trim_space (trim_space s) = trim_space s"
proof -
  define y z where "y = dropWhile is_space s" and "z = rev (dropWhile is_space (rev y))"
  have "y = z @ rev (takeWhile is_space (rev y))"
    unfolding z_def by (metis rev_append rev_rev_ident takeWhile_dropWhile_id)
  then have "z \<noteq> [] \<Longrightarrow> hd z = hd y \<and> y \<noteq> []" by (metis Nil_is_append_conv hd_append2)
  then have "z \<noteq> [] \<Longrightarrow> \<not> is_space (hd z)" unfolding y_def using hd_dropWhile by metis
  then have "dropWhile is_space z = z" by (cases z) auto
  moreover have "dropWhile is_space (rev z) = rev z"
    unfolding z_def by (simp add: dropWhile_idem)
  moreover have "trim_space s = z" by (simp add: trim_space_def y_def z_def)
  ultimately show ?thesis by (simp add: trim_space_def)
qed

definition rate_usable :: "float64 \<Rightarrow> bool" where
  "rate_usable f \<longleftrightarrow> f = PosInf \<or> f = NaN \<or> (\<exists>q > 0. f = Finite q)"

lemma envInt_positive: "0 < d \<Longrightarrow> 0 < envInt getenv key d"
  by (simp add: envInt_def Let_def split: option.splits)

lemma envFloat_usable: "rate_usable d \<Longrightarrow> rate_usable (envFloat dec getenv key d)"
proof (cases "ParseFloat dec (getenv key)")
  case (Some f)
  then show "rate_usable d \<Longrightarrow> ?thesis" by (cases f) (auto simp: envFloat_def rate_usable_def Let_def)
qed (simp add: envFloat_def Let_def)

definition config_usable :: "gateway_config \<Rightarrow> bool" where
  "config_usable c \<longleftrightarrow> gc_token c \<noteq> [] \<and> gc_client_id c \<noteq> [] \<and> gc_client_secret c \<noteq> [] \<and> gc_public c \<noteq> []
     \<and> 0 < gc_global_burst c \<and> 0 < gc_email_burst c \<and> rate_usable (gc_global_rps c) \<and> rate_usable (gc_email_rpm c)
     \<and> list_all (\<lambda>e. e \<noteq> [] \<and> trim_space e = e) (gc_emails c)"


text \<open>A rate of \<open>NaN\<close> passes the check that a rate is positive.\<close>

theorem nan_rate_accepted:
  "envFloat dec (getenv(key := ''NaN'')) key d = NaN"
proof -
  have "to_lower ''NaN'' = ''nan''" by code_simp
  then show ?thesis by (simp add: envFloat_def ParseFloat_def)
qed

section \<open>Concrete requests\<close>

text \<open>A limiter that counts down, one caller on the allowlist and a Google that knows her.\<close>

definition count_down :: "int limiter_lib" where
  "count_down = \<lparr>ll_new = \<lambda>rps burst. burst, ll_allow = \<lambda>now n. (0 < n, n - 1)\<rparr>"

definition sample_config :: "string list \<Rightarrow> gateway_config" where
  "sample_config emails = \<lparr>gc_listen = '':8080'', gc_public = ''https://g.example'', gc_upstream = \<lparr>u_scheme = ''http'',
     u_host = ''localhost:6177'', u_path = [], u_query = []\<rparr>, gc_token = ''coggo'', gc_client_id = ''cid'', gc_client_secret = ''cs'',
     gc_state_secret = ''st'', gc_log_level = ''info'', gc_domains = ''claude.ai'', gc_emails = emails, gc_global_rps = Finite 50,
     gc_global_burst = 2, gc_email_rpm = Finite 10, gc_email_burst = 1\<rparr>"

definition sample_info :: tokeninfo where
  "sample_info = \<lparr>ti_aud = ''cid'', ti_sub = ''s'', ti_email = ''Ann@x.org'', ti_verified = ''true'', ti_exp = ''3600'', ti_scope = [],
     ti_error = [], ti_description = []\<rparr>"

definition sample_google :: google where
  "sample_google = \<lparr>gg_request = None, gg_answer = \<lambda>u. Inr (Doc (JObj [(''aud'', JStr ''cid''), (''email'', JStr ''Ann@x.org''),
     (''email_verified'', JStr ''true''), (''exp'', JStr ''3600''), (''sub'', JStr ''s'')]))\<rparr>"

definition sample_gateway_env :: gateway_env where
  "sample_gateway_env = \<lparr>ge_google = sample_google, ge_clock = \<lparr>ck_lookup = 0, ck_check = 1, ck_cap = 2\<rparr>, ge_seen = 3, ge_email_now = 4,
     ge_global_now = 0, ge_metadata = ''https://g.example/meta'', ge_send = \<lambda>r. Inr \<lparr>hr_status = 200, hr_headers = [], hr_body = ''{}''\<rparr>,
     ge_oauth = \<lambda>r. \<lparr>hr_status = 404, hr_headers = [], hr_body = []\<rparr>\<rparr>"

definition sample_request :: http_request where
  "sample_request = \<lparr>hq_method = ''POST'', hq_url = \<lparr>u_scheme = [], u_host = [], u_path = ''/mcp'', u_query = []\<rparr>, hq_host = ''g.example'',
     hq_headers = [(''Authorization'', [''Bearer ya29''])], hq_client_ip = Some ''10.0.0.1'', hq_email = None\<rparr>"

lemma sample_token: "bearerToken sample_request = ''ya29''"
  by (simp add: bearerToken_def sample_request_def header_get_def)

lemma tokeninfo_keys:
  "fold_name ''aud'' = ''aud''" "fold_name ''email'' = ''email''" "fold_name ''email_verified'' = ''email_verified''"
  "fold_name ''exp'' = ''exp''" "fold_name ''sub'' = ''sub''"
  by (rule fold_name_plain, simp add: plain_key_def byte_of_def)+

lemma sample_answer: "ask sample_google token = Inr sample_info"
  by (simp add: ask_def sample_google_def sample_info_def struct_simps tokeninfo_keys assign_tokeninfo_def zero_tokeninfo_def)

lemma sample_examined:
  "examine 1 2 sample_info (newGoogleValidator ''cid'' [''ann@x.org''])
     = Inr \<lparr>cu_sub = ''s'', cu_email = ''Ann@x.org'', cu_expires = 2 + maxCacheTTL\<rparr>"
proof -
  have "mget (gv_allowed (newGoogleValidator ''cid'' [''ann@x.org''])) (to_lower ''Ann@x.org'') \<noteq> None"
    unfolding allowed_emails by code_simp
  moreover have "gv_allowed (newGoogleValidator ''cid'' [''ann@x.org'']) \<noteq> []" using calculation by auto
  moreover have "Atoi ''3600'' = Some 3600" by code_simp
  moreover have "unix_time 3600 = 62135600400 * nanos" by (simp add: unix_time_def wrap64_def)
  ultimately show ?thesis
    by (simp add: examine_def sample_info_def newGoogleValidator_def maxCacheTTL_def nanos_def)
qed

lemma sample_served:
  "ex_sent (fst (serve_gateway count_down (sample_config [''ann@x.org'']) sample_gateway_env sample_request
     (new_gateway count_down (sample_config [''ann@x.org''])))) \<noteq> []"
proof -
  let ?v = "newGoogleValidator ''cid'' [''ann@x.org'']"
  have "look_up 0 t ?v = (None, ?v)" for t by (simp add: look_up_def newGoogleValidator_def)
  then have "\<exists>v. Validate sample_google \<lparr>ck_lookup = 0, ck_check = 1, ck_cap = 2\<rparr> ''ya29'' ?v
      = (Inr \<lparr>cu_sub = ''s'', cu_email = ''Ann@x.org'', cu_expires = 2 + maxCacheTTL\<rparr>, v)"
    by (simp add: Validate_def sample_answer sample_examined)
  then show ?thesis
    by (auto simp: serve_gateway_def globalLimiter_def gateway_mux_def WrapHandler_def sample_token limit_email_def
        new_gateway_def count_down_def sample_config_def sample_gateway_env_def sample_request_def withEmail_def emailFromCtx_def
        allow_def newPerEmailLimiter_def proxy_sends Let_def bearerToken_def header_get_def split: prod.splits sum.splits)
qed

lemma sample_fresh_run:
  "validator_run (gc_client_id (sample_config es)) (gc_emails (sample_config es)) []
     (gs_validator (new_gateway L (sample_config es)))"
  by (simp add: new_gateway_def fresh)

lemma forwards_only_vouched_witness:
  "\<exists>email out. granted ''cid'' [''ann@x.org''] [] sample_google \<lparr>ck_lookup = 0, ck_check = 1, ck_cap = 2\<rparr> ''ya29'' email
     \<and> ex_sent (fst (serve_gateway count_down (sample_config [''ann@x.org'']) sample_gateway_env sample_request
         (new_gateway count_down (sample_config [''ann@x.org''])))) = [out]
     \<and> mget (hq_headers out) ''Authorization'' = Some [''Bearer coggo'']"
  using forwards_only_vouched [OF sample_fresh_run surjective_pairing sample_served]
  by (simp add: sample_token sample_config_def sample_gateway_env_def) blast

lemma empty_allowlist_closed_witness:
  "hr_status (ex_reply (fst (serve_gateway count_down (sample_config []) sample_gateway_env sample_request
     (new_gateway count_down (sample_config []))))) = 401"
proof -
  have "\<forall>e \<in> set (gc_emails (sample_config [])). trim_space e = []" by (simp add: sample_config_def)
  from empty_allowlist_closed [OF sample_fresh_run this surjective_pairing, of count_down sample_gateway_env sample_request count_down]
  show ?thesis by (simp add: sample_request_def new_gateway_def count_down_def sample_config_def)
qed

lemma token_read_back_witness: "QueryUnescape ''a%2Bb+c'' = ''a+b c''"
proof -
  have "tokeninfo_url ''a+b c'' = ''https://oauth2.googleapis.com/tokeninfo?access_token='' @ ''a%2Bb+c''" by code_simp
  from token_read_back [OF this] show ?thesis .
qed

lemma sweep_evicts_idle_witness:
  "\<exists>m t. Call m (idle_limit * 2) t \<in> set [Call ''Old'' 0 0, Call ''New'' (idle_limit * 2) 0]
     \<and> ''new'' = to_lower m \<and> idle_limit * 3 - idle_limit * 2 \<le> idle_limit"
proof -
  have low: "to_lower ''Old'' = ''old''" "to_lower ''New'' = ''new''" by code_simp+
  have "mget (pl_buckets (snd (limiter_run count_down ([Call ''Old'' 0 0, Call ''New'' (idle_limit * 2) 0] @ [Tick (idle_limit * 3)])
      (newPerEmailLimiter NaN 1)))) ''new'' = Some \<lparr>eb_lim = 0, eb_seen = idle_limit * 2\<rparr>"
    by (simp add: allow_def count_down_def newPerEmailLimiter_def sweep_def low idle_limit_def nanos_def
        less_list_code less_char_def)
  from sweep_evicts_idle [OF this] show ?thesis by simp
qed

end
