(* ===== verification/Runtime.thy ===== *)
theory Runtime
  imports Router Registry Auth
begin

text \<open>
  internal/cli/runtime.go: \<open>Setup\<close> opens the data directory and builds the registries again from
  what is stored, \<open>AddPeerToRuntime\<close> wires a new peer, and \<open>FedCall\<close> with its wrappers is how a
  command reaches the router.

  What lies on disk is the record \<open>disk\<close>, the failures of opening it \<open>open_errors\<close>. The order in
  which Go visits a map of peers is the argument \<open>order\<close> of \<open>list_peers\<close>. A \<open>call\<close> carries what one
  call of the router obtains from outside: the time and identifier of the message and the
  values \<open>env\<close> of the handler. A \<open>null\<close> in a list of entities, which no handler sends, is read as
  an empty entity.
\<close>

section \<open>Setting up\<close>

record runtime =
  rt_registry :: registry
  rt_host :: host
  rt_auth :: auth
  rt_router :: "host router"

record disk =
  dk_peers :: "raw option"
  dk_db :: "db option"
  dk_tokens :: "raw option"

record open_errors =
  oe_dir :: "error option"
  oe_peers :: "error option"
  oe_store :: "error option"
  oe_init :: "error option"
  oe_auth_dir :: "error option"
  oe_tokens :: "error option"
  oe_entity_types :: "string \<Rightarrow> error option"
  oe_rel_types :: "string \<Rightarrow> error option"

definition entityToEntityTypeDef :: "entity \<Rightarrow> entity_type_def option" where
  "entityToEntityTypeDef e = (case e_data e of
      None \<Rightarrow> None
    | Some m \<Rightarrow> (case decode_entity_type (Doc (JObj m)) of
          Inl err \<Rightarrow> None
        | Inr d \<Rightarrow> Some (if et_peer d = [] then d\<lparr>et_peer := e_peer e\<rparr> else d)))"

definition entityToRelTypeDef :: "entity \<Rightarrow> rel_type_def option" where
  "entityToRelTypeDef e = (case e_data e of
      None \<Rightarrow> None
    | Some m \<Rightarrow> (case decode_rel_type (Doc (JObj m)) of
          Inl err \<Rightarrow> None
        | Inr d \<Rightarrow> Some (if rt_peer d = [] then d\<lparr>rt_peer := e_peer e\<rparr> else d)))"

definition register_entity_types :: "string \<Rightarrow> entity_type_def list \<Rightarrow> resolver \<Rightarrow> resolver" where
  "register_entity_types did ds r = foldl (\<lambda>r d. RegisterEntityType did d r) r ds"

definition register_rel_types :: "string \<Rightarrow> rel_type_def list \<Rightarrow> resolver \<Rightarrow> resolver" where
  "register_rel_types did ds r = foldl (\<lambda>r d. RegisterRelationType did d r) r ds"

definition type_query :: "string \<Rightarrow> entity_query" where
  "type_query ty = zero_query\<lparr>q_type := ty\<rparr>"

text \<open>The types of one peer: the seeds, then the stored definitions in the order of the query. A
  query that fails is passed over.\<close>

definition stored_entity_types :: "sqlite \<Rightarrow> error option \<Rightarrow> string \<Rightarrow> db \<Rightarrow> entity_type_def list" where
  "stored_entity_types sq io did d = (case query_entities sq io did (type_query ''EntityTypeDefinition'') d of
      Inl e \<Rightarrow> [] | Inr es \<Rightarrow> List.map_filter entityToEntityTypeDef es)"

definition stored_rel_types :: "sqlite \<Rightarrow> error option \<Rightarrow> string \<Rightarrow> db \<Rightarrow> rel_type_def list" where
  "stored_rel_types sq io did d = (case query_entities sq io did (type_query ''RelationshipTypeDefinition'') d of
      Inl e \<Rightarrow> [] | Inr es \<Rightarrow> List.map_filter entityToRelTypeDef es)"

definition rehydrate :: "sqlite \<Rightarrow> open_errors \<Rightarrow> db \<Rightarrow> string \<Rightarrow> resolver \<Rightarrow> resolver" where
  "rehydrate sq oe d did r =
     register_rel_types did (stored_rel_types sq (oe_rel_types oe did) did d)
       (register_entity_types did (stored_entity_types sq (oe_entity_types oe did) did d)
         (register_rel_types did (SeedRelationshipTypes did)
           (register_entity_types did (SeedEntityTypes did) r)))"

definition setup_peer :: "sqlite \<Rightarrow> open_errors \<Rightarrow> db \<Rightarrow> peer \<Rightarrow> resolver \<times> host router \<Rightarrow> (resolver \<times> host router) result" where
  "setup_peer sq oe d p s = (case RegisterPeer (p_did p) (Some (store_handler sq (p_did p))) (snd s) of
      Inl e \<Rightarrow> Inl (Wrap (''cli setup: register '' @ p_name p) e)
    | Inr r \<Rightarrow> Inr (rehydrate sq oe d (p_did p) (fst s), r))"

text \<open>\<open>store.New\<close> and \<open>Init\<close> on what lies on disk: nothing, or a database that is kept.\<close>

definition open_db :: "string \<Rightarrow> int \<Rightarrow> open_errors \<Rightarrow> db option \<Rightarrow> db result" where
  "open_db path n oe old = (case new_store path n of
      Inl e \<Rightarrow> Inl (Wrap ''cli setup: store'' e)
    | Inr fresh_db \<Rightarrow> (case oe_store oe of
          Some e \<Rightarrow> Inl (Wrap ''cli setup: store'' e)
        | None \<Rightarrow> (case oe_init oe of
              Some e \<Rightarrow> Inl (Wrap ''cli setup: store init'' e)
            | None \<Rightarrow> Inr (case old of None \<Rightarrow> fresh_db | Some d \<Rightarrow> d\<lparr>d_dim := n\<rparr>))))"

definition wrap_error :: "string \<Rightarrow> 'a result \<Rightarrow> 'a result" where
  "wrap_error p r = (case r of Inl e \<Rightarrow> Inl (Wrap p e) | Inr x \<Rightarrow> Inr x)"

text \<open>\<open>path\<close> is the path of the database and \<open>n\<close> the dimension, both from the configuration.\<close>

definition Setup :: "sqlite \<Rightarrow> string \<Rightarrow> int \<Rightarrow> open_errors \<Rightarrow> string list \<Rightarrow> disk \<Rightarrow> runtime result" where
  "Setup sq path n oe order dk =
     and_then (wrap_error ''cli setup: peer registry'' (open_registry (oe_dir oe) (oe_peers oe) (dk_peers dk))) (\<lambda>reg.
     and_then (open_db path (if n \<le> 0 then 1024 else n) oe (dk_db dk)) (\<lambda>d.
     and_then (wrap_error ''cli setup: auth'' (open_auth (oe_auth_dir oe) (oe_tokens oe) (dk_tokens dk))) (\<lambda>au.
     and_then (foldM (setup_peer sq oe d) (list_peers order reg) (NewResolver, new_router)) (\<lambda>(rs, ro).
       Inr \<lparr>rt_registry = reg, rt_host = \<lparr>hs_db = d, hs_schema = Some rs\<rparr>, rt_auth = au, rt_router = ro\<rparr>))))"

section \<open>Adding a peer\<close>

definition type_entity :: "env \<Rightarrow> string \<Rightarrow> string \<Rightarrow> string \<Rightarrow> obj option \<Rightarrow> entity" where
  "type_entity v did ty client m = \<lparr>e_id = v_id1 v, e_type = ty, e_peer = did, e_created_at = v_now v,
     e_created_by = did, e_client = client, e_updated_at = v_now v, e_archived_at = None, e_data = m, e_embedding = None\<rparr>"

definition persist_def :: "env \<Rightarrow> string \<Rightarrow> string \<Rightarrow> string \<Rightarrow> json \<Rightarrow> string \<Rightarrow> db \<Rightarrow> error option \<times> db" where
  "persist_def v did evType entType def client d =
     (case append_event (v_io_append v) (v_now v) (v_id2 v)
         (Some (new_event v (v_id2 v) did evType def did client)) d of
        Inl e \<Rightarrow> (Some e, d)
      | Inr d1 \<Rightarrow>
          (let m = (case decode_map (Doc def) of Inl e \<Rightarrow> None | Inr m \<Rightarrow> m)
           in case upsert_entity (v_io_write v) (v_now v) (Some (type_entity v did entType client m)) d1 of
                Inl e \<Rightarrow> (Some e, d1)
              | Inr (e, d2) \<Rightarrow> (None, d2)))"

definition persistEntityTypeDef :: "env \<Rightarrow> string \<Rightarrow> entity_type_def \<Rightarrow> string \<Rightarrow> db \<Rightarrow> error option \<times> db" where
  "persistEntityTypeDef v did def client d =
     persist_def v did EventEntityTypeDefined ''EntityTypeDefinition'' (entity_type_json def) client d"

definition persistRelTypeDef :: "env \<Rightarrow> string \<Rightarrow> rel_type_def \<Rightarrow> string \<Rightarrow> db \<Rightarrow> error option \<times> db" where
  "persistRelTypeDef v did def client d =
     persist_def v did EventRelationshipTypeDefined ''RelationshipTypeDefinition'' (rel_type_json def) client d"

text \<open>The loops over the seeds; a seed is registered before it is persisted.\<close>

fun add_entity_types :: "string \<Rightarrow> string \<Rightarrow> (env \<times> entity_type_def) list \<Rightarrow> host \<Rightarrow> error option \<times> host" where
  "add_entity_types did client [] h = (None, h)"
| "add_entity_types did client ((v, def) # ds) h =
     (case persistEntityTypeDef v did def client (hs_db h) of
        (Some e, d) \<Rightarrow> (Some e, \<lparr>hs_db = d, hs_schema = map_option (RegisterEntityType did def) (hs_schema h)\<rparr>)
      | (None, d) \<Rightarrow> add_entity_types did client ds
          \<lparr>hs_db = d, hs_schema = map_option (RegisterEntityType did def) (hs_schema h)\<rparr>)"

fun add_rel_types :: "string \<Rightarrow> string \<Rightarrow> (env \<times> rel_type_def) list \<Rightarrow> host \<Rightarrow> error option \<times> host" where
  "add_rel_types did client [] h = (None, h)"
| "add_rel_types did client ((v, def) # ds) h =
     (case persistRelTypeDef v did def client (hs_db h) of
        (Some e, d) \<Rightarrow> (Some e, \<lparr>hs_db = d, hs_schema = map_option (RegisterRelationType did def) (hs_schema h)\<rparr>)
      | (None, d) \<Rightarrow> add_rel_types did client ds
          \<lparr>hs_db = d, hs_schema = map_option (RegisterRelationType did def) (hs_schema h)\<rparr>)"

text \<open>\<open>vs n\<close> are the outside values of the \<open>n\<close>-th definition.\<close>

definition AddPeerToRuntime :: "sqlite \<Rightarrow> (nat \<Rightarrow> env) \<Rightarrow> peer \<Rightarrow> string \<Rightarrow> runtime \<Rightarrow> error option \<times> runtime" where
  "AddPeerToRuntime sq vs p client rt =
     (let did = p_did p; seeds = SeedEntityTypes did; rels = SeedRelationshipTypes did in
      case add_entity_types did client (zip (map vs [0..<length seeds]) seeds) (rt_host rt) of
        (Some e, h) \<Rightarrow> (Some e, rt\<lparr>rt_host := h\<rparr>)
      | (None, h) \<Rightarrow> (case add_rel_types did client (zip (map vs [length seeds..<length seeds + length rels]) rels) h of
            (Some e, h) \<Rightarrow> (Some e, rt\<lparr>rt_host := h\<rparr>)
          | (None, h) \<Rightarrow> (case RegisterPeer did (Some (store_handler sq did)) (rt_router rt) of
                Inl e \<Rightarrow> (Some e, rt\<lparr>rt_host := h\<rparr>)
              | Inr r \<Rightarrow> (None, rt\<lparr>rt_host := h, rt_router := r\<rparr>))))"

section \<open>Calls through the router\<close>

record call =
  cl_sent :: time
  cl_id :: string
  cl_env :: env

datatype 'a called =
    Got 'a
  | Failed error
  | Crashed string

text \<open>\<open>em["error"]\<close> of a payload decoded into a map of strings, whatever the decoder complains of.\<close>

definition error_member :: "raw \<Rightarrow> string" where
  "error_member r = (case r of
      Doc (JObj kvs) \<Rightarrow> (case mget (rev kvs) ''error'' of Some (JStr s) \<Rightarrow> s | _ \<Rightarrow> [])
    | _ \<Rightarrow> [])"

definition fed_message_of :: "call \<Rightarrow> string \<Rightarrow> string \<Rightarrow> string \<Rightarrow> json \<Rightarrow> fed_message" where
  "fed_message_of c did ty op args = \<lparr>m_version = ''v0.1'', m_source = ''cli'', m_target = did, m_type = ty,
     m_payload = Doc (JObj [(''op'', JStr op), (''args'', args)]), m_auth = [], m_id = cl_id c, m_time = cl_sent c\<rparr>"

definition FedCall :: "call \<Rightarrow> host router \<Rightarrow> string \<Rightarrow> string \<Rightarrow> string \<Rightarrow> json \<Rightarrow> host \<Rightarrow> raw called \<times> host" where
  "FedCall c ro did msgType op args h =
     (if msgType \<noteq> ''query'' \<and> msgType \<noteq> ''write'' then
        (Failed (Errorf (''fed: unknown msg type '' @ quote_go msgType)), h)
      else (case Route (cl_env c) ro (fed_message_of c did (if msgType = ''query'' then FedMsgQuery else FedMsgWrite) op args) h of
          (Panics m, h') \<Rightarrow> (Crashed m, h')
        | (Returned (resp, Some e), h') \<Rightarrow> (Failed e, h')
        | (Returned (resp, None), h') \<Rightarrow>
            if m_type resp = FedMsgError then
              (Failed (Errorf (if error_member (m_payload resp) \<noteq> [] then error_member (m_payload resp)
                               else ''federation error response'')), h')
            else (Got (m_payload resp), h')))"

definition decoded :: "(raw \<Rightarrow> 'a result) \<Rightarrow> raw called \<times> host \<Rightarrow> 'a called \<times> host" where
  "decoded f r = (case r of
      (Got p, h) \<Rightarrow> (case f p of Inl e \<Rightarrow> (Failed e, h) | Inr x \<Rightarrow> (Got x, h))
    | (Failed e, h) \<Rightarrow> (Failed e, h)
    | (Crashed m, h) \<Rightarrow> (Crashed m, h))"

definition zero_relation :: relation where
  "zero_relation = \<lparr>r_id = [], r_from = [], r_to = [], r_type = [], r_peer = [], r_created_at = 0,
     r_created_by = [], r_client = [], r_data = None\<rparr>"

definition assign_relation :: "string \<Rightarrow> json \<Rightarrow> relation \<Rightarrow> relation result" where
  "assign_relation k v r =
     (if k = ''id'' then set_string ''Relation.id'' v (\<lambda>x. r_id_update (\<lambda>_. x)) r
      else if k = ''from'' then set_string ''Relation.from'' v (\<lambda>x. r_from_update (\<lambda>_. x)) r
      else if k = ''to'' then set_string ''Relation.to'' v (\<lambda>x. r_to_update (\<lambda>_. x)) r
      else if k = ''type'' then set_string ''Relation.type'' v (\<lambda>x. r_type_update (\<lambda>_. x)) r
      else if k = ''peer_did'' then set_string ''Relation.peer_did'' v (\<lambda>x. r_peer_update (\<lambda>_. x)) r
      else if k = ''created_at'' then set_time ''Relation.created_at'' v (\<lambda>x. r_created_at_update (\<lambda>_. x)) r
      else if k = ''created_by_did'' then set_string ''Relation.created_by_did'' v (\<lambda>x. r_created_by_update (\<lambda>_. x)) r
      else if k = ''created_by_client'' then set_string ''Relation.created_by_client'' v (\<lambda>x. r_client_update (\<lambda>_. x)) r
      else if k = ''data'' then set_map ''Relation.data'' v r_data_update r
      else Inr r)"

definition decode_relation :: "raw \<Rightarrow> relation result" where
  "decode_relation r = unmarshal ''types.Relation'' assign_relation zero_relation r"

definition decode_entities :: "raw \<Rightarrow> entity list result" where
  "decode_entities r = and_then (raw_doc r) (\<lambda>j. case j of
      JNull \<Rightarrow> Inr []
    | JArr js \<Rightarrow> mapM (\<lambda>x. decode_entity (Doc x)) js
    | _ \<Rightarrow> type_error j ''value of type []*types.Entity'')"

definition CreateEntity :: "call \<Rightarrow> host router \<Rightarrow> string \<Rightarrow> string \<Rightarrow> obj option \<Rightarrow> string \<Rightarrow> host \<Rightarrow> entity called \<times> host" where
  "CreateEntity c ro did ty fs client h = decoded decode_entity
     (FedCall c ro did ''write'' ''entity.create'' (JObj [(''author_did'', JStr did), (''client_id'', JStr client),
        (''fields'', enc_map fs), (''type'', JStr ty)]) h)"

definition UpdateEntity :: "call \<Rightarrow> host router \<Rightarrow> string \<Rightarrow> string \<Rightarrow> obj option \<Rightarrow> string \<Rightarrow> host \<Rightarrow> entity called \<times> host" where
  "UpdateEntity c ro did i fs client h = decoded decode_entity
     (FedCall c ro did ''write'' ''entity.update'' (JObj [(''author_did'', JStr did), (''client_id'', JStr client),
        (''fields'', enc_map fs), (''id'', JStr i)]) h)"

definition QueryEntities :: "call \<Rightarrow> host router \<Rightarrow> string \<Rightarrow> entity_query \<Rightarrow> host \<Rightarrow> entity list called \<times> host" where
  "QueryEntities c ro did q h = decoded decode_entities (FedCall c ro did ''query'' ''entity.query'' (query_json q) h)"

definition GetEntity :: "call \<Rightarrow> host router \<Rightarrow> string \<Rightarrow> string \<Rightarrow> host \<Rightarrow> entity called \<times> host" where
  "GetEntity c ro did i h = decoded decode_entity (FedCall c ro did ''query'' ''entity.get'' (JObj [(''id'', JStr i)]) h)"

definition DefineType :: "call \<Rightarrow> host router \<Rightarrow> string \<Rightarrow> string \<Rightarrow> string \<Rightarrow> field_def list \<Rightarrow> bool \<Rightarrow> bool \<Rightarrow> string
    \<Rightarrow> host \<Rightarrow> unit called \<times> host" where
  "DefineType c ro did name desc fs isRel directional client h = decoded (\<lambda>r. Inr ())
     (FedCall c ro did ''write'' ''type.define'' (JObj [(''author_did'', JStr did), (''client_id'', JStr client),
        (''description'', JStr desc), (''directional'', JBool directional), (''fields'', slice_json field_json fs),
        (''is_relationship'', JBool isRel), (''name'', JStr name)]) h)"

definition CreateRelation :: "call \<Rightarrow> host router \<Rightarrow> string \<Rightarrow> string \<Rightarrow> string \<Rightarrow> string \<Rightarrow> obj option \<Rightarrow> string
    \<Rightarrow> host \<Rightarrow> relation called \<times> host" where
  "CreateRelation c ro did from_id to_id ty data client h = decoded decode_relation
     (FedCall c ro did ''write'' ''relation.create'' (JObj [(''author_did'', JStr did), (''client_id'', JStr client),
        (''data'', enc_map data), (''from'', JStr from_id), (''to'', JStr to_id), (''type'', JStr ty)]) h)"

section \<open>Choosing a peer\<close>

fun first_resolved :: "registry \<Rightarrow> string list \<Rightarrow> peer option" where
  "first_resolved reg [] = None"
| "first_resolved reg (n # ns) =
     (if n = [] then first_resolved reg ns
      else (case Resolve reg n of Inr p \<Rightarrow> Some p | Inl e \<Rightarrow> first_resolved reg ns))"

definition resolvePeer :: "string list \<Rightarrow> registry \<Rightarrow> string \<Rightarrow> string \<Rightarrow> peer result" where
  "resolvePeer order reg name dflt = (case first_resolved reg [name, dflt] of
      Some p \<Rightarrow> Inr p
    | None \<Rightarrow> (case list_peers order reg of
          [] \<Rightarrow> Inl (Errorf ''no peers; run `coggo init` first'')
        | p # ps \<Rightarrow> Inr p))"

section \<open>The source of identifiers\<close>

text \<open>\<open>randReader\<close>: a linear congruential generator on 64 bits, one byte per step.\<close>

definition lcg_step :: "64 word \<Rightarrow> 64 word" where
  "lcg_step s = s * 6364136223846793005 + 1442695040888963407"

fun rand_read :: "nat \<Rightarrow> 64 word \<Rightarrow> nat list \<times> 64 word" where
  "rand_read 0 s = ([], s)"
| "rand_read (Suc n) s = (let s' = lcg_step s; (bs, s'') = rand_read n s' in (unat (drop_bit 56 s') # bs, s''))"

end
