(* ===== verification/Briefing.thy ===== *)
theory Briefing
  imports Runtime Projection
begin

text \<open>
  internal/briefing/today.go: the daily summary. For every peer a list of titled sections is made
  from queries of the store, and the whole is rendered as text.

  \<open>brief_io\<close> holds the failures of the queries for one peer; only that of the first one is
  reported. \<open>show_value\<close> is the verb \<^verbatim>\<open>%v\<close> on a JSON value. Data read from the store is JSON, so a
  target date is a text or nothing.
\<close>

record section_lines =
  sc_title :: string
  sc_lines :: "string list"

record peer_section =
  pc_name :: string
  pc_sections :: "section_lines list"

record briefing =
  bf_date :: time
  bf_peers :: "peer_section list"

record brief_io =
  bi_goals :: "error option"
  bi_observations :: "error option"
  bi_stale :: "string \<Rightarrow> error option"
  bi_projects :: "error option"
  bi_decisions :: "error option"
  bi_events :: "error option"

definition CoggoPeerName :: string where
  "CoggoPeerName = ''coggo''"

definition dataString :: "entity \<Rightarrow> string \<Rightarrow> string" where
  "dataString e k = (case mget (case e_data e of None \<Rightarrow> [] | Some m \<Rightarrow> m) k of Some (JStr s) \<Rightarrow> s | _ \<Rightarrow> [])"

definition excerpt :: "string \<Rightarrow> nat \<Rightarrow> string" where
  "excerpt s n =
     (let t = trim_space (takeWhile (\<lambda>c. c \<noteq> CHR 0x0A) s)
      in if length t > n then take (n - 1) t @ ellipsis else t)"

definition goalLines :: "entity list \<Rightarrow> string list" where
  "goalLines es = map (\<lambda>e.
     if dataString e ''target_date'' \<noteq> [] then dataString e ''title'' @ '' (target '' @ dataString e ''target_date'' @ '')''
     else dataString e ''title'') es"

definition rfc3339 :: "time \<Rightarrow> string" where
  "rfc3339 t = date_text (t div nanos) @ ''Z''"

definition observationLines :: "entity list \<Rightarrow> string list" where
  "observationLines es = map (\<lambda>e. quote_go (excerpt (dataString e ''text'') 80) @ '' ('' @ rfc3339 (e_created_at e) @ '')'') es"

definition projectLines :: "(json \<Rightarrow> string) \<Rightarrow> entity list \<Rightarrow> string list" where
  "projectLines show_value es = map (\<lambda>e.
     (let status = (if dataString e ''status'' = [] then ''active'' else dataString e ''status'');
          est = (case mget (case e_data e of None \<Rightarrow> [] | Some m \<Rightarrow> m) ''completion_estimate'' of
              Some v \<Rightarrow> '' '' @ show_value v @ ''%'' | None \<Rightarrow> [])
      in dataString e ''title'' @ '' ['' @ status @ est @ '']'')) es"

definition titleLines :: "entity list \<Rightarrow> string list" where
  "titleLines es = map (\<lambda>e. dataString e ''title'') es"

definition stale_title :: "entity \<Rightarrow> string" where
  "stale_title e =
     (if dataString e ''title'' \<noteq> [] then dataString e ''title''
      else if excerpt (dataString e ''text'') 60 \<noteq> [] then excerpt (dataString e ''text'') 60
      else e_id e)"

fun join_with :: "string \<Rightarrow> string list \<Rightarrow> string" where
  "join_with sep [] = []"
| "join_with sep [x] = x"
| "join_with sep (x # xs) = x @ sep @ join_with sep xs"

definition group_titles :: "entity list \<Rightarrow> string list gomap" where
  "group_titles es = foldl (\<lambda>m e. mput (e_type e) ((case mget m (e_type e) of None \<Rightarrow> [] | Some ts \<Rightarrow> ts) @ [stale_title e]) m) [] es"

definition titleByTypeLines :: "entity list \<Rightarrow> string list" where
  "titleByTypeLines es = map (\<lambda>(k, ts). k @ '': '' @ join_with '', '' ts) (group_titles es)"

section \<open>Sections\<close>

definition days :: "int \<Rightarrow> time" where
  "days n = n * 86400 * nanos"

definition counted :: "string \<Rightarrow> nat \<Rightarrow> string \<Rightarrow> string list \<Rightarrow> section_lines" where
  "counted pre n post ls = \<lparr>sc_title = pre @ show_nat n @ post, sc_lines = ls\<rparr>"

definition query_type :: "sqlite \<Rightarrow> error option \<Rightarrow> string \<Rightarrow> string \<Rightarrow> db \<Rightarrow> entity list result" where
  "query_type sq io did ty d = query_entities sq io did (type_query ty) d"

text \<open>A query whose error is dropped gives no entities.\<close>

definition or_none :: "'a list result \<Rightarrow> 'a list" where
  "or_none r = (case r of Inl e \<Rightarrow> [] | Inr xs \<Rightarrow> xs)"

definition is_open_goal :: "entity \<Rightarrow> bool" where
  "is_open_goal e \<longleftrightarrow> dataString e ''status'' = [] \<or> dataString e ''status'' = ''open''"

definition is_active_project :: "entity \<Rightarrow> bool" where
  "is_active_project e \<longleftrightarrow> dataString e ''status'' = [] \<or> dataString e ''status'' = ''active''"

definition stale_types :: "string list" where
  "stale_types = [''Project'', ''Goal'', ''Decision'', ''Domain'', ''Observation'']"

definition stale_entities :: "sqlite \<Rightarrow> brief_io \<Rightarrow> string \<Rightarrow> time \<Rightarrow> db \<Rightarrow> entity list" where
  "stale_entities sq io did cutoff d = concat (map (\<lambda>ty.
     filter (\<lambda>e. e_updated_at e < cutoff) (or_none (query_type sq (bi_stale io ty) did ty d))) stale_types)"

definition buildPeerSection :: "(json \<Rightarrow> string) \<Rightarrow> sqlite \<Rightarrow> brief_io \<Rightarrow> peer \<Rightarrow> time \<Rightarrow> db \<Rightarrow> peer_section result" where
  "buildPeerSection show_value sq io p now d =
     (case query_type sq (bi_goals io) (p_did p) ''Goal'' d of
        Inl e \<Rightarrow> Inl (Wrap ''briefing: query goals'' e)
      | Inr goals \<Rightarrow>
          (let open_goals = filter is_open_goal goals;
               since = now - days 7;
               obs = filter (\<lambda>e. since < e_created_at e) (or_none (query_type sq (bi_observations io) (p_did p) ''Observation'' d));
               stale = stale_entities sq io (p_did p) (now - days 14) d;
               active = filter is_active_project (or_none (query_type sq (bi_projects io) (p_did p) ''Project'' d));
               decisions = or_none (query_type sq (bi_decisions io) (p_did p) ''Decision'' d);
               recent = filter (\<lambda>e. since < e_created_at e) decisions;
               created = filter (\<lambda>ev. ev_type ev = EventEntityCreated) (or_none (list_events (bi_events io) (p_did p) since now d))
           in Inr \<lparr>pc_name = p_name p, pc_sections =
             [counted ''Open goals ('' (length open_goals) '')'' (goalLines open_goals),
              counted ''Recent observations (last 7 days, '' (length obs) '')'' (observationLines obs),
              counted ''Stale entities (no updates >14 days, '' (length stale) '')'' (titleByTypeLines stale),
              counted ''Active projects ('' (length active) '')'' (projectLines show_value active),
              counted ''Recent decisions (last 7 days, '' (length recent) '')'' (titleLines recent)]
             @ (if p_name p = CoggoPeerName then
                  [counted ''Open architectural decisions ('' (length decisions) '')'' (titleLines decisions),
                   counted ''Recent meaningful changes (last 7 days, '' (length created) '')'' []]
                else [])\<rparr>))"

text \<open>\<open>ios did\<close> are the failures of the queries for the peer \<open>did\<close>.\<close>

definition Generate :: "(json \<Rightarrow> string) \<Rightarrow> sqlite \<Rightarrow> (string \<Rightarrow> brief_io) \<Rightarrow> string list \<Rightarrow> registry option \<Rightarrow> db option
    \<Rightarrow> string \<Rightarrow> time \<Rightarrow> briefing result" where
  "Generate show_value sq ios order reg d name now = (case reg of
      None \<Rightarrow> Inl (Errorf ''briefing: nil registry'')
    | Some reg \<Rightarrow> (case d of
        None \<Rightarrow> Inl (Errorf ''briefing: nil store'')
      | Some d \<Rightarrow>
          and_then (if name = [] then Inr (list_peers order reg)
                    else wrap_error ''briefing'' (map_result (\<lambda>p. [p]) (Resolve reg name))) (\<lambda>ps.
          and_then (mapM (\<lambda>p. buildPeerSection show_value sq (ios (p_did p)) p now d) ps) (\<lambda>secs.
            Inr \<lparr>bf_date = now, bf_peers = secs\<rparr>))))"

section \<open>Text\<close>

definition upper_char :: "char \<Rightarrow> char" where
  "upper_char c = (if 97 \<le> byte_of c \<and> byte_of c \<le> 122 then char_of (byte_of c - 32) else c)"

text \<open>\<open>strings.ToUpper\<close> of the first byte alone: a byte that is no rune by itself is replaced.\<close>

definition titleCase :: "string \<Rightarrow> string" where
  "titleCase s = (case s of [] \<Rightarrow> [] | c # r \<Rightarrow> (if 128 \<le> byte_of c then replacement_rune else [upper_char c]) @ r)"

definition render_section :: "section_lines \<Rightarrow> string" where
  "render_section s = ''  '' @ sc_title s @
     (if sc_lines s = [] then [CHR 0x0A]
      else '':'' @ [CHR 0x0A] @ concat (map (\<lambda>l. ''    - '' @ l @ [CHR 0x0A]) (sc_lines s)))"

definition render_peer :: "peer_section \<Rightarrow> string" where
  "render_peer p = [CHR 0x0A] @ titleCase (pc_name p) @ '':'' @ [CHR 0x0A] @ concat (map render_section (pc_sections p))"

definition em_dash :: string where
  "em_dash = [CHR 0xE2, CHR 0x80, CHR 0x94]"

definition Render :: "briefing \<Rightarrow> string" where
  "Render b = ''Coggo daily briefing '' @ em_dash @ '' '' @ take 10 (date_text (bf_date b div nanos)) @ [CHR 0x0A]
     @ concat (map render_peer (bf_peers b)) @ [CHR 0x0A] @ ''(end of briefing)'' @ [CHR 0x0A]"

end
