(* ===== verification/Runtime_Props.thy ===== *)
theory Runtime_Props
  imports Runtime
begin

text \<open>
  What a start of the program restores, what a new peer gets, and what the calls of the command line
  return: which stored definition of a type is in force after a restart, the entity a creation
  returns, what an unknown identifier and an unknown peer name give.
\<close>

section \<open>Registering lists of types\<close>

lemma register_entity_types_ok:
  assumes "resolver_ok r"
  shows "resolver_ok (register_entity_types did ds r)"
    and "EntityType did' n (register_entity_types did ds r)
      = (case (if did' = did then find (\<lambda>d. et_name d = n) (rev ds) else None) of Some d \<Rightarrow> Inr d | None \<Rightarrow> EntityType did' n r)"
    and "RelationType did' n (register_entity_types did ds r) = RelationType did' n r"
proof -
  have "resolver_ok (register_entity_types did ds r)
      \<and> EntityType did' n (register_entity_types did ds r)
        = (case (if did' = did then find (\<lambda>d. et_name d = n) (rev ds) else None) of Some d \<Rightarrow> Inr d | None \<Rightarrow> EntityType did' n r)
      \<and> RelationType did' n (register_entity_types did ds r) = RelationType did' n r"
    using assms by (induction ds rule: rev_induct)
      (auto simp: register_entity_types_def EntityType_register register_other_kind)
  then show "resolver_ok (register_entity_types did ds r)"
    and "EntityType did' n (register_entity_types did ds r)
      = (case (if did' = did then find (\<lambda>d. et_name d = n) (rev ds) else None) of Some d \<Rightarrow> Inr d | None \<Rightarrow> EntityType did' n r)"
    and "RelationType did' n (register_entity_types did ds r) = RelationType did' n r" by blast+
qed

lemma register_rel_types_ok:
  assumes "resolver_ok r"
  shows "resolver_ok (register_rel_types did ds r)"
    and "RelationType did' n (register_rel_types did ds r)
      = (case (if did' = did then find (\<lambda>d. rt_name d = n) (rev ds) else None) of Some d \<Rightarrow> Inr d | None \<Rightarrow> RelationType did' n r)"
    and "EntityType did' n (register_rel_types did ds r) = EntityType did' n r"
proof -
  have "resolver_ok (register_rel_types did ds r)
      \<and> RelationType did' n (register_rel_types did ds r)
        = (case (if did' = did then find (\<lambda>d. rt_name d = n) (rev ds) else None) of Some d \<Rightarrow> Inr d | None \<Rightarrow> RelationType did' n r)
      \<and> EntityType did' n (register_rel_types did ds r) = EntityType did' n r"
    using assms by (induction ds rule: rev_induct)
      (auto simp: register_rel_types_def RelationType_register register_other_kind)
  then show "resolver_ok (register_rel_types did ds r)"
    and "RelationType did' n (register_rel_types did ds r)
      = (case (if did' = did then find (\<lambda>d. rt_name d = n) (rev ds) else None) of Some d \<Rightarrow> Inr d | None \<Rightarrow> RelationType did' n r)"
    and "EntityType did' n (register_rel_types did ds r) = EntityType did' n r" by blast+
qed

section \<open>Setup\<close>

text \<open>The definition of a name that a start finds for a peer: the last of the seeds and the stored
  definitions, in the order of the query.\<close>

definition restored_type :: "sqlite \<Rightarrow> open_errors \<Rightarrow> db \<Rightarrow> string \<Rightarrow> string \<Rightarrow> entity_type_def option" where
  "restored_type sq oe d did n =
     find (\<lambda>x. et_name x = n) (rev (SeedEntityTypes did @ stored_entity_types sq (oe_entity_types oe did) did d))"

definition restored_rel :: "sqlite \<Rightarrow> open_errors \<Rightarrow> db \<Rightarrow> string \<Rightarrow> string \<Rightarrow> rel_type_def option" where
  "restored_rel sq oe d did n =
     find (\<lambda>x. rt_name x = n) (rev (SeedRelationshipTypes did @ stored_rel_types sq (oe_rel_types oe did) did d))"

lemma rehydrate_types:
  assumes "resolver_ok r"
  shows "resolver_ok (rehydrate sq oe d did r)"
    and "EntityType did' n (rehydrate sq oe d did r)
      = (case (if did' = did then restored_type sq oe d did n else None) of Some x \<Rightarrow> Inr x | None \<Rightarrow> EntityType did' n r)"
    and "RelationType did' n (rehydrate sq oe d did r)
      = (case (if did' = did then restored_rel sq oe d did n else None) of Some x \<Rightarrow> Inr x | None \<Rightarrow> RelationType did' n r)"
  using assms
  by (simp_all add: rehydrate_def register_entity_types_ok register_rel_types_ok restored_type_def restored_rel_def
      find_append split: option.splits)

text \<open>What the loop over the peers leaves of each DID.\<close>

definition restored :: "sqlite \<Rightarrow> open_errors \<Rightarrow> db \<Rightarrow> string set \<Rightarrow> resolver \<times> host router \<Rightarrow> resolver \<times> host router \<Rightarrow> bool" where
  "restored sq oe d dids s s' \<longleftrightarrow> resolver_ok (fst s') \<and> router_ok sq (snd s')
     \<and> (\<forall>did n. EntityType did n (fst s') = (case (if did \<in> dids then restored_type sq oe d did n else None) of
          Some x \<Rightarrow> Inr x | None \<Rightarrow> EntityType did n (fst s)))
     \<and> (\<forall>did n. RelationType did n (fst s') = (case (if did \<in> dids then restored_rel sq oe d did n else None) of
          Some x \<Rightarrow> Inr x | None \<Rightarrow> RelationType did n (fst s)))
     \<and> (\<forall>did. mget (snd s') did = (if did \<in> dids then Some (store_handler sq did) else mget (snd s) did))"

lemma setup_peer_restored:
  assumes "setup_peer sq oe d p s = Inr s'" and "resolver_ok (fst s)" and "router_ok sq (snd s)"
  shows "restored sq oe d {p_did p} s s'" and "mget (snd s) (p_did p) = None"
proof -
  obtain r where r: "RegisterPeer (p_did p) (Some (store_handler sq (p_did p))) (snd s) = Inr r"
    and s': "s' = (rehydrate sq oe d (p_did p) (fst s), r)"
    using assms(1) by (auto simp: setup_peer_def split: sum.splits)
  have m: "r = mput (p_did p) (store_handler sq (p_did p)) (snd s)" and "mget (snd s) (p_did p) = None"
    using r by (auto simp: RegisterPeer_def split: if_splits)
  moreover have "router_ok sq r" by (rule router_ok_register [OF assms(3) r])
  moreover have "gomap_ok (snd s)" using assms(3) by (simp add: router_ok_def)
  ultimately show "restored sq oe d {p_did p} s s'" and "mget (snd s) (p_did p) = None"
    using assms(2) by (auto simp: restored_def s' rehydrate_types gomap_simps)
qed

lemma restored_trans:
  assumes "restored sq oe d A s s'" and "restored sq oe d B s' s''" and "A \<inter> B = {}"
  shows "restored sq oe d (A \<union> B) s s''"
  using assms unfolding restored_def by (auto split: option.splits)

lemma setup_loop:
  assumes "foldM (setup_peer sq oe d) ps s = Inr s'" and "resolver_ok (fst s)" and "router_ok sq (snd s)"
  shows "restored sq oe d (p_did ` set ps) s s'" and "\<forall>p \<in> set ps. mget (snd s) (p_did p) = None"
proof -
  have "restored sq oe d (p_did ` set ps) s s' \<and> (\<forall>p \<in> set ps. mget (snd s) (p_did p) = None)"
    using assms
  proof (induction ps arbitrary: s)
    case Nil
    then show ?case by (simp add: restored_def)
  next
    case (Cons p ps)
    then obtain s1 where s1: "setup_peer sq oe d p s = Inr s1" and rest: "foldM (setup_peer sq oe d) ps s1 = Inr s'"
      by (auto simp: and_then_Inr_iff)
    note p = setup_peer_restored [OF s1 Cons.prems(2,3)]
    then have ok: "resolver_ok (fst s1)" "router_ok sq (snd s1)" and m: "\<forall>did. mget (snd s1) did =
        (if did = p_did p then Some (store_handler sq did) else mget (snd s) did)" by (simp_all add: restored_def)
    have IH: "restored sq oe d (p_did ` set ps) s1 s'" "\<forall>q \<in> set ps. mget (snd s1) (p_did q) = None"
      using Cons.IH [OF rest ok] by blast+
    have other: "p_did q \<noteq> p_did p \<and> mget (snd s) (p_did q) = None" if "q \<in> set ps" for q
      using IH(2) m that by (metis option.distinct(1))
    then have "{p_did p} \<inter> p_did ` set ps = {}" by force
    from restored_trans [OF p(1) IH(1) this] other p(2) show ?case by simp
  qed
  then show "restored sq oe d (p_did ` set ps) s s'" and "\<forall>p \<in> set ps. mget (snd s) (p_did p) = None" by blast+
qed

lemma Setup_Inr:
  assumes "Setup sq path n oe order dk = Inr rt"
  obtains rs where "hs_schema (rt_host rt) = Some rs"
    and "restored sq oe (hs_db (rt_host rt)) (p_did ` set (list_peers order (rt_registry rt))) (NewResolver, new_router) (rs, rt_router rt)"
    and "open_registry (oe_dir oe) (oe_peers oe) (dk_peers dk) = Inr (rt_registry rt)"
    and "\<forall>d. dk_db dk = Some d \<longrightarrow> hs_db (rt_host rt) = d\<lparr>d_dim := (if n \<le> 0 then 1024 else n)\<rparr>"
    and "open_auth (oe_auth_dir oe) (oe_tokens oe) (dk_tokens dk) = Inr (rt_auth rt)"
proof -
  obtain reg d au rs ro where reg: "open_registry (oe_dir oe) (oe_peers oe) (dk_peers dk) = Inr reg"
    and d: "open_db path (if n \<le> 0 then 1024 else n) oe (dk_db dk) = Inr d"
    and au: "open_auth (oe_auth_dir oe) (oe_tokens oe) (dk_tokens dk) = Inr au"
    and loop: "foldM (setup_peer sq oe d) (list_peers order reg) (NewResolver, new_router) = Inr (rs, ro)"
    and rt: "rt = \<lparr>rt_registry = reg, rt_host = \<lparr>hs_db = d, hs_schema = Some rs\<rparr>, rt_auth = au, rt_router = ro\<rparr>"
    using assms by (fastforce simp: Setup_def and_then_Inr_iff wrap_error_def split: sum.splits)
  have "\<forall>d'. dk_db dk = Some d' \<longrightarrow> d = d'\<lparr>d_dim := (if n \<le> 0 then 1024 else n)\<rparr>"
    using d by (auto simp: open_db_def split: sum.splits option.splits)
  then show thesis
    using setup_loop(1) [OF loop] reg au that [of rs] unfolding rt by (simp add: router_ok_new)
qed

text \<open>C22: A start of the program wires every peer of the registry, and no other DID, to the handler of
  that peer; the registry and the tokens are what the files hold and the database keeps its rows.\<close>

theorem setup_wires_peers:
  assumes "Setup sq path n oe order dk = Inr rt"
  shows "router_ok sq (rt_router rt)
    \<and> mget (rt_router rt) did = (if did \<in> p_did ` set (list_peers order (rt_registry rt)) then Some (store_handler sq did) else None)
    \<and> open_registry (oe_dir oe) (oe_peers oe) (dk_peers dk) = Inr (rt_registry rt)
    \<and> open_auth (oe_auth_dir oe) (oe_tokens oe) (dk_tokens dk) = Inr (rt_auth rt)
    \<and> (\<forall>d. dk_db dk = Some d \<longrightarrow> peer_view did (hs_db (rt_host rt)) = peer_view did d)"
  by (rule Setup_Inr [OF assms]) (simp add: restored_def new_router_def peer_view_def)

text \<open>In a list ordered from the newest on, the last element with a property is the oldest with it.\<close>

lemma last_found:
  assumes "find P (rev (List.map_filter f es)) = Some x"
  shows "\<exists>xs e ys. es = xs @ e # ys \<and> f e = Some x \<and> P x \<and> (\<forall>e' \<in> set ys. \<forall>y. f e' = Some y \<longrightarrow> \<not> P y)"
  using assms
proof (induction es rule: rev_induct)
  case (snoc e es)
  show ?case
  proof (cases "\<exists>y. f e = Some y \<and> P y")
    case True
    then have "f e = Some x" "P x" using snoc.prems by (auto simp: map_filter_def)
    then show ?thesis by (intro exI [of _ es] exI [of _ e] exI [of _ "[]"]) simp
  next
    case False
    then have "find P (rev (List.map_filter f es)) = Some x"
      using snoc.prems by (auto simp: map_filter_def split: if_splits)
    from snoc.IH [OF this] obtain xs e' ys where "es = xs @ e' # ys" "f e' = Some x" "P x"
      "\<forall>e' \<in> set ys. \<forall>y. f e' = Some y \<longrightarrow> \<not> P y" by blast
    then show ?thesis using False by (intro exI [of _ xs] exI [of _ e'] exI [of _ "ys @ [e]"]) auto
  qed
qed (simp add: map_filter_def)

text \<open>C23: Which definition of a type is in force after a start: among the stored definitions of that name
  that the query returns (the fifty newest), the oldest one, although the newest was in force before; a
  seed type only when no stored definition has its name.\<close>

theorem oldest_definition_wins:
  assumes "Setup sq path n oe order dk = Inr rt" and "did \<in> p_did ` set (list_peers order (rt_registry rt))"
    and "hs_schema (rt_host rt) = Some rs" and "db_ok (hs_db (rt_host rt))" and "oe_entity_types oe did = None"
    and "query_entities sq None did (type_query ''EntityTypeDefinition'') (hs_db (rt_host rt)) = Inr es"
    and "e' \<in> set es" and "entityToEntityTypeDef e' = Some x'"
  shows "\<exists>e x. e \<in> set es \<and> entityToEntityTypeDef e = Some x \<and> et_name x = et_name x'
    \<and> EntityType did (et_name x') rs = Inr x \<and> entity_key (entity_row e) \<le> entity_key (entity_row e')"
proof -
  from Setup_Inr [OF assms(1)] obtain rs' where "hs_schema (rt_host rt) = Some rs'"
    and res: "restored sq oe (hs_db (rt_host rt)) (p_did ` set (list_peers order (rt_registry rt))) (NewResolver, new_router) (rs', rt_router rt)" .
  then have rs: "EntityType did (et_name x') rs = (case restored_type sq oe (hs_db (rt_host rt)) did (et_name x') of
      Some x \<Rightarrow> Inr x | None \<Rightarrow> EntityType did (et_name x') NewResolver)"
    using assms(2,3) unfolding restored_def fst_conv by simp
  have st: "stored_entity_types sq (oe_entity_types oe did) did (hs_db (rt_host rt)) = List.map_filter entityToEntityTypeDef es"
    using assms(5,6) by (simp add: stored_entity_types_def)
  have "x' \<in> set (List.map_filter entityToEntityTypeDef es)" using assms(7,8) by (force simp: map_filter_def)
  then obtain x where x: "find (\<lambda>x. et_name x = et_name x') (rev (List.map_filter entityToEntityTypeDef es)) = Some x"
    by (cases "find (\<lambda>x. et_name x = et_name x') (rev (List.map_filter entityToEntityTypeDef es))") (auto simp: find_None_iff)
  from last_found [OF x] obtain xs e ys where es: "es = xs @ e # ys" and e: "entityToEntityTypeDef e = Some x"
    "et_name x = et_name x'" and last: "\<forall>e' \<in> set ys. \<forall>y. entityToEntityTypeDef e' = Some y \<longrightarrow> et_name y \<noteq> et_name x'" by blast
  have "sorted_wrt (\<lambda>a b. entity_key (entity_row b) \<le> entity_key (entity_row a)) es"
    using query_entities_facts [OF assms(4), of sq did "type_query ''EntityTypeDefinition''"] assms(6) by auto
  then have "entity_key (entity_row e) \<le> entity_key (entity_row e')"
    using assms(7,8) last unfolding es by (auto simp: sorted_wrt_append)
  moreover have "EntityType did (et_name x') rs = Inr x"
    unfolding rs restored_type_def st by (simp add: find_append x)
  ultimately show ?thesis using e es by auto
qed

section \<open>Calls\<close>

lemma fed_envelope:
  "decode_envelope (m_payload (fed_message_of c did ty op args)) = Inr \<lparr>en_op = op, en_args = Doc args\<rparr>"
  by (simp add: decode_envelope_def fed_message_of_def struct_simps assign_envelope_def set_raw_def)

lemma FedCall_reaches:
  assumes "router_ok sq ro" and "mget ro did = Some ops" and "dispatch_op sq op = Some f" and "k = ''query'' \<or> k = ''write''"
  obtains msg where "m_source msg = ''cli''" and
    "FedCall c ro did k op args h = (case f (cl_env c) did msg (Doc args) h of
        (Panics m, h') \<Rightarrow> (Crashed m, h')
      | (Returned (resp, Some e), h') \<Rightarrow> (Failed e, h')
      | (Returned (resp, None), h') \<Rightarrow>
          if m_type resp = FedMsgError then
            (Failed (Errorf (if error_member (m_payload resp) \<noteq> [] then error_member (m_payload resp)
                             else ''federation error response'')), h')
          else (Got (m_payload resp), h'))"
proof -
  define msg where "msg = fed_message_of c did (if k = ''query'' then FedMsgQuery else FedMsgWrite) op args"
  have fields: "m_target msg = did" "m_source msg = ''cli''" "m_type msg = (if k = ''query'' then FedMsgQuery else FedMsgWrite)"
    by (simp_all add: msg_def fed_message_of_def)
  have "ops = store_handler sq did" using assms(1,2) route_some by blast
  then have run: "Route (cl_env c) ro msg h = finish_route (cl_env c) msg (f (cl_env c) did msg (Doc args) h)"
    using assms(2-4) fields fed_envelope [of c did "if k = ''query'' then FedMsgQuery else FedMsgWrite" op args, folded msg_def]
    by (auto simp: Route_def store_handler_def HandleQuery_def HandleWrite_def dispatch_def)
  show thesis
    using assms(4) fields(2) run
    by (intro that [of msg]) (auto simp: FedCall_def msg_def [symmetric] finish_route_def errorReply_def
        split: prod.split outcome.split option.split)
qed

lemma FedCall_Got:
  assumes "router_ok sq ro" and "dispatch_op sq op = Some f" and "k = ''query'' \<or> k = ''write''"
    and "FedCall c ro did k op args h = (Got p, h')"
  obtains msg resp where "m_source msg = ''cli''" and "f (cl_env c) did msg (Doc args) h = (Returned (resp, None), h')"
    and "p = m_payload resp" and "mget ro did \<noteq> None"
proof (cases "mget ro did")
  case None
  then show thesis using assms(3,4)
    by (auto simp: FedCall_def Route_def fed_message_of_def errorReply_def split: if_splits)
next
  case (Some ops)
  obtain msg where src: "m_source msg = ''cli''" and run: "FedCall c ro did k op args h = (case f (cl_env c) did msg (Doc args) h of
        (Panics m, h') \<Rightarrow> (Crashed m, h')
      | (Returned (resp, Some e), h') \<Rightarrow> (Failed e, h')
      | (Returned (resp, None), h') \<Rightarrow>
          if m_type resp = FedMsgError then
            (Failed (Errorf (if error_member (m_payload resp) \<noteq> [] then error_member (m_payload resp)
                             else ''federation error response'')), h')
          else (Got (m_payload resp), h'))"
    by (rule FedCall_reaches [OF assms(1) Some assms(2,3)])
  obtain resp where "f (cl_env c) did msg (Doc args) h = (Returned (resp, None), h')" "p = m_payload resp"
    using assms(4) unfolding run by (auto split: prod.splits outcome.splits option.splits if_splits)
  then show thesis using that [OF src] Some by simp
qed

lemma GetEntity_reads:
  assumes "router_ok sq ro" and "mget ro did \<noteq> None" and "get_entity (v_io_read (cl_env c)) did i (hs_db h) = Inr x"
  shows "GetEntity c ro did i h = (case decode_entity (Doc (entity_opt_json x)) of Inl e \<Rightarrow> (Failed e, h) | Inr e \<Rightarrow> (Got e, h))"
proof -
  obtain ops where ops: "mget ro did = Some ops" using assms(2) by blast
  have op: "dispatch_op sq ''entity.get'' = Some opEntityGet" by (simp add: dispatch_op_def)
  have k: "''query'' = ''query'' \<or> ''query'' = ''write''" by simp
  have args: "decode_entityGetArgs (Doc (JObj [(''id'', JStr i)])) = Inr (no_write_args\<lparr>wa_id := i\<rparr>)"
    by (simp add: decode_entityGetArgs_def struct_simps no_write_args_def)
  show ?thesis
    by (rule FedCall_reaches [OF assms(1) ops op k, of c "JObj [(''id'', JStr i)]" h])
      (simp add: GetEntity_def decoded_def opEntityGet_def args assms(3) respond_def message_def no_write_args_def
        split: sum.splits)
qed

lemma create_args_decoded:
  "decode_entityCreateArgs (Doc (JObj [(''author_did'', JStr a), (''client_id'', JStr c), (''fields'', enc_map fs), (''type'', JStr ty)]))
     = Inr \<lparr>wa_id = [], wa_type = ty, wa_fields = map_option (\<lambda>m. mputs (normalize_members m) []) fs, wa_author = a, wa_client = c\<rparr>"
  by (cases fs) (simp_all add: decode_entityCreateArgs_def struct_simps set_map_def enc_map_def assign_author_def no_write_args_def)

text \<open>C33: What the command line creates can be read back: the entity \<open>CreateEntity\<close> returns belongs to the
  peer, has the requested type and the caller as client and the peer as author, it is what the store
  holds, and \<open>GetEntity\<close> on its identifier gives it again.\<close>

theorem cli_create_roundtrip:
  assumes "router_ok sq ro" and "good_call (cl_env c) h" and "v_now (cl_env c) \<noteq> 0" and "did \<noteq> []" and "client \<noteq> []"
    and "CreateEntity c ro did ty fs client h = (Got e, h')" and "v_io_read (cl_env c') = None"
  shows "e_peer e = did \<and> e_type e = ty \<and> e_client e = client \<and> e_created_by e = did
    \<and> get_entity None did (e_id e) (hs_db h') = Inr (Some (stored e))
    \<and> GetEntity c' ro did (e_id e) h' = (Got (stored e), h')"
proof -
  have op: "dispatch_op sq ''entity.create'' = Some opEntityCreate" by (simp add: dispatch_op_def)
  have k: "''write'' = ''query'' \<or> ''write'' = ''write''" by simp
  obtain p where p: "FedCall c ro did ''write'' ''entity.create'' (JObj [(''author_did'', JStr did), (''client_id'', JStr client),
        (''fields'', enc_map fs), (''type'', JStr ty)]) h = (Got p, h')" and dec: "decode_entity p = Inr e"
    using assms(6) by (auto simp: CreateEntity_def decoded_def split: prod.splits called.splits sum.splits)
  obtain msg resp where run: "opEntityCreate (cl_env c) did msg (Doc (JObj [(''author_did'', JStr did), (''client_id'', JStr client),
        (''fields'', enc_map fs), (''type'', JStr ty)])) h = (Returned (resp, None), h')"
    and payload: "p = m_payload resp" and ro: "mget ro did \<noteq> None"
    by (rule FedCall_Got [OF assms(1) op k p])
  have ok: "host_ok h" "time_ok (v_now (cl_env c))" using assms(2) by (simp_all add: good_call_def)
  obtain m e' row where e': "e' = new_entity (cl_env c) did msg ty did client m" "entity_ok e'" "decode_entity (m_payload resp) = Inr e'"
    and got: "get_entity None did (v_id1 (cl_env c)) (hs_db h') = Inr (Some (stored e'))"
    by (rule create_result [OF run ok(1) create_args_decoded ok(2) assms(3)]) simp
  have "e' = e" using e'(3) dec payload by simp
  then have e: "e_peer e = did" "e_type e = ty" "e_client e = client" "e_created_by e = did" "e_id e = v_id1 (cl_env c)" "entity_ok e"
    using e'(1,2) assms(4,5) by (auto simp: new_entity_def fallback_def)
  have g: "get_entity (v_io_read (cl_env c')) did (e_id e) (hs_db h') = Inr (Some (stored e))"
    using got \<open>e' = e\<close> e(5) assms(7) by simp
  have "GetEntity c' ro did (e_id e) h' = (Got (stored e), h')"
    using GetEntity_reads [OF assms(1) ro g] decode_entity_json [OF stored_ok [OF e(6)]] by (simp add: entity_opt_json_def)
  with e g assms(7) show ?thesis by simp
qed

text \<open>\<open>GetEntity\<close> does not notice that there is no such entity: for an identifier the peer has no row of
  it returns, without an error, an entity all of whose fields are empty.\<close>

theorem get_missing_is_empty:
  assumes "router_ok sq ro" and "mget ro did \<noteq> None" and "v_io_read (cl_env c) = None"
    and "\<forall>r \<in> set (d_entities (hs_db h)). \<not> (er_peer r = did \<and> er_id r = i)"
  shows "GetEntity c ro did i h = (Got zero_entity, h)"
proof -
  have "get_entity (v_io_read (cl_env c)) did i (hs_db h) = Inr None"
  proof -
    have "find (\<lambda>r. er_peer r = did \<and> er_id r = i) (d_entities (hs_db h)) = None"
      unfolding find_None_iff using assms(4) by blast
    then show ?thesis using assms(3) by (simp add: get_entity_def)
  qed
  from GetEntity_reads [OF assms(1,2) this] show ?thesis
    by (simp add: entity_opt_json_def decode_entity_def struct_simps)
qed

section \<open>Choosing a peer\<close>

text \<open>A peer name nobody has is passed over in silence: the command goes on with the fallback peer, or with
  the first registered one, exactly as if no peer had been named.\<close>

theorem unknown_peer_ignored:
  assumes "ByName reg name = None" and "ByDID reg name = None"
  shows "resolvePeer order reg name dflt = resolvePeer order reg [] dflt"
  using assms by (simp add: resolvePeer_def Resolve_def)

section \<open>A new peer\<close>

lemma persist_events:
  "persist_def v did evType entType def client d = (None, d') \<Longrightarrow> length (d_events d') = Suc (length (d_events d))"
  by (auto simp: persist_def_def Let_def append_event_cases dest!: upsert_entity_frame(1) split: sum.splits prod.splits)

lemma add_entity_types_all:
  "add_entity_types did client ds h = (None, h') \<Longrightarrow>
     hs_schema h' = map_option (register_entity_types did (map snd ds)) (hs_schema h)
     \<and> length (d_events (hs_db h')) = length (d_events (hs_db h)) + length ds"
proof (induction ds arbitrary: h)
  case (Cons x ds)
  then show ?case
    by (cases x) (auto simp: persistEntityTypeDef_def register_entity_types_def option.map_comp comp_def
        dest!: persist_events split: prod.splits option.splits)
next
  case Nil
  then show ?case by (cases "hs_schema h") (auto simp: register_entity_types_def)
qed

lemma add_rel_types_all:
  "add_rel_types did client ds h = (None, h') \<Longrightarrow>
     hs_schema h' = map_option (register_rel_types did (map snd ds)) (hs_schema h)
     \<and> length (d_events (hs_db h')) = length (d_events (hs_db h)) + length ds"
proof (induction ds arbitrary: h)
  case (Cons x ds)
  then show ?case
    by (cases x) (auto simp: persistRelTypeDef_def register_rel_types_def option.map_comp comp_def
        dest!: persist_events split: prod.splits option.splits)
next
  case Nil
  then show ?case by (cases "hs_schema h") (auto simp: register_rel_types_def)
qed

text \<open>The statements succeed when nothing fails outside and the identifiers are new.\<close>

definition seeds_env :: "env \<Rightarrow> bool" where
  "seeds_env v \<longleftrightarrow> v_io_append v = None \<and> v_io_write v = None \<and> v_id1 v \<noteq> [] \<and> v_id2 v \<noteq> []"

lemma persist_succeeds:
  assumes "seeds_env v" and "did \<noteq> []" and "evType \<noteq> []" and "v_id2 v \<notin> vr_id ` set (d_events d)"
  shows "\<exists>d'. persist_def v did evType entType def client d = (None, d')
    \<and> vr_id ` set (d_events d') = insert (v_id2 v) (vr_id ` set (d_events d))"
proof -
  let ?r = "event_row_of (v_now v) (v_id2 v) (new_event v (v_id2 v) did evType def did client)"
  have app: "append_event (v_io_append v) (v_now v) (v_id2 v) (Some (new_event v (v_id2 v) did evType def did client)) d
      = Inr (d\<lparr>d_events := d_events d @ [?r]\<rparr>)" and r: "vr_id ?r = v_id2 v"
    using assms by (simp_all add: append_event_Some insert_event_def exec_def seeds_env_def new_event_def event_row_of_def)
  show ?thesis
  proof (cases "persist_def v did evType entType def client d")
    case (Pair e d')
    have "e = None" "d_events d' = d_events d @ [?r]"
      using Pair assms(1,2) by (auto simp: persist_def_def app seeds_env_def Let_def upsert_entity_def type_entity_def exec_def
          split: if_splits)
    with Pair r show ?thesis by auto
  qed
qed

lemma add_entity_types_succeed:
  assumes "\<forall>v \<in> fst ` set ds. seeds_env v" and "did \<noteq> []" and "distinct (map (v_id2 \<circ> fst) ds)"
    and "\<forall>v \<in> fst ` set ds. v_id2 v \<notin> vr_id ` set (d_events (hs_db h))"
  shows "fst (add_entity_types did client ds h) = None
    \<and> vr_id ` set (d_events (hs_db (snd (add_entity_types did client ds h))))
        = (v_id2 \<circ> fst) ` set ds \<union> vr_id ` set (d_events (hs_db h))"
  using assms
proof (induction ds arbitrary: h)
  case (Cons x ds)
  obtain v def where x: "x = (v, def)" by (cases x)
  obtain d' where p: "persistEntityTypeDef v did def client (hs_db h) = (None, d')"
    and ids: "vr_id ` set (d_events d') = insert (v_id2 v) (vr_id ` set (d_events (hs_db h)))"
    using persist_succeeds [of v did EventEntityTypeDefined "hs_db h" "''EntityTypeDefinition''" "entity_type_json def" client] Cons.prems
    by (auto simp: x persistEntityTypeDef_def)
  have fresh: "\<forall>w \<in> fst ` set ds. v_id2 w \<notin> vr_id ` set (d_events d')"
    using Cons.prems(3,4) unfolding ids by (force simp: x)
  have "fst (add_entity_types did client ds \<lparr>hs_db = d', hs_schema = map_option (RegisterEntityType did def) (hs_schema h)\<rparr>) = None
    \<and> vr_id ` set (d_events (hs_db (snd (add_entity_types did client ds \<lparr>hs_db = d', hs_schema = map_option (RegisterEntityType did def) (hs_schema h)\<rparr>))))
        = (v_id2 \<circ> fst) ` set ds \<union> vr_id ` set (d_events d')"
    using Cons.IH [of "\<lparr>hs_db = d', hs_schema = map_option (RegisterEntityType did def) (hs_schema h)\<rparr>"] Cons.prems(1-3) fresh
    by (simp add: x)
  then show ?case by (simp add: x p ids)
qed simp

lemma add_rel_types_succeed:
  assumes "\<forall>v \<in> fst ` set ds. seeds_env v" and "did \<noteq> []" and "distinct (map (v_id2 \<circ> fst) ds)"
    and "\<forall>v \<in> fst ` set ds. v_id2 v \<notin> vr_id ` set (d_events (hs_db h))"
  shows "fst (add_rel_types did client ds h) = None"
  using assms
proof (induction ds arbitrary: h)
  case (Cons x ds)
  obtain v def where x: "x = (v, def)" by (cases x)
  obtain d' where p: "persistRelTypeDef v did def client (hs_db h) = (None, d')"
    and ids: "vr_id ` set (d_events d') = insert (v_id2 v) (vr_id ` set (d_events (hs_db h)))"
    using persist_succeeds [of v did EventRelationshipTypeDefined "hs_db h" "''RelationshipTypeDefinition''" "rel_type_json def" client] Cons.prems
    by (auto simp: x persistRelTypeDef_def)
  have fresh: "\<forall>w \<in> fst ` set ds. v_id2 w \<notin> vr_id ` set (d_events d')"
    using Cons.prems(3,4) unfolding ids by (force simp: x)
  have "fst (add_rel_types did client ds \<lparr>hs_db = d', hs_schema = map_option (RegisterRelationType did def) (hs_schema h)\<rparr>) = None"
    using Cons.IH [of "\<lparr>hs_db = d', hs_schema = map_option (RegisterRelationType did def) (hs_schema h)\<rparr>"] Cons.prems(1-3) fresh
    by (simp add: x)
  then show ?case by (simp add: x p)
qed simp

lemma find_named: "distinct (map f xs) \<Longrightarrow> x \<in> set xs \<Longrightarrow> find (\<lambda>y. f y = f x) (rev xs) = Some x"
proof (induction xs)
  case (Cons a xs)
  show ?case
  proof (cases "x = a")
    case True
    then have "find (\<lambda>y. f y = f x) (rev xs) = None" using Cons.prems by (auto simp: find_None_iff) (metis image_eqI)
    then show ?thesis using True by (simp add: find_append)
  next
    case False
    then show ?thesis using Cons by (simp add: find_append)
  qed
qed simp

text \<open>A peer added to the running program has all six seed entity types and all three seed relationship
  types, each logged by one event, and is reachable through the router.\<close>

theorem add_peer_defines_seeds:
  assumes "AddPeerToRuntime sq vs p client rt = (None, rt')" and "hs_schema (rt_host rt) = Some rs" and "resolver_ok rs"
    and "gomap_ok (rt_router rt)"
  shows "\<exists>rs'. hs_schema (rt_host rt') = Some rs' \<and> resolver_ok rs'
    \<and> (\<forall>x \<in> set (SeedEntityTypes (p_did p)). EntityType (p_did p) (et_name x) rs' = Inr x)
    \<and> (\<forall>x \<in> set (SeedRelationshipTypes (p_did p)). RelationType (p_did p) (rt_name x) rs' = Inr x)
    \<and> length (d_events (hs_db (rt_host rt'))) = length (d_events (hs_db (rt_host rt))) + 9
    \<and> mget (rt_router rt') (p_did p) = Some (store_handler sq (p_did p))"
proof -
  define did where "did = p_did p"
  define es rels where "es = zip (map vs [0..<length (SeedEntityTypes did)]) (SeedEntityTypes did)"
    and "rels = zip (map vs [length (SeedEntityTypes did)..<length (SeedEntityTypes did) + length (SeedRelationshipTypes did)])
      (SeedRelationshipTypes did)"
  obtain h1 h2 r where h1: "add_entity_types did client es (rt_host rt) = (None, h1)"
    and h2: "add_rel_types did client rels h1 = (None, h2)"
    and r: "RegisterPeer did (Some (store_handler sq did)) (rt_router rt) = Inr r"
    and rt': "rt' = rt\<lparr>rt_host := h2, rt_router := r\<rparr>"
    using assms(1) by (auto simp: AddPeerToRuntime_def Let_def did_def es_def rels_def split: prod.splits option.splits sum.splits)
  have snds: "map snd es = SeedEntityTypes did" "map snd rels = SeedRelationshipTypes did"
    by (simp_all add: es_def rels_def)
  have count: "length es = 6" "length rels = 3"
    by (simp_all add: es_def rels_def SeedEntityTypes_def SeedRelationshipTypes_def)
  note a1 = add_entity_types_all [OF h1, unfolded snds count] and a2 = add_rel_types_all [OF h2, unfolded snds count]
  define rs1 where "rs1 = register_entity_types did (SeedEntityTypes did) rs"
  have ok1: "resolver_ok rs1" unfolding rs1_def by (rule register_entity_types_ok [OF assms(3)])
  have "hs_schema h2 = Some (register_rel_types did (SeedRelationshipTypes did) rs1)"
    using a1 a2 assms(2) by (simp add: rs1_def)
  moreover have "distinct (map et_name (SeedEntityTypes did))" "distinct (map rt_name (SeedRelationshipTypes did))"
    by (simp_all add: SeedEntityTypes_def SeedRelationshipTypes_def)
  moreover have "mget r did = Some (store_handler sq did)"
    using r assms(4) by (auto simp: RegisterPeer_def gomap_simps split: if_splits)
  ultimately show ?thesis
    using a1 a2 register_rel_types_ok [OF ok1, where did = did and ds = "SeedRelationshipTypes did"] register_entity_types_ok [OF assms(3)]
    by (auto simp: rt' did_def [symmetric] find_named rs1_def)
qed

lemma add_peer_ok:
  assumes "\<forall>n < 9. seeds_env (vs n) \<and> v_id2 (vs n) \<notin> vr_id ` set (d_events (hs_db (rt_host rt)))"
    and "inj_on (\<lambda>n. v_id2 (vs n)) {..<9}" and "p_did p \<noteq> []" and "mget (rt_router rt) (p_did p) = None"
  shows "fst (AddPeerToRuntime sq vs p client rt) = None"
proof -
  define did where "did = p_did p"
  define es rels where "es = zip (map vs [0..<6]) (SeedEntityTypes did)" and "rels = zip (map vs [6..<9]) (SeedRelationshipTypes did)"
  have len: "length (SeedEntityTypes did) = 6" "length (SeedRelationshipTypes did) = 3"
    by (simp_all add: SeedEntityTypes_def SeedRelationshipTypes_def)
  have fsts: "map fst es = map vs [0..<6]" "map fst rels = map vs [6..<9]" by (simp_all add: es_def rels_def len)
  then have sets: "fst ` set es = vs ` {0..<6}" "fst ` set rels = vs ` {6..<9}" by (metis set_map set_upt)+
  have "distinct (map (\<lambda>n. v_id2 (vs n)) [0..<9])"
    using assms(2) by (simp add: distinct_map atLeast0LessThan)
  moreover have "[0..<9] = [0..<6] @ [6..<9]" by (simp add: upt_rec)
  ultimately have "distinct (map (\<lambda>n. v_id2 (vs n)) ([0..<6] @ [6..<9]))" by metis
  moreover have "map (v_id2 \<circ> fst) es = map (\<lambda>n. v_id2 (vs n)) [0..<6]" "map (v_id2 \<circ> fst) rels = map (\<lambda>n. v_id2 (vs n)) [6..<9]"
    unfolding map_map [symmetric] fsts by (simp_all add: comp_def)
  ultimately have "distinct (map (v_id2 \<circ> fst) es @ map (v_id2 \<circ> fst) rels)" by (simp only: map_append)
  then have dist: "distinct (map (v_id2 \<circ> fst) es)" "distinct (map (v_id2 \<circ> fst) rels)"
    and apart: "(v_id2 \<circ> fst) ` set es \<inter> (v_id2 \<circ> fst) ` set rels = {}"
    by (simp_all only: distinct_append set_map)
  have did: "did \<noteq> []" using assms(3) by (simp add: did_def)
  have e: "fst (add_entity_types did client es (rt_host rt)) = None
    \<and> vr_id ` set (d_events (hs_db (snd (add_entity_types did client es (rt_host rt)))))
        = (v_id2 \<circ> fst) ` set es \<union> vr_id ` set (d_events (hs_db (rt_host rt)))"
    using assms(1) sets by (intro add_entity_types_succeed did dist) auto
  obtain h where h: "add_entity_types did client es (rt_host rt) = (None, h)" using e by (metis prod.collapse)
  have "fst (add_rel_types did client rels h) = None"
  proof (intro add_rel_types_succeed did dist ballI)
    fix v assume v: "v \<in> fst ` set rels"
    then obtain n where n: "v = vs n" "n < 9" using sets(2) by auto
    have "v_id2 v \<in> (v_id2 \<circ> fst) ` set rels" using v by auto
    then show "v_id2 v \<notin> vr_id ` set (d_events (hs_db h))" "seeds_env v"
      using e h apart assms(1) n by auto
  qed
  then obtain h' where "add_rel_types did client rels h = (None, h')" by (metis prod.collapse)
  with h did show ?thesis
    using assms(4) by (simp add: AddPeerToRuntime_def Let_def len RegisterPeer_def es_def rels_def flip: did_def)
qed

text \<open>Adding a peer succeeds whenever no statement fails, the identifiers drawn are new and the peer has a
  DID the router does not know yet.\<close>

theorem add_peer_succeeds:
  assumes "\<forall>n < 9. seeds_env (vs n) \<and> v_id2 (vs n) \<notin> vr_id ` set (d_events (hs_db (rt_host rt)))"
    and "inj_on (\<lambda>n. v_id2 (vs n)) {..<9}" and "p_did p \<noteq> []" and "mget (rt_router rt) (p_did p) = None"
  shows "fst (AddPeerToRuntime sq vs p client rt) = None"
  by (rule add_peer_ok [OF assms])

section \<open>Concrete runs\<close>

text \<open>A data directory with one peer and two definitions of the type \<open>Goal\<close>, made at the times 1 and 2.\<close>

definition no_errors :: open_errors where
  "no_errors = \<lparr>oe_dir = None, oe_peers = None, oe_store = None, oe_init = None, oe_auth_dir = None, oe_tokens = None,
     oe_entity_types = \<lambda>did. None, oe_rel_types = \<lambda>did. None\<rparr>"

definition goal_v :: "string \<Rightarrow> string \<Rightarrow> time \<Rightarrow> entity" where
  "goal_v i desc t = zero_entity\<lparr>e_id := i, e_type := ''EntityTypeDefinition'', e_peer := ''did:key:z1'', e_created_at := t * nanos, e_updated_at := t * nanos,
     e_data := Some [(''description'', JStr desc), (''name'', JStr ''Goal'')]\<rparr>"

definition two_defs :: db where
  "two_defs = \<lparr>d_events = [], d_entities = [entity_row (goal_v ''a'' ''old'' 1), entity_row (goal_v ''b'' ''new'' 2)],
     d_relations = [], d_meta = [], d_vectors = [], d_dim = 8\<rparr>"

definition two_defs_disk :: disk where
  "two_defs_disk = \<lparr>dk_peers = Some (file_of [sample_peer]), dk_db = Some two_defs, dk_tokens = None\<rparr>"

lemma goal_v_ok: "t = 1 \<or> t = 2 \<Longrightarrow> entity_ok (goal_v i desc t)"
  by (auto simp: goal_v_def entity_ok_def zero_entity_def time_ok_def nanos_def obj_ok_def gomap_ok_def less_list_code less_char_def)

lemma two_defs_ok: "db_ok two_defs"
  using goal_v_ok [of 1] goal_v_ok [of 2]
  by (auto simp: two_defs_def db_ok_def er_simps goal_v_def)

definition two_defs_registry :: registry where
  "two_defs_registry = foldl index_peer (empty_registry (Some (file_of [sample_peer]))) [sample_peer]"

lemma two_defs_peers: "list_peers [''work''] two_defs_registry = [sample_peer]" "p_did sample_peer = ''did:key:z1''"
  by (simp_all add: two_defs_registry_def list_peers_def sortByName_def ByName_def index_peer_def empty_registry_def sample_peer_def)

definition two_defs_runtime :: runtime where
  "two_defs_runtime = \<lparr>rt_registry = two_defs_registry, rt_host = \<lparr>hs_db = two_defs,
     hs_schema = Some (rehydrate sample_sqlite no_errors two_defs ''did:key:z1'' NewResolver)\<rparr>,
     rt_auth = \<lparr>au_tokens = [], au_file = None\<rparr>, rt_router = [(''did:key:z1'', store_handler sample_sqlite ''did:key:z1'')]\<rparr>"

lemma two_defs_setup: "Setup sample_sqlite ''db'' 8 no_errors [''work''] two_defs_disk = Inr two_defs_runtime"
proof -
  have "open_registry None None (dk_peers two_defs_disk) = Inr two_defs_registry"
    unfolding two_defs_disk_def two_defs_registry_def disk.simps
    by (rule open_file_of) (simp add: sample_peer_def time_ok_def nanos_def)
  moreover have "open_db ''db'' 8 no_errors (dk_db two_defs_disk) = Inr two_defs"
    by (simp add: open_db_def new_store_def no_errors_def two_defs_disk_def two_defs_def)
  moreover have "open_auth None None (dk_tokens two_defs_disk) = Inr \<lparr>au_tokens = [], au_file = None\<rparr>"
    by (simp add: open_auth_def two_defs_disk_def)
  moreover have "foldM (setup_peer sample_sqlite no_errors two_defs) [sample_peer] (NewResolver, new_router)
      = Inr (rehydrate sample_sqlite no_errors two_defs ''did:key:z1'' NewResolver,
          [(''did:key:z1'', store_handler sample_sqlite ''did:key:z1'')])"
    by (simp add: setup_peer_def RegisterPeer_def two_defs_peers new_router_def)
  moreover have "oe_dir no_errors = None" "oe_peers no_errors = None" "oe_auth_dir no_errors = None" "oe_tokens no_errors = None"
    by (simp_all add: no_errors_def)
  ultimately show ?thesis
    by (simp add: Setup_def wrap_error_def two_defs_peers two_defs_runtime_def del: foldM.simps)
qed

lemma setup_wires_peers_witness:
  "mget (rt_router two_defs_runtime) ''did:key:z1'' = Some (store_handler sample_sqlite ''did:key:z1'')"
  using setup_wires_peers [OF two_defs_setup, of "''did:key:z1''"]
  by (simp add: two_defs_peers two_defs_runtime_def)

lemma two_defs_query:
  "query_entities sample_sqlite None ''did:key:z1'' (type_query ''EntityTypeDefinition'') two_defs
     = Inr [goal_v ''b'' ''new'' 2, goal_v ''a'' ''old'' 1]"
proof -
  let ?a = "entity_row (goal_v ''a'' ''old'' 1)" and ?b = "entity_row (goal_v ''b'' ''new'' 2)"
  have "format_time (1 * nanos) < format_time (2 * nanos)" by code_simp
  then have keys: "entity_key ?a < entity_key ?b"
    by (simp add: entity_key_def entity_row_def goal_v_def less_row_key_def less_eq_row_key_def)
  have match: "match_entity sample_sqlite ''did:key:z1'' (type_query ''EntityTypeDefinition'') (entity_row (goal_v i d t))" for i d t
    by (simp add: match_entity_def type_query_def zero_query_def goal_v_def zero_entity_def entity_row_def)
  have "select_entities sample_sqlite ''did:key:z1'' (type_query ''EntityTypeDefinition'') two_defs = [?b, ?a]"
    using keys match by (simp add: select_entities_def two_defs_def type_query_def zero_query_def default_limit_def insort_key.simps)
  moreover have "scan_entity (entity_row (goal_v i d t)) = Inr (goal_v i d t)" if "t = 1 \<or> t = 2" for i d t
    using scan_entity_row [OF goal_v_ok [OF that]] by (simp add: stored_def goal_v_def)
  ultimately show ?thesis by (simp add: query_entities_def)
qed

lemma oldest_definition_wins_witness:
  "\<exists>rs x. hs_schema (rt_host two_defs_runtime) = Some rs \<and> EntityType ''did:key:z1'' ''Goal'' rs = Inr x \<and> et_desc x = ''old''"
proof -
  let ?rs = "rehydrate sample_sqlite no_errors two_defs ''did:key:z1'' NewResolver"
  have keys: "fold_name ''description'' = ''description''" "fold_name ''name'' = ''name''" by simp_all
  have def: "entityToEntityTypeDef (goal_v i desc t)
      = Some \<lparr>et_name = ''Goal'', et_peer = ''did:key:z1'', et_fields = None, et_desc = desc\<rparr>" for i desc t
    by (simp add: entityToEntityTypeDef_def goal_v_def decode_entity_type_def struct_simps keys assign_entity_type_keys zero_entity_type_def)
  have rt: "hs_schema (rt_host two_defs_runtime) = Some ?rs" "hs_db (rt_host two_defs_runtime) = two_defs"
    "''did:key:z1'' \<in> p_did ` set (list_peers [''work''] (rt_registry two_defs_runtime))"
    by (simp_all add: two_defs_runtime_def two_defs_peers)
  have io: "oe_entity_types no_errors ''did:key:z1'' = None" by (simp add: no_errors_def)
  have mem: "goal_v ''a'' ''old'' 1 \<in> set [goal_v ''b'' ''new'' 2, goal_v ''a'' ''old'' 1]" by simp
  obtain e x where e: "e \<in> set [goal_v ''b'' ''new'' 2, goal_v ''a'' ''old'' 1]"
    and x: "entityToEntityTypeDef e = Some x" "EntityType ''did:key:z1'' ''Goal'' ?rs = Inr x"
    and le: "entity_key (entity_row e) \<le> entity_key (entity_row (goal_v ''a'' ''old'' 1))"
    using oldest_definition_wins [OF two_defs_setup rt(3,1), unfolded rt(2), OF two_defs_ok io two_defs_query mem def] by auto
  have "\<not> entity_key (entity_row (goal_v ''b'' ''new'' 2)) \<le> entity_key (entity_row (goal_v ''a'' ''old'' 1))"
    by code_simp
  then have "e = goal_v ''a'' ''old'' 1" using e le by auto
  then show ?thesis using x def rt(1) by auto
qed

definition sample_call :: call where
  "sample_call = \<lparr>cl_sent = 4, cl_id = ''m'', cl_env = sample_env\<rparr>"

lemma cli_create_roundtrip_witness:
  "\<exists>e h'. CreateEntity sample_call sample_router ''p'' ''Goal'' (Some [(''title'', JStr ''run'')]) ''cli'' (sample_host\<lparr>hs_schema := None\<rparr>) = (Got e, h')
     \<and> e_client e = ''cli'' \<and> GetEntity sample_call sample_router ''p'' (e_id e) h' = (Got (stored e), h')"
proof -
  have ops: "mget sample_router ''p'' = Some (store_handler sample_sqlite ''p'')" by (simp add: sample_router_def)
  have op: "dispatch_op sample_sqlite ''entity.create'' = Some opEntityCreate" by (simp add: dispatch_op_def)
  let ?h = "sample_host\<lparr>hs_schema := None\<rparr>" and ?m = "Some [(''title'', JStr ''run'')]"
  have good: "good_call (cl_env sample_call) ?h" "v_now (cl_env sample_call) \<noteq> 0" "v_io_read (cl_env sample_call) = None"
    using sample_router_ok(2) sample_host_ok(2) sample_env_ok
    by (simp_all add: good_call_def sample_call_def) (simp add: sample_env_def)
  obtain msg where run: "FedCall sample_call sample_router ''p'' ''write'' ''entity.create''
      (JObj [(''author_did'', JStr ''p''), (''client_id'', JStr ''cli''), (''fields'', enc_map ?m), (''type'', JStr ''Goal'')]) ?h
    = (case opEntityCreate (cl_env sample_call) ''p'' msg (Doc (JObj [(''author_did'', JStr ''p''), (''client_id'', JStr ''cli''),
         (''fields'', enc_map ?m), (''type'', JStr ''Goal'')])) ?h of
        (Panics m, h') \<Rightarrow> (Crashed m, h')
      | (Returned (resp, Some e), h') \<Rightarrow> (Failed e, h')
      | (Returned (resp, None), h') \<Rightarrow>
          if m_type resp = FedMsgError then
            (Failed (Errorf (if error_member (m_payload resp) \<noteq> [] then error_member (m_payload resp)
                             else ''federation error response'')), h')
          else (Got (m_payload resp), h'))"
    by (rule FedCall_reaches [OF sample_router_ok(1) ops op, of "''write''" sample_call
        "JObj [(''author_did'', JStr ''p''), (''client_id'', JStr ''cli''), (''fields'', enc_map ?m), (''type'', JStr ''Goal'')]" ?h]) simp
  have "entity_ok (new_entity sample_env ''p'' msg ''Goal'' ''p'' ''cli'' ?m)"
    by (simp add: new_entity_def entity_ok_def sample_env_def time_ok_def nanos_def obj_ok_def gomap_ok_def)
  then have dec: "decode_entity (Doc (entity_json (new_entity sample_env ''p'' msg ''Goal'' ''p'' ''cli'' ?m)))
      = Inr (new_entity sample_env ''p'' msg ''Goal'' ''p'' ''cli'' ?m)" by (rule decode_entity_json)
  have "\<exists>h'. opEntityCreate sample_env ''p'' msg (Doc (JObj [(''author_did'', JStr ''p''), (''client_id'', JStr ''cli''),
      (''fields'', enc_map ?m), (''type'', JStr ''Goal'')])) ?h
    = (respond sample_env ''p'' msg (entity_json (new_entity sample_env ''p'' msg ''Goal'' ''p'' ''cli'' ?m)), h')"
    unfolding opEntityCreate_def create_args_decoded
    by (simp add: validate_create_def Let_def new_entity_def new_event_def sample_env_def sample_host_def append_event_Some
        one_entity_db_def sample_db_def event_row_of_def insert_event_def exec_def upsert_entity_def)
  then obtain e h' where got: "CreateEntity sample_call sample_router ''p'' ''Goal'' ?m ''cli'' ?h = (Got e, h')"
    using run dec by (auto simp: CreateEntity_def decoded_def sample_call_def respond_def message_def)
  from cli_create_roundtrip [OF sample_router_ok(1) good(1,2) _ _ got good(3)] got show ?thesis by auto
qed

lemma get_missing_is_empty_witness:
  "GetEntity sample_call sample_router ''p'' ''nobody'' sample_host = (Got zero_entity, sample_host)"
  by (rule get_missing_is_empty [OF sample_router_ok(1)])
    (simp_all add: sample_router_def sample_call_def sample_env_def sample_host_def one_entity_db_def sample_db_def,
     simp add: sample_entity_def)

lemma unknown_peer_ignored_witness:
  "resolvePeer [''work''] one_peer ''hmoe'' [] = Inr sample_peer"
proof -
  have no: "ByName one_peer ''hmoe'' = None" "ByDID one_peer ''hmoe'' = None"
    by (simp_all add: one_peer_def Add_def empty_registry_def flush_registry_def index_peer_def ByName_def ByDID_def)
      (simp_all add: sample_peer_def)
  have "list_peers [''work''] one_peer = [sample_peer]" using one_peer_name(1) by (simp add: list_peers_def sortByName_def)
  with unknown_peer_ignored [OF no, of "[''work'']" "[]"] show ?thesis by (simp add: resolvePeer_def)
qed

definition seed_env :: "nat \<Rightarrow> env" where
  "seed_env n = sample_env\<lparr>v_id1 := replicate n CHR ''t'', v_id2 := CHR ''e'' # replicate n CHR ''t''\<rparr>"

definition empty_runtime :: runtime where
  "empty_runtime = \<lparr>rt_registry = empty_registry None,
     rt_host = \<lparr>hs_db = \<lparr>d_events = [], d_entities = [], d_relations = [], d_meta = [], d_vectors = [], d_dim = 8\<rparr>, hs_schema = Some NewResolver\<rparr>,
     rt_auth = \<lparr>au_tokens = [], au_file = None\<rparr>, rt_router = []\<rparr>"

lemma sample_seeds:
  "\<forall>n < 9. seeds_env (seed_env (Suc n)) \<and> v_id2 (seed_env (Suc n)) \<notin> vr_id ` set (d_events (hs_db (rt_host empty_runtime)))"
  "inj_on (\<lambda>n. v_id2 (seed_env (Suc n))) {..<9}" "p_did sample_peer \<noteq> []" "mget (rt_router empty_runtime) (p_did sample_peer) = None"
proof -
  have "length (v_id2 (seed_env n)) = Suc n" for n by (simp add: seed_env_def)
  then show "inj_on (\<lambda>n. v_id2 (seed_env (Suc n))) {..<9}" by (metis (no_types, lifting) inj_onI nat.inject)
qed (simp_all add: seeds_env_def seed_env_def sample_env_def empty_runtime_def sample_peer_def)

lemma add_peer_succeeds_witness:
  "fst (AddPeerToRuntime sample_sqlite (\<lambda>n. seed_env (Suc n)) sample_peer ''cli'' empty_runtime) = None"
  by (rule add_peer_succeeds [OF sample_seeds])

lemma add_peer_defines_seeds_witness:
  "\<exists>rs'. hs_schema (rt_host (snd (AddPeerToRuntime sample_sqlite (\<lambda>n. seed_env (Suc n)) sample_peer ''cli'' empty_runtime))) = Some rs'
     \<and> (\<forall>x \<in> set (SeedEntityTypes (p_did sample_peer)). EntityType (p_did sample_peer) (et_name x) rs' = Inr x)"
proof -
  have ok: "fst (AddPeerToRuntime sample_sqlite (\<lambda>n. seed_env (Suc n)) sample_peer ''cli'' empty_runtime) = None"
    by (rule add_peer_ok [OF sample_seeds])
  have "hs_schema (rt_host empty_runtime) = Some NewResolver" "gomap_ok (rt_router empty_runtime)"
    by (simp_all add: empty_runtime_def)
  from add_peer_defines_seeds [OF _ this(1) resolver_ok_new this(2), of sample_sqlite "\<lambda>n. seed_env (Suc n)" sample_peer "''cli''"] ok
  show ?thesis by (metis prod.collapse)
qed

end
