(* ===== verification/Briefing_Props.thy ===== *)
theory Briefing_Props
  imports Briefing Runtime_Props
begin

text \<open>
  What the daily summary shows: only rows of the peer it is about, counts that are exact up to the
  limit of a query, and groups that hold every stale entity once.
\<close>

section \<open>Own rows\<close>

lemma query_type_own:
  "peer_view did d = peer_view did d' \<Longrightarrow> query_type sq io did ty d = query_type sq io did ty d'"
  unfolding query_type_def using reads_own_rows by blast

lemma list_events_own:
  "peer_view did d = peer_view did d' \<Longrightarrow> list_events io did since until d = list_events io did since until d'"
  using reads_own_rows by blast

lemma section_own_rows:
  assumes "peer_view (p_did p) d = peer_view (p_did p) d'"
  shows "buildPeerSection show_value sq io p now d = buildPeerSection show_value sq io p now d'"
  unfolding buildPeerSection_def stale_entities_def
    query_type_own [OF assms] list_events_own [OF assms] ..

text \<open>C31: The summary for one peer says nothing about the others: it is the same on any two databases that
  agree on the rows of that peer.\<close>

theorem briefing_own_rows:
  assumes "Resolve reg name = Inr p" and "name \<noteq> []" and "peer_view (p_did p) d = peer_view (p_did p) d'"
  shows "Generate show_value sq ios order (Some reg) (Some d) name now
       = Generate show_value sq ios order (Some reg) (Some d') name now"
  using assms(1,2) section_own_rows [OF assms(3)] by (simp add: Generate_def wrap_error_def)

section \<open>Counts\<close>

text \<open>The rows of a type the peer has not archived.\<close>

definition active_rows :: "string \<Rightarrow> string \<Rightarrow> db \<Rightarrow> entity_record list" where
  "active_rows did ty d = filter (\<lambda>r. er_peer r = did \<and> er_type r = ty \<and> er_archived_at r = None) (d_entities d)"

lemma query_type_rows:
  assumes "db_ok d" and "ty \<noteq> []"
  obtains es where "query_type sq None did ty d = Inr es" and "length es = min 50 (length (active_rows did ty d))"
    and "\<forall>e \<in> set es. entity_row e \<in> set (active_rows did ty d)"
    and "length (active_rows did ty d) \<le> 50 \<Longrightarrow> mset es = mset (map entity_of (active_rows did ty d))"
proof -
  have match: "filter (match_entity sq did (type_query ty)) (d_entities d) = active_rows did ty d"
    using assms(2) by (auto simp: active_rows_def match_entity_def type_query_def zero_query_def intro: filter_cong)
  define rows where "rows = select_entities sq did (type_query ty) d"
  have rows: "rows = take 50 (rev (sort_key entity_key (active_rows did ty d)))"
    by (simp add: rows_def select_entities_def match) (simp add: type_query_def zero_query_def default_limit_def)
  have sub: "set rows \<subseteq> set (active_rows did ty d)" using rows by (auto dest: in_set_takeD)
  have ok: "\<forall>r \<in> set rows. entity_row_ok r" using sub assms(1) by (auto simp: db_ok_def active_rows_def)
  show thesis
  proof (rule that [of "map entity_of rows"])
    show "query_type sq None did ty d = Inr (map entity_of rows)"
      by (simp add: query_type_def query_entities_def scan_rows [OF ok] flip: rows_def)
    show "length (map entity_of rows) = min 50 (length (active_rows did ty d))" by (simp add: rows min_def)
    show "\<forall>e \<in> set (map entity_of rows). entity_row e \<in> set (active_rows did ty d)"
      using sub ok by (auto simp: entity_of_fields)
    show "mset (map entity_of rows) = mset (map entity_of (active_rows did ty d))" if "length (active_rows did ty d) \<le> 50"
      using that by (simp add: rows)
  qed
qed

text \<open>The first section counts the open goals: every line is one goal of the peer that is open or has no
  status, the number in the title is the number of lines, and up to fifty goals it is the number of such
  goals stored; beyond fifty the older ones are left out without notice.\<close>

theorem open_goals_counted:
  assumes "db_ok d" and "bi_goals io = None"
  shows "\<exists>sec es. buildPeerSection show_value sq io p now d = Inr sec
    \<and> hd (pc_sections sec) = \<lparr>sc_title = ''Open goals ('' @ show_nat (length es) @ '')'', sc_lines = goalLines es\<rparr>
    \<and> (\<forall>e \<in> set es. is_open_goal e \<and> entity_row e \<in> set (active_rows (p_did p) ''Goal'' d))
    \<and> length es \<le> 50
    \<and> (length (active_rows (p_did p) ''Goal'' d) \<le> 50 \<longrightarrow>
         length es = length (filter (\<lambda>r. is_open_goal (entity_of r)) (active_rows (p_did p) ''Goal'' d)))"
proof -
  obtain gs where q: "query_type sq None (p_did p) ''Goal'' d = Inr gs"
    and len: "length gs = min 50 (length (active_rows (p_did p) ''Goal'' d))"
    and sub: "\<forall>e \<in> set gs. entity_row e \<in> set (active_rows (p_did p) ''Goal'' d)"
    and all: "length (active_rows (p_did p) ''Goal'' d) \<le> 50 \<Longrightarrow> mset gs = mset (map entity_of (active_rows (p_did p) ''Goal'' d))"
    by (rule query_type_rows [OF assms(1), of "''Goal''" sq "p_did p"]) (simp, rule that)
  have count: "length (filter is_open_goal gs) = length (filter (\<lambda>r. is_open_goal (entity_of r)) (active_rows (p_did p) ''Goal'' d))"
    if "length (active_rows (p_did p) ''Goal'' d) \<le> 50"
  proof -
    have "mset (filter is_open_goal gs) = mset (filter is_open_goal (map entity_of (active_rows (p_did p) ''Goal'' d)))"
      by (simp only: mset_filter all [OF that])
    then have "length (filter is_open_goal gs) = length (filter is_open_goal (map entity_of (active_rows (p_did p) ''Goal'' d)))"
      by (rule mset_eq_length)
    then show ?thesis by (simp add: filter_map comp_def)
  qed
  have "length (filter is_open_goal gs) \<le> 50" using length_filter_le [of is_open_goal gs] len by simp
  then show ?thesis
    using q sub count assms(2) by (auto simp: buildPeerSection_def Let_def counted_def intro!: exI [of _ "filter is_open_goal gs"])
qed

section \<open>Groups\<close>

lemma group_titles_ok:
  "gomap_ok (group_titles es)
   \<and> mget (group_titles es) ty = (if \<exists>e \<in> set es. e_type e = ty then Some (map stale_title (filter (\<lambda>e. e_type e = ty) es)) else None)"
proof (induction es rule: rev_induct)
  case (snoc e es)
  then show ?case by (auto simp: group_titles_def gomap_simps)
qed (simp add: group_titles_def)

section \<open>Excerpts\<close>

text \<open>An excerpt of \<open>n\<close> bytes is the first line without blanks around it, or its first \<open>n - 1\<close> bytes and
  an ellipsis, so it never has more than \<open>n + 2\<close> bytes.\<close>

theorem excerpt_bounded:
  assumes "0 < n"
  shows "length (excerpt s n) \<le> n + 2
    \<and> (\<exists>t. t = trim_space (takeWhile (\<lambda>c. c \<noteq> CHR 0x0A) s) \<and> (excerpt s n = t \<or> excerpt s n = take (n - 1) t @ ellipsis))"
  using assms by (auto simp: excerpt_def Let_def ellipsis_def)

text \<open>The cut is by bytes and may fall inside a character: an excerpt of valid UTF-8 need not be valid.\<close>

theorem excerpt_cuts_characters:
  "utf8_ok [CHR 0xC3, CHR 0xA9, CHR 0xC3, CHR 0xA9] \<and> \<not> utf8_ok (excerpt [CHR 0xC3, CHR 0xA9, CHR 0xC3, CHR 0xA9] 2)"
  by code_simp

section \<open>Concrete summaries\<close>

definition quiet_io :: brief_io where
  "quiet_io = \<lparr>bi_goals = None, bi_observations = None, bi_stale = \<lambda>ty. None, bi_projects = None, bi_decisions = None, bi_events = None\<rparr>"

definition other_rows :: db where
  "other_rows = two_defs\<lparr>d_entities := entity_row (zero_entity\<lparr>e_id := ''z'', e_peer := ''q''\<rparr>) # d_entities two_defs\<rparr>"

lemma briefing_own_rows_witness:
  "Generate (\<lambda>j. []) sample_sqlite (\<lambda>did. quiet_io) [] (Some one_peer) (Some two_defs) ''work'' 9
     = Generate (\<lambda>j. []) sample_sqlite (\<lambda>did. quiet_io) [] (Some one_peer) (Some other_rows) ''work'' 9"
proof (rule briefing_own_rows)
  show "Resolve one_peer ''work'' = Inr sample_peer" by (simp add: Resolve_def one_peer_name)
  show "peer_view (p_did sample_peer) two_defs = peer_view (p_did sample_peer) other_rows"
    by (simp add: two_defs_peers peer_view_def other_rows_def two_defs_def entity_row_def)
qed simp

lemma open_goals_counted_witness:
  "\<exists>sec. buildPeerSection (\<lambda>j. []) sample_sqlite quiet_io sample_peer 9 two_defs = Inr sec
     \<and> hd (pc_sections sec) = \<lparr>sc_title = ''Open goals (0)'', sc_lines = []\<rparr>"
proof -
  have io: "bi_goals quiet_io = None" by (simp add: quiet_io_def)
  have none: "active_rows (p_did sample_peer) ''Goal'' two_defs = []"
    by (simp add: active_rows_def two_defs_def entity_row_def goal_v_def zero_entity_def)
  have zero: "show_nat 0 = ''0''" by code_simp
  from open_goals_counted [OF two_defs_ok io, of "\<lambda>j. []" sample_sqlite sample_peer 9] none zero show ?thesis
    by (auto simp: goalLines_def)
qed

lemma excerpt_bounded_witness: "length (excerpt ''abcdefgh'' 4) \<le> 6"
  using excerpt_bounded [of 4 "''abcdefgh''"] by simp

end
