(* ===== verification/Config.thy ===== *)
theory Config
  imports Go_Text
begin

text \<open>
  internal/config/config.go: the configuration, its defaults, reading and writing the file, and the
  paths derived from it.

  \<open>toml\<close> is the library go-toml: what it writes for a configuration and what it reads from a
  text. The file system is seen through what a read returns (\<open>None\<close> when there is no such file) and
  which step of a write fails. \<open>home\<close> is the user's home directory, when it is known.
\<close>

section \<open>Paths\<close>

text \<open>\<open>filepath.Join\<close> and \<open>filepath.Clean\<close> on a system with \<^verbatim>\<open>/\<close> as separator.\<close>

definition clean_step :: "bool \<Rightarrow> string list \<Rightarrow> string \<Rightarrow> string list" where
  "clean_step rooted out p =
     (if p = [] \<or> p = ''.'' then out
      else if p = ''..'' then
        (if out \<noteq> [] \<and> last out \<noteq> ''..'' then butlast out
         else if rooted then out else out @ [p])
      else out @ [p])"

fun join_path :: "string list \<Rightarrow> string" where
  "join_path [] = []"
| "join_path [p] = p"
| "join_path (p # ps) = p @ ''/'' @ join_path ps"

definition Clean :: "string \<Rightarrow> string" where
  "Clean s =
     (let rooted = has_prefix s ''/'';
          t = (if rooted then ''/'' else []) @ join_path (foldl (clean_step rooted) [] (split_sep CHR ''/'' s))
      in if t = [] then ''.'' else t)"

definition Join :: "string list \<Rightarrow> string" where
  "Join ps = (case dropWhile (\<lambda>p. p = []) ps of [] \<Rightarrow> [] | qs \<Rightarrow> Clean (join_path qs))"

section \<open>The configuration\<close>

record config =
  cf_listen :: string
  cf_data_dir :: string
  cf_backend :: string
  cf_dimension :: int
  cf_provider :: string
  cf_model :: string
  cf_tailscale :: bool
  cf_funnel :: bool
  cf_log_level :: string

definition Default :: config where
  "Default = \<lparr>cf_listen = ''localhost:6177'', cf_data_dir = ''~/.local/share/coggo'', cf_backend = ''sqlite'',
     cf_dimension = 1024, cf_provider = ''none'', cf_model = [], cf_tailscale = False, cf_funnel = False,
     cf_log_level = ''info''\<rparr>"

definition zero_config :: config where
  "zero_config = \<lparr>cf_listen = [], cf_data_dir = [], cf_backend = [], cf_dimension = 0, cf_provider = [],
     cf_model = [], cf_tailscale = False, cf_funnel = False, cf_log_level = []\<rparr>"

definition applyDefaults :: "config \<Rightarrow> config" where
  "applyDefaults c = c\<lparr>
     cf_listen := (if cf_listen c = [] then cf_listen Default else cf_listen c),
     cf_data_dir := (if cf_data_dir c = [] then cf_data_dir Default else cf_data_dir c),
     cf_backend := (if cf_backend c = [] then cf_backend Default else cf_backend c),
     cf_dimension := (if cf_dimension c = 0 then cf_dimension Default else cf_dimension c),
     cf_provider := (if cf_provider c = [] then cf_provider Default else cf_provider c),
     cf_log_level := (if cf_log_level c = [] then cf_log_level Default else cf_log_level c)\<rparr>"

record toml =
  tl_marshal :: "config \<Rightarrow> string result"
  tl_unmarshal :: "string \<Rightarrow> config \<Rightarrow> config result"

text \<open>What \<open>os.ReadFile\<close> gives: the contents, no such file, or another error.\<close>

datatype file_read = Contents string | Missing | ReadError error

definition Load :: "toml \<Rightarrow> string \<Rightarrow> file_read \<Rightarrow> config result" where
  "Load tm path f = (case f of
      Missing \<Rightarrow> Inr Default
    | ReadError e \<Rightarrow> Inl (Wrap (''config: read '' @ path) e)
    | Contents b \<Rightarrow> (case tl_unmarshal tm b zero_config of
          Inl e \<Rightarrow> Inl (Wrap (''config: parse '' @ path) e)
        | Inr c \<Rightarrow> Inr (applyDefaults c)))"

record write_errors =
  we_mkdir :: "error option"
  we_write :: "error option"
  we_rename :: "error option"

text \<open>\<open>Save\<close> replaces the file, or leaves it as it was.\<close>

definition Save :: "toml \<Rightarrow> write_errors \<Rightarrow> config option \<Rightarrow> file_read \<Rightarrow> error option \<times> file_read" where
  "Save tm we c f = (case c of
      None \<Rightarrow> (Some (Errorf ''config: nil config''), f)
    | Some c \<Rightarrow> (case we_mkdir we of
        Some e \<Rightarrow> (Some (Wrap ''config: mkdir'' e), f)
      | None \<Rightarrow> (case tl_marshal tm c of
          Inl e \<Rightarrow> (Some (Wrap ''config: marshal'' e), f)
        | Inr b \<Rightarrow> (case we_write we of
            Some e \<Rightarrow> (Some (Wrap ''config: write'' e), f)
          | None \<Rightarrow> (case we_rename we of
              Some e \<Rightarrow> (Some (Wrap ''config: rename'' e), f)
            | None \<Rightarrow> (None, Contents b))))))"

definition DefaultPath :: "string \<Rightarrow> string option \<Rightarrow> string" where
  "DefaultPath xdg home =
     (if xdg \<noteq> [] then Join [xdg, ''coggo'', ''config.toml'']
      else (case home of
          Some h \<Rightarrow> Join [h, ''.config'', ''coggo'', ''config.toml'']
        | None \<Rightarrow> ''.coggo/config.toml''))"

definition ExpandPath :: "string option \<Rightarrow> string \<Rightarrow> string" where
  "ExpandPath home p =
     (if p = [] then p
      else if p = ''~'' then (case home of Some h \<Rightarrow> h | None \<Rightarrow> p)
      else if has_prefix p ''~/'' then (case home of Some h \<Rightarrow> Join [h, drop 2 p] | None \<Rightarrow> p)
      else p)"

definition DataDir :: "string option \<Rightarrow> config \<Rightarrow> string" where
  "DataDir home c = ExpandPath home (cf_data_dir c)"

definition ResolvedDBPath :: "string option \<Rightarrow> config \<Rightarrow> string" where
  "ResolvedDBPath home c = Join [DataDir home c, ''coggo.db'']"

section \<open>Properties\<close>

definition filled_in :: "config \<Rightarrow> bool" where
  "filled_in c \<longleftrightarrow> cf_listen c \<noteq> [] \<and> cf_data_dir c \<noteq> [] \<and> cf_backend c \<noteq> [] \<and> cf_dimension c \<noteq> 0
     \<and> cf_provider c \<noteq> [] \<and> cf_log_level c \<noteq> []"

lemma applyDefaults_complete: "filled_in (applyDefaults c)"
  by (simp add: filled_in_def applyDefaults_def Default_def)

lemma applyDefaults_keeps: "filled_in c \<Longrightarrow> applyDefaults c = c"
  by (simp add: filled_in_def applyDefaults_def)

text \<open>A loaded configuration is complete, whatever the file holds, and a complete configuration that was
  saved is loaded again as it was, when the library reads back what it writes; a failed save leaves the
  file as it was.\<close>

theorem config_roundtrip:
  assumes "\<forall>c b. tl_marshal tm c = Inr b \<longrightarrow> tl_unmarshal tm b zero_config = Inr c"
  shows "(Load tm path f = Inr c \<longrightarrow> filled_in c)
    \<and> (Save tm we (Some c) f = (None, f') \<and> filled_in c \<longrightarrow> Load tm path f' = Inr c)
    \<and> (Save tm we (Some c) f = (Some e, f') \<longrightarrow> f' = f)"
proof (intro conjI impI)
  assume "Load tm path f = Inr c"
  then show "filled_in c"
    by (auto simp: Load_def applyDefaults_complete split: file_read.splits sum.splits)
      (simp add: filled_in_def Default_def)
next
  assume "Save tm we (Some c) f = (None, f') \<and> filled_in c"
  then show "Load tm path f' = Inr c"
    using assms by (auto simp: Save_def Load_def applyDefaults_keeps split: option.splits sum.splits)
next
  assume "Save tm we (Some c) f = (Some e, f')"
  then show "f' = f" by (auto simp: Save_def split: option.splits sum.splits)
qed

text \<open>A library that can write the default configuration only.\<close>

definition line_toml :: toml where
  "line_toml = \<lparr>tl_marshal = \<lambda>c. if c = Default then Inr ''default'' else Inl (Errorf ''unsupported''),
     tl_unmarshal = \<lambda>b c. if b = ''default'' then Inr Default else Inl (Errorf ''syntax'')\<rparr>"

lemma config_roundtrip_witness:
  "Load line_toml ''c'' (snd (Save line_toml \<lparr>we_mkdir = None, we_write = None, we_rename = None\<rparr> (Some Default) Missing)) = Inr Default"
proof -
  have "\<forall>c b. tl_marshal line_toml c = Inr b \<longrightarrow> tl_unmarshal line_toml b zero_config = Inr c"
    by (simp add: line_toml_def)
  moreover have "Save line_toml \<lparr>we_mkdir = None, we_write = None, we_rename = None\<rparr> (Some Default) Missing = (None, Contents ''default'')"
    by (simp add: Save_def line_toml_def)
  moreover have "filled_in Default" by (simp add: filled_in_def Default_def)
  ultimately show ?thesis using config_roundtrip by (metis snd_conv)
qed

end
