(* ===== verification/Cli.thy ===== *)
theory Cli
  imports Briefing Config
begin

text \<open>
  internal/cli: prompt.go, entities.go, relations.go and aliases.go. A command runs in a session: the
  lines still to be read from the terminal, the text printed so far, the runtime that \<open>Setup\<close> built
  and the number of outside effects so far. It ends with a value, with an error, in a panic, or not at
  all.

  \<open>cli_env\<close> holds what the commands obtain from outside. Its members that take a number give the
  value for the effect of that number: the call through the router, the failure of a write, the clock,
  keys, secrets and identifiers, and the outside values of wiring a new peer. \<open>ce_order\<close> is the order
  in which a map with the given keys is visited, \<open>ce_show\<close> the verb \<^verbatim>\<open>%v\<close>, \<open>ce_numeral\<close> the
  numerals \<open>ParseFloat\<close> reads and \<open>ce_indent\<close> the indented JSON of a value. Flags and arguments are
  arguments here; a line the scanner refuses for its length is the end of the input.
\<close>

section \<open>Sessions\<close>

record session =
  ss_in :: "string list"
  ss_out :: string
  ss_rt :: runtime
  ss_calls :: nat
  ss_config :: file_read

record cli_env =
  ce_sq :: sqlite
  ce_call :: "nat \<Rightarrow> call"
  ce_write :: "nat \<Rightarrow> error option"
  ce_clock :: "nat \<Rightarrow> time"
  ce_keys :: "nat \<Rightarrow> error + (string \<times> string)"
  ce_secret :: "nat \<Rightarrow> error + string"
  ce_ulid :: "nat \<Rightarrow> string"
  ce_wire :: "nat \<Rightarrow> nat \<Rightarrow> env"
  ce_brief :: "string \<Rightarrow> brief_io"
  ce_read :: "string \<Rightarrow> error option"
  ce_order :: "string list \<Rightarrow> string list"
  ce_show :: "json \<Rightarrow> string"
  ce_numeral :: "string \<Rightarrow> rat option"
  ce_indent :: "json \<Rightarrow> string"

datatype stop = Exit error | Crash string | Hang

type_synonym 'a command = "session \<Rightarrow> (stop + 'a) \<times> session"

definition give :: "'a \<Rightarrow> 'a command" where
  "give x s = (Inr x, s)"

definition give_up :: "error \<Rightarrow> 'a command" where
  "give_up e s = (Inl (Exit e), s)"

definition and_next :: "'a command \<Rightarrow> ('a \<Rightarrow> 'b command) \<Rightarrow> 'b command" where
  "and_next m f s = (case m s of (Inl e, s') \<Rightarrow> (Inl e, s') | (Inr x, s') \<Rightarrow> f x s')"

definition of_result :: "'a result \<Rightarrow> 'a command" where
  "of_result r = (case r of Inl e \<Rightarrow> give_up e | Inr x \<Rightarrow> give x)"

definition say :: "string \<Rightarrow> unit command" where
  "say t s = (Inr (), s\<lparr>ss_out := ss_out s @ t\<rparr>)"

definition newline :: string where
  "newline = [CHR 0x0A]"

definition say_line :: "string \<Rightarrow> unit command" where
  "say_line t = say (t @ newline)"

definition runtime_now :: "(runtime \<Rightarrow> 'a) \<Rightarrow> 'a command" where
  "runtime_now f s = (Inr (f (ss_rt s)), s)"

definition visit :: "cli_env \<Rightarrow> registry \<Rightarrow> string list" where
  "visit ce reg = ce_order ce (mkeys (rg_by_name reg))"

fun each :: "'a list \<Rightarrow> ('a \<Rightarrow> unit command) \<Rightarrow> unit command" where
  "each [] f = give ()"
| "each (x # xs) f = and_next (f x) (\<lambda>u. each xs f)"

section \<open>Prompts\<close>

definition ask_line :: "string \<Rightarrow> string \<Rightarrow> string command" where
  "ask_line prompt dflt s =
     (let s1 = s\<lparr>ss_out := ss_out s @ prompt @ (if dflt \<noteq> [] then '' ['' @ dflt @ '']: '' else '': '')\<rparr> in
      case ss_in s1 of
        [] \<Rightarrow> (Inr dflt, s1)
      | l # ls \<Rightarrow> (Inr (if trim_space l = [] then dflt else trim_space l), s1\<lparr>ss_in := ls\<rparr>))"

definition askYN :: "string \<Rightarrow> bool \<Rightarrow> bool command" where
  "askYN prompt defYes s =
     (let s1 = s\<lparr>ss_out := ss_out s @ prompt @ '' '' @ (if defYes then ''[Y/n]'' else ''[y/N]'') @ '': ''\<rparr> in
      case ss_in s1 of
        [] \<Rightarrow> (Inr defYes, s1)
      | l # ls \<Rightarrow>
          (let v = to_lower (trim_space l)
           in (Inr (if v = [] then defYes else v = ''y'' \<or> v = ''yes''), s1\<lparr>ss_in := ls\<rparr>)))"

section \<open>Calls\<close>

text \<open>The next call through the router: its outcome, or the error it ends the command with.\<close>

definition attempt :: "cli_env \<Rightarrow> (call \<Rightarrow> host router \<Rightarrow> host \<Rightarrow> 'a called \<times> host) \<Rightarrow> (error + 'a) command" where
  "attempt ce f s = (case f (ce_call ce (ss_calls s)) (rt_router (ss_rt s)) (rt_host (ss_rt s)) of
      (r, h) \<Rightarrow>
        (let s' = s\<lparr>ss_rt := (ss_rt s)\<lparr>rt_host := h\<rparr>, ss_calls := Suc (ss_calls s)\<rparr>
         in case r of Got x \<Rightarrow> (Inr (Inr x), s') | Failed e \<Rightarrow> (Inr (Inl e), s') | Crashed m \<Rightarrow> (Inl (Crash m), s')))"

definition request :: "cli_env \<Rightarrow> (call \<Rightarrow> host router \<Rightarrow> host \<Rightarrow> 'a called \<times> host) \<Rightarrow> 'a command" where
  "request ce f = and_next (attempt ce f) of_result"

definition wrapped :: "string \<Rightarrow> 'a command \<Rightarrow> 'a command" where
  "wrapped p m s = (case m s of (Inl (Exit e), s') \<Rightarrow> (Inl (Exit (Wrap p e)), s') | r \<Rightarrow> r)"

definition peer_flag :: "string \<Rightarrow> string \<Rightarrow> string" where
  "peer_flag local_flag root_flag = (if local_flag = [] then root_flag else local_flag)"

definition choose_peer :: "cli_env \<Rightarrow> string \<Rightarrow> string \<Rightarrow> peer command" where
  "choose_peer ce name dflt = and_next (runtime_now (\<lambda>rt. resolvePeer (visit ce (rt_registry rt)) (rt_registry rt) name dflt)) of_result"

definition named_peer :: "string \<Rightarrow> peer command" where
  "named_peer name = and_next (runtime_now (\<lambda>rt. Resolve (rt_registry rt) name)) of_result"

definition all_peers :: "cli_env \<Rightarrow> peer list command" where
  "all_peers ce = runtime_now (\<lambda>rt. list_peers (visit ce (rt_registry rt)) (rt_registry rt))"

text \<open>The registry of types, which \<open>Setup\<close> always makes.\<close>

definition types_now :: "(resolver \<Rightarrow> 'a) \<Rightarrow> 'a command" where
  "types_now f = runtime_now (\<lambda>rt. f (case hs_schema (rt_host rt) of Some r \<Rightarrow> r | None \<Rightarrow> NewResolver))"

section \<open>Fields\<close>

definition promptLabel :: "field_def \<Rightarrow> string" where
  "promptLabel f =
     (let req = (if fd_required f then ''required'' else ''optional'') in
      if fd_desc f \<noteq> [] then fd_name f @ '' ('' @ req @ '' '' @ em_dash @ '' '' @ fd_desc f @ '')''
      else fd_name f @ '' ('' @ req @ '')'')"

definition defaultStr :: "cli_env \<Rightarrow> json \<Rightarrow> string" where
  "defaultStr ce d = (if d = JNull then [] else ce_show ce d)"

text \<open>A field value: JSON, or a number that JSON cannot express.\<close>

datatype field_value = FJson json | FFloat float64

definition coerceField :: "cli_env \<Rightarrow> string \<Rightarrow> field_def \<Rightarrow> field_value result" where
  "coerceField ce raw f =
     (if fd_type f \<in> set [''string'', ''reference'', ''timestamp''] then Inr (FJson (JStr raw))
      else if fd_type f = ''boolean'' then
        Inr (FJson (JBool (to_lower raw \<in> set [''y'', ''yes'', ''true'', ''1''])))
      else if fd_type f = ''number'' then
        (case ParseFloat (ce_numeral ce) raw of
           None \<Rightarrow> Inl (Errorf (''not a number: '' @ raw))
         | Some (Finite q) \<Rightarrow> Inr (FJson (JNum q))
         | Some x \<Rightarrow> Inr (FFloat x))
      else if fd_type f = ''list_of'' then
        Inr (FJson (JArr (map (\<lambda>p. JStr (trim_space p)) (split_sep CHR '','' raw))))
      else Inr (FJson (JStr raw)))"

text \<open>\<open>json.Marshal\<close> of the arguments of a call: it refuses the other numbers.\<close>

definition float_text :: "float64 \<Rightarrow> string" where
  "float_text x = (case x of NaN \<Rightarrow> ''NaN'' | PosInf \<Rightarrow> ''+Inf'' | NegInf \<Rightarrow> ''-Inf'' | Finite q \<Rightarrow> [])"

definition marshal_fields :: "field_value gomap \<Rightarrow> obj result" where
  "marshal_fields m = mapM (\<lambda>(k, v). case v of
      FJson j \<Rightarrow> Inr (k, j)
    | FFloat x \<Rightarrow> Inl (Wrap ''fed: marshal args'' (Errorf (''json: unsupported value: '' @ float_text x)))) m"

definition summary :: "entity \<Rightarrow> string" where
  "summary e =
     (let str = (\<lambda>k. case mget (case e_data e of None \<Rightarrow> [] | Some m \<Rightarrow> m) k of Some (JStr s) \<Rightarrow> s | _ \<Rightarrow> [])
      in case find (\<lambda>v. v \<noteq> []) [str ''title'', str ''name'', str ''text''] of
           None \<Rightarrow> []
         | Some v \<Rightarrow> if 80 < length v then take 77 v @ ''...'' else v)"

section \<open>coggo entity\<close>

text \<open>The value one field of a new entity gets from the terminal.\<close>

fun ask_fields :: "cli_env \<Rightarrow> field_def list \<Rightarrow> field_value gomap \<Rightarrow> field_value gomap command" where
  "ask_fields ce [] m = give m"
| "ask_fields ce (f # fs) m =
     and_next (ask_line (promptLabel f) (defaultStr ce (fd_default f))) (\<lambda>raw.
       if raw = [] then ask_fields ce fs (if fd_default f \<noteq> JNull then mput (fd_name f) (FJson (fd_default f)) m else m)
       else (case coerceField ce raw f of
           Inl e \<Rightarrow> give_up (Wrap (''entity new: '' @ fd_name f) e)
         | Inr v \<Rightarrow> ask_fields ce fs (mput (fd_name f) v m)))"

definition field_list :: "entity_type_def \<Rightarrow> field_def list" where
  "field_list d = (case et_fields d of None \<Rightarrow> [] | Some fs \<Rightarrow> fs)"

definition offer_relation :: "cli_env \<Rightarrow> string \<Rightarrow> string \<Rightarrow> unit command" where
  "offer_relation ce did i =
     and_next (askYN (newline @ ''Add a relationship?'') False) (\<lambda>yes.
       if \<not> yes then give ()
       else and_next (ask_line ''  to (entity id)'' []) (\<lambda>toID.
         and_next (ask_line ''  relationship type'' ''depends_on'') (\<lambda>relType.
           if toID = [] \<or> relType = [] then give ()
           else and_next (attempt ce (\<lambda>c ro. CreateRelation c ro did i toID relType None ''cli'')) (\<lambda>r. case r of
               Inl e \<Rightarrow> say_line (''  (relation failed: '' @ error_text e @ '')'')
             | Inr x \<Rightarrow> say_line ''  relation created.''))))"

definition show_stamp :: "time \<Rightarrow> string" where
  "show_stamp t = (let d = date_text (t div nanos) in take 10 d @ '' '' @ drop 11 d)"

definition title_of :: "entity \<Rightarrow> string" where
  "title_of e = (case mget (case e_data e of None \<Rightarrow> [] | Some m \<Rightarrow> m) ''title'' of Some (JStr s) \<Rightarrow> s | _ \<Rightarrow> [])"

definition runEntityNew :: "cli_env \<Rightarrow> string \<Rightarrow> string \<Rightarrow> string \<Rightarrow> string \<Rightarrow> unit command" where
  "runEntityNew ce local_flag root_flag typ fallbackPeer =
     and_next (choose_peer ce (peer_flag local_flag root_flag) fallbackPeer) (\<lambda>p.
     and_next (types_now (EntityType (p_did p) typ)) (\<lambda>def. case def of
         Inl e \<Rightarrow> give_up (Errorf (''entity new: type '' @ quote_go typ @ '' not defined in peer '' @ p_name p
             @ ''; run `coggo type add` or `coggo type list`''))
       | Inr d \<Rightarrow>
           and_next (say (''Creating entity of type '' @ typ @ '' in peer '' @ p_name p @ ''.'' @ newline @ newline)) (\<lambda>u.
           and_next (ask_fields ce (field_list d) []) (\<lambda>m.
           and_next (wrapped ''entity new'' (and_next (of_result (marshal_fields m)) (\<lambda>fs.
               request ce (\<lambda>c ro. CreateEntity c ro (p_did p) typ (Some fs) ''cli'')))) (\<lambda>e.
           and_next (say_line (newline @ ''Created '' @ to_lower typ @ '': '' @ e_id e @ '' in peer '' @ p_name p)) (\<lambda>u.
           and_next (if title_of e \<noteq> [] then say_line (''  Title: '' @ title_of e) else give ()) (\<lambda>u.
           and_next (say_line (''  Created at: '' @ show_stamp (e_created_at e))) (\<lambda>u.
             offer_relation ce (p_did p) (e_id e)))))))))"

definition actionEntityNew :: "cli_env \<Rightarrow> string \<Rightarrow> string \<Rightarrow> string \<Rightarrow> unit command" where
  "actionEntityNew ce local_flag root_flag typ =
     (if typ = [] then give_up (Errorf ''entity new: type required'') else runEntityNew ce local_flag root_flag typ [])"

definition actionEntityList :: "cli_env \<Rightarrow> string \<Rightarrow> string \<Rightarrow> string \<Rightarrow> unit command" where
  "actionEntityList ce local_flag root_flag typ =
     (if typ = [] then give_up (Errorf ''entity list: type required'')
      else and_next (if peer_flag local_flag root_flag = [] then all_peers ce
                     else and_next (named_peer (peer_flag local_flag root_flag)) (\<lambda>p. give [p])) (\<lambda>ps.
        each ps (\<lambda>p.
          and_next (request ce (\<lambda>c ro. QueryEntities c ro (p_did p) (type_query typ))) (\<lambda>es.
          and_next (say_line (''['' @ p_name p @ ''] '' @ show_nat (length es) @ '' '' @ typ @ '' entities:'')) (\<lambda>u.
            each es (\<lambda>e. say_line (''  '' @ e_id e @ ''  '' @ take 10 (date_text (e_created_at e div nanos)) @ ''  '' @ summary e)))))))"

definition actionEntityShow :: "cli_env \<Rightarrow> string \<Rightarrow> string \<Rightarrow> string \<Rightarrow> unit command" where
  "actionEntityShow ce local_flag root_flag i =
     (if i = [] then give_up (Errorf ''entity show: id required'')
      else if peer_flag local_flag root_flag = [] then give_up (Errorf ''entity show: --peer required (v0.1)'')
      else and_next (named_peer (peer_flag local_flag root_flag)) (\<lambda>p.
        and_next (request ce (\<lambda>c ro. GetEntity c ro (p_did p) i)) (\<lambda>e. say_line (ce_indent ce (entity_json e)))))"

text \<open>The changes to the fields of an entity: those whose answer is new.\<close>

fun ask_updates :: "cli_env \<Rightarrow> obj \<Rightarrow> field_def list \<Rightarrow> field_value gomap \<Rightarrow> field_value gomap command" where
  "ask_updates ce cur [] m = give m"
| "ask_updates ce cur (f # fs) m =
     (let curVal = (case mget cur (fd_name f) of Some v \<Rightarrow> ce_show ce v | None \<Rightarrow> []) in
      and_next (ask_line (promptLabel f) curVal) (\<lambda>raw.
        if raw = [] \<or> raw = curVal then ask_updates ce cur fs m
        else (case coerceField ce raw f of
            Inl e \<Rightarrow> give_up e
          | Inr v \<Rightarrow> ask_updates ce cur fs (mput (fd_name f) v m))))"

definition actionEntityUpdate :: "cli_env \<Rightarrow> string \<Rightarrow> string \<Rightarrow> string \<Rightarrow> unit command" where
  "actionEntityUpdate ce local_flag root_flag i =
     (if i = [] then give_up (Errorf ''entity update: id required'')
      else if peer_flag local_flag root_flag = [] then give_up (Errorf ''entity update: --peer required'')
      else and_next (named_peer (peer_flag local_flag root_flag)) (\<lambda>p.
        and_next (request ce (\<lambda>c ro. GetEntity c ro (p_did p) i)) (\<lambda>cur.
        and_next (types_now (EntityType (p_did p) (e_type cur))) (\<lambda>def.
        and_next (of_result def) (\<lambda>d.
        and_next (ask_updates ce (case e_data cur of None \<Rightarrow> [] | Some m \<Rightarrow> m) (field_list d) []) (\<lambda>m.
          if m = [] then say_line ''(no changes)''
          else and_next (of_result (marshal_fields m)) (\<lambda>fs.
            and_next (request ce (\<lambda>c ro. UpdateEntity c ro (p_did p) i (Some fs) ''cli'')) (\<lambda>e.
              say_line (''Updated '' @ e_id e)))))))))"

section \<open>coggo decision, goal, observation, project and domain\<close>

definition aliasCmd :: "string \<Rightarrow> string \<Rightarrow> cli_env \<Rightarrow> string \<Rightarrow> string \<Rightarrow> unit command" where
  "aliasCmd typeName defaultPeer ce local_flag root_flag = runEntityNew ce local_flag root_flag typeName defaultPeer"

definition cmdAliases :: "(string \<times> (cli_env \<Rightarrow> string \<Rightarrow> string \<Rightarrow> unit command)) list" where
  "cmdAliases = [(''decision'', aliasCmd ''Decision'' ''business''), (''goal'', aliasCmd ''Goal'' ''personal''),
     (''observation'', aliasCmd ''Observation'' ''personal''), (''project'', aliasCmd ''Project'' ''business''),
     (''domain'', aliasCmd ''Domain'' ''personal'')]"

section \<open>coggo relation\<close>

fun ask_data :: "cli_env \<Rightarrow> field_def list \<Rightarrow> field_value gomap \<Rightarrow> field_value gomap command" where
  "ask_data ce [] m = give m"
| "ask_data ce (f # fs) m =
     and_next (ask_line (promptLabel f) (defaultStr ce (fd_default f))) (\<lambda>raw.
       if raw = [] then ask_data ce fs m
       else (case coerceField ce raw f of
           Inl e \<Rightarrow> give_up e
         | Inr v \<Rightarrow> ask_data ce fs (mput (fd_name f) v m)))"

definition actionRelationNew :: "cli_env \<Rightarrow> string \<Rightarrow> string \<Rightarrow> unit command" where
  "actionRelationNew ce local_flag root_flag =
     and_next (choose_peer ce (peer_flag local_flag root_flag) []) (\<lambda>p.
     and_next (ask_line ''from (entity id)'' []) (\<lambda>from_id.
     and_next (ask_line ''to (entity id)'' []) (\<lambda>to_id.
     and_next (ask_line ''relationship type'' ''depends_on'') (\<lambda>relType.
       if from_id = [] \<or> to_id = [] \<or> relType = [] then give_up (Errorf ''relation new: from/to/type required'')
       else and_next (types_now (RelationType (p_did p) relType)) (\<lambda>def.
         and_next (of_result def) (\<lambda>d.
         and_next (ask_data ce (case rt_fields d of None \<Rightarrow> [] | Some fs \<Rightarrow> fs) []) (\<lambda>m.
         and_next (of_result (marshal_fields m)) (\<lambda>fs.
         and_next (request ce (\<lambda>c ro. CreateRelation c ro (p_did p) from_id to_id relType (Some fs) ''cli'')) (\<lambda>r.
           say_line (''Created relation '' @ r_id r @ '': '' @ r_from r @ '' -['' @ r_type r @ '']-> '' @ r_to r))))))))))"

end
