(* ===== verification/Cli_Admin.thy ===== *)
theory Cli_Admin
  imports Cli
begin

text \<open>
  internal/cli: types.go, peers.go, tokens.go, init.go, today.go and think.go, and how a command is
  started: its configuration is loaded, \<open>Setup\<close> builds the runtime, the action runs, and what it
  leaves on disk is what the next command finds.
\<close>

section \<open>Effects\<close>

definition next_effect :: "nat command" where
  "next_effect s = (Inr (ss_calls s), s\<lparr>ss_calls := Suc (ss_calls s)\<rparr>)"

definition update_registry :: "(registry \<Rightarrow> error option \<times> registry) \<Rightarrow> error option command" where
  "update_registry f s = (case f (rt_registry (ss_rt s)) of
      (e, r) \<Rightarrow> (Inr e, s\<lparr>ss_rt := (ss_rt s)\<lparr>rt_registry := r\<rparr>\<rparr>))"

definition update_runtime :: "(runtime \<Rightarrow> error option \<times> runtime) \<Rightarrow> error option command" where
  "update_runtime f s = (case f (ss_rt s) of (e, rt) \<Rightarrow> (Inr e, s\<lparr>ss_rt := rt\<rparr>))"

definition update_auth :: "(auth \<Rightarrow> 'a \<times> auth) \<Rightarrow> 'a command" where
  "update_auth f s = (case f (rt_auth (ss_rt s)) of
      (x, au) \<Rightarrow> (Inr x, s\<lparr>ss_rt := (ss_rt s)\<lparr>rt_auth := au\<rparr>\<rparr>))"

definition unless_failed :: "(error \<Rightarrow> error) \<Rightarrow> error option \<Rightarrow> unit command" where
  "unless_failed g e = (case e of None \<Rightarrow> give () | Some e \<Rightarrow> give_up (g e))"

definition pad :: "nat \<Rightarrow> string \<Rightarrow> string" where
  "pad w s = s @ replicate (w - length (runes s)) CHR '' ''"

definition show_minute :: "time \<Rightarrow> string" where
  "show_minute t = take 16 (show_stamp t)"

definition show_day :: "time \<Rightarrow> string" where
  "show_day t = take 10 (date_text (t div nanos))"

section \<open>coggo type\<close>

definition type_line :: "string \<Rightarrow> string \<Rightarrow> string" where
  "type_line name desc = ''    - '' @ name @ '' '' @ em_dash @ '' '' @ desc @ newline"

definition type_listing :: "peer \<Rightarrow> resolver \<Rightarrow> string" where
  "type_listing p r =
     (let ets = EntityTypes (p_did p) r; rts = RelationTypes (p_did p) r in
      newline @ ''['' @ p_name p @ ''] '' @ p_did p @ newline
      @ ''  Entity types ('' @ show_nat (length ets) @ ''):'' @ newline
      @ concat (map (\<lambda>t. type_line (et_name t) (et_desc t)) ets)
      @ ''  Relationship types ('' @ show_nat (length rts) @ ''):'' @ newline
      @ concat (map (\<lambda>t. type_line (rt_name t) (rt_desc t)) rts))"

definition actionTypeList :: "cli_env \<Rightarrow> string \<Rightarrow> unit command" where
  "actionTypeList ce name =
     and_next (if name = [] then all_peers ce else and_next (named_peer name) (\<lambda>p. give [p])) (\<lambda>ps.
       each ps (\<lambda>p. and_next (types_now (type_listing p)) say))"

text \<open>One round of the loop over the fields of a new type: a field, or the end of the loop.\<close>

definition ask_field :: "field_def option command" where
  "ask_field =
     and_next (askYN ''Add a field?'' True) (\<lambda>more.
       if \<not> more then give None
       else and_next (ask_line ''  field name'' []) (\<lambda>fname.
         if fname = [] then give None
         else and_next (ask_line ''  field type [string|number|boolean|timestamp|reference|list_of]'' ''string'') (\<lambda>ftype.
           and_next (askYN ''  required?'' False) (\<lambda>required.
           and_next (ask_line ''  description (optional)'' []) (\<lambda>fdesc.
           and_next (if ftype = ''list_of''
                     then ask_line ''  list element type [string|number|boolean|timestamp|reference]'' ''string'' else give []) (\<lambda>el.
             give (Some (zero_field\<lparr>fd_name := fname, fd_type := ftype, fd_elem := el, fd_required := required, fd_desc := fdesc\<rparr>))))))))"

text \<open>The loop itself: it has no bound of its own, so that not returning is the value \<open>None\<close>.\<close>

partial_function (option) field_loop :: "field_def list \<Rightarrow> session \<Rightarrow> ((stop + field_def list) \<times> session) option" where
  "field_loop fs s = (case ask_field s of
      (Inl e, s') \<Rightarrow> Some (Inl e, s')
    | (Inr None, s') \<Rightarrow> Some (Inr fs, s')
    | (Inr (Some f), s') \<Rightarrow> field_loop (fs @ [f]) s')"

definition ask_type_fields :: "field_def list command" where
  "ask_type_fields s = (case field_loop [] s of None \<Rightarrow> (Inl Hang, s) | Some r \<Rightarrow> r)"

definition actionTypeAdd :: "cli_env \<Rightarrow> string \<Rightarrow> unit command" where
  "actionTypeAdd ce root_flag =
     and_next (all_peers ce) (\<lambda>ps. case ps of
         [] \<Rightarrow> give_up (Errorf ''type add: no peers; run `coggo init` first'')
       | p0 # rest \<Rightarrow>
           and_next (ask_line ''Peer'' (if root_flag = [] then p_name p0 else root_flag)) (\<lambda>peerName.
           and_next (named_peer peerName) (\<lambda>p.
           and_next (ask_line ''Type name'' []) (\<lambda>name.
             if name = [] then give_up (Errorf ''type add: name required'')
             else and_next (ask_line ''Description'' []) (\<lambda>desc.
               and_next (askYN ''Is this a relationship type?'' False) (\<lambda>isRel.
               and_next (if isRel then askYN ''Directional?'' True else give False) (\<lambda>directional.
               and_next ask_type_fields (\<lambda>fs.
               and_next (wrapped ''type add'' (request ce (\<lambda>c ro. DefineType c ro (p_did p) name desc fs isRel directional ''cli''))) (\<lambda>u.
                 say_line (''Defined type '' @ quote_go name @ '' in peer '' @ p_name p))))))))))"

definition show_field :: "field_def \<Rightarrow> string" where
  "show_field f = ''    - '' @ fd_name f @ '' ['' @ fd_type f @ '']'' @ (if fd_required f then '' (required)'' else [])
     @ '' '' @ em_dash @ '' '' @ fd_desc f @ newline"

definition printEntityType :: "entity_type_def \<Rightarrow> string" where
  "printEntityType d = ''Entity type: '' @ et_name d @ newline @ ''  Peer: '' @ et_peer d @ newline
     @ ''  Description: '' @ et_desc d @ newline @ ''  Fields:'' @ newline @ concat (map show_field (field_list d))"

definition printRelType :: "rel_type_def \<Rightarrow> string" where
  "printRelType d = ''Relationship type: '' @ rt_name d @ newline @ ''  Peer: '' @ rt_peer d @ newline
     @ ''  Directional: '' @ (if rt_directional d then ''true'' else ''false'') @ newline
     @ ''  Description: '' @ rt_desc d @ newline
     @ concat (map show_field (case rt_fields d of None \<Rightarrow> [] | Some fs \<Rightarrow> fs))"

definition actionTypeShow :: "cli_env \<Rightarrow> string \<Rightarrow> string \<Rightarrow> bool \<Rightarrow> string \<Rightarrow> unit command" where
  "actionTypeShow ce local_flag root_flag relationship name =
     (if name = [] then give_up (Errorf ''type show: name required'')
      else and_next (choose_peer ce (peer_flag local_flag root_flag) []) (\<lambda>p.
        if relationship then
          and_next (and_next (types_now (RelationType (p_did p) name)) of_result) (\<lambda>d. say (printRelType d))
        else and_next (and_next (types_now (EntityType (p_did p) name)) of_result) (\<lambda>d. say (printEntityType d))))"

section \<open>coggo peer\<close>

text \<open>A new peer: its identity, its entry in the registry and its wiring; \<open>e1\<close>, \<open>e2\<close> and \<open>e3\<close> wrap
  the errors of the three.\<close>

definition create_peer :: "cli_env \<Rightarrow> string \<Rightarrow> string \<Rightarrow> string \<Rightarrow> (error \<Rightarrow> error) \<Rightarrow> (error \<Rightarrow> error) \<Rightarrow> (error \<Rightarrow> error)
    \<Rightarrow> peer command" where
  "create_peer ce name desc client e1 e2 e3 =
     and_next next_effect (\<lambda>n.
       case NewPeer (ce_keys ce n) name desc of
         Inl e \<Rightarrow> give_up (e1 e)
       | Inr p \<Rightarrow>
           and_next (and_next (update_registry (\<lambda>reg. Add (visit ce (index_peer reg p)) (ce_write ce n) (ce_clock ce n) p reg))
             (unless_failed e2)) (\<lambda>u.
           and_next (and_next (update_runtime (AddPeerToRuntime (ce_sq ce) (ce_wire ce n) p client))
             (unless_failed e3)) (\<lambda>u. give p)))"

definition actionPeerAdd :: "cli_env \<Rightarrow> string \<Rightarrow> unit command" where
  "actionPeerAdd ce name =
     (if name = [] then give_up (Errorf ''peer add: name required'')
      else and_next (ask_line ''Description (optional)'' []) (\<lambda>desc.
        and_next (create_peer ce name desc ''cli'' (Wrap ''peer add'') (Wrap ''peer add'') (Wrap ''peer add: wire'')) (\<lambda>p.
          say (''Created peer '' @ quote_go (p_name p) @ newline @ ''  DID: '' @ p_did p @ newline))))"

definition actionPeerList :: "cli_env \<Rightarrow> unit command" where
  "actionPeerList ce =
     and_next (all_peers ce) (\<lambda>ps.
       if ps = [] then say_line (''(no peers '' @ em_dash @ '' run `coggo init`)'')
       else and_next (say_line (pad 20 ''NAME'' @ [CHR 0x09] @ pad 60 ''DID'' @ [CHR 0x09] @ ''CREATED'')) (\<lambda>u.
         each ps (\<lambda>p. say_line (pad 20 (p_name p) @ [CHR 0x09] @ pad 60 (p_did p) @ [CHR 0x09] @ show_day (p_created_at p)))))"

text \<open>\<open>AddDate\<close> with years only: the day and the time of day stay, a 29 February may become 1 March.\<close>

definition add_years :: "int \<Rightarrow> time \<Rightarrow> time" where
  "add_years n t =
     (let d = 86400 * nanos; (y, yd) = year_day (t div d); (m, dd) = month_day (leap_year y) yd
      in days_of_civil (y + n) m dd * d + t mod d)"

definition info_types :: "string list" where
  "info_types = [''Project'', ''Goal'', ''Decision'', ''Domain'', ''Observation'', ''Setting'',
     ''EntityTypeDefinition'', ''RelationshipTypeDefinition'']"

definition count_entities :: "cli_env \<Rightarrow> string \<Rightarrow> db \<Rightarrow> nat" where
  "count_entities ce did d =
     sum_list (map (\<lambda>ty. length (or_none (query_type (ce_sq ce) (ce_read ce ty) did ty d))) info_types)"

definition event_line :: "cli_env \<Rightarrow> peer \<Rightarrow> db \<Rightarrow> string" where
  "event_line ce p d =
     (case list_events (ce_read ce ''event'') (p_did p) (p_created_at p - 1) (add_years 100 (p_created_at p)) d of
        Inl e \<Rightarrow> []
      | Inr evs \<Rightarrow> ''Events:      '' @ show_nat (length evs) @ newline)"

definition actionPeerInfo :: "cli_env \<Rightarrow> string \<Rightarrow> unit command" where
  "actionPeerInfo ce name =
     (if name = [] then give_up (Errorf ''peer info: name required'')
      else and_next (named_peer name) (\<lambda>p.
        and_next (say (''Name:        '' @ p_name p @ newline @ ''DID:         '' @ p_did p @ newline
            @ ''Description: '' @ p_desc p @ newline @ ''Created:     '' @ show_stamp (p_created_at p) @ '' UTC'' @ newline
            @ ''Settings:    briefing_time='' @ quote_go (ps_briefing_time (p_settings p))
            @ '' frequency='' @ quote_go (ps_frequency (p_settings p))
            @ '' capture='' @ quote_go (ps_capture (p_settings p)) @ newline)) (\<lambda>u.
        and_next (runtime_now (\<lambda>rt. hs_db (rt_host rt))) (\<lambda>d.
        and_next (say_line (''Entities:    '' @ show_nat (count_entities ce (p_did p) d))) (\<lambda>u.
          say (event_line ce p d))))))"

text \<open>The arguments of \<^verbatim>\<open>coggo peer rename\<close>; the order of the write is that of the renamed map.\<close>

definition renamed_order :: "cli_env \<Rightarrow> string \<Rightarrow> string \<Rightarrow> registry \<Rightarrow> string list" where
  "renamed_order ce old new reg = ce_order ce (mkeys (mput new 0 (mdel old (rg_by_name reg))))"

definition actionPeerRename :: "cli_env \<Rightarrow> string list \<Rightarrow> unit command" where
  "actionPeerRename ce args = (case args of
      old # new # rest \<Rightarrow>
        and_next next_effect (\<lambda>n.
        and_next (and_next (update_registry (\<lambda>reg. Rename (renamed_order ce old new reg) (ce_write ce n) old new reg))
          (unless_failed id)) (\<lambda>u.
          say_line (''Renamed '' @ old @ '' -> '' @ new)))
    | _ \<Rightarrow> give_up (Errorf ''peer rename: <old> <new> required''))"

section \<open>coggo token\<close>

definition show_list :: "string list \<Rightarrow> string" where
  "show_list xs = ''['' @ join_with '' '' xs @ '']''"

text \<open>The peers a new token is for and how they are shown.\<close>

definition token_scope :: "registry \<Rightarrow> bool \<Rightarrow> string list \<Rightarrow> (string list \<times> string) result" where
  "token_scope reg every names =
     (if every then Inr ([''*''], ''all peers (wildcard)'')
      else if names \<noteq> [] then
        (case find (\<lambda>name. ByName reg name = None) names of
           Some name \<Rightarrow> Inl (Errorf (''token create: no peer named '' @ quote_go name
             @ '' (use `coggo peer list` to see available)''))
         | None \<Rightarrow> Inr (names, ''peers '' @ show_list names))
      else Inl (Errorf ''token create: provide --peer <name> (repeatable) or --all''))"

definition actionTokenCreate :: "cli_env \<Rightarrow> bool \<Rightarrow> string list \<Rightarrow> string \<Rightarrow> unit command" where
  "actionTokenCreate ce every names label =
     and_next (and_next (runtime_now (\<lambda>rt. token_scope (rt_registry rt) every names)) of_result) (\<lambda>(peers, note).
     and_next next_effect (\<lambda>n.
     and_next (and_next (update_auth (Issue (ce_secret ce n) (ce_write ce n) (ce_ulid ce n) (ce_clock ce n) peers label))
       of_result) (\<lambda>(i, secret).
       say (''Save this secret now '' @ em_dash @ '' it will not be shown again.'' @ newline
         @ ''  secret: '' @ secret @ newline @ ''  id:     '' @ i @ newline @ ''  scope:  '' @ note @ newline))))"

text \<open>The width of \<^verbatim>\<open>%-30v\<close> applies to every element of a list.\<close>

definition token_line :: "token \<Rightarrow> string" where
  "token_line t = pad 30 (t_id t) @ [CHR 0x09] @ show_list (map (pad 30) (t_peers t)) @ [CHR 0x09]
     @ pad 20 (t_label t) @ [CHR 0x09] @ pad 20 (show_minute (t_created_at t)) @ [CHR 0x09]
     @ (if t_last_used t = 0 then ''(never)'' else show_minute (t_last_used t))"

definition actionTokenList :: "unit command" where
  "actionTokenList =
     and_next (runtime_now (\<lambda>rt. list_tokens (rt_auth rt))) (\<lambda>ts.
     and_next (say_line (pad 30 ''ID'' @ [CHR 0x09] @ pad 30 ''PEERS'' @ [CHR 0x09] @ pad 20 ''LABEL'' @ [CHR 0x09]
       @ pad 20 ''CREATED'' @ [CHR 0x09] @ ''LAST USED'')) (\<lambda>u. each ts (\<lambda>t. say_line (token_line t))))"

definition actionTokenRevoke :: "cli_env \<Rightarrow> string \<Rightarrow> unit command" where
  "actionTokenRevoke ce i =
     (if i = [] then give_up (Errorf ''token revoke: id required'')
      else and_next next_effect (\<lambda>n.
        and_next (and_next (update_auth (Revoke (ce_write ce n) i)) (unless_failed id)) (\<lambda>u. say_line (''Revoked '' @ i))))"

end
