(* ===== verification/Cli_Init.thy ===== *)
theory Cli_Init
  imports Cli_Admin
begin

text \<open>
  internal/cli: init.go, today.go, think.go and the start of a command. \<open>launch\<close> is what a process
  finds: the configuration file, what lies on disk and the lines of the terminal.
\<close>

section \<open>coggo init\<close>

definition init_specs :: "(string \<times> string) list" where
  "init_specs = [(''personal'', ''Life domains (health, finance, music, social)''), (''business'', ''Work and projects''),
     (CoggoPeerName, ''Coggo's own state and self-knowledge'')]"

definition init_peer :: "cli_env \<Rightarrow> string \<Rightarrow> string \<Rightarrow> unit command" where
  "init_peer ce name desc =
     and_next (runtime_now (\<lambda>rt. ByName (rt_registry rt) name)) (\<lambda>old.
       if old \<noteq> None then say_line (''  peer '' @ quote_go name @ '' already exists; skipping.'')
       else and_next (askYN (''Create peer '' @ quote_go name @ '' ('' @ desc @ '')?'') True) (\<lambda>yes.
         if \<not> yes then give ()
         else and_next (create_peer ce name desc ''cli-init'' (Wrap (''init: new peer '' @ name))
             (Wrap (''init: register '' @ name)) (Wrap (''init: wire '' @ name))) (\<lambda>p.
           say_line (''  created '' @ p_name p @ '' ('' @ p_did p @ '')''))))"

definition store_setting :: "cli_env \<Rightarrow> string \<Rightarrow> string \<times> string \<Rightarrow> unit command" where
  "store_setting ce did = (\<lambda>(k, v).
     and_next (attempt ce (\<lambda>c ro. CreateEntity c ro did ''Setting''
       (Some [(''key'', JStr k), (''scope'', JStr ''global''), (''value'', JStr v)]) ''cli-init'')) (\<lambda>r. give ()))"

definition update_peer :: "cli_env \<Rightarrow> peer_settings \<Rightarrow> string \<Rightarrow> unit command" where
  "update_peer ce ps name =
     and_next (runtime_now (\<lambda>rt. ByName (rt_registry rt) name)) (\<lambda>old.
       if old = None then give ()
       else and_next next_effect (\<lambda>n.
         and_next (update_registry (\<lambda>reg. UpdateSettings (visit ce reg) (ce_write ce n) name ps reg)) (\<lambda>ignored. give ())))"

definition init_settings :: "string \<Rightarrow> string \<Rightarrow> peer_settings" where
  "init_settings briefing_time capture = \<lparr>ps_threshold = [], ps_frequency = ''on_demand'',
     ps_briefing_time = briefing_time, ps_capture = capture\<rparr>"

definition save_config :: "cli_env \<Rightarrow> toml \<Rightarrow> write_errors \<Rightarrow> string \<Rightarrow> config \<Rightarrow> unit command" where
  "save_config ce tm we path cfg s =
     (if ss_config s \<noteq> Missing then (Inr (), s)
      else (case Save tm we (Some cfg) (ss_config s) of
          (Some e, f) \<Rightarrow> (Inl (Exit (Wrap ''init: write config'' e)), s\<lparr>ss_config := f\<rparr>)
        | (None, f) \<Rightarrow> say_line (''Wrote default config to '' @ path) (s\<lparr>ss_config := f\<rparr>)))"

definition init_greeting :: string where
  "init_greeting = ''Welcome to Coggo.'' @ newline @ newline
     @ ''Coggo can help you set up faster by examining existing tools you use.'' @ newline
     @ ''Each step asks separate permission.'' @ newline @ newline"

definition init_farewell :: "config \<Rightarrow> string" where
  "init_farewell cfg = newline @ ''Setup complete.'' @ newline @ ''  Local: http://'' @ cf_listen cfg @ newline @ newline
     @ ''Next steps:'' @ newline
     @ ''  1. Run `coggo today` to see your first daily briefing.'' @ newline
     @ ''  2. Try `coggo decision new` to log your first decision.'' @ newline
     @ ''  3. Configure claude.ai with the Coggo skill: see docs/claude-ai-setup.md'' @ newline
     @ ''  4. Add Coggo to Claude Code: see docs/claude-code-setup.md'' @ newline @ newline
     @ ''Run `coggo help` for the full command list.'' @ newline"

definition init_peers :: "cli_env \<Rightarrow> unit command" where
  "init_peers ce = each init_specs (\<lambda>(name, desc). init_peer ce name desc)"

definition store_settings :: "cli_env \<Rightarrow> (string \<times> string) list \<Rightarrow> unit command" where
  "store_settings ce kvs =
     and_next (runtime_now (\<lambda>rt. ByName (rt_registry rt) CoggoPeerName)) (\<lambda>q. case q of
         None \<Rightarrow> give ()
       | Some p \<Rightarrow> each kvs (store_setting ce (p_did p)))"

definition actionInit :: "cli_env \<Rightarrow> toml \<Rightarrow> write_errors \<Rightarrow> string \<Rightarrow> config \<Rightarrow> unit command" where
  "actionInit ce tm we path cfg =
     and_next (say init_greeting) (\<lambda>u.
     and_next (askYN ''Should I look at your AI tool config files to find existing projects?'' False) (\<lambda>look.
     and_next (if look then say_line ''Import wizard is a v0.2 feature. Continuing with manual setup.'' else give ()) (\<lambda>u.
     and_next (say (newline @ ''Discovery wizard ships in v0.2; you'll set up peers manually here.'' @ newline @ newline
         @ ''I'll create three peers by default. Press Enter to accept each, n to skip.'' @ newline)) (\<lambda>u.
     and_next (init_peers ce) (\<lambda>u.
     and_next (say (newline @ ''Skipping correlation for now (v0.2 feature). You can add entities later via `coggo entity new`.''
         @ newline @ newline)) (\<lambda>u.
     and_next (ask_line ''Daily briefing time? [morning|evening|on-demand]'' ''on-demand'') (\<lambda>briefingTime.
     and_next (ask_line ''Default peer for ambiguous commands? [personal|business|coggo]'' ''business'') (\<lambda>defaultPeer.
     and_next (ask_line ''Capture confirmation? [always_confirm|log_and_tell|log_silently]'' ''log_and_tell'') (\<lambda>captureConf.
     and_next (store_settings ce [(''briefing_time'', briefingTime), (''default_peer'', defaultPeer),
         (''capture_confirmation'', captureConf)]) (\<lambda>u.
     and_next (each (map fst init_specs) (update_peer ce (init_settings briefingTime captureConf))) (\<lambda>u.
     and_next (say (newline @ ''Coggo is local-only by default. For public remote access, put'' @ newline
         @ ''the OAuth gateway behind Cloudflare Tunnel:'' @ newline
         @ ''  see docs/cloudflare-tunnel.md and docs/claude-ai-setup.md'' @ newline)) (\<lambda>u.
     and_next (save_config ce tm we path cfg) (\<lambda>u. say (init_farewell cfg))))))))))))))"

section \<open>coggo today and coggo think\<close>

definition actionToday :: "cli_env \<Rightarrow> string \<Rightarrow> time \<Rightarrow> unit command" where
  "actionToday ce name now =
     and_next (wrapped ''today'' (and_next (runtime_now (\<lambda>rt.
         Generate (ce_show ce) (ce_sq ce) (ce_brief ce) (visit ce (rt_registry rt)) (Some (rt_registry rt))
           (Some (hs_db (rt_host rt))) name now)) of_result)) (\<lambda>b. say (Render b))"

definition actionThink :: "unit command" where
  "actionThink = say_line ''Reasoning is a v0.2 feature.''"

section \<open>Starting a command\<close>

record launch =
  la_path :: string
  la_config :: file_read
  la_disk :: disk
  la_input :: "string list"

record system =
  sy_toml :: toml
  sy_xdg :: string
  sy_home :: "string option"
  sy_errors :: open_errors

definition configPath :: "system \<Rightarrow> string \<Rightarrow> string" where
  "configPath sy flag = (if flag = [] then DefaultPath (sy_xdg sy) (sy_home sy) else flag)"

text \<open>The keys of the map of peers that \<open>Setup\<close> reads.\<close>

definition disk_names :: "open_errors \<Rightarrow> disk \<Rightarrow> string list" where
  "disk_names oe dk = (case open_registry (oe_dir oe) (oe_peers oe) (dk_peers dk) of
      Inl e \<Rightarrow> [] | Inr reg \<Rightarrow> mkeys (rg_by_name reg))"

definition start :: "cli_env \<Rightarrow> system \<Rightarrow> launch \<Rightarrow> (config \<times> session) result" where
  "start ce sy la =
     and_then (Load (sy_toml sy) (configPath sy (la_path la)) (la_config la)) (\<lambda>cfg.
     and_then (Setup (ce_sq ce) (ResolvedDBPath (sy_home sy) cfg) (cf_dimension cfg) (sy_errors sy)
         (ce_order ce (disk_names (sy_errors sy) (la_disk la))) (la_disk la)) (\<lambda>rt.
       Inr (cfg, \<lparr>ss_in = la_input la, ss_out = [], ss_rt = rt, ss_calls = 0, ss_config = la_config la\<rparr>)))"

definition run_command :: "cli_env \<Rightarrow> system \<Rightarrow> launch \<Rightarrow> (config \<Rightarrow> unit command) \<Rightarrow> (stop + unit) \<times> session option" where
  "run_command ce sy la act = (case start ce sy la of
      Inl e \<Rightarrow> (Inl (Exit e), None)
    | Inr (cfg, s) \<Rightarrow> (case act cfg s of (r, s') \<Rightarrow> (r, Some s')))"

text \<open>What the next process finds: the three files that the runtime writes through.\<close>

definition disk_of :: "runtime \<Rightarrow> disk" where
  "disk_of rt = \<lparr>dk_peers = rg_file (rt_registry rt), dk_db = Some (hs_db (rt_host rt)), dk_tokens = au_file (rt_auth rt)\<rparr>"

end
