(* ===== verification/Status.thy ===== *)
theory Status
  imports Cli_Init "HOL-Library.Word"
begin

text \<open>
  internal/cli/status.go and status_disk_unix.go: the report of \<^verbatim>\<open>coggo status\<close>. What the system
  answers is a parameter: the replies of HTTP servers, the files read, whether a process runs, what
  runit's sv reports and the numbers of statfs. Sizes are 64-bit words, as in the code.
\<close>

section \<open>Addresses\<close>

text \<open>\<open>net.SplitHostPort\<close> and \<open>net.JoinHostPort\<close>.\<close>

definition index_of :: "char \<Rightarrow> string \<Rightarrow> nat option" where
  "index_of c s = (if c \<in> set s then Some (length (takeWhile (\<lambda>x. x \<noteq> c) s)) else None)"

definition last_index :: "char \<Rightarrow> string \<Rightarrow> nat option" where
  "last_index c s = (if c \<in> set s then Some (length s - Suc (length (takeWhile (\<lambda>x. x \<noteq> c) (rev s)))) else None)"

definition addr_error :: "string \<Rightarrow> string \<Rightarrow> error" where
  "addr_error addr why = Errorf (''address '' @ addr @ '': '' @ why)"

definition split_end :: "string \<Rightarrow> nat \<Rightarrow> nat \<Rightarrow> nat \<Rightarrow> string \<Rightarrow> (string \<times> string) result" where
  "split_end addr i j k host =
     (if CHR ''['' \<in> set (drop j addr) then Inl (addr_error addr (''unexpected '' @ [CHR 0x27, CHR ''['', CHR 0x27] @ '' in address''))
      else if CHR '']'' \<in> set (drop k addr) then Inl (addr_error addr (''unexpected '' @ [CHR 0x27, CHR '']'', CHR 0x27] @ '' in address''))
      else Inr (host, drop (i + 1) addr))"

definition SplitHostPort :: "string \<Rightarrow> (string \<times> string) result" where
  "SplitHostPort addr = (case last_index CHR '':'' addr of
      None \<Rightarrow> Inl (addr_error addr ''missing port in address'')
    | Some i \<Rightarrow>
        if hd addr = CHR ''['' then
          (case index_of CHR '']'' addr of
             None \<Rightarrow> Inl (addr_error addr (''missing '' @ [CHR 0x27, CHR '']'', CHR 0x27] @ '' in address''))
           | Some e \<Rightarrow>
               if e + 1 = length addr then Inl (addr_error addr ''missing port in address'')
               else if e + 1 = i then split_end addr i 1 (e + 1) (take (e - 1) (drop 1 addr))
               else if addr ! (e + 1) = CHR '':'' then Inl (addr_error addr ''too many colons in address'')
               else Inl (addr_error addr ''missing port in address''))
        else if CHR '':'' \<in> set (take i addr) then Inl (addr_error addr ''too many colons in address'')
        else split_end addr i 0 0 (take i addr))"

definition JoinHostPort :: "string \<Rightarrow> string \<Rightarrow> string" where
  "JoinHostPort host port =
     (if CHR '':'' \<in> set host then ''['' @ host @ '']:'' @ port else host @ '':'' @ port)"

definition cleanStatusPath :: "string \<Rightarrow> string" where
  "cleanStatusPath path =
     (if path = [] then ''/'' else if has_prefix path ''/'' then path else ''/'' @ path)"

definition localStatusURL :: "string \<Rightarrow> string \<Rightarrow> string" where
  "localStatusURL addr path = (case SplitHostPort addr of
      Inl e \<Rightarrow> ''http://'' @ trim_right CHR ''/'' addr @ cleanStatusPath path
    | Inr (host, port) \<Rightarrow>
        ''http://'' @ JoinHostPort (if host = [] \<or> host = ''localhost'' then ''127.0.0.1'' else host) port
          @ cleanStatusPath path)"

definition publicStatusURL :: "string \<Rightarrow> string \<Rightarrow> string" where
  "publicStatusURL base path = trim_right CHR ''/'' base @ cleanStatusPath path"

section \<open>The environment file\<close>

definition trim_quotes :: "string \<Rightarrow> string" where
  "trim_quotes s = rev (dropWhile (\<lambda>c. c \<in> set [CHR 0x22, CHR 0x27]) (rev (dropWhile (\<lambda>c. c \<in> set [CHR 0x22, CHR 0x27]) s)))"

text \<open>The lines of the scanner: without the end of the line, and without a last empty one.\<close>

definition drop_cr :: "string \<Rightarrow> string" where
  "drop_cr l = (if l \<noteq> [] \<and> last l = CHR 0x0D then butlast l else l)"

definition scan_lines :: "string \<Rightarrow> string list" where
  "scan_lines s =
     (let ls = split_sep CHR 0x0A s in map drop_cr (if last ls = [] then butlast ls else ls))"

text \<open>What one line of the file sets.\<close>

definition exported_line :: "string \<Rightarrow> (string \<times> string) option" where
  "exported_line raw =
     (let l = trim_space raw in
      if l = [] \<or> has_prefix l ''#'' then None
      else (let t = trim_prefix l ''export '' in
        if CHR ''='' \<notin> set t then None
        else (let key = trim_space (takeWhile (\<lambda>c. c \<noteq> CHR ''='') t);
                  value = trim_quotes (trim_space (drop 1 (dropWhile (\<lambda>c. c \<noteq> CHR ''='') t)))
              in if key = [] \<or> value = [] then None else Some (key, value))))"

definition parseExportedEnv :: "string \<Rightarrow> string gomap" where
  "parseExportedEnv s = mputs (List.map_filter exported_line (scan_lines s)) []"

text \<open>\<open>getenv\<close> is the environment of the process; \<open>f\<close> what reading the file gives.\<close>

definition loadStatusEnv :: "string option \<Rightarrow> file_read \<Rightarrow> string gomap" where
  "loadStatusEnv home f = (case home of
      None \<Rightarrow> []
    | Some h \<Rightarrow> (case f of Contents s \<Rightarrow> parseExportedEnv s | _ \<Rightarrow> []))"

definition status_envOr :: "(string \<Rightarrow> string) \<Rightarrow> string gomap \<Rightarrow> string \<Rightarrow> string \<Rightarrow> string" where
  "status_envOr getenv e key dflt =
     (if getenv key \<noteq> [] then getenv key
      else (case mget e key of Some v \<Rightarrow> if v \<noteq> [] then v else dflt | None \<Rightarrow> dflt))"

section \<open>Probes\<close>

text \<open>The outcome of a request: it cannot be made, it fails, or the status of the reply.\<close>

datatype probe = BadRequest error | NoReply error | Reply nat

definition probeStatusEndpoint :: "probe \<Rightarrow> string \<times> string" where
  "probeStatusEndpoint r = (case r of
      BadRequest e \<Rightarrow> (''invalid'', error_text e)
    | NoReply e \<Rightarrow> (''down'', error_text e)
    | Reply n \<Rightarrow>
        if 500 \<le> n then (''unhealthy'', ''HTTP '' @ show_nat n @ '' from /mcp'')
        else if n = 401 then (''up'', ''HTTP 401 from /mcp; auth is enforced'')
        else (''up'', ''HTTP '' @ show_nat n @ '' from /mcp''))"

definition probeHTTPEndpoint :: "probe \<Rightarrow> string \<times> string" where
  "probeHTTPEndpoint r = (case r of
      BadRequest e \<Rightarrow> (''invalid'', error_text e)
    | NoReply e \<Rightarrow> (''down'', error_text e)
    | Reply n \<Rightarrow>
        if 500 \<le> n then (''unhealthy'', ''HTTP '' @ show_nat n)
        else if 200 \<le> n \<and> n < 400 then (''up'', ''HTTP '' @ show_nat n)
        else (''unhealthy'', ''HTTP '' @ show_nat n))"

definition probeGatewayEndpoint :: "probe \<Rightarrow> string \<times> string" where
  "probeGatewayEndpoint r = (case probeHTTPEndpoint r of
      (status, detail) \<Rightarrow> if status \<noteq> ''up'' then (status, detail) else (''up'', detail))"

text \<open>What sv says of a service: \<open>sv_dir\<close>, \<open>sv_in_path\<close> and \<open>sv_in_prefix\<close> say which files there are.\<close>

record runit =
  sv_dir :: "string \<Rightarrow> bool"
  sv_in_path :: bool
  sv_in_prefix :: bool
  sv_timeout :: "string \<Rightarrow> bool"
  sv_output :: "string \<Rightarrow> string"
  sv_error :: "string \<Rightarrow> error option"

definition probeRunitService :: "runit \<Rightarrow> string \<Rightarrow> string \<Rightarrow> string" where
  "probeRunitService ru prefix name =
     (if prefix = [] then []
      else if \<not> sv_dir ru (Join [prefix, ''var'', ''service'', name]) then []
      else if \<not> sv_in_path ru \<and> \<not> sv_in_prefix ru then ''sv unavailable''
      else (let t = trim_space (sv_output ru name) in
        if sv_timeout ru name then ''sv status timed out''
        else (case sv_error ru name of
            Some e \<Rightarrow> if t = [] then error_text e else t
          | None \<Rightarrow> t)))"

definition service_names :: "string list" where
  "service_names = [''coggo'', ''coggo-gateway'', ''coggo-litestream'', ''coggo-cloudflared'']"

definition printRunitServiceStatus :: "runit \<Rightarrow> string \<Rightarrow> string list" where
  "printRunitServiceStatus ru prefix = List.map_filter (\<lambda>name.
     let status = probeRunitService ru prefix name in
     if status = [] then None else Some (''  service:  '' @ pad 18 name @ '' '' @ status)) service_names"

definition probePidfile :: "string option \<Rightarrow> (string \<Rightarrow> file_read) \<Rightarrow> (int \<Rightarrow> bool) \<Rightarrow> string \<Rightarrow> string" where
  "probePidfile home read_file processRunning name = (case home of
      None \<Rightarrow> []
    | Some h \<Rightarrow>
        (let path = Join [h, ''.coggo'', ''run'', name @ ''.pid''] in
         case read_file path of
           Missing \<Rightarrow> ''no pidfile at '' @ path
         | ReadError e \<Rightarrow> ''pidfile unreadable: '' @ error_text e
         | Contents b \<Rightarrow>
             (let invalid = ''pidfile has invalid pid '' @ quote_go (trim_space b) in
              case Atoi (trim_space b) of
                None \<Rightarrow> invalid
              | Some pid \<Rightarrow>
                  if pid \<le> 0 then invalid
                  else ''pid '' @ show_int pid @ '' from '' @ path
                    @ (if processRunning pid then '' is running'' else '' is not running''))))"

section \<open>Sizes\<close>

definition mib :: "64 word" where
  "mib = 1048576"

definition minDiskCritical :: "64 word" where
  "minDiskCritical = 64 * mib"

definition minDiskWarning :: "64 word" where
  "minDiskWarning = 256 * mib"

definition minMemCritical :: "64 word" where
  "minMemCritical = 128 * mib"

definition minMemWarning :: "64 word" where
  "minMemWarning = 256 * mib"

text \<open>The verb \<^verbatim>\<open>%.1f\<close> on \<open>n / d\<close>, rounded to the nearest tenth and to the even one in between; a
  \<open>float64\<close> of the size is taken exactly.\<close>

definition tenths :: "nat \<Rightarrow> nat \<Rightarrow> nat" where
  "tenths n d =
     (let t = (10 * n) div d; r = (10 * n) mod d
      in if 2 * r < d \<or> (2 * r = d \<and> even t) then t else t + 1)"

definition show_tenths :: "nat \<Rightarrow> string" where
  "show_tenths t = show_nat (t div 10) @ ''.'' @ show_nat (t mod 10)"

fun format_units :: "string list \<Rightarrow> nat \<Rightarrow> nat \<Rightarrow> string" where
  "format_units [] n d = show_tenths (tenths n (d * 1024)) @ '' PiB''"
| "format_units (u # us) n d =
     (if n < d * 1024 * 1024 then show_tenths (tenths n (d * 1024)) @ '' '' @ u else format_units us n (d * 1024))"

definition formatBytes :: "64 word \<Rightarrow> string" where
  "formatBytes w =
     (let n = unat w in
      if n < 1024 then show_nat n @ '' B'' else format_units [''KiB'', ''MiB'', ''GiB'', ''TiB''] n 1)"

text \<open>\<open>strconv.ParseUint\<close> in base 10 and \<open>strings.Fields\<close>.\<close>

definition ParseUint :: "string \<Rightarrow> 64 word option" where
  "ParseUint s = (case parse_digits s of
      None \<Rightarrow> None
    | Some n \<Rightarrow> if n < 2 ^ 64 then Some (word_of_int n) else None)"

fun fields_of :: "string \<Rightarrow> string \<Rightarrow> string list" where
  "fields_of cur [] = (if cur = [] then [] else [cur])"
| "fields_of cur (c # s) =
     (if is_space c then (if cur = [] then fields_of [] s else cur # fields_of [] s) else fields_of (cur @ [c]) s)"

fun mem_line :: "string list \<Rightarrow> 64 word option" where
  "mem_line [] = None"
| "mem_line (l # ls) = (case fields_of [] l of
      label # amount # rest \<Rightarrow>
        if label = ''MemAvailable:'' then map_option (\<lambda>kb. kb * 1024) (ParseUint amount) else mem_line ls
    | _ \<Rightarrow> mem_line ls)"

definition parseMemAvailable :: "string \<Rightarrow> 64 word option" where
  "parseMemAvailable s = mem_line (scan_lines s)"

definition classify :: "64 word \<Rightarrow> 64 word \<Rightarrow> 64 word \<Rightarrow> string" where
  "classify critical warning n = (if n < critical then ''critical'' else if n < warning then ''low'' else ''ok'')"

definition probeMemoryFromReader :: "string \<Rightarrow> string \<times> string" where
  "probeMemoryFromReader s = (case parseMemAvailable s of
      None \<Rightarrow> (''unknown'', ''MemAvailable not found in /proc/meminfo'')
    | Some n \<Rightarrow> (classify minMemCritical minMemWarning n, formatBytes n @ '' available''))"

definition probeMemory :: "file_read \<Rightarrow> string \<times> string" where
  "probeMemory f = (case f of
      Contents s \<Rightarrow> probeMemoryFromReader s
    | _ \<Rightarrow> (''unknown'', ''MemAvailable is not exposed at /proc/meminfo''))"

section \<open>Disks\<close>

text \<open>\<open>filepath.Dir\<close>.\<close>

definition Dir :: "string \<Rightarrow> string" where
  "Dir p = Clean (rev (dropWhile (\<lambda>c. c \<noteq> CHR ''/'') (rev p)))"

text \<open>The walk up to an existing path; it stops where \<open>Dir\<close> does not change the path any more.\<close>

partial_function (option) climb :: "(string \<Rightarrow> bool) \<Rightarrow> string \<Rightarrow> string option" where
  "climb there path =
     (if there path then Some path
      else if Dir path = path then Some path
      else climb there (Dir path))"

definition nearestExistingPath :: "(string \<Rightarrow> bool) \<Rightarrow> string \<Rightarrow> string option" where
  "nearestExistingPath there path = (if path = [] then Some ''.'' else climb there path)"

record statfs =
  st_bavail :: "64 word"
  st_blocks :: "64 word"
  st_bsize :: "64 word"

definition probeDisk :: "(string \<Rightarrow> bool) \<Rightarrow> (string \<Rightarrow> statfs result) \<Rightarrow> string \<Rightarrow> (string \<times> string) option" where
  "probeDisk there stat dbPath = map_option (\<lambda>path. case stat path of
      Inl e \<Rightarrow> (''unknown'', error_text e)
    | Inr st \<Rightarrow>
        (let free = st_bavail st * st_bsize st; total = st_blocks st * st_bsize st
         in (classify minDiskCritical minDiskWarning free,
             formatBytes free @ '' free of '' @ formatBytes total @ '' at '' @ path))) (nearestExistingPath there dbPath)"

section \<open>coggo status\<close>

record machine =
  mc_getenv :: "string \<Rightarrow> string"
  mc_home :: "string option"
  mc_read :: "string \<Rightarrow> file_read"
  mc_get :: "string \<Rightarrow> probe"
  mc_runit :: runit
  mc_running :: "int \<Rightarrow> bool"
  mc_there :: "string \<Rightarrow> bool"
  mc_statfs :: "string \<Rightarrow> statfs result"

definition detail_line :: "string \<Rightarrow> string list" where
  "detail_line d = (if d = [] then [] else [''            '' @ d])"

definition status_env :: "machine \<Rightarrow> string gomap" where
  "status_env mc = loadStatusEnv (mc_home mc)
     (case mc_home mc of Some h \<Rightarrow> mc_read mc (Join [h, ''.coggo'', ''env'']) | None \<Rightarrow> Missing)"

definition process_lines :: "machine \<Rightarrow> string list" where
  "process_lines mc = List.map_filter (\<lambda>name.
     let status = probePidfile (mc_home mc) (mc_read mc) (mc_running mc) name in
     if status = [] then None else Some (''  process:  '' @ pad 11 name @ '' '' @ status)) [''coggo'', ''gateway'', ''cloudflared'']"

definition public_lines :: "machine \<Rightarrow> string list" where
  "public_lines mc =
     (let base = trim_right CHR ''/'' (status_envOr (mc_getenv mc) (status_env mc) ''GATEWAY_PUBLIC_URL'' []) in
      if base = [] then [''  public:   skipped'', ''            GATEWAY_PUBLIC_URL is not set'']
      else (let url = publicStatusURL base ''/healthz''; (status, detail) = probeGatewayEndpoint (mc_get mc url)
            in [''  public:   '' @ status, ''            '' @ url] @ detail_line detail))"

text \<open>The lines of the report; \<open>None\<close> when the walk up to an existing directory does not end.\<close>

definition actionStatus :: "machine \<Rightarrow> string \<Rightarrow> config \<Rightarrow> string list option" where
  "actionStatus mc flag cfg =
     (let dbPath = ResolvedDBPath (mc_home mc) cfg; endpoint = localStatusURL (cf_listen cfg) ''/mcp'';
          local_url = localStatusURL (status_envOr (mc_getenv mc) (status_env mc) ''GATEWAY_LISTEN'' '':8080'') ''/healthz'';
          (server, server_detail) = probeStatusEndpoint (mc_get mc endpoint);
          (gateway, gateway_detail) = probeGatewayEndpoint (mc_get mc local_url);
          services = printRunitServiceStatus (mc_runit mc) (mc_getenv mc ''PREFIX'');
          (mem, mem_detail) = probeMemory (mc_read mc ''/proc/meminfo'')
      in map_option (\<lambda>(disk, disk_detail).
        [''Coggo status'', ''  config:   '' @ flag, ''  data dir: '' @ DataDir (mc_home mc) cfg, ''  db:       '' @ dbPath,
         ''  endpoint: '' @ endpoint, ''  server:   '' @ server] @ detail_line server_detail
        @ [''  gateway:  '' @ gateway, ''            local '' @ local_url] @ detail_line gateway_detail
        @ public_lines mc @ (if services = [] then process_lines mc else services)
        @ [''  storage:  '' @ disk] @ detail_line disk_detail
        @ [''  memory:   '' @ mem] @ detail_line mem_detail)
        (probeDisk (mc_there mc) (mc_statfs mc) dbPath))"

end
