(* ===== verification/Status_Props.thy ===== *)
theory Status_Props
  imports Status
begin

text \<open>
  Properties of the status report: it always returns, the sizes it shows are the nearest ones of their
  unit, and the environment file is read as it was written.
\<close>

section \<open>Paths get shorter\<close>

definition weight :: "string list \<Rightarrow> nat" where
  "weight ps = sum_list (map (\<lambda>p. Suc (length p)) ps)"

lemma weight_simps [simp]: "weight [] = 0" "weight (p # ps) = Suc (length p) + weight ps"
  "weight (ps @ qs) = weight ps + weight qs"
  by (simp_all add: weight_def)

definition solid :: "string list \<Rightarrow> string list" where
  "solid ps = filter (\<lambda>p. p \<noteq> []) ps"

lemma solid_le: "weight (solid ps) \<le> weight ps"
  by (induction ps) (auto simp: solid_def)

lemma split_not_Nil: "split_sep c s \<noteq> []"
  by (induction s) (auto split: list.split)

lemma weight_split: "weight (split_sep c s) = Suc (length s)"
  using split_not_Nil by (induction s) (auto split: list.split)

lemma split_snoc: "split_sep c (s @ [c]) = split_sep c s @ [[]]"
  using split_not_Nil by (induction s) (auto split: list.split simp: append_eq_Cons_conv)

lemma weight_butlast: "weight (butlast ps) \<le> weight ps"
  by (induction ps) auto

lemma weight_clean_step: "weight (clean_step rooted out p) \<le> weight out + weight (solid [p])"
  using weight_butlast [of out] by (auto simp: clean_step_def solid_def intro: le_trans)

lemma weight_clean: "weight (foldl (clean_step rooted) out ps) \<le> weight out + weight (solid ps)"
proof (induction ps arbitrary: out)
  case (Cons p ps)
  have "weight (solid (p # ps)) = weight (solid [p]) + weight (solid ps)" by (simp add: solid_def)
  then show ?case using Cons [of "clean_step rooted out p"] weight_clean_step [of rooted out p] by simp
qed simp

lemma length_join: "ps \<noteq> [] \<Longrightarrow> Suc (length (join_path ps)) = weight ps"
  by (induction ps rule: join_path.induct) auto

lemma length_join_le: "length (join_path ps) \<le> weight ps - 1"
  using length_join [of ps] by (cases "ps = []") simp_all

text \<open>A path that ends in a separator gets shorter, unless it is the root.\<close>

lemma Clean_shorter:
  assumes "s \<noteq> []"
  shows "length (Clean (s @ ''/'')) \<le> length s"
proof -
  let ?t = "s @ ''/''"
  let ?r = "has_prefix ?t ''/''"
  have w: "weight (foldl (clean_step ?r) [] (split_sep CHR ''/'' ?t)) \<le> weight (solid (split_sep CHR ''/'' s))"
    using weight_clean [of ?r "[]" "split_sep CHR ''/'' ?t"] by (simp add: split_snoc solid_def)
  show ?thesis
  proof (cases ?r)
    case True
    then obtain u where s: "s = CHR ''/'' # u" using assms by (cases s) (auto simp: has_prefix_def)
    have "weight (solid (split_sep CHR ''/'' s)) \<le> length s"
      using solid_le [of "split_sep CHR ''/'' u"] weight_split [of "CHR ''/''" u] by (simp add: s solid_def)
    then have "length (join_path (foldl (clean_step True) [] (split_sep CHR ''/'' ?t))) \<le> length s - 1"
      using length_join_le [of "foldl (clean_step True) [] (split_sep CHR ''/'' ?t)"] w True by simp
    then show ?thesis using True assms by (cases s) (auto simp: Clean_def Let_def)
  next
    case False
    have "weight (solid (split_sep CHR ''/'' s)) \<le> Suc (length s)"
      using solid_le [of "split_sep CHR ''/'' s"] weight_split [of "CHR ''/''" s] by simp
    then have "length (join_path (foldl (clean_step False) [] (split_sep CHR ''/'' ?t))) \<le> length s"
      using length_join_le [of "foldl (clean_step False) [] (split_sep CHR ''/'' ?t)"] w False by simp
    then show ?thesis using False assms by (cases s) (auto simp: Clean_def Let_def)
  qed
qed

lemma Dir_cases:
  obtains "Dir p = ''.''" | "Dir p = ''/''" | "length (Dir p) < length p"
proof -
  define q where "q = rev (dropWhile (\<lambda>c. c \<noteq> CHR ''/'') (rev p))"
  have dir: "Dir p = Clean q" by (simp add: Dir_def q_def)
  have len: "length q \<le> length p" unfolding q_def by (metis length_dropWhile_le length_rev)
  show thesis
  proof (cases "dropWhile (\<lambda>c. c \<noteq> CHR ''/'') (rev p)")
    case Nil
    then have "q = []" by (simp add: q_def)
    then have "Dir p = ''.''" by (simp add: dir Clean_def has_prefix_def clean_step_def)
    then show thesis by (rule that(1))
  next
    case (Cons c u)
    then have "c = CHR ''/''" by (metis (mono_tags, lifting) hd_dropWhile list.sel(1) list.simps(3))
    then have q: "q = rev u @ ''/''" by (simp add: q_def Cons)
    show thesis
    proof (cases "u = []")
      case True
      then have "Dir p = ''/''" by (simp add: dir q Clean_def has_prefix_def clean_step_def)
      then show thesis by (rule that(2))
    next
      case False
      then have "length (Dir p) < length p" using Clean_shorter [of "rev u"] len by (simp add: dir q)
      then show thesis by (rule that(3))
    qed
  qed
qed

lemma Dir_fixed: "Dir ''.'' = ''.''" "Dir ''/'' = ''/''"
  by (simp_all add: Dir_def Clean_def has_prefix_def clean_step_def)

lemma climb_ends: "\<exists>q. climb there p = Some q \<and> (there q \<or> Dir q = q)"
proof (induction "length p" arbitrary: p rule: less_induct)
  case less
  have stops: "climb there r = Some r" if "Dir r = r" for r
    using that by (subst climb.simps) simp
  have fixed: "\<exists>q. climb there p = Some q \<and> (there q \<or> Dir q = q)" if "Dir p = r" "Dir r = r" for r
    using that stops by (subst climb.simps) auto
  show ?case
  proof (cases rule: Dir_cases [of p])
    case 3
    then show ?thesis using less [of "Dir p"] by (auto simp: climb.simps [of there p])
  qed (use fixed Dir_fixed in blast)+
qed

text \<open>C25: \<^verbatim>\<open>coggo status\<close> always returns: the walk from the path of the database up to an existing
  directory ends, at a path that exists or at one that has no parent.\<close>

theorem status_returns:
  "actionStatus mc flag cfg \<noteq> None
    \<and> (\<exists>q. nearestExistingPath there path = Some q \<and> (path = [] \<or> there q \<or> Dir q = q))"
proof
  have ends: "\<exists>q. nearestExistingPath t p = Some q \<and> (p = [] \<or> t q \<or> Dir q = q)" for t p
    using climb_ends [of t p] by (auto simp: nearestExistingPath_def)
  then show "\<exists>q. nearestExistingPath there path = Some q \<and> (path = [] \<or> there q \<or> Dir q = q)" .
  obtain q where "nearestExistingPath (mc_there mc) (ResolvedDBPath (mc_home mc) cfg) = Some q" using ends by blast
  then show "actionStatus mc flag cfg \<noteq> None"
    by (simp add: actionStatus_def Let_def probeDisk_def split: prod.split)
qed

lemma status_returns_steps: "nearestExistingPath (\<lambda>p. p = ''/data'') ''/data/coggo/coggo.db'' = Some ''/data''"
proof -
  have d: "Dir ''/data/coggo/coggo.db'' = ''/data/coggo''" "Dir ''/data/coggo'' = ''/data''" by code_simp+
  show ?thesis
    by (simp add: nearestExistingPath_def climb.simps [of _ "''/data/coggo/coggo.db''"] climb.simps [of _ "''/data/coggo''"]
        climb.simps [of _ "''/data''"] d)
qed

section \<open>Sizes\<close>

lemma tenths_near:
  assumes "0 < d"
  shows "2 * (10 * n) \<le> 2 * (tenths n d * d) + d \<and> 2 * (tenths n d * d) \<le> 2 * (10 * n) + d"
proof -
  define t r where "t = (10 * n) div d" and "r = (10 * n) mod d"
  have n: "10 * n = t * d + r" "r < d" using assms by (simp_all add: t_def r_def)
  have "tenths n d = (if 2 * r < d \<or> (2 * r = d \<and> even t) then t else t + 1)"
    by (simp add: tenths_def Let_def t_def r_def)
  then show ?thesis using n by (auto simp: algebra_simps split: if_splits)
qed

text \<open>The units from \<open>d * 1024\<close> bytes on, with the suffixes left.\<close>

lemma format_units_near:
  assumes "0 < d" and "d * 1024 \<le> n"
  shows "\<exists>k t u. format_units us n d = show_tenths t @ '' '' @ u \<and> k \<le> length us \<and> u = (us @ [''PiB'']) ! k
    \<and> d * 1024 ^ Suc k \<le> n \<and> (k < length us \<longrightarrow> n < d * 1024 ^ Suc (Suc k))
    \<and> 2 * (10 * n) \<le> 2 * (t * (d * 1024 ^ Suc k)) + d * 1024 ^ Suc k
    \<and> 2 * (t * (d * 1024 ^ Suc k)) \<le> 2 * (10 * n) + d * 1024 ^ Suc k"
  using assms
proof (induction us arbitrary: d)
  case Nil
  then show ?case using tenths_near [of "d * 1024" n]
    by (intro exI [of _ 0] exI [of _ "tenths n (d * 1024)"] exI [of _ "''PiB''"]) simp
next
  case (Cons u us)
  show ?case
  proof (cases "n < d * 1024 * 1024")
    case True
    then show ?thesis using Cons.prems tenths_near [of "d * 1024" n]
      by (intro exI [of _ 0] exI [of _ "tenths n (d * 1024)"] exI [of _ u]) simp
  next
    case False
    then obtain k t v where "format_units us n (d * 1024) = show_tenths t @ '' '' @ v" "k \<le> length us" "v = (us @ [''PiB'']) ! k"
      "d * 1024 * 1024 ^ Suc k \<le> n" "k < length us \<longrightarrow> n < d * 1024 * 1024 ^ Suc (Suc k)"
      "2 * (10 * n) \<le> 2 * (t * (d * 1024 * 1024 ^ Suc k)) + d * 1024 * 1024 ^ Suc k"
      "2 * (t * (d * 1024 * 1024 ^ Suc k)) \<le> 2 * (10 * n) + d * 1024 * 1024 ^ Suc k"
      using Cons.IH [of "d * 1024"] Cons.prems by auto
    then show ?thesis using False
      by (intro exI [of _ "Suc k"] exI [of _ t] exI [of _ v]) (simp add: mult.assoc)
  qed
qed

definition byte_units :: "string list" where
  "byte_units = [''KiB'', ''MiB'', ''GiB'', ''TiB'', ''PiB'']"


section \<open>The environment file\<close>

text \<open>Assignments as the deployment script writes them, in either quote.\<close>

definition quotes :: "string" where
  "quotes = [CHR 0x22, CHR 0x27]"

definition export_line :: "char \<Rightarrow> string \<times> string \<Rightarrow> string" where
  "export_line q = (\<lambda>(k, v). ''export '' @ k @ ''='' @ [q] @ v @ [q])"

definition write_env :: "char \<Rightarrow> (string \<times> string) list \<Rightarrow> string" where
  "write_env q kvs = concat (map (\<lambda>kv. export_line q kv @ [CHR 0x0A]) kvs)"

definition assignment_ok :: "string \<times> string \<Rightarrow> bool" where
  "assignment_ok = (\<lambda>(k, v). k \<noteq> [] \<and> v \<noteq> [] \<and> trim_space k = k \<and> CHR ''='' \<notin> set k
     \<and> CHR 0x0A \<notin> set k \<and> CHR 0x0A \<notin> set v \<and> hd v \<notin> set quotes \<and> last v \<notin> set quotes)"

lemma split_line: "c \<notin> set l \<Longrightarrow> split_sep c (l @ c # s) = l # split_sep c s"
  by (induction l) auto

lemma trim_space_ends: "s \<noteq> [] \<Longrightarrow> \<not> is_space (hd s) \<Longrightarrow> \<not> is_space (last s) \<Longrightarrow> trim_space s = s"
  using dropWhile_eq_self_iff [of is_space s] dropWhile_eq_self_iff [of is_space "rev s"] by (simp add: trim_space_def hd_rev)

lemma trim_quotes_around:
  assumes "q \<in> set quotes" and "v \<noteq> []" and "hd v \<notin> set quotes" and "last v \<notin> set quotes"
  shows "trim_quotes (q # v @ [q]) = v"
proof -
  have front: "dropWhile (\<lambda>c. c \<in> set quotes) (q # v @ [q]) = v @ [q]" using assms(1-3) by (cases v) auto
  have rear: "dropWhile (\<lambda>c. c \<in> set quotes) (rev v) = rev v" using assms(2,4) by (cases v rule: rev_cases) auto
  have "trim_quotes (q # v @ [q]) = rev (dropWhile (\<lambda>c. c \<in> set quotes) (rev (dropWhile (\<lambda>c. c \<in> set quotes) (q # v @ [q]))))"
    by (simp only: trim_quotes_def quotes_def)
  also have "\<dots> = v" unfolding front using rear assms(1) by simp
  finally show ?thesis .
qed

lemma quotes_solid: "q \<in> set quotes \<Longrightarrow> \<not> is_space q \<and> q \<noteq> CHR 0x0A \<and> q \<noteq> CHR 0x0D"
  by (auto simp: quotes_def is_space_def byte_of_def)

lemma exported_line_written:
  assumes "assignment_ok kv" and "q \<in> set quotes"
  shows "exported_line (export_line q kv) = Some kv"
proof -
  obtain k v where kv: "kv = (k, v)" by (cases kv)
  have k: "k \<noteq> []" "trim_space k = k" "CHR ''='' \<notin> set k" and v: "v \<noteq> []" "hd v \<notin> set quotes" "last v \<notin> set quotes"
    using assms(1) by (auto simp: assignment_ok_def kv)
  note q = quotes_solid [OF assms(2)]
  have "\<not> is_space CHR ''e''" by (simp add: is_space_def byte_of_def)
  then have trim: "trim_space (export_line q kv) = export_line q kv"
    using q by (intro trim_space_ends) (simp_all add: export_line_def kv)
  define l where "l = export_line q kv"
  have line: "export_line q kv \<noteq> []" by (simp add: export_line_def kv)
  have rest: "trim_prefix (export_line q kv) ''export '' = k @ CHR ''='' # q # v @ [q]" "\<not> has_prefix (export_line q kv) ''#''"
    by (simp_all add: trim_prefix_def has_prefix_def export_line_def kv)
  have cut: "takeWhile (\<lambda>c. c \<noteq> CHR ''='') (k @ CHR ''='' # q # v @ [q]) = k"
    "dropWhile (\<lambda>c. c \<noteq> CHR ''='') (k @ CHR ''='' # q # v @ [q]) = CHR ''='' # q # v @ [q]"
    using k(3) by (simp_all add: takeWhile_tail dropWhile_append3 takeWhile_append dropWhile_append)
  have "trim_space (q # v @ [q]) = q # v @ [q]" using q by (intro trim_space_ends) simp_all
  then have "trim_quotes (trim_space (q # v @ [q])) = v" using trim_quotes_around [OF assms(2) v] by simp
  then show ?thesis
    using k v(1) line trim rest unfolding l_def [symmetric] by (simp add: exported_line_def cut kv)
qed

lemma line_no_break:
  assumes "assignment_ok kv" and "q \<in> set quotes"
  shows "CHR 0x0A \<notin> set (export_line q kv)" and "drop_cr (export_line q kv) = export_line q kv"
  using assms(1) quotes_solid [OF assms(2)] by (auto simp: export_line_def assignment_ok_def drop_cr_def split: prod.splits)

lemma scan_written:
  assumes "\<forall>kv \<in> set kvs. assignment_ok kv" and "q \<in> set quotes"
  shows "scan_lines (write_env q kvs) = map (export_line q) kvs"
proof -
  have "split_sep CHR 0x0A (write_env q kvs) = map (export_line q) kvs @ [[]]"
    using assms(1)
  proof (induction kvs)
    case (Cons kv kvs)
    then show ?case using split_line [OF line_no_break(1) [OF _ assms(2)], of kv] by (simp add: write_env_def)
  qed (simp add: write_env_def)
  then show ?thesis using assms line_no_break(2) by (simp add: scan_lines_def)
qed

text \<open>An environment file of quoted exports is read back as it was written, later assignments of a name
  winning; a value of the process's own environment wins over the file, and the file over the fallback.\<close>

theorem env_file_roundtrip:
  assumes "\<forall>kv \<in> set kvs. assignment_ok kv" and "q \<in> set quotes"
  shows "parseExportedEnv (write_env q kvs) = mputs kvs []
    \<and> status_envOr getenv (parseExportedEnv (write_env q kvs)) key dflt
      = (if getenv key \<noteq> [] then getenv key else (case mget (rev kvs) key of Some v \<Rightarrow> v | None \<Rightarrow> dflt))"
proof -
  have "List.map_filter exported_line (map (export_line q) kvs) = kvs"
    using assms exported_line_written by (induction kvs) (auto simp: List.map_filter_simps)
  then have parsed: "parseExportedEnv (write_env q kvs) = mputs kvs []"
    by (simp add: parseExportedEnv_def scan_written [OF assms])
  have got: "mget (mputs kvs []) key = mget (rev kvs) key" by (simp add: mget_mputs_rev)
  have "mget (rev kvs) key = Some v \<Longrightarrow> v \<noteq> []" for v
    using assms(1) by (force dest!: map_of_SomeD simp: assignment_ok_def)
  then show ?thesis unfolding parsed by (auto simp: status_envOr_def got split: option.split)
qed

lemma env_file_roundtrip_witness:
  "parseExportedEnv (write_env CHR 0x27 [(''GATEWAY_LISTEN'', '':9090'')]) = [(''GATEWAY_LISTEN'', '':9090'')]"
proof -
  have "\<forall>kv \<in> set [(''GATEWAY_LISTEN'', '':9090'')]. assignment_ok kv"
    by (simp add: assignment_ok_def trim_space_def is_space_def byte_of_def quotes_def)
  moreover have "CHR 0x27 \<in> set quotes" by (simp add: quotes_def)
  ultimately show ?thesis using env_file_roundtrip by (fastforce simp: mputs_def)
qed

end
