(* ===== verification/Backup.thy ===== *)
theory Backup
  imports Status
begin

text \<open>
  internal/cli/backup.go: export and import of peers.json. The file system is a map from paths to
  files and directories; symbolic links are left out, so that \<open>Stat\<close> and \<open>Lstat\<close> agree. A copy
  leaves the list of all file systems it went through, newest first: they are what a crash can leave.

  \<open>backup_io\<close> holds what the system calls return: their failures, the number of bytes copied before a
  failed copy, and the names \<open>CreateTemp\<close> tries.
\<close>

section \<open>Files\<close>

datatype node = File (contents: string) (mode: nat) | Folder

type_synonym fs = "string \<Rightarrow> node option"

record backup_io =
  bk_stat :: "error option"
  bk_lstat :: "error option"
  bk_mkdir :: "error option"
  bk_open :: "error option"
  bk_create :: "error option"
  bk_name :: "nat \<Rightarrow> string"
  bk_chmod :: "error option"
  bk_copy :: "(nat \<times> error) option"
  bk_sync :: "error option"
  bk_close :: "error option"
  bk_chmod_again :: "error option"
  bk_rename :: "error option"
  bk_remove :: "error option"

text \<open>The history of a file system: the current one and those before it.\<close>

type_synonym history = "fs list"

definition change :: "(fs \<Rightarrow> fs) \<Rightarrow> history \<Rightarrow> history" where
  "change f h = f (hd h) # h"

text \<open>\<open>os.MkdirAll\<close>: the missing directories of a path, from the outermost on. It fails on a file in the way.\<close>

definition parents :: "string \<Rightarrow> string list" where
  "parents d = (let ps = split_sep CHR ''/'' d
     in filter (\<lambda>p. p \<noteq> []) (map (\<lambda>n. join_path (take (Suc n) ps)) [0..<length ps]))"

fun make_dirs :: "string list \<Rightarrow> history \<Rightarrow> error option \<times> history" where
  "make_dirs [] h = (None, h)"
| "make_dirs (d # ds) h = (case hd h d of
      Some Folder \<Rightarrow> make_dirs ds h
    | Some (File c m) \<Rightarrow> (Some (Errorf (''mkdir '' @ d @ '': not a directory'')), h)
    | None \<Rightarrow> make_dirs ds (change (\<lambda>s. s(d \<mapsto> Folder)) h))"

definition MkdirAll :: "error option \<Rightarrow> string \<Rightarrow> history \<Rightarrow> error option \<times> history" where
  "MkdirAll io d h = (case io of
      Some e \<Rightarrow> (Some e, h)
    | None \<Rightarrow> if hd h d = Some Folder then (None, h) else make_dirs (parents d) h)"

text \<open>\<open>filepath.Base\<close>.\<close>

definition Base :: "string \<Rightarrow> string" where
  "Base p = (if p = [] then ''.''
     else (let t = trim_right CHR ''/'' p in
       if t = [] then ''/'' else rev (takeWhile (\<lambda>c. c \<noteq> CHR ''/'') (rev t))))"

text \<open>\<open>CreateTemp\<close> takes the first free name of at most 10000.\<close>

fun first_free :: "nat \<Rightarrow> (nat \<Rightarrow> string) \<Rightarrow> fs \<Rightarrow> string option" where
  "first_free 0 name s = None"
| "first_free (Suc n) name s = (if s (name 0) = None then Some (name 0) else first_free n (\<lambda>k. name (Suc k)) s)"

definition temp_name :: "string \<Rightarrow> string \<Rightarrow> string" where
  "temp_name dest r = Join [Dir dest, ''.'' @ Base dest @ ''.'' @ r @ ''.tmp'']"

section \<open>The copy\<close>

record identityExportResult =
  ex_source :: string
  ex_destination :: string
  ex_bytes :: nat

definition ensureCanWriteDestination :: "error option \<Rightarrow> string \<Rightarrow> bool \<Rightarrow> string \<Rightarrow> fs \<Rightarrow> error option" where
  "ensureCanWriteDestination io dest force op s = (case io of
      Some e \<Rightarrow> Some (Wrap (op @ '': stat destination '' @ dest) e)
    | None \<Rightarrow> (case s dest of
          None \<Rightarrow> None
        | Some Folder \<Rightarrow> Some (Errorf (op @ '': destination '' @ dest @ '' is a directory''))
        | Some (File c m) \<Rightarrow>
            if \<not> force then Some (Errorf (op @ '': destination '' @ dest @ '' already exists; pass --force to overwrite''))
            else None))"

text \<open>What \<open>io.Copy\<close> does to the temporary file.\<close>

definition copy_bytes :: "(nat \<times> error) option \<Rightarrow> string \<Rightarrow> string \<Rightarrow> history \<Rightarrow> history" where
  "copy_bytes io tmp data = change (\<lambda>s. s(tmp \<mapsto> File (case io of None \<Rightarrow> data | Some (n, e) \<Rightarrow> take n data)
     (case s tmp of Some (File c m) \<Rightarrow> m | _ \<Rightarrow> 0)))"

definition chmod_private :: "string \<Rightarrow> history \<Rightarrow> history" where
  "chmod_private tmp = change (\<lambda>s. case s tmp of Some (File c m) \<Rightarrow> s(tmp \<mapsto> File c 384) | _ \<Rightarrow> s)"

definition move :: "string \<Rightarrow> string \<Rightarrow> history \<Rightarrow> history" where
  "move tmp dest = change (\<lambda>s. (s(dest := s tmp))(tmp := None))"

text \<open>The deferred removal of the temporary file.\<close>

definition cleanup :: "error option \<Rightarrow> string \<Rightarrow> history \<Rightarrow> history" where
  "cleanup io tmp h = (case io of Some e \<Rightarrow> h | None \<Rightarrow> change (\<lambda>s. s(tmp := None)) h)"

definition fill_temp :: "backup_io \<Rightarrow> string \<Rightarrow> string \<Rightarrow> string \<Rightarrow> string \<Rightarrow> string \<Rightarrow> history
    \<Rightarrow> identityExportResult result \<times> history" where
  "fill_temp io src dest op tmp data h =
     (let failed = (\<lambda>what e h. (Inl (Wrap (op @ '': '' @ what) e), cleanup (bk_remove io) tmp h)) in
      case bk_chmod io of
        Some e \<Rightarrow> failed ''chmod temporary file'' e h
      | None \<Rightarrow>
          (let h2 = copy_bytes (bk_copy io) tmp data (chmod_private tmp h) in
           case bk_copy io of
             Some (n, e) \<Rightarrow> failed ''copy peers.json'' e h2
           | None \<Rightarrow> (case bk_sync io of
               Some e \<Rightarrow> failed ''sync temporary file'' e h2
             | None \<Rightarrow> (case bk_close io of
                 Some e \<Rightarrow> failed ''close temporary file'' e h2
               | None \<Rightarrow> (case bk_chmod_again io of
                   Some e \<Rightarrow> failed ''chmod backup'' e h2
                 | None \<Rightarrow> (case bk_rename io of
                     Some e \<Rightarrow> failed ''move backup into place'' e (chmod_private tmp h2)
                   | None \<Rightarrow> (Inr \<lparr>ex_source = src, ex_destination = dest, ex_bytes = length data\<rparr>,
                       move tmp dest (chmod_private tmp h2))))))))"

definition copyIdentityFile :: "backup_io \<Rightarrow> string \<Rightarrow> string \<Rightarrow> bool \<Rightarrow> string \<Rightarrow> fs \<Rightarrow> identityExportResult result \<times> history" where
  "copyIdentityFile io src dest force op s = (case bk_stat io of
      Some e \<Rightarrow> (Inl (Wrap (op @ '': stat '' @ src) e), [s])
    | None \<Rightarrow> (case s src of
        None \<Rightarrow> (Inl (Errorf (op @ '': '' @ src @ '' does not exist'')), [s])
      | Some Folder \<Rightarrow> (Inl (Errorf (op @ '': '' @ src @ '' is a directory'')), [s])
      | Some (File data m) \<Rightarrow>
          if data = [] then (Inl (Errorf (op @ '': '' @ src @ '' is empty'')), [s])
          else (case ensureCanWriteDestination (bk_lstat io) dest force op s of
            Some e \<Rightarrow> (Inl e, [s])
          | None \<Rightarrow> (case MkdirAll (bk_mkdir io) (Dir dest) [s] of
              (Some e, h) \<Rightarrow> (Inl (Wrap (op @ '': create destination directory'') e), h)
            | (None, h) \<Rightarrow> (case bk_open io of
                Some e \<Rightarrow> (Inl (Wrap (op @ '': open '' @ src) e), h)
              | None \<Rightarrow> (case bk_create io of
                  Some e \<Rightarrow> (Inl (Wrap (op @ '': create temporary file'') e), h)
                | None \<Rightarrow> (case first_free 10000 (\<lambda>n. temp_name dest (bk_name io n)) (hd h) of
                    None \<Rightarrow> (Inl (Wrap (op @ '': create temporary file'') (Errorf ''file exists'')), h)
                  | Some tmp \<Rightarrow> fill_temp io src dest op tmp data (change (\<lambda>s. s(tmp \<mapsto> File [] 384)) h))))))))"

section \<open>coggo backup identity\<close>

definition exportIdentityBackup :: "backup_io \<Rightarrow> string \<Rightarrow> string \<Rightarrow> bool \<Rightarrow> fs \<Rightarrow> identityExportResult result \<times> history" where
  "exportIdentityBackup io dataDir dest force s =
     (if dest = [] then (Inl (Errorf ''backup identity export: destination path required''), [s])
      else copyIdentityFile io (Join [dataDir, ''peers.json'']) dest force ''backup identity export'' s)"

definition importIdentityBackup :: "backup_io \<Rightarrow> string \<Rightarrow> string \<Rightarrow> bool \<Rightarrow> fs \<Rightarrow> identityExportResult result \<times> history" where
  "importIdentityBackup io dataDir src force s =
     (if src = [] then (Inl (Errorf ''backup identity import: source path required''), [s])
      else copyIdentityFile io src (Join [dataDir, ''peers.json'']) force ''backup identity import'' s)"

definition actionBackupIdentityExport :: "backup_io \<Rightarrow> string option \<Rightarrow> config result \<Rightarrow> bool \<Rightarrow> string \<Rightarrow> fs
    \<Rightarrow> (error + string) \<times> history" where
  "actionBackupIdentityExport io home cfg force dest s =
     (if dest = [] then (Inl (Errorf ''backup identity export: destination path required''), [s])
      else (case cfg of
        Inl e \<Rightarrow> (Inl e, [s])
      | Inr c \<Rightarrow> (case exportIdentityBackup io (DataDir home c) (ExpandPath home dest) force s of
          (Inl e, h) \<Rightarrow> (Inl e, h)
        | (Inr r, h) \<Rightarrow> (Inr (''Exported Coggo identities to '' @ ex_destination r @ newline @ ''Source: '' @ ex_source r @ newline
            @ ''Bytes:  '' @ show_nat (ex_bytes r) @ newline
            @ ''Keep this file encrypted or in a password manager; it contains peer private keys.'' @ newline), h))))"

definition actionBackupIdentityImport :: "backup_io \<Rightarrow> string option \<Rightarrow> config result \<Rightarrow> bool \<Rightarrow> string \<Rightarrow> fs
    \<Rightarrow> (error + string) \<times> history" where
  "actionBackupIdentityImport io home cfg force src s =
     (if src = [] then (Inl (Errorf ''backup identity import: source path required''), [s])
      else (case cfg of
        Inl e \<Rightarrow> (Inl e, [s])
      | Inr c \<Rightarrow> (case importIdentityBackup io (DataDir home c) (ExpandPath home src) force s of
          (Inl e, h) \<Rightarrow> (Inl e, h)
        | (Inr r, h) \<Rightarrow> (Inr (''Imported Coggo identities from '' @ ex_source r @ newline @ ''Destination: '' @ ex_destination r @ newline
            @ ''Bytes:       '' @ show_nat (ex_bytes r) @ newline
            @ ''Restart any running coggo processes so they reload the peer registry.'' @ newline), h))))"

end
