(* ===== verification/Backup_Props.thy ===== *)
theory Backup_Props
  imports Backup
begin

text \<open>
  Properties of the backup of identities: at every moment, whatever fails, the destination is what it
  was or the complete copy, and an import gives back what was exported.
\<close>

section \<open>States of a copy\<close>

text \<open>A file system with some of the directories \<open>ds\<close> added.\<close>

definition extends :: "string list \<Rightarrow> fs \<Rightarrow> fs \<Rightarrow> bool" where
  "extends ds s s' \<longleftrightarrow> (\<forall>p. s' p = s p \<or> (p \<in> set ds \<and> s p = None \<and> s' p = Some Folder))"

lemma extends_refl: "extends ds s s"
  by (simp add: extends_def)

lemma make_dirs_extends:
  assumes "make_dirs ds h = (e, h')" and "h \<noteq> []"
  shows "h' \<noteq> [] \<and> extends ds (hd h) (hd h') \<and> (\<forall>s' \<in> set h'. s' \<in> set h \<or> extends ds (hd h) s')"
  using assms
proof (induction ds arbitrary: h)
  case (Cons d ds)
  show ?case
  proof (cases "hd h d")
    case None
    let ?h = "change (\<lambda>s. s(d \<mapsto> Folder)) h"
    have "make_dirs ds ?h = (e, h')" using Cons.prems None by simp
    then have "h' \<noteq> [] \<and> extends ds (hd ?h) (hd h') \<and> (\<forall>s' \<in> set h'. s' \<in> set ?h \<or> extends ds (hd ?h) s')"
      by (rule Cons.IH) (simp add: change_def)
    moreover have "extends ds (hd ?h) s' \<Longrightarrow> extends (d # ds) (hd h) s'" for s'
      using None unfolding extends_def change_def by (auto split: if_splits)
    moreover have "extends (d # ds) (hd h) (hd ?h)" using None by (simp add: extends_def change_def)
    ultimately show ?thesis by (auto simp: change_def)
  next
    case (Some x)
    have "extends ds (hd h) s' \<Longrightarrow> extends (d # ds) (hd h) s'" for s' by (auto simp: extends_def)
    then show ?thesis using Cons Some by (cases x) (auto simp: extends_refl)
  qed
qed (simp add: extends_refl)

lemma MkdirAll_extends:
  assumes "MkdirAll io d [s] = (e, h)"
  shows "h \<noteq> [] \<and> extends (parents d) s (hd h) \<and> (\<forall>s' \<in> set h. extends (parents d) s s')"
  using assms make_dirs_extends [of "parents d" "[s]" e h] extends_refl
  by (auto simp: MkdirAll_def split: option.splits if_splits)

lemma first_free_free: "first_free n name s = Some x \<Longrightarrow> s x = None \<and> (\<exists>k. x = name k)"
  by (induction n arbitrary: name) (auto split: if_splits)

text \<open>From the creation of the temporary file on, only it and the destination change.\<close>

definition copying :: "string \<Rightarrow> string \<Rightarrow> string \<Rightarrow> fs \<Rightarrow> fs \<Rightarrow> bool" where
  "copying tmp dest data s s' \<longleftrightarrow> (\<forall>p. p \<noteq> tmp \<longrightarrow> s' p = s p \<or> (p = dest \<and> s' p = Some (File data 384)))"

lemma fill_temp_states:
  assumes "fill_temp io src dest op tmp data (change (\<lambda>s. s(tmp \<mapsto> File [] 384)) h) = (r, h')" and "tmp \<noteq> dest" and "h \<noteq> []"
  shows "(\<forall>s' \<in> set h'. s' \<in> set h \<or> copying tmp dest data (hd h) s')
    \<and> (case r of
        Inr x \<Rightarrow> x = \<lparr>ex_source = src, ex_destination = dest, ex_bytes = length data\<rparr> \<and> hd h' = ((hd h)(dest \<mapsto> File data 384))(tmp := None)
      | Inl e \<Rightarrow> (\<forall>p. p \<noteq> tmp \<longrightarrow> hd h' p = hd h p) \<and> (bk_remove io = None \<longrightarrow> hd h' tmp = None))"
  using assms
  by (auto simp: fill_temp_def Let_def cleanup_def copy_bytes_def chmod_private_def move_def change_def copying_def
      split: option.splits if_splits)

text \<open>What a copy leaves: every file there was, the destination apart, and nothing new but directories.\<close>

definition paths_apart :: "backup_io \<Rightarrow> string \<Rightarrow> bool" where
  "paths_apart io dest \<longleftrightarrow> dest \<notin> set (parents (Dir dest)) \<and> (\<forall>n. temp_name dest (bk_name io n) \<noteq> dest)"

definition copy_state :: "string \<Rightarrow> string \<Rightarrow> fs \<Rightarrow> fs \<Rightarrow> bool" where
  "copy_state src dest s s' \<longleftrightarrow>
     (s' dest = s dest \<or> (\<exists>data m. s src = Some (File data m) \<and> s' dest = Some (File data 384)))
     \<and> (\<forall>p. p \<noteq> dest \<and> s p \<noteq> None \<longrightarrow> s' p = s p)"

lemma extends_copy_state:
  assumes "extends (parents (Dir dest)) s s'" and "paths_apart io dest"
  shows "copy_state src dest s s'" and "s' dest = s dest"
  using assms unfolding extends_def copy_state_def paths_apart_def by (metis option.distinct(1))+

lemma copy_states:
  assumes "copyIdentityFile io src dest force op s = (r, h)" and "paths_apart io dest"
  shows "(\<forall>s' \<in> set h. copy_state src dest s s')
    \<and> (case r of
        Inr x \<Rightarrow> (\<exists>data m. s src = Some (File data m) \<and> data \<noteq> [] \<and> hd h dest = Some (File data 384) \<and> ex_bytes x = length data)
      | Inl e \<Rightarrow> hd h dest = s dest \<and> (bk_remove io = None \<longrightarrow> extends (parents (Dir dest)) s (hd h)))"
proof -
  have self: "copy_state src dest s s" by (simp add: copy_state_def)
  consider (early) e where "r = Inl e" "h = [s]"
    | (dirs) e err where "MkdirAll (bk_mkdir io) (Dir dest) [s] = (e, h)" "r = Inl err"
    | (filled) data m h0 tmp where "s src = Some (File data m)" "data \<noteq> []" "MkdirAll (bk_mkdir io) (Dir dest) [s] = (None, h0)"
        "first_free 10000 (\<lambda>n. temp_name dest (bk_name io n)) (hd h0) = Some tmp"
        "fill_temp io src dest op tmp data (change (\<lambda>s. s(tmp \<mapsto> File [] 384)) h0) = (r, h)"
    using assms(1) unfolding copyIdentityFile_def
    by (simp del: first_free.simps split: option.splits node.splits if_splits prod.splits) blast+
  then show ?thesis
  proof cases
    case early
    then show ?thesis using self extends_refl by simp
  next
    case dirs
    then show ?thesis using MkdirAll_extends [OF dirs(1)] extends_copy_state [OF _ assms(2)] by auto
  next
    case filled
    note h0 = MkdirAll_extends [OF filled(3)] and tmp = first_free_free [OF filled(4)]
    have "tmp \<noteq> dest" using tmp assms(2) by (auto simp: paths_apart_def)
    note run = fill_temp_states [OF filled(5) this] 
    have "extends (parents (Dir dest)) s (hd h0)" using h0 by blast
    note ext = this [unfolded extends_def]
    have new: "s tmp = None" using tmp spec [OF ext, of tmp] by auto
    have same: "hd h0 p = s p" if "s p \<noteq> None \<or> p = dest" for p
      using that spec [OF ext, of p] assms(2) by (auto simp: paths_apart_def)
    have copying: "copy_state src dest s s'" if "copying tmp dest data (hd h0) s'" for s'
      using that same filled(1) new \<open>tmp \<noteq> dest\<close> unfolding copying_def copy_state_def by metis
    have "\<forall>s' \<in> set h. copy_state src dest s s'"
      using run h0 copying extends_copy_state(1) [OF _ assms(2)] by blast
    moreover have "extends (parents (Dir dest)) s (hd h)"
      if "\<forall>p. p \<noteq> tmp \<longrightarrow> hd h p = hd h0 p" "hd h tmp = None"
      using that ext new unfolding extends_def by metis
    moreover have "hd h0 dest = s dest" using extends_copy_state(2) [OF _ assms(2)] h0 by blast
    ultimately show ?thesis using run h0 filled(1,2) \<open>tmp \<noteq> dest\<close> by (auto split: sum.splits)
  qed
qed

section \<open>What a backup promises\<close>

text \<open>C6: At every moment of a copy of peers.json, so also after a crash, the destination is what
  it was or the complete copy with mode 0600, and every other file there was is untouched. An error means
  that the destination is as before and, unless the removal itself fails, that at most directories are new.\<close>

theorem backup_atomic:
  assumes "copyIdentityFile io src dest force op s = (r, h)" and "paths_apart io dest"
  shows "(\<forall>s' \<in> set h. s' dest = s dest \<or> (\<exists>data m. s src = Some (File data m) \<and> s' dest = Some (File data 384)))
    \<and> (\<forall>s' \<in> set h. \<forall>p. p \<noteq> dest \<and> s p \<noteq> None \<longrightarrow> s' p = s p)
    \<and> (case r of
        Inr x \<Rightarrow> (\<exists>data m. s src = Some (File data m) \<and> data \<noteq> [] \<and> hd h dest = Some (File data 384) \<and> ex_bytes x = length data)
      | Inl e \<Rightarrow> hd h dest = s dest \<and> (bk_remove io = None \<longrightarrow> extends (parents (Dir dest)) s (hd h)))"
  using copy_states [OF assms] unfolding copy_state_def by blast

text \<open>A destination that exists is not replaced without force.\<close>

lemma no_force_no_change:
  "s dest = Some (File c m) \<Longrightarrow> \<exists>e. copyIdentityFile io src dest False op s = (Inl e, [s])"
  by (auto simp: copyIdentityFile_def ensureCanWriteDestination_def split: option.split node.split)

text \<open>C24: Identities that were exported and then imported, on this or another machine, are those that
  were exported, byte for byte; the import refuses to replace a peers.json that is there unless it is forced
  to.\<close>

theorem backup_restores:
  assumes "exportIdentityBackup io dataDir dest force s = (Inr x, h)" and "paths_apart io dest"
    and "importIdentityBackup io' dataDir' src force' s' = (r, h')" and "paths_apart io' (Join [dataDir', ''peers.json''])"
    and "s' src = hd h dest"
  shows "(case r of
        Inr y \<Rightarrow> \<exists>data m. s (Join [dataDir, ''peers.json'']) = Some (File data m)
          \<and> hd h' (Join [dataDir', ''peers.json'']) = Some (File data 384) \<and> ex_bytes y = ex_bytes x
      | Inl e \<Rightarrow> hd h' (Join [dataDir', ''peers.json'']) = s' (Join [dataDir', ''peers.json'']))
    \<and> (\<not> force' \<and> (\<exists>c m. s' (Join [dataDir', ''peers.json'']) = Some (File c m)) \<longrightarrow> (\<exists>e. r = Inl e))"
proof -
  have out: "copyIdentityFile io (Join [dataDir, ''peers.json'']) dest force ''backup identity export'' s = (Inr x, h)"
    using assms(1) by (auto simp: exportIdentityBackup_def split: if_splits)
  show ?thesis
  proof (cases "src = []")
    case True
    then show ?thesis using assms(3) by (auto simp: importIdentityBackup_def)
  next
    case False
    then have back_in: "copyIdentityFile io' src (Join [dataDir', ''peers.json'']) force' ''backup identity import'' s' = (r, h')"
      using assms(3) by (simp add: importIdentityBackup_def)
    obtain data m where data: "s (Join [dataDir, ''peers.json'']) = Some (File data m)" "hd h dest = Some (File data 384)"
      "ex_bytes x = length data" using copy_states [OF out assms(2)] by auto
    have refused: "\<not> force' \<Longrightarrow> s' (Join [dataDir', ''peers.json'']) = Some (File c n) \<Longrightarrow> \<exists>e. r = Inl e" for c n
      using no_force_no_change [of s' "Join [dataDir', ''peers.json'']" c n io' src "''backup identity import''"] back_in by auto
    show ?thesis
      using copy_states [OF back_in assms(4)] data assms(5) refused by (auto split: sum.splits)
  qed
qed

section \<open>A concrete backup\<close>

definition calm_io :: backup_io where
  "calm_io = \<lparr>bk_stat = None, bk_lstat = None, bk_mkdir = None, bk_open = None, bk_create = None, bk_name = \<lambda>n. ''1'',
     bk_chmod = None, bk_copy = None, bk_sync = None, bk_close = None, bk_chmod_again = None, bk_rename = None, bk_remove = None\<rparr>"

definition sample_fs :: fs where
  "sample_fs = [''/d'' \<mapsto> Folder, ''/d/peers.json'' \<mapsto> File ''[]'' 384]"

lemma sample_paths:
  "Join [''/d'', ''peers.json''] = ''/d/peers.json''" "Dir ''/b/p.json'' = ''/b''" "Dir ''/d/peers.json'' = ''/d''"
  "temp_name ''/b/p.json'' ''1'' = ''/b/.p.json.1.tmp''" "temp_name ''/d/peers.json'' ''1'' = ''/d/.peers.json.1.tmp''"
  "parents ''/b'' = [''/b'']" "parents ''/d'' = [''/d'']"
  by code_simp+

lemma sample_apart: "paths_apart calm_io ''/b/p.json''" "paths_apart calm_io ''/d/peers.json''"
  unfolding paths_apart_def sample_paths by (simp_all add: calm_io_def sample_paths)

lemma first_free_first: "s (name 0) = None \<Longrightarrow> first_free (Suc n) name s = Some (name 0)"
  by simp

lemma sample_copy:
  "\<exists>x h. copyIdentityFile calm_io ''/d/peers.json'' ''/b/p.json'' False ''backup identity export'' sample_fs = (Inr x, h)"
proof -
  have free: "first_free 10000 (\<lambda>n. temp_name ''/b/p.json'' (bk_name calm_io n)) (sample_fs(''/b'' \<mapsto> Folder)) = Some ''/b/.p.json.1.tmp''"
    using first_free_first [of "sample_fs(''/b'' \<mapsto> Folder)" "\<lambda>n. temp_name ''/b/p.json'' (bk_name calm_io n)" 9999]
    by (simp add: calm_io_def sample_paths sample_fs_def del: first_free.simps)
  have dirs: "MkdirAll None ''/b'' [sample_fs] = (None, [sample_fs(''/b'' \<mapsto> Folder), sample_fs])"
    by (simp add: MkdirAll_def sample_paths sample_fs_def change_def)
  have there: "sample_fs ''/d/peers.json'' = Some (File ''[]'' 384)" "sample_fs ''/b/p.json'' = None" by (simp_all add: sample_fs_def)
  show ?thesis
    using free dirs there
    by (simp add: copyIdentityFile_def calm_io_def ensureCanWriteDestination_def fill_temp_def Let_def sample_paths del: first_free.simps)
qed

lemma backup_atomic_witness:
  "\<exists>x h. copyIdentityFile calm_io ''/d/peers.json'' ''/b/p.json'' False ''backup identity export'' sample_fs = (Inr x, h)
     \<and> hd h ''/b/p.json'' = Some (File ''[]'' 384) \<and> ex_bytes x = 2"
proof -
  obtain x h where run: "copyIdentityFile calm_io ''/d/peers.json'' ''/b/p.json'' False ''backup identity export'' sample_fs = (Inr x, h)"
    using sample_copy by blast
  from backup_atomic [OF run sample_apart(1)] run show ?thesis by (auto simp: sample_fs_def)
qed

lemma backup_restores_witness:
  "\<exists>e. fst (importIdentityBackup calm_io ''/d'' ''/b/p.json'' False (sample_fs(''/b/p.json'' \<mapsto> File ''[]'' 384))) = Inl e"
proof -
  obtain x h where run: "copyIdentityFile calm_io ''/d/peers.json'' ''/b/p.json'' False ''backup identity export'' sample_fs = (Inr x, h)"
    using sample_copy by blast
  then have out: "exportIdentityBackup calm_io ''/d'' ''/b/p.json'' False sample_fs = (Inr x, h)"
    by (simp add: exportIdentityBackup_def sample_paths)
  let ?s = "sample_fs(''/b/p.json'' \<mapsto> File ''[]'' 384)"
  have src: "?s ''/b/p.json'' = hd h ''/b/p.json''"
    using copy_states [OF run sample_apart(1)] by (auto simp: sample_fs_def)
  have "paths_apart calm_io (Join [''/d'', ''peers.json''])" using sample_apart(2) by (simp add: sample_paths)
  from backup_restores [where s = sample_fs and s' = ?s and src = "''/b/p.json''" and force' = False,
      OF out sample_apart(1) prod.collapse [symmetric] this src] show ?thesis
    by (simp add: sample_paths) (simp add: sample_fs_def)
qed

end
