(* ===== verification/App.thy ===== *)
theory App
  imports Backup Mcp
begin

text \<open>
  internal/cli/app.go, the command tree of every file of internal/cli, serve.go with the start of the
  MCP server, internal/embed and cmd/coggo/main.go. A command of the tree carries its action, and
  \<open>perform\<close> maps the actions that work on a runtime to their models. How urfave/cli parses the command
  line is not modelled: an \<open>invocation\<close> is what it hands to an action.
\<close>

section \<open>Actions\<close>

datatype runtime_action =
    TypeList | TypeAdd | TypeShow | PeerAdd | PeerList | PeerInfo | PeerRename | TokenCreate | TokenList | TokenRevoke
  | EntityNew | EntityList | EntityShow | EntityUpdate | AliasNew string string | RelationNew | Init | Today

datatype cli_action = OnRuntime runtime_action | Serve | ReportStatus | IdentityExport | IdentityImport | Think | PrintVersion

record invocation =
  iv_args :: "string list"
  iv_flag :: "string \<Rightarrow> string"
  iv_bool :: "string \<Rightarrow> bool"
  iv_slice :: "string \<Rightarrow> string list"
  iv_root :: "string \<Rightarrow> string"

definition first_arg :: "invocation \<Rightarrow> string" where
  "first_arg iv = (case iv_args iv of [] \<Rightarrow> [] | x # xs \<Rightarrow> x)"

text \<open>\<open>now\<close> is the time of the briefing; \<open>we\<close> are the failures of writing the configuration.\<close>

definition perform :: "cli_env \<Rightarrow> system \<Rightarrow> write_errors \<Rightarrow> time \<Rightarrow> invocation \<Rightarrow> runtime_action \<Rightarrow> config \<Rightarrow> unit command" where
  "perform ce sy we now iv a cfg = (let lf = iv_flag iv ''peer''; rf = iv_root iv ''peer'' in case a of
      TypeList \<Rightarrow> actionTypeList ce lf
    | TypeAdd \<Rightarrow> actionTypeAdd ce rf
    | TypeShow \<Rightarrow> actionTypeShow ce lf rf (iv_bool iv ''relationship'') (first_arg iv)
    | PeerAdd \<Rightarrow> actionPeerAdd ce (first_arg iv)
    | PeerList \<Rightarrow> actionPeerList ce
    | PeerInfo \<Rightarrow> actionPeerInfo ce (first_arg iv)
    | PeerRename \<Rightarrow> actionPeerRename ce (iv_args iv)
    | TokenCreate \<Rightarrow> actionTokenCreate ce (iv_bool iv ''all'') (iv_slice iv ''peer'') (iv_flag iv ''label'')
    | TokenList \<Rightarrow> actionTokenList
    | TokenRevoke \<Rightarrow> actionTokenRevoke ce (first_arg iv)
    | EntityNew \<Rightarrow> actionEntityNew ce lf rf (first_arg iv)
    | EntityList \<Rightarrow> actionEntityList ce lf rf (first_arg iv)
    | EntityShow \<Rightarrow> actionEntityShow ce lf rf (first_arg iv)
    | EntityUpdate \<Rightarrow> actionEntityUpdate ce lf rf (first_arg iv)
    | AliasNew ty dflt \<Rightarrow> aliasCmd ty dflt ce lf rf
    | RelationNew \<Rightarrow> actionRelationNew ce lf rf
    | Init \<Rightarrow> actionInit ce (sy_toml sy) we (configPath sy (iv_root iv ''config'')) cfg
    | Today \<Rightarrow> actionToday ce lf now)"

section \<open>The command tree\<close>

datatype cli_flag =
    StringFlag (flag_name: string) (flag_usage: string)
  | EnvFlag (flag_name: string) (flag_usage: string) string string
  | BoolFlag (flag_name: string) (flag_usage: string)
  | StringSliceFlag (flag_name: string) (flag_usage: string)

datatype cli_command = Command (cmd_name: string) (cmd_usage: string) (cmd_args: string) (cmd_flags: "cli_flag list")
  (cmd_action: "cli_action option") (cmd_subs: "cli_command list")

definition cmdType :: cli_command where
  "cmdType = Command ''type'' ''Manage entity and relationship type definitions'' [] [] None
     [Command ''list'' ''List types (optionally filtered by --peer)'' [] [StringFlag ''peer'' ''Limit to one peer'']
        (Some (OnRuntime TypeList)) [],
      Command ''add'' ''Define a new type interactively'' [] [] (Some (OnRuntime TypeAdd)) [],
      Command ''show'' ''Describe a type'' ''<name>''
        [StringFlag ''peer'' ''Peer the type belongs to'', BoolFlag ''relationship'' ''Look up a relationship type'']
        (Some (OnRuntime TypeShow)) []]"

definition cmdPeer :: cli_command where
  "cmdPeer = Command ''peer'' ''Manage peers (identities hosted by this binary)'' [] [] None
     [Command ''add'' ''Add a new peer'' ''<name>'' [] (Some (OnRuntime PeerAdd)) [],
      Command ''list'' ''List all peers'' [] [] (Some (OnRuntime PeerList)) [],
      Command ''info'' ''Show details about a peer'' ''<name>'' [] (Some (OnRuntime PeerInfo)) [],
      Command ''rename'' ''Rename a peer'' ''<old> <new>'' [] (Some (OnRuntime PeerRename)) []]"

definition cmdToken :: cli_command where
  "cmdToken = Command ''token'' ''Manage bearer tokens for MCP clients'' [] [] None
     [Command ''create'' ''Issue a new bearer token (peer-scoped or all-peers)'' []
        [StringSliceFlag ''peer'' ''Peer name to authorize (repeatable)'',
         BoolFlag ''all'' ''Authorize all peers (wildcard); supersedes --peer'',
         StringFlag ''label'' ''Human-readable label''] (Some (OnRuntime TokenCreate)) [],
      Command ''list'' ''List active tokens'' [] [] (Some (OnRuntime TokenList)) [],
      Command ''revoke'' ''Revoke a token by id'' ''<id>'' [] (Some (OnRuntime TokenRevoke)) []]"

definition cmdRelation :: cli_command where
  "cmdRelation = Command ''relation'' ''Manage entity relationships'' [] [] None
     [Command ''new'' ''Create a relationship interactively'' []
        [StringFlag ''peer'' ''Peer to create the relation in''] (Some (OnRuntime RelationNew)) []]"

definition cmdInit :: cli_command where
  "cmdInit = Command ''init'' ''First-run interactive setup'' [] [] (Some (OnRuntime Init)) []"

definition cmdToday :: cli_command where
  "cmdToday = Command ''today'' ''Print the daily briefing across all peers'' []
     [StringFlag ''peer'' ''Limit briefing to one peer''] (Some (OnRuntime Today)) []"

definition cmdThink :: cli_command where
  "cmdThink = Command ''think'' ''STUB: reasoning is a v0.2 feature'' ''<query>'' [] (Some Think) []"

definition cmdStatus :: cli_command where
  "cmdStatus = Command ''status'' ''Show server health and local resource checks'' [] [] (Some ReportStatus) []"

definition cmdServe :: cli_command where
  "cmdServe = Command ''serve'' ''Start the MCP server (default action)'' [] [] (Some Serve) []"

definition cmdVersion :: cli_command where
  "cmdVersion = Command ''version'' ''Print version'' [] [] (Some PrintVersion) []"

definition cmdBackup :: cli_command where
  "cmdBackup = Command ''backup'' ''Backup Coggo data and identity material'' [] [] None
     [Command ''identity'' ''Backup hosted peer identities'' [] [] None
        [Command ''export'' ''Export hosted peer identities to a private peers.json backup'' ''<path>''
           [BoolFlag ''force'' ''Overwrite an existing destination file''] (Some IdentityExport) [],
         Command ''import'' ''Import hosted peer identities from a peers.json backup'' ''<path>''
           [BoolFlag ''force'' ''Overwrite an existing local peers.json''] (Some IdentityImport) []]]"

definition alias_command :: "string \<Rightarrow> string \<Rightarrow> string \<Rightarrow> cli_command" where
  "alias_command name typeName defaultPeer =
     Command name (''Convenience alias for `coggo entity new '' @ typeName @ ''`'') [] [] None
       [Command ''new'' (''Create a new '' @ typeName @ '' entity (defaults to peer '' @ quote_go defaultPeer @ '')'') []
          [StringFlag ''peer'' ''Override the default peer''] (Some (OnRuntime (AliasNew typeName defaultPeer))) []]"

definition cmdEntity :: cli_command where
  "cmdEntity = Command ''entity'' ''Create, list, view, and update entities'' [] [] None
     [Command ''new'' ''Create an entity interactively'' ''<type>'' [StringFlag ''peer'' ''Peer to create the entity in'']
        (Some (OnRuntime EntityNew)) [],
      Command ''list'' ''List entities of a type'' ''<type>'' [StringFlag ''peer'' ''Peer to list from'']
        (Some (OnRuntime EntityList)) [],
      Command ''show'' ''Show one entity'' ''<id>'' [StringFlag ''peer'' ''Peer the entity belongs to'']
        (Some (OnRuntime EntityShow)) [],
      Command ''update'' ''Update an entity interactively'' ''<id>'' [StringFlag ''peer'' ''Peer the entity belongs to'']
        (Some (OnRuntime EntityUpdate)) []]"

definition cmdAliasDecision :: cli_command where
  "cmdAliasDecision = alias_command ''decision'' ''Decision'' ''business''"

definition cmdAliasGoal :: cli_command where
  "cmdAliasGoal = alias_command ''goal'' ''Goal'' ''personal''"

definition cmdAliasObservation :: cli_command where
  "cmdAliasObservation = alias_command ''observation'' ''Observation'' ''personal''"

definition cmdAliasProject :: cli_command where
  "cmdAliasProject = alias_command ''project'' ''Project'' ''business''"

definition cmdAliasDomain :: cli_command where
  "cmdAliasDomain = alias_command ''domain'' ''Domain'' ''personal''"

text \<open>The root: its own action is to serve, or to refuse an unknown command. An \<open>EnvFlag\<close> also has the
  variable it is read from and its default.\<close>

definition App :: "system \<Rightarrow> cli_command" where
  "App sy = Command ''coggo'' ''Personal multi-peer knowledge substrate'' []
     [EnvFlag ''config'' ''Path to coggo config TOML'' ''COGGO_CONFIG'' (DefaultPath (sy_xdg sy) (sy_home sy)),
      StringFlag ''peer'' ''Default peer for ambiguous commands'',
      EnvFlag ''log-level'' ''debug | info | warn | error (overrides config)'' ''COGGO_LOG_LEVEL'' []]
     (Some Serve)
     [cmdInit, cmdServe, cmdStatus, cmdToday, cmdPeer, cmdType, cmdEntity, cmdRelation, cmdToken, cmdBackup, cmdThink,
      cmdAliasDecision, cmdAliasGoal, cmdAliasObservation, cmdAliasProject, cmdAliasDomain, cmdVersion]"

definition Version :: string where
  "Version = ''0.1.0-dev''"

definition printVersion :: string where
  "printVersion = ''coggo '' @ Version @ newline"

text \<open>How the process ends: what the application returned decides the exit code.\<close>

datatype app_end = Done | ExitWith error nat | FailedWith error

definition main_exit :: "app_end \<Rightarrow> nat" where
  "main_exit r = (case r of Done \<Rightarrow> 0 | ExitWith e n \<Rightarrow> n | FailedWith e \<Rightarrow> 1)"

section \<open>Logging\<close>

datatype log_level = Debug | Info | Warn | Error

definition beforeApp :: "config result \<Rightarrow> string \<Rightarrow> log_level result" where
  "beforeApp cfg chosen = and_then cfg (\<lambda>c.
     let configured = to_lower (if chosen \<noteq> [] then chosen else cf_log_level c) in
     Inr (if configured = ''debug'' then Debug else if configured = ''warn'' then Warn
          else if configured = ''error'' then Error else Info))"

section \<open>Serving\<close>

text \<open>How the listener ends: the context is done, or the listener stops with an error or by being closed.\<close>

datatype context_error = Canceled | DeadlineExceeded

datatype listener_end = ContextDone context_error | ListenerFailed error | ServerClosed

datatype start_error = ContextErr context_error | StartErr error

definition Start :: "listener_end \<Rightarrow> start_error option" where
  "Start l = (case l of
      ContextDone c \<Rightarrow> Some (ContextErr c)
    | ListenerFailed e \<Rightarrow> Some (StartErr (Wrap ''mcp: http listen'' e))
    | ServerClosed \<Rightarrow> None)"

definition Shutdown :: "error option option \<Rightarrow> error option" where
  "Shutdown srv = (case srv of
      None \<Rightarrow> None
    | Some None \<Rightarrow> None
    | Some (Some e) \<Rightarrow> Some (Wrap ''mcp: shutdown'' e))"

text \<open>The action of \<^verbatim>\<open>coggo serve\<close> after \<open>Setup\<close>: the end of the context is no failure.\<close>

definition actionServe :: "cli_env \<Rightarrow> system \<Rightarrow> launch \<Rightarrow> (config \<Rightarrow> mcp_server \<Rightarrow> listener_end) \<Rightarrow> error option" where
  "actionServe ce sy la run = (case start ce sy la of
      Inl e \<Rightarrow> Some e
    | Inr (cfg, s) \<Rightarrow> (case Start (run cfg \<lparr>sv_router = Some (rt_router (ss_rt s)), sv_registry = Some (rt_registry (ss_rt s)),
          sv_auth = Some (rt_auth (ss_rt s))\<rparr>) of
        Some (StartErr e) \<Rightarrow> Some e
      | Some (ContextErr c) \<Rightarrow> None
      | None \<Rightarrow> None))"

text \<open>The action of \<^verbatim>\<open>coggo\<close> itself.\<close>

definition actionRoot :: "cli_env \<Rightarrow> system \<Rightarrow> launch \<Rightarrow> (config \<Rightarrow> mcp_server \<Rightarrow> listener_end) \<Rightarrow> string list \<Rightarrow> app_end" where
  "actionRoot ce sy la run args = (case args of
      x # xs \<Rightarrow> ExitWith (Errorf (''Error: unknown command '' @ quote_go x @ newline
        @ ''Run `coggo --help` to see available commands.'')) 2
    | [] \<Rightarrow> (case actionServe ce sy la run of None \<Rightarrow> Done | Some e \<Rightarrow> FailedWith e))"

section \<open>Embedding\<close>

text \<open>Only the disabled embedder exists; every provider gives it.\<close>

record embedder =
  em_embed :: "string \<Rightarrow> rat list result"
  em_dimension :: int
  em_name :: string
  em_enabled :: bool

definition Disabled :: embedder where
  "Disabled = \<lparr>em_embed = \<lambda>t. Inl (Errorf ''embedding provider is disabled; configure one in coggo config''),
     em_dimension = 0, em_name = ''none'', em_enabled = False\<rparr>"

definition new_embedder :: "string \<Rightarrow> string \<Rightarrow> string \<Rightarrow> int \<Rightarrow> embedder" where
  "new_embedder provider model apiKey n = Disabled"

end
