(* ===== verification/Cli_Props.thy ===== *)
theory Cli_Props
  imports Cli_Init Runtime_Props
begin

text \<open>
  Properties of the commands: that they return, what they accept from the terminal, and what they do
  to the registry and the tokens. A command that keeps a relation between the runtimes before and
  after it is put together from parts that keep it; the locale \<open>session_relation\<close> states this once for
  every such relation.
\<close>

section \<open>Commands that keep a relation\<close>

definition keeps :: "(runtime \<Rightarrow> runtime \<Rightarrow> bool) \<Rightarrow> 'a command \<Rightarrow> bool" where
  "keeps R m \<longleftrightarrow> (\<forall>s. R (ss_rt s) (ss_rt (snd (m s))))"

lemma keepsD: "keeps R m \<Longrightarrow> m s = (r, s') \<Longrightarrow> R (ss_rt s) (ss_rt s')"
  unfolding keeps_def by (metis snd_conv)

locale session_relation =
  fixes R :: "runtime \<Rightarrow> runtime \<Rightarrow> bool"
  assumes refl: "R rt rt"
    and trans: "R rt rt' \<Longrightarrow> R rt' rt'' \<Longrightarrow> R rt rt''"
begin

lemma keeps_same: "(\<And>s. ss_rt (snd (m s)) = ss_rt s) \<Longrightarrow> keeps R m"
  by (simp add: keeps_def refl)

lemma keeps_and_next: "keeps R m \<Longrightarrow> (\<And>x. keeps R (f x)) \<Longrightarrow> keeps R (and_next m f)"
  unfolding keeps_def and_next_def
  by (auto split: prod.split sum.split) (metis snd_conv trans)+

lemma keeps_silent:
  "keeps R (give x)" "keeps R (give_up e)" "keeps R (of_result r)" "keeps R (say t)" "keeps R (say_line t)"
  "keeps R (runtime_now f)" "keeps R (ask_line p d)" "keeps R (askYN p b)" "keeps R next_effect" "keeps R (unless_failed g err)"
  by (intro keeps_same; simp add: give_def give_up_def of_result_def say_def say_line_def runtime_now_def ask_line_def
      askYN_def next_effect_def unless_failed_def Let_def split: sum.split list.split option.split)+

lemma keeps_each: "(\<And>x. x \<in> set xs \<Longrightarrow> keeps R (f x)) \<Longrightarrow> keeps R (each xs f)"
  by (induction xs) (auto intro: keeps_silent keeps_and_next)

lemma keeps_if: "keeps R m \<Longrightarrow> keeps R m' \<Longrightarrow> keeps R (if b then m else m')"
  by simp

lemmas keeps_intros = keeps_silent keeps_and_next keeps_each keeps_if

end

text \<open>A command that reads the session and goes on.\<close>

lemma and_next_simps:
  "and_next (give x) f s = f x s" "and_next (give_up e) f s = (Inl (Exit e), s)"
  "and_next (runtime_now g) f s = f (g (ss_rt s)) s"
  by (simp_all add: and_next_def give_def give_up_def runtime_now_def)

section \<open>The registry\<close>

text \<open>What identifies a peer; a command other than a rename keeps it for every peer there is.\<close>

definition identity :: "peer \<Rightarrow> string \<times> string \<times> string \<times> string \<times> string \<times> time" where
  "identity p = (p_did p, p_name p, p_desc p, p_private p, p_public p, p_created_at p)"

definition peers_kept :: "registry \<Rightarrow> registry \<Rightarrow> bool" where
  "peers_kept reg reg' \<longleftrightarrow> (\<forall>n p. ByName reg n = Some p \<longrightarrow> (\<exists>p'. ByName reg' n = Some p' \<and> identity p' = identity p))"

lemma peers_kept_refl: "peers_kept reg reg"
  by (simp add: peers_kept_def)

lemma peers_kept_trans: "peers_kept a b \<Longrightarrow> peers_kept b c \<Longrightarrow> peers_kept a c"
  unfolding peers_kept_def by metis

definition registry_kept :: "runtime \<Rightarrow> runtime \<Rightarrow> bool" where
  "registry_kept rt rt' \<longleftrightarrow> rt_auth rt' = rt_auth rt \<and> (registry_history (rt_registry rt) \<longrightarrow>
     registry_history (rt_registry rt') \<and> peers_kept (rt_registry rt) (rt_registry rt'))"

interpretation kept: session_relation registry_kept
  by unfold_locales (auto simp: registry_kept_def peers_kept_refl intro: peers_kept_trans)

definition cli_env_ok :: "cli_env \<Rightarrow> bool" where
  "cli_env_ok ce \<longleftrightarrow> (\<forall>ks. mset (ce_order ce ks) = mset ks) \<and> (\<forall>n. time_ok (ce_clock ce n))"

lemma visits_same: "cli_env_ok ce \<Longrightarrow> rg_by_name s = rg_by_name reg \<Longrightarrow> visits (visit ce reg) s"
  by (simp add: visits_def visit_def cli_env_ok_def)

lemma index_peer_other:
  assumes "registry_ok reg" and "ByName reg n = Some q" and "mget (rg_by_name reg) (p_name p) = None"
  shows "ByName (index_peer reg p) n = Some q"
proof -
  obtain a where a: "mget (rg_by_name reg) n = Some a" "q = rg_objs reg ! a" using assms(2) by (auto simp: ByName_def)
  have "n \<noteq> p_name p" using a(1) assms(3) by auto
  then show ?thesis
    using a registry_okD(2) [OF assms(1)] registry_okD(3) [OF assms(1) a(1)]
    by (simp add: ByName_def index_peer_def Let_def gomap_simps nth_append)
qed

lemma index_peer_new: "registry_ok reg \<Longrightarrow> ByName (index_peer reg p) (p_name p) = Some p"
  using registry_okD(2) by (simp add: ByName_def index_peer_def Let_def gomap_simps nth_append)

lemma registry_history_ok: "registry_history s \<Longrightarrow> registry_ok s"
  using registry_history_inv by (simp add: registry_inv_def)

lemma Add_kept:
  assumes "registry_history reg" and "cli_env_ok ce" and "p_created_at p = 0"
    and "Add (visit ce (index_peer reg p)) io (ce_clock ce n) p reg = (e, reg')"
  shows "registry_history reg' \<and> peers_kept reg reg'"
proof (cases "mget (rg_by_name reg) (p_name p) = None \<and> mget (rg_by_did reg) (p_did p) = None")
  case True
  let ?p = "p\<lparr>p_created_at := ce_clock ce n\<rparr>"
  have reg': "reg' = snd (flush_registry (visit ce (index_peer reg p)) io (index_peer reg ?p))"
    using assms(3,4) True by (simp add: Add_def)
  have "visits (visit ce (index_peer reg p)) reg'"
    unfolding reg' by (rule visits_same [OF assms(2)]) (simp add: index_peer_def Let_def)
  moreover have "time_ok (ce_clock ce n)" "time_ok 0" using assms(2) by (simp_all add: cli_env_ok_def time_ok_def nanos_def)
  ultimately have "registry_step e reg reg'" using registry_step.add [OF assms(4)] assms(3) by simp
  then have "registry_history reg'" by (rule registry_history.step [OF assms(1)])
  moreover have "peers_kept reg reg'"
    unfolding peers_kept_def reg' using index_peer_other [OF registry_history_ok [OF assms(1)]] True by simp
  ultimately show ?thesis ..
next
  case False
  then have "reg' = reg" using assms(4) by (auto simp: Add_def split: if_splits)
  then show ?thesis using assms(1) peers_kept_refl by simp
qed

lemma identity_settings:
  "a < length xs \<Longrightarrow> identity (xs[a := (xs ! a)\<lparr>p_settings := ps\<rparr>] ! b) = identity (xs ! b)"
  by (cases "a = b") (simp_all add: identity_def)

lemma UpdateSettings_kept:
  assumes "registry_history reg" and "cli_env_ok ce" and "UpdateSettings (visit ce reg) io name ps reg = (e, reg')"
  shows "registry_history reg' \<and> peers_kept reg reg'"
proof (cases "mget (rg_by_name reg) name")
  case None
  then show ?thesis using assms(1,3) peers_kept_refl by (simp add: UpdateSettings_def)
next
  case (Some a)
  let ?r = "reg\<lparr>rg_objs := (rg_objs reg)[a := (rg_objs reg ! a)\<lparr>p_settings := ps\<rparr>]\<rparr>"
  have reg': "reg' = snd (flush_registry (visit ce reg) io ?r)" using assms(3) Some by (simp add: UpdateSettings_def)
  have "registry_step e reg reg'"
    by (intro registry_step.settings [OF assms(3)] visits_same [OF assms(2)]) (simp add: reg')
  then have "registry_history reg'" by (rule registry_history.step [OF assms(1)])
  moreover have "peers_kept reg reg'"
    unfolding reg' using registry_okD(3) [OF registry_history_ok [OF assms(1)] Some]
    by (auto simp: peers_kept_def ByName_def identity_settings)
  ultimately show ?thesis ..
qed

lemma runtime_rest_kept:
  "rt_registry (snd (AddPeerToRuntime sq vs p client rt)) = rt_registry rt"
  "rt_auth (snd (AddPeerToRuntime sq vs p client rt)) = rt_auth rt"
  by (simp_all add: AddPeerToRuntime_def Let_def split: prod.split option.split sum.split)

lemma keeps_attempt: "keeps registry_kept (attempt ce f)"
  by (auto simp: keeps_def registry_kept_def attempt_def peers_kept_refl Let_def split: prod.split called.split)

lemma keeps_create_peer:
  assumes "cli_env_ok ce"
  shows "keeps registry_kept (create_peer ce name desc client e1 e2 e3)"
proof -
  have add: "keeps registry_kept (update_registry (\<lambda>reg. Add (visit ce (index_peer reg p)) (ce_write ce n) (ce_clock ce n) p reg))"
    if "NewPeer (ce_keys ce n) name desc = Inr p" for n p
  proof -
    have "p_created_at p = 0" using that by (auto simp: NewPeer_def split: sum.splits)
    then show ?thesis
      using Add_kept [OF _ assms]
      by (auto simp: keeps_def registry_kept_def update_registry_def split: prod.split)
  qed
  have wire: "keeps registry_kept (update_runtime (AddPeerToRuntime (ce_sq ce) (ce_wire ce n) p client))" for n p
    using runtime_rest_kept peers_kept_refl
    by (auto simp: keeps_def registry_kept_def update_runtime_def split: prod.split) (metis snd_conv)+
  show ?thesis unfolding create_peer_def
    by (intro kept.keeps_and_next kept.keeps_silent; split sum.split; intro conjI allI impI kept.keeps_intros add wire)
qed

lemma keeps_update_peer: "cli_env_ok ce \<Longrightarrow> keeps registry_kept (update_peer ce ps name)"
  unfolding update_peer_def
  by (intro kept.keeps_intros)
    (use UpdateSettings_kept in \<open>auto simp: keeps_def registry_kept_def update_registry_def split: prod.split\<close>)

lemma keeps_actionInit:
  assumes "cli_env_ok ce"
  shows "keeps registry_kept (actionInit ce tm we path cfg)"
proof -
  have "keeps registry_kept (save_config ce tm we path cfg)"
    by (rule kept.keeps_same) (simp add: save_config_def say_line_def say_def split: option.split prod.split)
  moreover have "keeps registry_kept (init_peers ce)"
    unfolding init_peers_def init_peer_def by (auto intro!: kept.keeps_intros keeps_create_peer assms)
  moreover have "keeps registry_kept (store_settings ce kvs)" for kvs
    unfolding store_settings_def store_setting_def
    by (auto intro!: kept.keeps_intros keeps_attempt split: option.split prod.split)
  ultimately show ?thesis
    unfolding actionInit_def by (intro kept.keeps_intros keeps_update_peer assms) 
qed

text \<open>When the three peers of \<^verbatim>\<open>coggo init\<close> exist, it adds none.\<close>

definition initialized :: "registry \<Rightarrow> bool" where
  "initialized reg \<longleftrightarrow> (\<forall>n \<in> set (map fst init_specs). ByName reg n \<noteq> None)"

definition peers_settled :: "runtime \<Rightarrow> runtime \<Rightarrow> bool" where
  "peers_settled rt rt' \<longleftrightarrow> (initialized (rt_registry rt) \<longrightarrow> rg_by_name (rt_registry rt') = rg_by_name (rt_registry rt)
     \<and> rg_by_did (rt_registry rt') = rg_by_did (rt_registry rt))"

lemma initialized_names: "rg_by_name reg' = rg_by_name reg \<Longrightarrow> initialized reg' \<longleftrightarrow> initialized reg"
  by (simp add: initialized_def ByName_def)

interpretation settled: session_relation peers_settled
  by unfold_locales (auto simp: peers_settled_def dest: initialized_names)

lemma UpdateSettings_same:
  "UpdateSettings order io name ps reg = (e, reg') \<Longrightarrow> rg_by_name reg' = rg_by_name reg \<and> rg_by_did reg' = rg_by_did reg"
  by (cases "mget (rg_by_name reg) name") (auto simp: UpdateSettings_def flush_registry_def split: option.splits)

lemma settled_update_peer: "keeps peers_settled (update_peer ce ps name)"
  unfolding update_peer_def
  by (intro settled.keeps_intros)
    (use UpdateSettings_same in \<open>force simp: keeps_def peers_settled_def update_registry_def split: prod.split\<close>)

lemma and_next_Inr: "m s = (Inr x, s') \<Longrightarrow> and_next m f s = f x s'"
  by (simp add: and_next_def)

lemma init_peer_existing:
  "ByName (rt_registry (ss_rt s)) name \<noteq> None \<Longrightarrow> \<exists>out. init_peer ce name desc s = (Inr (), s\<lparr>ss_out := out\<rparr>)"
  by (auto simp: init_peer_def and_next_simps say_line_def say_def)

lemma settled_init_peers: "keeps peers_settled (init_peers ce)"
  unfolding keeps_def
proof
  fix s
  show "peers_settled (ss_rt s) (ss_rt (snd (init_peers ce s)))"
  proof (cases "initialized (rt_registry (ss_rt s))")
    case True
    have "\<forall>x \<in> set specs. ByName (rt_registry (ss_rt s)) (fst x) \<noteq> None \<Longrightarrow>
        ss_rt (snd (each specs (\<lambda>(name, desc). init_peer ce name desc) s)) = ss_rt s" for specs s
    proof (induction specs arbitrary: s)
      case (Cons x specs)
      obtain name desc where x: "x = (name, desc)" by (cases x)
      obtain out where "init_peer ce name desc s = (Inr (), s\<lparr>ss_out := out\<rparr>)"
        using init_peer_existing Cons.prems by (metis fst_conv list.set_intros(1) x)
      then show ?case using Cons by (simp add: x and_next_Inr)
    qed (simp add: give_def)
    then show ?thesis using True by (simp add: init_peers_def initialized_def peers_settled_def)
  qed (simp add: peers_settled_def)
qed

lemma settled_actionInit: "keeps peers_settled (actionInit ce tm we path cfg)"
proof -
  have "keeps peers_settled (save_config ce tm we path cfg)"
    by (rule settled.keeps_same) (simp add: save_config_def say_line_def say_def split: option.split prod.split)
  moreover have "keeps peers_settled (attempt ce f)" for f :: "call \<Rightarrow> host router \<Rightarrow> host \<Rightarrow> entity called \<times> host"
    by (auto simp: keeps_def peers_settled_def attempt_def Let_def split: prod.split called.split)
  then have "keeps peers_settled (store_settings ce kvs)" for kvs
    unfolding store_settings_def store_setting_def
    by (auto intro!: settled.keeps_intros split: option.split prod.split)
  ultimately show ?thesis
    unfolding actionInit_def by (intro settled.keeps_intros settled_update_peer settled_init_peers)
qed

text \<open>C30: However it ends and whatever is answered, \<^verbatim>\<open>coggo init\<close> leaves the registry
  consistent and keeps the name, DID, keys and creation time of every peer there was, and all tokens; when its three
  peers exist, it creates none.\<close>

theorem init_keeps_peers:
  assumes "actionInit ce tm we path cfg s = (r, s')" and "cli_env_ok ce" and "registry_history (rt_registry (ss_rt s))"
  shows "registry_history (rt_registry (ss_rt s')) \<and> peers_kept (rt_registry (ss_rt s)) (rt_registry (ss_rt s'))
    \<and> rt_auth (ss_rt s') = rt_auth (ss_rt s)
    \<and> (initialized (rt_registry (ss_rt s)) \<longrightarrow> mkeys (rg_by_name (rt_registry (ss_rt s'))) = mkeys (rg_by_name (rt_registry (ss_rt s))))"
  using keepsD [OF keeps_actionInit [OF assms(2)] assms(1)] keepsD [OF settled_actionInit assms(1)] assms(3)
  by (simp add: registry_kept_def peers_settled_def)

section \<open>Commands that return\<close>

definition returns :: "'a command \<Rightarrow> bool" where
  "returns m \<longleftrightarrow> (\<forall>s. fst (m s) \<noteq> Inl Hang)"

lemma returns_and_next: "returns m \<Longrightarrow> (\<And>x. returns (f x)) \<Longrightarrow> returns (and_next m f)"
  unfolding returns_def and_next_def by (auto split: prod.split sum.split) (metis fst_conv)+

lemma returns_if: "returns m \<Longrightarrow> returns m' \<Longrightarrow> returns (if b then m else m')"
  by simp

lemma returns_simple:
  "returns (give x)" "returns (give_up e)" "returns (of_result r)" "returns (say_line t)" "returns (runtime_now g)"
  "returns (ask_line p d)" "returns (askYN p b)" "returns (attempt ce f)"
  by (auto simp: returns_def give_def give_up_def of_result_def say_line_def say_def runtime_now_def ask_line_def
      askYN_def attempt_def Let_def split: sum.split list.split prod.split called.split)

lemma returns_wrapped: "returns m \<Longrightarrow> returns (wrapped p m)"
  by (auto simp: returns_def wrapped_def split: prod.split sum.split stop.split) (metis fst_conv)+

lemmas returns_intros = returns_and_next returns_if returns_simple returns_wrapped

text \<open>Every question takes at most one line, and a round of the field loop that yields a field takes at
  least the line of its name.\<close>

definition lines_left :: "session \<Rightarrow> nat" where
  "lines_left s = length (ss_in s)"

lemma ask_line_lines:
  "ask_line p d s = (r, s') \<Longrightarrow> lines_left s' \<le> lines_left s"
  "ask_line p [] s = (Inr x, s') \<Longrightarrow> x \<noteq> [] \<Longrightarrow> lines_left s' < lines_left s"
  by (auto simp: ask_line_def Let_def lines_left_def split: list.splits)

lemma askYN_lines: "askYN p b s = (r, s') \<Longrightarrow> lines_left s' \<le> lines_left s"
  by (auto simp: askYN_def Let_def lines_left_def split: list.splits)

lemma asked: "\<exists>x s'. ask_line p d s = (Inr x, s')" "\<exists>x s'. askYN p b s = (Inr x, s')"
  by (auto simp: ask_line_def askYN_def Let_def split: list.split)

lemma ask_field_shrinks:
  assumes "ask_field s = (r, s')"
  obtains "r = Inr None" "lines_left s' \<le> lines_left s"
  | f where "r = Inr (Some f)" "fd_name f \<noteq> []" "lines_left s' < lines_left s"
proof -
  obtain more s1 where q1: "askYN ''Add a field?'' True s = (Inr more, s1)" using asked by blast
  obtain fname s2 where q2: "ask_line ''  field name'' [] s1 = (Inr fname, s2)" using asked by blast
  obtain ftype s3 where q3: "ask_line ''  field type [string|number|boolean|timestamp|reference|list_of]'' ''string'' s2 = (Inr ftype, s3)"
    using asked by blast
  obtain required s4 where q4: "askYN ''  required?'' False s3 = (Inr required, s4)" using asked by blast
  obtain fdesc s5 where q5: "ask_line ''  description (optional)'' [] s4 = (Inr fdesc, s5)" using asked by blast
  obtain el s6 where q6: "(if ftype = ''list_of'' then ask_line ''  list element type [string|number|boolean|timestamp|reference]'' ''string''
      else give []) s5 = (Inr el, s6)" using asked(1) [of "''  list element type [string|number|boolean|timestamp|reference]''" "''string''" s5]
    by (cases "ftype = ''list_of''") (auto simp: give_def)
  have l6: "lines_left s6 \<le> lines_left s5"
    using q6 by (auto simp: give_def split: if_splits dest: ask_line_lines(1))
  note le = askYN_lines [OF q1] ask_line_lines(1) [OF q2] ask_line_lines(1) [OF q3] askYN_lines [OF q4] ask_line_lines(1) [OF q5] l6
  consider "\<not> more" | "more" "fname = []" | "more" "fname \<noteq> []" by blast
  then show thesis
  proof cases
    case 3
    let ?f = "zero_field\<lparr>fd_name := fname, fd_type := ftype, fd_elem := el, fd_required := required, fd_desc := fdesc\<rparr>"
    have "ask_field s = (Inr (Some ?f), s6)"
      using 3 by (simp add: ask_field_def and_next_def q1 q2 q3 q4 q5 q6 give_def)
    then show ?thesis using that(2) [of ?f] assms 3 ask_line_lines(2) [OF q2] le by simp
  qed (use that(1) assms le in \<open>simp_all add: ask_field_def and_next_def q1 q2 give_def\<close>)
qed

lemma field_loop_ends:
  "\<forall>f \<in> set fs. fd_name f \<noteq> [] \<Longrightarrow>
     \<exists>fs' s'. field_loop fs s = Some (Inr fs', s') \<and> length fs' \<le> length fs + lines_left s \<and> (\<forall>f \<in> set fs'. fd_name f \<noteq> [])"
proof (induction "lines_left s" arbitrary: fs s rule: less_induct)
  case less
  obtain r s1 where step: "ask_field s = (r, s1)" by (cases "ask_field s")
  then show ?case
  proof (cases rule: ask_field_shrinks)
    case 1
    then show ?thesis using step less.prems by (simp add: field_loop.simps [of fs s])
  next
    case (2 f)
    then have "\<exists>fs' s'. field_loop (fs @ [f]) s1 = Some (Inr fs', s') \<and> length fs' \<le> length (fs @ [f]) + lines_left s1
        \<and> (\<forall>f \<in> set fs'. fd_name f \<noteq> [])"
      using less.prems by (intro less.hyps) auto
    then show ?thesis using 2 step by (auto simp: field_loop.simps [of fs s])
  qed
qed

lemma returns_ask_type_fields: "returns ask_type_fields"
  unfolding returns_def
proof
  fix s
  show "fst (ask_type_fields s) \<noteq> Inl Hang"
    using field_loop_ends [of "[]" s] by (auto simp: ask_type_fields_def)
qed

lemma returns_each: "(\<And>x. returns (f x)) \<Longrightarrow> returns (each xs f)"
  by (induction xs) (auto intro: returns_and_next returns_simple)

lemma returns_effects:
  "returns (say t)" "returns next_effect" "returns (unless_failed g err)" "returns (update_registry u)" "returns (update_runtime v)"
  "returns (update_auth w)" "returns (types_now h)" "returns (save_config ce tm we path cfg)"
  by (auto simp: returns_def say_def next_effect_def unless_failed_def give_def give_up_def update_registry_def update_runtime_def
      update_auth_def types_now_def runtime_now_def save_config_def say_line_def split: option.split prod.split)

lemmas returns_commands = returns_intros returns_each returns_effects returns_ask_type_fields

lemma returns_choice: "returns (choose_peer ce n d)" "returns (named_peer n)" "returns (all_peers ce)" "returns (request ce f)"
  unfolding choose_peer_def named_peer_def all_peers_def request_def by (intro returns_commands)+

lemma returns_questions: "returns (ask_fields ce fs m)" "returns (ask_updates ce cur fs m)" "returns (ask_data ce fs m)"
  by (induction fs arbitrary: m) (auto intro!: returns_commands simp: Let_def split: sum.split)

lemma returns_create_peer: "returns (create_peer ce name desc client e1 e2 e3)"
  unfolding create_peer_def by (auto intro!: returns_commands split: sum.split)

lemmas returns_all = returns_commands returns_choice returns_questions returns_create_peer

lemma returns_entity_actions:
  "returns (runEntityNew ce lf rf ty dflt)" "returns (actionEntityList ce lf rf ty)" "returns (actionEntityShow ce lf rf i)"
  "returns (actionEntityUpdate ce lf rf i)" "returns (actionRelationNew ce lf rf)"
  unfolding runEntityNew_def offer_relation_def actionEntityList_def actionEntityShow_def actionEntityUpdate_def actionRelationNew_def
  by (auto intro!: returns_all split: sum.split)

lemma returns_type_actions:
  "returns (actionTypeList ce n)" "returns (actionTypeAdd ce rf)" "returns (actionTypeShow ce lf rf b n)"
  unfolding actionTypeList_def actionTypeAdd_def actionTypeShow_def
  by (auto intro!: returns_all split: list.split)

lemma returns_other_actions:
  "returns (actionPeerAdd ce n)" "returns (actionPeerList ce)" "returns (actionPeerInfo ce n)" "returns (actionPeerRename ce args)"
  "returns (actionToday ce n now)" "returns (actionTokenCreate ce b ns l)" "returns actionTokenList" "returns (actionTokenRevoke ce i)"
  unfolding actionPeerAdd_def actionPeerList_def actionPeerInfo_def actionPeerRename_def actionToday_def actionTokenCreate_def
    actionTokenList_def actionTokenRevoke_def
  by (auto intro!: returns_all split: prod.split list.split)

lemma returns_actionInit: "returns (actionInit ce tm we path cfg)"
  unfolding actionInit_def init_peers_def init_peer_def store_settings_def store_setting_def update_peer_def
  by (auto intro!: returns_all split: option.split prod.split)

section \<open>Values from the terminal\<close>

text \<open>A value accepted for a field passes the validation of its type without a warning,
  except a timestamp that is not RFC 3339; a number is refused exactly when \<open>ParseFloat\<close> refuses it.\<close>

theorem coerced_value_fits:
  "(coerceField ce raw f = Inr (FJson v) \<longrightarrow>
      (checkType v f \<longleftrightarrow> fd_type f \<noteq> ''timestamp'' \<or> parse_rfc3339 False raw \<noteq> None))
    \<and> ((\<exists>e. coerceField ce raw f = Inl e) \<longleftrightarrow> fd_type f = ''number'' \<and> ParseFloat (ce_numeral ce) raw = None)"
  by (auto simp: coerceField_def checkType_def split: option.splits float64.splits if_splits)

section \<open>Tokens\<close>

lemma and_next_ok: "and_next m f s = (Inr y, s') \<longleftrightarrow> (\<exists>x s1. m s = (Inr x, s1) \<and> f x s1 = (Inr y, s'))"
  by (auto simp: and_next_def split: prod.split sum.split)

lemma simple_ok:
  "give x s = (Inr y, s') \<longleftrightarrow> y = x \<and> s' = s" "give_up e s \<noteq> (Inr y, s')"
  "of_result q s = (Inr y, s') \<longleftrightarrow> q = Inr y \<and> s' = s" "say t s = (Inr u, s') \<longleftrightarrow> s' = s\<lparr>ss_out := ss_out s @ t\<rparr>"
  "runtime_now g s = (Inr y, s') \<longleftrightarrow> y = g (ss_rt s) \<and> s' = s"
  "next_effect s = (Inr n, s') \<longleftrightarrow> n = ss_calls s \<and> s' = s\<lparr>ss_calls := Suc (ss_calls s)\<rparr>"
  "unless_failed h err s = (Inr u, s') \<longleftrightarrow> err = None \<and> s' = s"
  by (auto simp: give_def give_up_def of_result_def say_def runtime_now_def next_effect_def unless_failed_def
      split: sum.split option.split)

lemma update_auth_ok:
  "update_auth f s = (Inr y, s') \<longleftrightarrow> (\<exists>au. f (rt_auth (ss_rt s)) = (y, au) \<and> s' = s\<lparr>ss_rt := (ss_rt s)\<lparr>rt_auth := au\<rparr>\<rparr>)"
  by (auto simp: update_auth_def split: prod.split)

lemma token_scope_ok:
  "token_scope reg every names = Inr (peers, note) \<Longrightarrow> if every then peers = [''*'']
     else peers = names \<and> names \<noteq> [] \<and> (\<forall>n \<in> set names. ByName reg n \<noteq> None)"
  by (auto simp: token_scope_def find_None_iff split: if_splits option.splits)

text \<open>C12: A token made by \<^verbatim>\<open>coggo token create\<close> is for peers that exist: the secret verifies for
  exactly the peers that were named, or for all of them when \<^verbatim>\<open>--all\<close> was given or a peer is named
  \<open>*\<close>; the registry is as before, and a process started afterwards reads the same tokens.\<close>

theorem token_create_scoped:
  assumes "actionTokenCreate ce every names label s = (Inr (), s')"
    and "ce_secret ce (ss_calls s) = Inr bytes" and "secret = base64RawURLEncode bytes"
    and "\<forall>t \<in> set (au_tokens (rt_auth (ss_rt s))). t_hash t \<noteq> hashSecret secret"
    and "auth_ok (rt_auth (ss_rt s))" and "cli_env_ok ce"
  shows "((\<exists>t. Verify (rt_auth (ss_rt s')) secret name = Inr t) \<longleftrightarrow> every \<or> name \<in> set names \<or> ''*'' \<in> set names)
    \<and> (\<not> every \<longrightarrow> names \<noteq> [] \<and> (\<forall>n \<in> set names. ByName (rt_registry (ss_rt s)) n \<noteq> None))
    \<and> rt_registry (ss_rt s') = rt_registry (ss_rt s)
    \<and> open_auth None None (dk_tokens (disk_of (ss_rt s'))) = Inr (rt_auth (ss_rt s'))"
proof -
  let ?au = "rt_auth (ss_rt s)" and ?n = "ss_calls s"
  obtain peers shown i sec au where scope: "token_scope (rt_registry (ss_rt s)) every names = Inr (peers, shown)"
    and issue: "Issue (ce_secret ce ?n) (ce_write ce ?n) (ce_ulid ce ?n) (ce_clock ce ?n) peers label ?au = (Inr (i, sec), au)"
    and s': "ss_rt s' = (ss_rt s)\<lparr>rt_auth := au\<rparr>"
    using assms(1) by (auto simp: actionTokenCreate_def and_next_ok simple_ok update_auth_ok split: prod.splits)
  have sec: "sec = secret" and flush: "flush_auth None (?au\<lparr>au_tokens := au_tokens au\<rparr>) = (None, au)"
    and new: "au_tokens au = au_tokens ?au @ [\<lparr>t_id = i, t_hash = hashSecret secret, t_peers = peers, t_label = label,
      t_created_at = ce_clock ce ?n, t_last_used = 0\<rparr>]"
    using issue assms(2,3) by (auto simp: Issue_def Let_def flush_auth_def split: if_splits prod.splits option.splits)
  have "auth_ok (?au\<lparr>au_tokens := au_tokens au\<rparr>)"
    using assms(5,6) unfolding auth_ok_def new by (simp add: token_ok_def cli_env_ok_def) (simp add: time_ok_def nanos_def)
  then have "open_auth None None (au_file au) = Inr au" using flush_reopened [OF flush] by simp
  moreover have "(\<exists>t. Verify au secret name = Inr t) \<longleftrightarrow> name \<in> set peers \<or> ''*'' \<in> set peers"
    using issue_authorizes [OF issue [unfolded assms(2) sec]] assms(4) by blast
  ultimately show ?thesis using token_scope_ok [OF scope] by (auto simp: s' disk_of_def split: if_splits)
qed

section \<open>New peers\<close>

text \<open>The outside values with which \<^verbatim>\<open>coggo peer add\<close> succeeds: no write fails, the identifiers are new and
  the keys were not used before.\<close>

definition peer_env_ok :: "cli_env \<Rightarrow> nat \<Rightarrow> runtime \<Rightarrow> bool" where
  "peer_env_ok ce n rt \<longleftrightarrow> ce_write ce n = None \<and> inj_on (\<lambda>k. v_id2 (ce_wire ce n k)) {..<9}
     \<and> (\<forall>k < 9. seeds_env (ce_wire ce n k) \<and> v_id2 (ce_wire ce n k) \<notin> vr_id ` set (d_events (hs_db (rt_host rt))))
     \<and> (\<exists>did pub priv. NewDID (ce_keys ce n) = Inr (did, pub, priv) \<and> ByDID (rt_registry rt) did = None \<and> mget (rt_router rt) did = None)"

lemma mget_ByName: "mget (rg_by_name reg) n = None \<longleftrightarrow> ByName reg n = None"
  by (simp add: ByName_def)

lemma mget_ByDID: "mget (rg_by_did reg) d = None \<longleftrightarrow> ByDID reg d = None"
  by (simp add: ByDID_def)

text \<open>C11: \<^verbatim>\<open>coggo peer add\<close> with a new name succeeds when nothing fails outside. The peer is
  then found under its name, messages to its DID reach its handler, and a process started afterwards reads the
  same registry.\<close>

theorem peer_add_works:
  assumes "name \<noteq> []" and "ByName (rt_registry (ss_rt s)) name = None" and "registry_history (rt_registry (ss_rt s))"
    and "gomap_ok (rt_router (ss_rt s))" and "cli_env_ok ce" and "peer_env_ok ce (ss_calls s) (ss_rt s)"
  shows "\<exists>s' p t. actionPeerAdd ce name s = (Inr (), s') \<and> ByName (rt_registry (ss_rt s')) name = Some p
    \<and> mget (rt_router (ss_rt s')) (p_did p) = Some (store_handler (ce_sq ce) (p_did p))
    \<and> open_registry None None (dk_peers (disk_of (ss_rt s'))) = Inr t \<and> ByName t = ByName (rt_registry (ss_rt s'))"
proof -
  let ?n = "ss_calls s" and ?reg = "rt_registry (ss_rt s)"
  obtain desc s1 where q: "ask_line ''Description (optional)'' [] s = (Inr desc, s1)" using asked by blast
  have s1: "ss_rt s1 = ss_rt s" "ss_calls s1 = ss_calls s" using q by (auto simp: ask_line_def Let_def split: list.splits)
  obtain did pub priv where did: "NewDID (ce_keys ce ?n) = Inr (did, pub, priv)" "ByDID ?reg did = None" "mget (rt_router (ss_rt s)) did = None"
    using assms(6) by (auto simp: peer_env_ok_def)
  define p where "p = \<lparr>p_did = did, p_name = name, p_desc = desc, p_private = priv, p_public = pub, p_created_at = 0,
    p_settings = default_settings\<rparr>"
  have new: "NewPeer (ce_keys ce ?n) name desc = Inr p" by (simp add: NewPeer_def did p_def)
  have ok: "registry_ok ?reg" by (rule registry_history_ok [OF assms(3)])
  let ?p = "p\<lparr>p_created_at := ce_clock ce ?n\<rparr>" and ?order = "visit ce (index_peer ?reg p)"
  define reg' where "reg' = snd (flush_registry ?order None (index_peer ?reg ?p))"
  have absent: "mget (rg_by_name ?reg) (p_name p) = None" "mget (rg_by_did ?reg) (p_did p) = None"
    using assms(2) did(2) by (simp_all add: p_def mget_ByName mget_ByDID)
  have add: "Add ?order None (ce_clock ce ?n) p ?reg = (None, reg')"
    using absent by (simp add: Add_def reg'_def) (simp add: p_def flush_registry_def)
  have visits: "visits ?order (index_peer ?reg ?p)" by (rule visits_same [OF assms(5)]) (simp add: index_peer_def Let_def)
  have inv: "registry_ok (index_peer ?reg ?p)" "times_ok (index_peer ?reg ?p)"
    using registry_ok_index [OF ok, of ?p] absent registry_history_inv [OF assms(3)] assms(5)
    by (auto simp: registry_inv_def times_ok_def index_peer_def Let_def cli_env_ok_def)
  obtain t where t: "open_registry None None (rg_file reg') = Inr t" "ByName t = ByName reg'"
    using flush_reopens [OF inv visits] unfolding reg'_def by auto
  have found: "ByName reg' name = Some ?p"
    using index_peer_new [OF ok, of ?p] by (simp add: reg'_def p_def)
  define rt1 where "rt1 = (ss_rt s)\<lparr>rt_registry := reg'\<rparr>"
  have pdid: "p_did p \<noteq> []" using did(1) by (auto simp: p_def NewDID_def didKeyPrefix_def split: sum.splits)
  have wired: "fst (AddPeerToRuntime (ce_sq ce) (ce_wire ce ?n) p ''cli'' rt1) = None"
    using assms(6) did(3) pdid by (intro add_peer_ok) (simp_all add: peer_env_ok_def rt1_def p_def)
  then obtain rt2 where rt2: "AddPeerToRuntime (ce_sq ce) (ce_wire ce ?n) p ''cli'' rt1 = (None, rt2)" by (metis prod.collapse)
  have reg2: "rt_registry rt2 = reg'" using runtime_rest_kept(1) [of "ce_sq ce" "ce_wire ce ?n" p "''cli''" rt1] unfolding rt2 by (simp add: rt1_def)
  have route: "mget (rt_router rt2) (p_did p) = Some (store_handler (ce_sq ce) (p_did p))"
    using rt2 assms(4) by (auto simp: AddPeerToRuntime_def Let_def rt1_def RegisterPeer_def gomap_simps
        split: prod.splits option.splits sum.splits if_splits)
  obtain s' where run: "actionPeerAdd ce name s = (Inr (), s')" "ss_rt s' = rt2"
    using assms(1,6) add rt2
    by (auto simp: actionPeerAdd_def and_next_ok q create_peer_def simple_ok s1 new update_registry_def update_runtime_def
        rt1_def peer_env_ok_def)
  then show ?thesis using found t route reg2
    by (intro exI [of _ s'] exI [of _ ?p] exI [of _ t]) (simp add: disk_of_def)
qed

section \<open>Concrete sessions\<close>

definition sample_cli :: cli_env where
  "sample_cli = \<lparr>ce_sq = sample_sqlite, ce_call = \<lambda>n. sample_call, ce_write = \<lambda>n. None, ce_clock = \<lambda>n. 5,
     ce_keys = \<lambda>n. Inr (''pub'', ''priv''), ce_secret = \<lambda>n. Inr ''0123456789abcdef'', ce_ulid = \<lambda>n. ''A'',
     ce_wire = \<lambda>n k. seed_env (Suc k),
     ce_brief = \<lambda>did. \<lparr>bi_goals = None, bi_observations = None, bi_stale = \<lambda>ty. None, bi_projects = None,
       bi_decisions = None, bi_events = None\<rparr>,
     ce_read = \<lambda>ty. None, ce_order = \<lambda>ks. ks, ce_show = \<lambda>j. [], ce_numeral = \<lambda>t. None, ce_indent = \<lambda>j. []\<rparr>"

definition sample_session :: "string list \<Rightarrow> registry \<Rightarrow> session" where
  "sample_session ls reg = \<lparr>ss_in = ls, ss_out = [], ss_rt = empty_runtime\<lparr>rt_registry := reg\<rparr>, ss_calls = 0, ss_config = Missing\<rparr>"

lemma sample_cli_ok: "cli_env_ok sample_cli"
  by (simp add: cli_env_ok_def sample_cli_def time_ok_def nanos_def)

lemma init_keeps_peers_witness:
  "ByName (rt_registry (ss_rt (snd (actionInit sample_cli line_toml \<lparr>we_mkdir = None, we_write = None, we_rename = None\<rparr>
     ''c'' Default (sample_session [] one_peer))))) ''work'' \<noteq> None"
proof -
  have "registry_history (rt_registry (ss_rt (sample_session [] one_peer)))"
    using one_peer_history by (simp add: sample_session_def)
  from init_keeps_peers [OF surjective_pairing sample_cli_ok this] show ?thesis
    using one_peer_name(1) unfolding peers_kept_def by (fastforce simp: sample_session_def)
qed

lemma coerced_value_fits_witness:
  "checkType (JBool True) (zero_field\<lparr>fd_type := ''boolean''\<rparr>)"
proof -
  have "coerceField sample_cli ''yes'' (zero_field\<lparr>fd_type := ''boolean''\<rparr>) = Inr (FJson (JBool True))"
    by (simp add: coerceField_def to_lower_def lower_char_def byte_of_def)
  with coerced_value_fits [of sample_cli "''yes''" "zero_field\<lparr>fd_type := ''boolean''\<rparr>" "JBool True"] show ?thesis by simp
qed

lemma token_create_scoped_witness:
  "\<exists>s' secret. actionTokenCreate sample_cli False [''work''] ''laptop'' (sample_session [] one_peer) = (Inr (), s')
     \<and> (\<exists>t. Verify (rt_auth (ss_rt s')) secret ''work'' = Inr t) \<and> \<not> (\<exists>t. Verify (rt_auth (ss_rt s')) secret ''home'' = Inr t)"
proof -
  let ?s = "sample_session [] one_peer"
  obtain s' where run: "actionTokenCreate sample_cli False [''work''] ''laptop'' ?s = (Inr (), s')"
    using one_peer_name(1)
    by (auto simp: actionTokenCreate_def and_next_ok simple_ok update_auth_ok token_scope_def sample_session_def sample_cli_def
        Issue_def Let_def flush_auth_def)
  have bytes: "ce_secret sample_cli (ss_calls ?s) = Inr ''0123456789abcdef''" by (simp add: sample_cli_def)
  have none: "\<forall>t \<in> set (au_tokens (rt_auth (ss_rt ?s))). t_hash t \<noteq> hashSecret (base64RawURLEncode ''0123456789abcdef'')"
    "auth_ok (rt_auth (ss_rt ?s))" by (simp_all add: sample_session_def empty_runtime_def auth_ok_def)
  note created = token_create_scoped [OF run bytes refl none sample_cli_ok]
  show ?thesis using run created [of "''work''"] created [of "''home''"] by auto
qed

lemma peer_add_works_witness:
  "\<exists>s' p. actionPeerAdd sample_cli ''work'' (sample_session [''my job''] (empty_registry None)) = (Inr (), s')
     \<and> ByName (rt_registry (ss_rt s')) ''work'' = Some p"
proof -
  let ?s = "sample_session [''my job''] (empty_registry None)"
  have none: "ByName (rt_registry (ss_rt ?s)) ''work'' = None" "gomap_ok (rt_router (ss_rt ?s))"
    "registry_history (rt_registry (ss_rt ?s))"
    using empty_history by (simp_all add: sample_session_def ByName_def empty_registry_def empty_runtime_def)
  have "peer_env_ok sample_cli (ss_calls ?s) (ss_rt ?s)"
    using sample_seeds unfolding peer_env_ok_def
    by (auto simp: sample_cli_def sample_session_def empty_runtime_def NewDID_def ByDID_def empty_registry_def)
  from peer_add_works [OF _ none(1,3,2) sample_cli_ok this] show ?thesis by auto
qed

end
