(* ===== verification/App_Props.thy ===== *)
theory App_Props
  imports App Cli_Props
begin

text \<open>
  What holds of every command: the registry keeps its invariant and its peers, and the command returns.
\<close>

section \<open>Every command keeps the registry\<close>

definition history_kept :: "runtime \<Rightarrow> runtime \<Rightarrow> bool" where
  "history_kept rt rt' \<longleftrightarrow> (registry_history (rt_registry rt) \<longrightarrow>
     registry_history (rt_registry rt') \<and> peers_kept (rt_registry rt) (rt_registry rt'))"

interpretation hist: session_relation history_kept
  by unfold_locales (auto simp: history_kept_def peers_kept_refl intro: peers_kept_trans)

lemma kept_hist: "keeps registry_kept m \<Longrightarrow> keeps history_kept m"
  by (simp add: keeps_def registry_kept_def history_kept_def)

lemma hist_wrapped: "keeps history_kept m \<Longrightarrow> keeps history_kept (wrapped p m)"
  unfolding keeps_def wrapped_def by (auto split: prod.split sum.split stop.split) (metis snd_conv)+

lemma hist_update_auth: "keeps history_kept (update_auth f)"
  by (auto simp: keeps_def history_kept_def update_auth_def peers_kept_refl split: prod.split)

lemma hist_types_now: "keeps history_kept (types_now f)"
  by (simp add: types_now_def hist.keeps_silent)

lemma hist_ask_type_fields: "keeps history_kept ask_type_fields"
proof -
  have rt: "ss_rt s' = ss_rt s" if "ask_line p d s = (r, s')" for p d s r s'
    using that by (auto simp: ask_line_def Let_def split: list.splits)
  have yn: "ss_rt s' = ss_rt s" if "askYN p b s = (r, s')" for p b s r s'
    using that by (auto simp: askYN_def Let_def split: list.splits)
  show ?thesis
  proof (rule hist.keeps_same)
    fix s
    have step: "ss_rt s' = ss_rt s" if "ask_field s = (r, s')" for s r s'
      using that unfolding ask_field_def
      by (auto simp: and_next_def give_def split: prod.splits sum.splits if_splits dest!: rt yn)
    have "field_loop fs s = Some (r, s') \<Longrightarrow> ss_rt s' = ss_rt s" for fs s r s'
    proof (induction "lines_left s" arbitrary: fs s rule: less_induct)
      case less
      obtain q s1 where q: "ask_field s = (q, s1)" by (cases "ask_field s")
      then show ?case
      proof (cases rule: ask_field_shrinks)
        case 1
        then show ?thesis using less.prems q step [OF q] by (simp add: field_loop.simps [of fs s])
      next
        case (2 f)
        then have "field_loop (fs @ [f]) s1 = Some (r, s')" using less.prems q by (simp add: field_loop.simps [of fs s])
        then show ?thesis using less.hyps [OF 2(3)] step [OF q] by simp
      qed
    qed
    then show "ss_rt (snd (ask_type_fields s)) = ss_rt s"
      by (auto simp: ask_type_fields_def split: option.split)
  qed
qed

lemmas hist_intros = hist.keeps_intros hist_wrapped hist_update_auth hist_types_now hist_ask_type_fields
  keeps_attempt [THEN kept_hist]

lemma hist_request: "keeps history_kept (request ce f)"
  unfolding request_def by (intro hist_intros)

lemma hist_choice: "keeps history_kept (choose_peer ce n d)" "keeps history_kept (named_peer n)" "keeps history_kept (all_peers ce)"
  unfolding choose_peer_def named_peer_def all_peers_def by (intro hist_intros)+

lemma hist_ask_fields: "keeps history_kept (ask_fields ce fs m)"
  by (induction fs arbitrary: m) (auto intro!: hist_intros split: sum.split)

lemma hist_ask_updates: "keeps history_kept (ask_updates ce cur fs m)"
  by (induction fs arbitrary: m) (auto intro!: hist_intros simp: Let_def split: sum.split)

lemma hist_ask_data: "keeps history_kept (ask_data ce fs m)"
  by (induction fs arbitrary: m) (auto intro!: hist_intros split: sum.split)

lemmas hist_commands = hist_intros hist_request hist_choice hist_ask_fields hist_ask_updates hist_ask_data

lemma hist_entity_actions:
  "keeps history_kept (runEntityNew ce lf rf ty dflt)" "keeps history_kept (actionEntityList ce lf rf ty)"
  "keeps history_kept (actionEntityShow ce lf rf i)" "keeps history_kept (actionEntityUpdate ce lf rf i)"
  "keeps history_kept (actionRelationNew ce lf rf)"
  unfolding runEntityNew_def offer_relation_def actionEntityList_def actionEntityShow_def actionEntityUpdate_def actionRelationNew_def
  by (auto intro!: hist_commands split: sum.split)

lemma hist_type_actions:
  "keeps history_kept (actionTypeList ce n)" "keeps history_kept (actionTypeAdd ce rf)"
  "keeps history_kept (actionTypeShow ce lf rf b n)"
  unfolding actionTypeList_def actionTypeAdd_def actionTypeShow_def
  by (auto intro!: hist_commands split: list.split)

lemma hist_other_actions:
  "keeps history_kept (actionPeerList ce)" "keeps history_kept (actionPeerInfo ce n)" "keeps history_kept (actionToday ce n now)"
  "keeps history_kept (actionTokenCreate ce b ns l)" "keeps history_kept actionTokenList" "keeps history_kept (actionTokenRevoke ce i)"
  unfolding actionPeerList_def actionPeerInfo_def actionToday_def actionTokenCreate_def actionTokenList_def actionTokenRevoke_def
  by (auto intro!: hist_commands split: prod.split)

lemma hist_peer_add: "cli_env_ok ce \<Longrightarrow> keeps history_kept (actionPeerAdd ce n)"
  unfolding actionPeerAdd_def by (auto intro!: hist_commands keeps_create_peer [THEN kept_hist])

lemma hist_perform:
  assumes "cli_env_ok ce" and "a \<noteq> PeerRename"
  shows "keeps history_kept (perform ce sy we now iv a cfg)"
  using assms(2)
  by (cases a) (auto simp: perform_def Let_def actionEntityNew_def aliasCmd_def
      intro!: hist_entity_actions hist_type_actions hist_other_actions hist_peer_add [OF assms(1)]
        keeps_actionInit [OF assms(1), THEN kept_hist] hist.keeps_silent)

text \<open>A rename moves one peer, so it keeps the invariant but not every name.\<close>

lemma Rename_history:
  assumes "registry_history reg" and "cli_env_ok ce" and "Rename (renamed_order ce old new reg) io old new reg = (e, reg')"
  shows "registry_history reg'"
proof (cases "mget (rg_by_name reg) old = None \<or> mget (rg_by_name reg) new \<noteq> None")
  case True
  then have "reg' = reg" using assms(3) by (auto simp: Rename_def split: option.splits)
  then show ?thesis using assms(1) by simp
next
  case False
  then obtain a where a: "mget (rg_by_name reg) old = Some a" "mget (rg_by_name reg) new = None" by auto
  have same_keys: "mkeys (mput k v m) = mkeys (mput k w m)" for k and v w :: nat and m
    by (induction k v m rule: mput.induct) auto
  have "rg_by_name reg' = mput new a (mdel old (rg_by_name reg))"
    using assms(3) a by (auto simp: Rename_def flush_registry_def split: option.splits)
  then have "visits (renamed_order ce old new reg) reg'"
    using assms(2) same_keys [of new a "mdel old (rg_by_name reg)" 0]
    by (simp add: visits_def renamed_order_def cli_env_ok_def)
  then show ?thesis using registry_history.step [OF assms(1) registry_step.rename [OF assms(3)]] by blast
qed

lemma rename_history:
  assumes "actionPeerRename ce args s = (r, s')" and "cli_env_ok ce" and "registry_history (rt_registry (ss_rt s))"
  shows "registry_history (rt_registry (ss_rt s'))"
  using assms(1) Rename_history [OF assms(3,2)] assms(3)
  by (auto simp: actionPeerRename_def and_next_def next_effect_def update_registry_def unless_failed_def give_def give_up_def
      say_line_def say_def split: list.splits prod.splits sum.splits option.splits)


definition sample_system :: system where
  "sample_system = \<lparr>sy_toml = line_toml, sy_xdg = [], sy_home = None, sy_errors = no_errors\<rparr>"

definition sample_invocation :: invocation where
  "sample_invocation = \<lparr>iv_args = [''home''], iv_flag = \<lambda>n. [], iv_bool = \<lambda>n. False, iv_slice = \<lambda>n. [], iv_root = \<lambda>n. []\<rparr>"



end
