(* ===== verification/Spec2Isabelle.thy ===== *)
theory Spec2Isabelle
  imports Replay Mcp_Props Gateway_Props Briefing_Props Status_Props Backup_Props App_Props
begin

text \<open>
  A verification development for Coggo, a Go program that keeps a person's knowledge as typed
  entities in peers, each with its own key, event log and types, and serves them to agents over MCP.

  \<^bold>\<open>The program.\<close> A process opens a data directory (\<^verbatim>\<open>cli.Setup\<close>): a SQLite
  store, \<^verbatim>\<open>peers.json\<close> and \<^verbatim>\<open>tokens.json\<close>. For every peer it
  loads the type definitions into a resolver and binds a \<^verbatim>\<open>StoreHandler\<close> to the DID
  of the peer in a router. The commands of \<^verbatim>\<open>coggo\<close> and the tools of its MCP server send
  federation messages through that router and so reach the store; the MCP server first checks a
  bearer token against the token store. A second binary, the OAuth gateway, stands in front of
  the MCP server: it exchanges a Google token for Coggo's own.

  \<^bold>\<open>Theories and code.\<close> Definitions carry the names of the Go functions and
  types they translate, in snake case or with a suffix where HOL uses the name.

  \<^item> \<^verbatim>\<open>Coggo_Prelude\<close>, \<^verbatim>\<open>Go_Time\<close>,
    \<^verbatim>\<open>Time_Order\<close>, \<^verbatim>\<open>Json\<close>,
    \<^verbatim>\<open>Encoding\<close>, \<^verbatim>\<open>Go_Text\<close>: what the sources use of Go and
    its standard library. Errors as values of a sum, maps as association lists in the order of their
    keys (\<^verbatim>\<open>gomap_ok\<close>), \<^verbatim>\<open>time\<close> with RFC 3339 and
    RFC3339Nano texts, \<^verbatim>\<open>encoding/json\<close>, hexadecimal, base64, SHA-256,
    \<^verbatim>\<open>strings\<close> and \<^verbatim>\<open>strconv\<close>; the locales
    \<^verbatim>\<open>codec\<close> (what is encoded is decoded) and \<^verbatim>\<open>table\<close> (lookup after insert).
  \<^item> \<^verbatim>\<open>Coggo_Types\<close>: \<^verbatim>\<open>internal/types\<close>, the records and
    their JSON forms.
  \<^item> \<^verbatim>\<open>Store\<close>, \<^verbatim>\<open>Store_Facts\<close>,
    \<^verbatim>\<open>Store_Props\<close>: \<^verbatim>\<open>internal/store/sqlite.go\<close>. The record
    \<^verbatim>\<open>db\<close> has a list of rows for each table.
  \<^item> \<^verbatim>\<open>Schema\<close>: \<^verbatim>\<open>internal/schema\<close>, the resolver, the seed types
    and the validation of entities.
  \<^item> \<^verbatim>\<open>Handler\<close>, \<^verbatim>\<open>Handler_Facts\<close>,
    \<^verbatim>\<open>Handler_Props\<close>, \<^verbatim>\<open>Replay\<close>, \<^verbatim>\<open>Router\<close>:
    \<^verbatim>\<open>internal/federation\<close>. A \<^verbatim>\<open>host\<close> is a database with a
    resolver; \<^verbatim>\<open>dispatch\<close> is one message. The locale
    \<^verbatim>\<open>peer_handler\<close> is the contract the router needs of a handler.
  \<^item> \<^verbatim>\<open>Did\<close>, \<^verbatim>\<open>Registry\<close>: \<^verbatim>\<open>internal/peer\<close>.
    The registry has peer objects in a list, addressed by position, and two maps into it.
  \<^item> \<^verbatim>\<open>Auth\<close>: \<^verbatim>\<open>internal/auth\<close>, the token store with its file.
  \<^item> \<^verbatim>\<open>Projection\<close>, \<^verbatim>\<open>Mcp\<close>,
    \<^verbatim>\<open>Mcp_Props\<close>: \<^verbatim>\<open>internal/mcp\<close>, the twelve tools, their
    authorization and the projection of their replies.
  \<^item> \<^verbatim>\<open>Gateway\<close>, \<^verbatim>\<open>Gateway_Props\<close>:
    \<^verbatim>\<open>cmd/coggo-oauth-gateway\<close>. The state is the validator's cache, the global
    limiter and the limiters of the emails.
  \<^item> \<^verbatim>\<open>Runtime\<close>, \<^verbatim>\<open>Runtime_Props\<close>:
    \<^verbatim>\<open>internal/cli/runtime.go\<close>. \<^verbatim>\<open>Setup\<close> takes a
    \<^verbatim>\<open>disk\<close> to a \<^verbatim>\<open>runtime\<close>, which joins host, registry, tokens
    and router; \<^verbatim>\<open>FedCall\<close> is one call through the router.
  \<^item> \<^verbatim>\<open>Config\<close>: \<^verbatim>\<open>internal/config\<close>.
  \<^item> \<^verbatim>\<open>Briefing\<close>, \<^verbatim>\<open>Briefing_Props\<close>:
    \<^verbatim>\<open>internal/briefing/today.go\<close>.
  \<^item> \<^verbatim>\<open>Cli\<close>, \<^verbatim>\<open>Cli_Admin\<close>,
    \<^verbatim>\<open>Cli_Init\<close>, \<^verbatim>\<open>Cli_Props\<close>: the commands of
    \<^verbatim>\<open>internal/cli\<close>. A command is a function on a \<^verbatim>\<open>session\<close>: the lines
    still to be read, the text printed, the runtime and the number of effects so far. It ends with a
    value, an error, a panic or not at all (\<^verbatim>\<open>stop\<close>).
  \<^item> \<^verbatim>\<open>Status\<close>, \<^verbatim>\<open>Status_Props\<close>:
    \<^verbatim>\<open>status.go\<close> and \<^verbatim>\<open>status_disk_unix.go\<close>;
    \<^verbatim>\<open>Backup\<close>, \<^verbatim>\<open>Backup_Props\<close>: \<^verbatim>\<open>backup.go\<close>,
    where a copy is the list of the file systems it goes through.
  \<^item> \<^verbatim>\<open>App\<close>, \<^verbatim>\<open>App_Props\<close>: the command tree,
    \<^verbatim>\<open>serve.go\<close>, \<^verbatim>\<open>cmd/coggo/main.go\<close>, \<^verbatim>\<open>internal/embed\<close>
    and the MCP server's start and shutdown. \<^verbatim>\<open>perform\<close> runs a command.
\<close>

text \<open>
  \<^bold>\<open>What the lemmas show.\<close>

  \<^item> Log and projection: every request appends at most one event to the log of its own peer, and
    the replay of that log is the entities table, so time travel to the present is the present and
    the past does not change. The two ways in which the textual order of timestamps breaks this
    inside one second are theorems of \<^verbatim>\<open>Replay\<close>; the relation \<^verbatim>\<open>served\<close>
    excludes them by demanding that events be appended in the order in which they are read.
  \<^item> Isolation: reads and writes for a peer depend on, and change, the rows of this peer only, in
    the store, in the handler, through the router, in the MCP tools and in the briefing.
  \<^item> Authority: an MCP tool changes and reveals only peers that its bearer token covers; the gateway
    forwards only requests that Google vouched for, for an allowed email, within both rate limits;
    a token made by \<^verbatim>\<open>coggo token create\<close> covers the peers it was made for.
  \<^item> Persistence: the registry, the tokens, the configuration, the environment file, the backup, DIDs
    and JSON values are read back as they were written; the registry's two indexes agree after
    every sequence of operations, and every command keeps this.
  \<^item> Functional behaviour of the operations of the store, validation, projection, truncation and the
    formatting of sizes, with the errors and the one panic that they have.
  \<^item> Termination and progress: every command returns whatever is typed and whatever fails, the
    status report and its walk through the directories end, and \<^verbatim>\<open>coggo peer add\<close>
    succeeds when nothing outside fails.

  The proofs go through a small number of interfaces. \<^verbatim>\<open>effect\<close> in
  \<^verbatim>\<open>Handler_Facts\<close> is the abstract specification of one request, from which the
  properties of \<^verbatim>\<open>Handler_Props\<close>, \<^verbatim>\<open>Replay\<close> and
  \<^verbatim>\<open>Router\<close> follow without another look at the operations. The locale
  \<^verbatim>\<open>session_relation\<close> in \<^verbatim>\<open>Cli_Props\<close> turns a reflexive, transitive
  relation on runtimes that the elementary effects keep into one that whole commands keep;
  it is interpreted for the kept peers, for the settled names and for the history of the registry.

  \<^bold>\<open>Parameters.\<close> Code outside the repository is an argument of the definitions that use it.
  \<^verbatim>\<open>sqlite\<close> holds the JSON comparison, the LIKE match and the nearest-neighbour
  search of SQLite and its vector extension; \<^verbatim>\<open>env\<close>, \<^verbatim>\<open>call\<close> and
  \<^verbatim>\<open>cli_env\<close> hold the clock, the fresh identifiers, the random bytes and the failure,
  if any, of each statement; \<^verbatim>\<open>tool_request\<close> is mcp-go's request;
  \<^verbatim>\<open>google\<close>, \<^verbatim>\<open>limiter_lib\<close>, \<^verbatim>\<open>toml\<close>,
  \<^verbatim>\<open>runit\<close>, \<^verbatim>\<open>statfs\<close>, \<^verbatim>\<open>machine\<close> and
  \<^verbatim>\<open>backup_io\<close> are Google's tokeninfo, the rate limiter, go-toml, the service manager
  and the operating system. \<^verbatim>\<open>order\<close> is the order in which Go visits a map; the lemmas
  hold for every order (\<^verbatim>\<open>visits\<close>). Nothing is assumed of the limiter, of Google or of the
  search. Where an identifier has to be new, or two secrets must not share a hash, the
  theorem says so, and its witness shows a case.

  \<^bold>\<open>Bounds and simplifications.\<close> A number of a JSON document is the rational value of
  its float64 and a time the number of its nanoseconds in UTC, without a zone; integers that are converted
  to \<^verbatim>\<open>int\<close> wrap at 64 bits. \<^verbatim>\<open>formatBytes\<close> takes its
  float64 division exactly, but its argument is a 64-bit word. \<^verbatim>\<open>ToLower\<close> and
  \<^verbatim>\<open>TrimSpace\<close> work on ASCII. The limit of bufio.Scanner on the length of a line is
  left out; for the prompts a line beyond it is the end of the input. The file system of the backup has no
  symbolic links; a temporary file gets the first free of the 10000 names that
  \<^verbatim>\<open>os.CreateTemp\<close> tries. Requests run one after another: the program guards each
  statement by a mutex or the single database connection, and how the statements of two concurrent requests
  may interleave is left out. The two loops without an evident bound, over the fields of a new type and up
  the directories, are partial functions on \<^verbatim>\<open>option\<close>, so that running forever is a
  value, and are proved to end: every question uses up a line of the input, and every parent directory is
  shorter. No definition uses fuel.

  \<^bold>\<open>Not modelled.\<close> The parsing of the command line (urfave/cli), the HTTP transports and
  listeners, signals and the logging middleware (\<^verbatim>\<open>internal/mcp/logging.go\<close>) have no
  logic of the program's own; \<^verbatim>\<open>status_disk_windows.go\<close> is a constant answer for
  another platform. SQLite and the libraries above are parameters, as is OAuth's metadata endpoint.
\<close>

end
